(* ===== verification/Prelude.thy ===== *)
theory Prelude
  imports Main "HOL-Library.Word"
begin

text \<open>
  Shared vocabulary of the development: the machine types of the Go code, byte slices, the
  big-endian conversions of \<^verbatim>\<open>encoding/binary\<close> and of the hand-written shifts of the protocol
  package, the errors of that package, and the generic lemmas on lists and words that the
  component theories use.
\<close>

unbundle bit_operations_syntax

section \<open>Machine types and results\<close>

type_synonym byte = "8 word"
type_synonym u16 = "16 word"
type_synonym u32 = "32 word"

text \<open>
  The errors of the protocol package. The texts of the Go errors are kept as constructors with
  the numbers they print; \<open>GoPanic\<close> stands for a run-time panic.
\<close>

datatype perror =
    InvalidLen nat nat
  | TooShort nat
  | InvalidCRC byte byte
  | StringTooLong nat nat
  | EmptyField
  | TooManyNodes nat
  | WrongNodeLength nat
  | InvalidAliasSize nat
  | InvalidNbrOfAlias nat
  | ValueOutOfRange
  | PercentNegative
  | PercentOutOfRange
  | DuplicateRegistration u16
  | GoPanic

text \<open>
  A call \<open>x, err := f(); if err != nil { return err }\<close> is \<open>res_bind\<close>: the error is passed on,
  a result is handed to the rest of the function.
\<close>

definition res_bind :: "'e + 'a \<Rightarrow> ('a \<Rightarrow> 'e + 'b) \<Rightarrow> 'e + 'b" where
  "res_bind r k = (case r of Inl e \<Rightarrow> Inl e | Inr x \<Rightarrow> k x)"

lemma res_bind_simps [simp]:
  "res_bind (Inl e) k = Inl e"
  "res_bind (Inr x) k = k x"
  by (simp_all add: res_bind_def)

lemma res_bind_eq_Inr:
  "res_bind r k = Inr y \<longleftrightarrow> (\<exists>x. r = Inr x \<and> k x = Inr y)"
  by (cases r) auto

named_theorems go_consts \<open>values of the constants of the protocol package\<close>
named_theorems codec_simps \<open>equations of the frame serialisers\<close>

section \<open>Slices\<close>

text \<open>The Go slice expression \<open>xs[i:j]\<close>, for bounds that are in range.\<close>

definition slice :: "nat \<Rightarrow> nat \<Rightarrow> 'a list \<Rightarrow> 'a list" where
  "slice i j xs = take (j - i) (drop i xs)"

lemma length_slice [simp]: "length (slice i j xs) = min (length xs - i) (j - i)"
  by (simp add: slice_def min.commute)

lemma slice_append_left:
  "j \<le> length xs \<Longrightarrow> slice i j (xs @ ys) = slice i j xs"
  by (cases "i \<le> length xs") (simp_all add: slice_def)

lemma slice_append_right:
  "length xs \<le> i \<Longrightarrow> slice i j (xs @ ys) = slice (i - length xs) (j - length xs) ys"
  by (simp add: slice_def)

lemma slice_all [simp]: "length xs \<le> j \<Longrightarrow> slice 0 j xs = xs"
  by (simp add: slice_def)

lemmas slice_append = slice_append_left slice_append_right nth_append

lemma slice_Cons [codec_simps]: "slice (Suc i) j (x # xs) = slice i (j - 1) xs"
  by (simp add: slice_def)

lemma slice_0 [codec_simps]: "slice 0 j xs = take j xs"
  by (simp add: slice_def)

lemma slice_Cons_numeral [codec_simps]:
  "slice (numeral k) j (x # xs) = slice (pred_numeral k) (j - 1) xs"
  by (simp add: slice_def numeral_eq_Suc)

lemma slice_nth: "i + k < j \<Longrightarrow> i + k < length xs \<Longrightarrow> slice i j xs ! k = xs ! (i + k)"
  by (simp add: slice_def)

text \<open>\<open>copy(make([]byte, n), xs)\<close>: the bytes of \<open>xs\<close>, cut to or padded with zeros to \<open>n\<close>.\<close>

definition copy_pad :: "nat \<Rightarrow> byte list \<Rightarrow> byte list" where
  "copy_pad n xs = take n xs @ replicate (n - length xs) 0"

lemma length_copy_pad [simp]: "length (copy_pad n xs) = n"
  by (simp add: copy_pad_def)

lemma take_copy_pad [simp]: "length xs \<le> n \<Longrightarrow> take (length xs) (copy_pad n xs) = xs"
  by (simp add: copy_pad_def)

lemma copy_pad_Cons_0 [simp]: "0 < n \<Longrightarrow> copy_pad n (x # xs) ! 0 = x"
  by (cases n) (simp_all add: copy_pad_def)

text \<open>\<^verbatim>\<open>bytes.IndexByte\<close>, with \<open>None\<close> for -1.\<close>

fun IndexByte :: "byte list \<Rightarrow> byte \<Rightarrow> nat option" where
  "IndexByte [] c = None"
| "IndexByte (b # bs) c = (if b = c then Some 0 else map_option Suc (IndexByte bs c))"

lemma IndexByte_append_notin:
  "c \<notin> set xs \<Longrightarrow> IndexByte (xs @ c # ys) c = Some (length xs)"
  by (induction xs) auto

lemma IndexByte_None_iff: "IndexByte xs c = None \<longleftrightarrow> c \<notin> set xs"
  by (induction xs) auto

lemma IndexByte_Some:
  "IndexByte xs c = Some n \<Longrightarrow> \<exists>us vs. xs = us @ c # vs \<and> length us = n \<and> c \<notin> set us"
proof (induction xs arbitrary: n)
  case (Cons x xs)
  show ?case
  proof (cases "x = c")
    case True
    with Cons.prems show ?thesis by (intro exI [of _ "[]"] exI [of _ xs]) auto
  next
    case False
    with Cons.prems obtain m where m: "IndexByte xs c = Some m" "n = Suc m" by auto
    from Cons.IH [OF m(1)] obtain us vs
      where "xs = us @ c # vs" "length us = m" "c \<notin> set us" by blast
    with False m(2) show ?thesis by (intro exI [of _ "x # us"] exI [of _ vs]) auto
  qed
qed simp

text \<open>Lists of a known length, split into their elements: fixed-size arrays of the Go code.\<close>

lemma length_numeral_conv:
  "length xs = numeral k \<longleftrightarrow> (\<exists>y ys. xs = y # ys \<and> length ys = pred_numeral k)"
  by (cases xs) (auto simp: numeral_eq_Suc)

section \<open>Strings\<close>

text \<open>Go strings are byte sequences; so is \<^typ>\<open>string\<close>. The conversions \<open>[]byte(s)\<close> and
  \<open>string(b)\<close> of Go are the two functions below.\<close>

definition bytes_of :: "string \<Rightarrow> byte list" where
  "bytes_of s = map of_char s"

definition string_of :: "byte list \<Rightarrow> string" where
  "string_of bs = map (\<lambda>b. char_of (unat b)) bs"

lemma unat_byte_less: "unat (b :: byte) < 256"
  using unsigned_less [of b, where ?'a = nat] by simp

lemma of_char_char_of_byte [simp]: "of_char (char_of (unat b) :: char) = (b :: byte)"
proof -
  have "(of_char (char_of (unat b) :: char) :: byte) = of_nat (of_char (char_of (unat b) :: char))"
    by (rule of_nat_of_char [symmetric])
  also have "\<dots> = of_nat (unat b)"
    using unat_byte_less [of b] by (simp only: of_char_of mod_less)
  finally show ?thesis by simp
qed

lemma char_of_of_char_byte [simp]: "(char_of (unat (of_char c :: byte)) :: char) = c"
proof -
  have less: "(of_char c :: nat) < 256"
    using of_char_mod_256 [of c, where ?'a = nat] by (metis mod_less_divisor zero_less_numeral)
  have "unat (of_char c :: byte) = unat (of_nat (of_char c) :: byte)"
    by (simp only: of_nat_of_char)
  also have "\<dots> = of_char c"
    using less by (simp add: unat_of_nat)
  finally show ?thesis by simp
qed

lemma bytes_of_string_of [simp]: "bytes_of (string_of bs) = bs"
  by (simp add: bytes_of_def string_of_def comp_def)

lemma string_of_bytes_of [simp]: "string_of (bytes_of s) = s"
  by (simp add: bytes_of_def string_of_def comp_def)

lemma length_bytes_of [simp]: "length (bytes_of s) = length s"
  by (simp add: bytes_of_def)

lemma bytes_of_eq_Nil [simp]: "bytes_of s = [] \<longleftrightarrow> s = []"
  by (simp add: bytes_of_def)

text \<open>Decimal output, \<^verbatim>\<open>strconv.Itoa\<close> and the verb \<open>%d\<close>.\<close>

definition dec_digit :: "nat \<Rightarrow> char" where
  "dec_digit d = ''0123456789'' ! d"

fun dec_nat :: "nat \<Rightarrow> string" where
  "dec_nat n = (if n < 10 then [dec_digit n] else dec_nat (n div 10) @ [dec_digit (n mod 10)])"

declare dec_nat.simps [simp del]

definition Itoa :: "int \<Rightarrow> string" where
  "Itoa i = (if i < 0 then ''-'' @ dec_nat (nat (- i)) else dec_nat (nat i))"

definition byte_dec :: "byte \<Rightarrow> string" where
  "byte_dec b = Itoa (uint b)"

text \<open>\<^verbatim>\<open>strings.Join(parts, sep)\<close>.\<close>

fun strings_Join :: "string list \<Rightarrow> string \<Rightarrow> string" where
  "strings_Join [] sep = ''''"
| "strings_Join [s] sep = s"
| "strings_Join (s # t # ss) sep = s @ sep @ strings_Join (t # ss) sep"

text \<open>Reading decimals back, for the injectivity of the output.\<close>

definition dec_value :: "string \<Rightarrow> nat" where
  "dec_value s = foldl (\<lambda>a c. 10 * a + (of_char c - 48)) 0 s"

lemma dec_digit_value: "d < 10 \<Longrightarrow> of_char (dec_digit d) - 48 = d"
proof -
  assume "d < 10"
  then have "d \<in> {0, 1, 2, 3, 4, 5, 6, 7, 8, 9}" by auto
  then show ?thesis by (auto simp: dec_digit_def)
qed

lemma dec_value_dec_nat [simp]: "dec_value (dec_nat n) = n"
proof (induction n rule: dec_nat.induct)
  case (1 n)
  show ?case
  proof (cases "n < 10")
    case True
    then show ?thesis by (simp add: dec_nat.simps [of n] dec_value_def dec_digit_value)
  next
    case False
    with 1 have "dec_value (dec_nat (n div 10)) = n div 10" by simp
    then show ?thesis
      using False dec_digit_value [of "n mod 10"]
      by (simp add: dec_nat.simps [of n] dec_value_def)
  qed
qed

lemma dec_nat_inject [simp]: "dec_nat m = dec_nat n \<longleftrightarrow> m = n"
  using dec_value_dec_nat [of m] dec_value_dec_nat [of n] by metis

section \<open>Big-endian integers\<close>

text \<open>
  The two ways the code reads and writes a 16-bit value: by shifts and masks
  (\<open>byte(v>>8), byte(v&0xFF)\<close> and \<open>uint16(b0)*256 + uint16(b1)\<close>), and by
  \<^verbatim>\<open>encoding/binary\<close> (\<open>PutUint16\<close>, \<open>AppendUint16\<close>, \<open>Uint16\<close>).
\<close>

definition hi_byte :: "u16 \<Rightarrow> byte" where
  "hi_byte v = ucast (drop_bit 8 v)"

definition lo_byte :: "u16 \<Rightarrow> byte" where
  "lo_byte v = ucast (v AND 0xFF)"

definition u16_of :: "byte \<Rightarrow> byte \<Rightarrow> u16" where
  "u16_of b0 b1 = ucast b0 * 256 + ucast b1"

definition be_put16 :: "u16 \<Rightarrow> byte list" where
  "be_put16 v = [ucast (drop_bit 8 v), ucast v]"

definition be_get16 :: "byte list \<Rightarrow> u16" where
  "be_get16 b = ucast (b ! 1) OR push_bit 8 (ucast (b ! 0))"

definition be_put32 :: "u32 \<Rightarrow> byte list" where
  "be_put32 v = [ucast (drop_bit 24 v), ucast (drop_bit 16 v), ucast (drop_bit 8 v), ucast v]"

definition be_get32 :: "byte list \<Rightarrow> u32" where
  "be_get32 b = ucast (b ! 3) OR push_bit 8 (ucast (b ! 2)) OR
     push_bit 16 (ucast (b ! 1)) OR push_bit 24 (ucast (b ! 0))"

lemma byte_mask: "(0xFF :: u16) = mask 8"
  by (simp add: mask_eq_exp_minus_1)

lemma u16_of_bits: "u16_of b0 b1 = push_bit 8 (ucast b0) OR ucast b1"
proof -
  have "push_bit 8 (ucast b0 :: u16) + ucast b1 = push_bit 8 (ucast b0) OR ucast b1"
    by (rule disjunctive_add) (auto simp: bit_simps dest: bit_imp_le_length)
  then show ?thesis
    by (simp add: u16_of_def push_bit_eq_mult mult.commute)
qed

lemma u16_of_hi_lo [simp]: "u16_of (hi_byte v) (lo_byte v) = v"
  unfolding u16_of_bits hi_byte_def lo_byte_def byte_mask
  by (rule bit_word_eqI) (auto simp: bit_simps)

lemma hi_byte_u16_of [simp]: "hi_byte (u16_of b0 b1) = b0"
  unfolding u16_of_bits hi_byte_def
  by (rule bit_word_eqI) (auto simp: bit_simps dest: bit_imp_le_length)

lemma lo_byte_u16_of [simp]: "lo_byte (u16_of b0 b1) = b1"
  unfolding u16_of_bits lo_byte_def byte_mask
  by (rule bit_word_eqI) (auto simp: bit_simps dest: bit_imp_le_length)

lemma lo_byte_eq: "lo_byte v = ucast v"
  unfolding lo_byte_def byte_mask by (rule bit_word_eqI) (auto simp: bit_simps)

lemma be_put16_eq [simp]: "be_put16 v = [hi_byte v, lo_byte v]"
  by (simp add: be_put16_def lo_byte_eq hi_byte_def)

lemma be_get16_eq [simp]: "be_get16 b = u16_of (b ! 0) (b ! 1)"
  by (simp add: be_get16_def u16_of_bits or.commute)

lemma length_be_put32 [simp]: "length (be_put32 v) = 4"
  by (simp add: be_put32_def)

lemma be_get32_put32 [simp]: "be_get32 (be_put32 v) = v"
  unfolding be_get32_def be_put32_def
proof (rule bit_word_eqI)
  fix n assume "n < LENGTH(32)"
  then consider "n < 8" | "8 \<le> n" "n < 16" | "16 \<le> n" "n < 24" | "24 \<le> n" "n < 32"
    by fastforce
  then show "bit (ucast ([ucast (drop_bit 24 v), ucast (drop_bit 16 v), ucast (drop_bit 8 v), ucast v :: byte] ! 3) OR
      push_bit 8 (ucast ([ucast (drop_bit 24 v), ucast (drop_bit 16 v), ucast (drop_bit 8 v), ucast v :: byte] ! 2)) OR
      push_bit 16 (ucast ([ucast (drop_bit 24 v), ucast (drop_bit 16 v), ucast (drop_bit 8 v), ucast v :: byte] ! 1)) OR
      push_bit 24 (ucast ([ucast (drop_bit 24 v), ucast (drop_bit 16 v), ucast (drop_bit 8 v), ucast v :: byte] ! 0)) :: u32) n
    = bit v n"
    by cases (auto simp: bit_simps)
qed

text \<open>The count byte of a node array.\<close>

lemma unat_count [codec_simps]: "n \<le> 20 \<Longrightarrow> unat (word_of_nat n :: byte) = n"
  by (simp add: unat_of_nat)

lemma unat_u16_of: "unat (u16_of b0 b1) = unat b0 * 256 + unat b1"
proof -
  have b: "unat b0 < 256" "unat b1 < 256"
    by (rule unat_byte_less)+
  have "unat (u16_of b0 b1) = (unat b0 * 256 + unat b1) mod 65536"
    by (simp add: u16_of_def unat_word_ariths mod_simps unsigned_ucast_eq take_bit_eq_mod)
  also have "\<dots> = unat b0 * 256 + unat b1"
    using b by simp
  finally show ?thesis .
qed

end
