(* ===== verification/Slip.thy ===== *)
theory Slip
  imports Prelude "HOL-Library.Sublist"
begin

text \<open>
  \<^verbatim>\<open>src/app/klf200/protocol/slip.go\<close>: SLIP framing (RFC 1055). The escaping is written as
  in the code, as two passes of \<^verbatim>\<open>bytes.ReplaceAll\<close>, and proved equal to the one-pass
  reference of the RFC.
\<close>

section \<open>Standard library: \<^verbatim>\<open>bytes.ReplaceAll\<close>\<close>

text \<open>
  \<open>ReplaceAll s old new\<close> replaces the non-overlapping occurrences of \<open>old\<close> from left to
  right. The code never calls it with an empty \<open>old\<close>.
\<close>

function ReplaceAll :: "'a list \<Rightarrow> 'a list \<Rightarrow> 'a list \<Rightarrow> 'a list" where
  "ReplaceAll [] old new = []"
| "ReplaceAll (x # xs) old new =
     (if old \<noteq> [] \<and> prefix old (x # xs) then new @ ReplaceAll (drop (length old) (x # xs)) old new
      else x # ReplaceAll xs old new)"
  by pat_completeness auto
termination
  by (relation "measure (\<lambda>(s, old, new). length s)") auto

text \<open>A fresh slice built by \<open>append([]byte(nil), s...)\<close> is nil exactly when \<open>s\<close> is empty.\<close>

definition fresh_slice :: "'a list \<Rightarrow> 'a list option" where
  "fresh_slice s = (if s = [] then None else Some s)"

section \<open>The code\<close>

definition SlipEnd :: byte where "SlipEnd = 0xC0"
definition SlipEsc :: byte where "SlipEsc = 0xDB"
definition SlipEscEnd :: byte where "SlipEscEnd = 0xDC"
definition SlipEscEsc :: byte where "SlipEscEsc = 0xDD"

lemmas slip_consts = SlipEnd_def SlipEsc_def SlipEscEnd_def SlipEscEsc_def

definition IsSlip :: "byte list \<Rightarrow> bool" where
  "IsSlip raw =
     (if length raw < 2 then False
      else raw ! 0 = SlipEnd \<and> IndexByte (drop 1 raw) SlipEnd \<noteq> None)"

definition SlipDecode :: "byte list \<Rightarrow> byte list" where
  "SlipDecode raw =
     (let out = ReplaceAll raw [SlipEsc, SlipEscEnd] [SlipEnd]
      in ReplaceAll out [SlipEsc, SlipEscEsc] [SlipEsc])"

definition SlipEncode :: "byte list \<Rightarrow> byte list" where
  "SlipEncode raw =
     (let out = ReplaceAll raw [SlipEsc] [SlipEsc, SlipEscEsc]
      in ReplaceAll out [SlipEnd] [SlipEsc, SlipEscEnd])"

text \<open>
  The packet is an \<open>option\<close>: \<open>None\<close> is the nil slice, which the code returns both when no
  complete packet is present and, because \<^verbatim>\<open>ReplaceAll\<close> of an empty slice is nil, for an
  empty packet.
\<close>

definition GetNextSlip :: "byte list \<Rightarrow> byte list option \<times> byte list" where
  "GetNextSlip raw =
     (if \<not> IsSlip raw then (None, raw)
      else case IndexByte (drop 1 raw) SlipEnd of
        None \<Rightarrow> (None, raw)
      | Some len \<Rightarrow> (fresh_slice (SlipDecode (slice 1 (len + 1) raw)), drop (len + 2) raw))"

definition SlipPack :: "byte list \<Rightarrow> byte list" where
  "SlipPack raw = [SlipEnd] @ SlipEncode raw @ [SlipEnd]"

section \<open>The reference of RFC 1055\<close>

definition slip_escape1 :: "byte \<Rightarrow> byte list" where
  "slip_escape1 b =
     (if b = SlipEnd then [SlipEsc, SlipEscEnd]
      else if b = SlipEsc then [SlipEsc, SlipEscEsc] else [b])"

fun slip_unescape :: "byte list \<Rightarrow> byte list" where
  "slip_unescape (a # b # xs) =
     (if a = SlipEsc \<and> b = SlipEscEnd then SlipEnd # slip_unescape xs
      else if a = SlipEsc \<and> b = SlipEscEsc then SlipEsc # slip_unescape xs
      else a # slip_unescape (b # xs))"
| "slip_unescape xs = xs"

lemma ReplaceAll_single:
  "ReplaceAll xs [e] new = concat (map (\<lambda>x. if x = e then new else [x]) xs)"
  by (induction xs) auto

lemma ReplaceAll_pair:
  "ReplaceAll (a # b # xs) [e, f] new =
     (if a = e \<and> b = f then new @ ReplaceAll xs [e, f] new
      else a # ReplaceAll (b # xs) [e, f] new)"
  "ReplaceAll [a] [e, f] new = [a]"
  by auto

lemma ReplaceAll_hd_neq:
  "a \<noteq> e \<Longrightarrow> ReplaceAll (a # xs) (e # es) new = a # ReplaceAll xs (e # es) new"
  by auto

declare ReplaceAll.simps(2) [simp del]

lemma SlipEncode_concat: "SlipEncode raw = concat (map slip_escape1 raw)"
  by (induction raw) (auto simp: SlipEncode_def ReplaceAll_single slip_escape1_def slip_consts)

text \<open>The first pass leaves no byte that could start a pair for the second one by accident.\<close>

lemma ReplaceAll_first_pass_hd:
  "ReplaceAll (b # xs) [SlipEsc, SlipEscEnd] [SlipEnd] =
     (if b = SlipEsc \<and> xs \<noteq> [] \<and> hd xs = SlipEscEnd
      then SlipEnd # ReplaceAll (tl xs) [SlipEsc, SlipEscEnd] [SlipEnd]
      else b # ReplaceAll xs [SlipEsc, SlipEscEnd] [SlipEnd])"
  by (cases xs) (auto simp: ReplaceAll_pair)

lemma SlipDecode_unescape: "SlipDecode raw = slip_unescape raw"
proof (induction raw rule: slip_unescape.induct)
  case (1 a b xs)
  show ?case
  proof (cases "a = SlipEsc \<and> (b = SlipEscEnd \<or> b = SlipEscEsc)")
    case True
    with 1 show ?thesis
      by (auto simp: SlipDecode_def ReplaceAll_pair ReplaceAll_hd_neq slip_consts)
  next
    case False
    have "SlipDecode (a # b # xs) = a # SlipDecode (b # xs)"
    proof (cases "a = SlipEsc")
      case True
      with False show ?thesis
        by (auto simp: SlipDecode_def ReplaceAll_pair slip_consts
            ReplaceAll_first_pass_hd [unfolded slip_consts])
    next
      case False
      then show ?thesis by (simp add: SlipDecode_def ReplaceAll_hd_neq)
    qed
    with False 1 show ?thesis by auto
  qed
qed (simp_all add: SlipDecode_def ReplaceAll_pair)

lemma slip_escape1_no_end: "SlipEnd \<notin> set (slip_escape1 b)"
  by (auto simp: slip_escape1_def slip_consts)

lemma SlipEncode_no_end: "SlipEnd \<notin> set (SlipEncode raw)"
  by (auto simp: SlipEncode_concat dest: slip_escape1_no_end [THEN notE, rotated])

lemma slip_unescape_escape1: "slip_unescape (slip_escape1 b @ xs) = b # slip_unescape xs"
  by (cases xs) (auto simp: slip_escape1_def slip_consts)

lemma SlipDecode_SlipEncode [simp]: "SlipDecode (SlipEncode raw) = raw"
  by (induction raw) (auto simp: SlipDecode_unescape SlipEncode_concat slip_unescape_escape1)

lemma SlipEncode_eq_Nil [simp]: "SlipEncode raw = [] \<longleftrightarrow> raw = []"
  by (cases raw) (auto simp: SlipEncode_concat slip_escape1_def)

lemma length_SlipEncode_bounds:
  "length raw \<le> length (SlipEncode raw) \<and> length (SlipEncode raw) \<le> 2 * length raw"
  by (induction raw) (auto simp: SlipEncode_concat slip_escape1_def)

section \<open>Tokenising a stream\<close>

text \<open>A stream is a SLIP packet when it is \<open>END body END rest\<close> with no END in the body.\<close>

lemma IsSlip_iff:
  "IsSlip raw \<longleftrightarrow> (\<exists>body rest. raw = SlipEnd # body @ SlipEnd # rest \<and> SlipEnd \<notin> set body)"
proof
  assume h: "IsSlip raw"
  then obtain b bs where raw: "raw = b # bs" by (cases raw) (auto simp: IsSlip_def)
  with h obtain n where "b = SlipEnd" "IndexByte bs SlipEnd = Some n"
    by (auto simp: IsSlip_def split: if_splits)
  moreover from this IndexByte_Some obtain us vs
    where "bs = us @ SlipEnd # vs" "SlipEnd \<notin> set us" by blast
  ultimately show "\<exists>body rest. raw = SlipEnd # body @ SlipEnd # rest \<and> SlipEnd \<notin> set body"
    using raw by auto
next
  assume "\<exists>body rest. raw = SlipEnd # body @ SlipEnd # rest \<and> SlipEnd \<notin> set body"
  then show "IsSlip raw" by (auto simp: IsSlip_def IndexByte_append_notin)
qed

lemma GetNextSlip_framed:
  "SlipEnd \<notin> set body \<Longrightarrow>
   GetNextSlip (SlipEnd # body @ SlipEnd # rest) = (fresh_slice (SlipDecode body), rest)"
  using IsSlip_iff [of "SlipEnd # body @ SlipEnd # rest"]
  by (auto simp: GetNextSlip_def IndexByte_append_notin slice_def)

lemma GetNextSlip_pack:
  "GetNextSlip (SlipPack raw @ rest) = (fresh_slice raw, rest)"
  using GetNextSlip_framed [OF SlipEncode_no_end [of raw], of rest] by (simp add: SlipPack_def)

lemma GetNextSlip_incomplete: "\<not> IsSlip raw \<Longrightarrow> GetNextSlip raw = (None, raw)"
  by (simp add: GetNextSlip_def)

lemma IsSlip_pack [simp]: "IsSlip (SlipPack raw @ rest)"
  unfolding IsSlip_iff SlipPack_def using SlipEncode_no_end [of raw] by auto

lemma GetNextSlip_shorter:
  "IsSlip raw \<Longrightarrow> length (snd (GetNextSlip raw)) + 2 \<le> length raw"
  by (auto simp: IsSlip_iff GetNextSlip_framed)

section \<open>Properties\<close>

text \<open>
  C10: The two \<open>ReplaceAll\<close> passes of \<open>SlipEncode\<close> and \<open>SlipDecode\<close> compute the one-pass
  escaping and unescaping of RFC 1055, decoding inverts encoding, no END byte occurs in an
  encoded packet, and the encoding at most doubles the length.
\<close>

theorem slip_codec:
  "SlipEncode raw = concat (map slip_escape1 raw) \<and> SlipDecode raw = slip_unescape raw \<and>
   SlipDecode (SlipEncode raw) = raw \<and> SlipEnd \<notin> set (SlipEncode raw) \<and>
   length raw \<le> length (SlipEncode raw) \<and> length (SlipEncode raw) \<le> 2 * length raw"
  by (intro conjI SlipEncode_concat SlipDecode_unescape SlipDecode_SlipEncode SlipEncode_no_end)
    (simp_all only: length_SlipEncode_bounds)

text \<open>
  C11: \<open>GetNextSlip\<close> takes a packet off the stream exactly when the stream starts with an END
  byte and a second END follows; then it returns the decoded bytes in between (nil when there
  are none) and what follows the second END. In all other cases the stream is left as it is.
\<close>

theorem GetNextSlip_exact:
  "(\<exists>body rest. raw = SlipEnd # body @ SlipEnd # rest \<and> SlipEnd \<notin> set body \<and>
      GetNextSlip raw = (fresh_slice (SlipDecode body), rest)) \<or>
   ((\<nexists>body rest. raw = SlipEnd # body @ SlipEnd # rest \<and> SlipEnd \<notin> set body) \<and>
      GetNextSlip raw = (None, raw))"
proof (cases "IsSlip raw")
  case True
  then show ?thesis using GetNextSlip_framed unfolding IsSlip_iff by blast
next
  case False
  then show ?thesis using GetNextSlip_incomplete IsSlip_iff by blast
qed

text \<open>
  The tokeniser never resynchronises: a stream whose first byte is not END is not a packet,
  whatever arrives after it, so \<open>GetNextSlip\<close> returns no packet and drops nothing.
\<close>

theorem GetNextSlip_no_resync:
  assumes "b \<noteq> SlipEnd"
  shows "\<not> IsSlip (b # junk @ more) \<and> GetNextSlip (b # junk @ more) = (None, b # junk @ more)"
  using assms by (simp add: GetNextSlip_def IsSlip_def)

theorem GetNextSlip_no_resync_witness:
  "GetNextSlip ((0x01 :: byte) # [] @ SlipPack [0x02]) = (None, (0x01 :: byte) # [] @ SlipPack [0x02])"
  using GetNextSlip_no_resync [of "0x01" "[]" "SlipPack [0x02]"] by (simp add: slip_consts)

end
