(* ===== verification/Const.thy ===== *)
theory Const
  imports Prelude
begin

text \<open>
  \<^verbatim>\<open>src/app/klf200/protocol/const.go\<close>: the command codes of the KLF200 (\<open>type Command uint16\<close>)
  with the table of their names, and the enumerations of the protocol (\<open>uint8\<close> types, so any
  byte is a value of each). The Go types that share a machine type share it here too. A
  constant keeps its Go name.
\<close>

section \<open>Command codes\<close>

definition GW_ERROR_NTF :: u16 where [go_consts]: "GW_ERROR_NTF = 0x0000"
definition GW_REBOOT_REQ :: u16 where [go_consts]: "GW_REBOOT_REQ = 0x0001"
definition GW_REBOOT_CFM :: u16 where [go_consts]: "GW_REBOOT_CFM = 0x0002"
definition GW_SET_FACTORY_DEFAULT_REQ :: u16 where [go_consts]: "GW_SET_FACTORY_DEFAULT_REQ = 0x0003"
definition GW_SET_FACTORY_DEFAULT_CFM :: u16 where [go_consts]: "GW_SET_FACTORY_DEFAULT_CFM = 0x0004"
definition GW_GET_VERSION_REQ :: u16 where [go_consts]: "GW_GET_VERSION_REQ = 0x0008"
definition GW_GET_VERSION_CFM :: u16 where [go_consts]: "GW_GET_VERSION_CFM = 0x0009"
definition GW_GET_PROTOCOL_VERSION_REQ :: u16 where [go_consts]: "GW_GET_PROTOCOL_VERSION_REQ = 0x000A"
definition GW_GET_PROTOCOL_VERSION_CFM :: u16 where [go_consts]: "GW_GET_PROTOCOL_VERSION_CFM = 0x000B"
definition GW_GET_STATE_REQ :: u16 where [go_consts]: "GW_GET_STATE_REQ = 0x000C"
definition GW_GET_STATE_CFM :: u16 where [go_consts]: "GW_GET_STATE_CFM = 0x000D"
definition GW_LEAVE_LEARN_STATE_REQ :: u16 where [go_consts]: "GW_LEAVE_LEARN_STATE_REQ = 0x000E"
definition GW_LEAVE_LEARN_STATE_CFM :: u16 where [go_consts]: "GW_LEAVE_LEARN_STATE_CFM = 0x000F"
definition GW_GET_NETWORK_SETUP_REQ :: u16 where [go_consts]: "GW_GET_NETWORK_SETUP_REQ = 0x00E0"
definition GW_GET_NETWORK_SETUP_CFM :: u16 where [go_consts]: "GW_GET_NETWORK_SETUP_CFM = 0x00E1"
definition GW_SET_NETWORK_SETUP_REQ :: u16 where [go_consts]: "GW_SET_NETWORK_SETUP_REQ = 0x00E2"
definition GW_SET_NETWORK_SETUP_CFM :: u16 where [go_consts]: "GW_SET_NETWORK_SETUP_CFM = 0x00E3"
definition GW_CS_GET_SYSTEMTABLE_DATQ_REQ :: u16 where [go_consts]: "GW_CS_GET_SYSTEMTABLE_DATQ_REQ = 0x0100"
definition GW_CS_GET_SYSTEMTABLE_DATA_CFM :: u16 where [go_consts]: "GW_CS_GET_SYSTEMTABLE_DATA_CFM = 0x0101"
definition GW_CS_GET_SYSTEMTABLE_DATA_NTF :: u16 where [go_consts]: "GW_CS_GET_SYSTEMTABLE_DATA_NTF = 0x0102"
definition GW_CS_DISCOVER_NODES_REQ :: u16 where [go_consts]: "GW_CS_DISCOVER_NODES_REQ = 0x0103"
definition GW_CS_DISCOVER_NODES_CFM :: u16 where [go_consts]: "GW_CS_DISCOVER_NODES_CFM = 0x0104"
definition GW_CS_DISCOVER_NODES_NTF :: u16 where [go_consts]: "GW_CS_DISCOVER_NODES_NTF = 0x0105"
definition GW_CS_REMOVE_NODES_REQ :: u16 where [go_consts]: "GW_CS_REMOVE_NODES_REQ = 0x0106"
definition GW_CS_REMOVE_NODES_CFM :: u16 where [go_consts]: "GW_CS_REMOVE_NODES_CFM = 0x0107"
definition GW_CS_VIRGIN_STATE_REQ :: u16 where [go_consts]: "GW_CS_VIRGIN_STATE_REQ = 0x0108"
definition GW_CS_VIRGIN_STATE_CFM :: u16 where [go_consts]: "GW_CS_VIRGIN_STATE_CFM = 0x0109"
definition GW_CS_CONTROLLER_COPY_REQ :: u16 where [go_consts]: "GW_CS_CONTROLLER_COPY_REQ = 0x010A"
definition GW_CS_CONTROLLER_COPY_CFM :: u16 where [go_consts]: "GW_CS_CONTROLLER_COPY_CFM = 0x010B"
definition GW_CS_CONTROLLER_COPY_NTF :: u16 where [go_consts]: "GW_CS_CONTROLLER_COPY_NTF = 0x010C"
definition GW_CS_CONTROLLER_COPY_CANCEL_NTF :: u16 where [go_consts]: "GW_CS_CONTROLLER_COPY_CANCEL_NTF = 0x010D"
definition GW_CS_RECEIVE_KEY_REQ :: u16 where [go_consts]: "GW_CS_RECEIVE_KEY_REQ = 0x010E"
definition GW_CS_RECEIVE_KEY_CFM :: u16 where [go_consts]: "GW_CS_RECEIVE_KEY_CFM = 0x010F"
definition GW_CS_RECEIVE_KEY_NTF :: u16 where [go_consts]: "GW_CS_RECEIVE_KEY_NTF = 0x0110"
definition GW_CS_PGC_JOB_NTF :: u16 where [go_consts]: "GW_CS_PGC_JOB_NTF = 0x0111"
definition GW_CS_SYSTEM_TABLE_UPDATE_NTF :: u16 where [go_consts]: "GW_CS_SYSTEM_TABLE_UPDATE_NTF = 0x0112"
definition GW_CS_GENERATE_NEW_KEY_REQ :: u16 where [go_consts]: "GW_CS_GENERATE_NEW_KEY_REQ = 0x0113"
definition GW_CS_GENERATE_NEW_KEY_CFM :: u16 where [go_consts]: "GW_CS_GENERATE_NEW_KEY_CFM = 0x0114"
definition GW_CS_GENERATE_NEW_KEY_NTF :: u16 where [go_consts]: "GW_CS_GENERATE_NEW_KEY_NTF = 0x0115"
definition GW_CS_REPAIR_KEY_REQ :: u16 where [go_consts]: "GW_CS_REPAIR_KEY_REQ = 0x0116"
definition GW_CS_REPAIR_KEY_CFM :: u16 where [go_consts]: "GW_CS_REPAIR_KEY_CFM = 0x0117"
definition GW_CS_REPAID_KEY_NTF :: u16 where [go_consts]: "GW_CS_REPAID_KEY_NTF = 0x0118"
definition GW_CS_ACTIVATE_CONFIGURATION_MODE_REQ :: u16 where [go_consts]: "GW_CS_ACTIVATE_CONFIGURATION_MODE_REQ = 0x0119"
definition GW_CS_ACTIVATE_CONFIGURATION_MODE_CFM :: u16 where [go_consts]: "GW_CS_ACTIVATE_CONFIGURATION_MODE_CFM = 0x011A"
definition GW_GET_NODE_INFORMATION_REQ :: u16 where [go_consts]: "GW_GET_NODE_INFORMATION_REQ = 0x0200"
definition GW_GET_NODE_INFORMATION_CFM :: u16 where [go_consts]: "GW_GET_NODE_INFORMATION_CFM = 0x0201"
definition GW_GET_NODE_INFORMATION_NTF :: u16 where [go_consts]: "GW_GET_NODE_INFORMATION_NTF = 0x0210"
definition GW_GET_ALL_NODES_INFORMATION_REQ :: u16 where [go_consts]: "GW_GET_ALL_NODES_INFORMATION_REQ = 0x0202"
definition GW_GET_ALL_NODES_INFORMATION_CFM :: u16 where [go_consts]: "GW_GET_ALL_NODES_INFORMATION_CFM = 0x0203"
definition GW_GET_ALL_NODES_INFORMATION_NTF :: u16 where [go_consts]: "GW_GET_ALL_NODES_INFORMATION_NTF = 0x0204"
definition GW_GET_ALL_NODES_INFORMATION_FINISHED_NTF :: u16 where [go_consts]: "GW_GET_ALL_NODES_INFORMATION_FINISHED_NTF = 0x0205"
definition GW_SET_NODE_VARIATION_REQ :: u16 where [go_consts]: "GW_SET_NODE_VARIATION_REQ = 0x0206"
definition GW_SET_NODE_VARIATION_CFM :: u16 where [go_consts]: "GW_SET_NODE_VARIATION_CFM = 0x0207"
definition GW_SET_NODE_NAME_REQ :: u16 where [go_consts]: "GW_SET_NODE_NAME_REQ = 0x0208"
definition GW_SET_NODE_NAME_CFM :: u16 where [go_consts]: "GW_SET_NODE_NAME_CFM = 0x0209"
definition GW_SET_NODE_VELOCITY_REQ :: u16 where [go_consts]: "GW_SET_NODE_VELOCITY_REQ = 0x020A"
definition GW_SET_NODE_VELOCITY_CFM :: u16 where [go_consts]: "GW_SET_NODE_VELOCITY_CFM = 0x020B"
definition GW_NODE_INFORMATION_CHANGED_NTF :: u16 where [go_consts]: "GW_NODE_INFORMATION_CHANGED_NTF = 0x020C"
definition GW_NODE_STATE_POSITION_CHANGED_NTF :: u16 where [go_consts]: "GW_NODE_STATE_POSITION_CHANGED_NTF = 0x0211"
definition GW_SET_NODE_ORDER_AND_PLACEMENT_REQ :: u16 where [go_consts]: "GW_SET_NODE_ORDER_AND_PLACEMENT_REQ = 0x020D"
definition GW_SET_NODE_ORDER_AND_PLACEMENT_CFM :: u16 where [go_consts]: "GW_SET_NODE_ORDER_AND_PLACEMENT_CFM = 0x020E"
definition GW_GET_GROUP_INFORMATION_REQ :: u16 where [go_consts]: "GW_GET_GROUP_INFORMATION_REQ = 0x0220"
definition GW_GET_GROUP_INFORMATION_CFM :: u16 where [go_consts]: "GW_GET_GROUP_INFORMATION_CFM = 0x0221"
definition GW_GET_GROUP_INFORMATION_NTF :: u16 where [go_consts]: "GW_GET_GROUP_INFORMATION_NTF = 0x0230"
definition GW_SET_GROUP_INFORMATION_REQ :: u16 where [go_consts]: "GW_SET_GROUP_INFORMATION_REQ = 0x0222"
definition GW_SET_GROUP_INFORMATION_CFM :: u16 where [go_consts]: "GW_SET_GROUP_INFORMATION_CFM = 0x0223"
definition GW_GROUP_INFORMATION_CHANGED_NTF :: u16 where [go_consts]: "GW_GROUP_INFORMATION_CHANGED_NTF = 0x0224"
definition GW_DELETE_GROUP_REQ :: u16 where [go_consts]: "GW_DELETE_GROUP_REQ = 0x0225"
definition GW_DELETE_GROUP_CFM :: u16 where [go_consts]: "GW_DELETE_GROUP_CFM = 0x0226"
definition GW_NEW_GROUP_REQ :: u16 where [go_consts]: "GW_NEW_GROUP_REQ = 0x0227"
definition GW_NEW_GROUP_CFM :: u16 where [go_consts]: "GW_NEW_GROUP_CFM = 0x0228"
definition GW_GET_ALL_GROUPS_INFORMATION_REQ :: u16 where [go_consts]: "GW_GET_ALL_GROUPS_INFORMATION_REQ = 0x0229"
definition GW_GET_ALL_GROUPS_INFORMATION_CFM :: u16 where [go_consts]: "GW_GET_ALL_GROUPS_INFORMATION_CFM = 0x022A"
definition GW_GET_ALL_GROUPS_INFORMATION_NTF :: u16 where [go_consts]: "GW_GET_ALL_GROUPS_INFORMATION_NTF = 0x022B"
definition GW_GET_ALL_GROUPS_INFORMATION_FINISHED_NTF :: u16 where [go_consts]: "GW_GET_ALL_GROUPS_INFORMATION_FINISHED_NTF = 0x022C"
definition GW_GROUP_DELETED_NTF :: u16 where [go_consts]: "GW_GROUP_DELETED_NTF = 0x022D"
definition GW_HOUSE_STATUS_MONITOR_ENABLE_REQ :: u16 where [go_consts]: "GW_HOUSE_STATUS_MONITOR_ENABLE_REQ = 0x0240"
definition GW_HOUSE_STATUS_MONITOR_ENABLE_CFM :: u16 where [go_consts]: "GW_HOUSE_STATUS_MONITOR_ENABLE_CFM = 0x0241"
definition GW_HOUSE_STATUS_MONITOR_DISABLE_REQ :: u16 where [go_consts]: "GW_HOUSE_STATUS_MONITOR_DISABLE_REQ = 0x0242"
definition GW_HOUSE_STATUS_MONITOR_DISABLE_CFM :: u16 where [go_consts]: "GW_HOUSE_STATUS_MONITOR_DISABLE_CFM = 0x0243"
definition GW_COMMAND_SEND_REQ :: u16 where [go_consts]: "GW_COMMAND_SEND_REQ = 0x0300"
definition GW_COMMAND_SEND_CFM :: u16 where [go_consts]: "GW_COMMAND_SEND_CFM = 0x0301"
definition GW_COMMAND_RUN_STATUS_NTF :: u16 where [go_consts]: "GW_COMMAND_RUN_STATUS_NTF = 0x0302"
definition GW_COMMAND_REMAINING_TIME_NTF :: u16 where [go_consts]: "GW_COMMAND_REMAINING_TIME_NTF = 0x0303"
definition GW_SESSION_FINISHED_NTF :: u16 where [go_consts]: "GW_SESSION_FINISHED_NTF = 0x0304"
definition GW_STATUS_REQUEST_REQ :: u16 where [go_consts]: "GW_STATUS_REQUEST_REQ = 0x0305"
definition GW_STATUS_REQUEST_CFM :: u16 where [go_consts]: "GW_STATUS_REQUEST_CFM = 0x0306"
definition GW_STATUS_REQUEST_NTF :: u16 where [go_consts]: "GW_STATUS_REQUEST_NTF = 0x0307"
definition GW_WINK_SEND_REQ :: u16 where [go_consts]: "GW_WINK_SEND_REQ = 0x0308"
definition GW_WINK_SEND_CFM :: u16 where [go_consts]: "GW_WINK_SEND_CFM = 0x0309"
definition GW_WINK_SEND_NTF :: u16 where [go_consts]: "GW_WINK_SEND_NTF = 0x030A"
definition GW_SET_LIMITATION_REQ :: u16 where [go_consts]: "GW_SET_LIMITATION_REQ = 0x0310"
definition GW_SET_LIMITATION_CFM :: u16 where [go_consts]: "GW_SET_LIMITATION_CFM = 0x0311"
definition GW_GET_LIMITATION_STATUS_REQ :: u16 where [go_consts]: "GW_GET_LIMITATION_STATUS_REQ = 0x0312"
definition GW_GET_LIMITATION_STATUS_CFM :: u16 where [go_consts]: "GW_GET_LIMITATION_STATUS_CFM = 0x0313"
definition GW_LIMITATION_STATUS_NTF :: u16 where [go_consts]: "GW_LIMITATION_STATUS_NTF = 0x0314"
definition GW_MODE_SEND_REQ :: u16 where [go_consts]: "GW_MODE_SEND_REQ = 0x0320"
definition GW_MODE_SEND_CFM :: u16 where [go_consts]: "GW_MODE_SEND_CFM = 0x0321"
definition GW_MODE_SEND_NTF :: u16 where [go_consts]: "GW_MODE_SEND_NTF = 0x0322"
definition GW_INITIALIZE_SCENE_REQ :: u16 where [go_consts]: "GW_INITIALIZE_SCENE_REQ = 0x0400"
definition GW_INITIALIZE_SCENE_CFM :: u16 where [go_consts]: "GW_INITIALIZE_SCENE_CFM = 0x0401"
definition GW_INITIALIZE_SCENE_NTF :: u16 where [go_consts]: "GW_INITIALIZE_SCENE_NTF = 0x0402"
definition GW_INITIALIZE_SCENE_CANCEL_REQ :: u16 where [go_consts]: "GW_INITIALIZE_SCENE_CANCEL_REQ = 0x0403"
definition GW_INITIALIZE_SCENE_CANCEL_CFM :: u16 where [go_consts]: "GW_INITIALIZE_SCENE_CANCEL_CFM = 0x0404"
definition GW_RECORD_SCENE_REQ :: u16 where [go_consts]: "GW_RECORD_SCENE_REQ = 0x0405"
definition GW_RECORD_SCENE_CFM :: u16 where [go_consts]: "GW_RECORD_SCENE_CFM = 0x0406"
definition GW_RECORD_SCENE_NTF :: u16 where [go_consts]: "GW_RECORD_SCENE_NTF = 0x0407"
definition GW_DELETE_SCENE_REQ :: u16 where [go_consts]: "GW_DELETE_SCENE_REQ = 0x0408"
definition GW_DELETE_SCENE_CFM :: u16 where [go_consts]: "GW_DELETE_SCENE_CFM = 0x0409"
definition GW_RENAME_SCENE_REQ :: u16 where [go_consts]: "GW_RENAME_SCENE_REQ = 0x040A"
definition GW_RENAME_SCENE_CFM :: u16 where [go_consts]: "GW_RENAME_SCENE_CFM = 0x040B"
definition GW_GET_SCENE_LIST_REQ :: u16 where [go_consts]: "GW_GET_SCENE_LIST_REQ = 0x040C"
definition GW_GET_SCENE_LIST_CFM :: u16 where [go_consts]: "GW_GET_SCENE_LIST_CFM = 0x040D"
definition GW_GET_SCENE_LIST_NTF :: u16 where [go_consts]: "GW_GET_SCENE_LIST_NTF = 0x040E"
definition GW_GET_SCENE_INFORMATION_REQ :: u16 where [go_consts]: "GW_GET_SCENE_INFORMATION_REQ = 0x040F"
definition GW_GET_SCENE_INFORMATION_CFM :: u16 where [go_consts]: "GW_GET_SCENE_INFORMATION_CFM = 0x0410"
definition GW_GET_SCENE_INFORMATION_NTF :: u16 where [go_consts]: "GW_GET_SCENE_INFORMATION_NTF = 0x0411"
definition GW_ACTIVATE_SCENE_REQ :: u16 where [go_consts]: "GW_ACTIVATE_SCENE_REQ = 0x0412"
definition GW_ACTIVATE_SCENE_CFM :: u16 where [go_consts]: "GW_ACTIVATE_SCENE_CFM = 0x0413"
definition GW_STOP_SCENE_REQ :: u16 where [go_consts]: "GW_STOP_SCENE_REQ = 0x0415"
definition GW_STOP_SCENE_CFM :: u16 where [go_consts]: "GW_STOP_SCENE_CFM = 0x0416"
definition GW_SCENE_INFORMATION_CHANGED_NTF :: u16 where [go_consts]: "GW_SCENE_INFORMATION_CHANGED_NTF = 0x0419"
definition GW_ACTIVATE_PRODUCTGROUP_REQ :: u16 where [go_consts]: "GW_ACTIVATE_PRODUCTGROUP_REQ = 0x0447"
definition GW_ACTIVATE_PRODUCTGROUP_CFM :: u16 where [go_consts]: "GW_ACTIVATE_PRODUCTGROUP_CFM = 0x0448"
definition GW_ACTIVATE_PRODUCTGROUP_NTF :: u16 where [go_consts]: "GW_ACTIVATE_PRODUCTGROUP_NTF = 0x0449"
definition GW_GET_CONTACT_INPUT_LINK_LIST_REQ :: u16 where [go_consts]: "GW_GET_CONTACT_INPUT_LINK_LIST_REQ = 0x0460"
definition GW_GET_CONTACT_INPUT_LINK_LIST_CFM :: u16 where [go_consts]: "GW_GET_CONTACT_INPUT_LINK_LIST_CFM = 0x0461"
definition GW_SET_CONTACT_INPUT_LINK_REQ :: u16 where [go_consts]: "GW_SET_CONTACT_INPUT_LINK_REQ = 0x0462"
definition GW_SET_CONTACT_INPUT_LINK_CFM :: u16 where [go_consts]: "GW_SET_CONTACT_INPUT_LINK_CFM = 0x0463"
definition GW_REMOVE_CONTACT_INPUT_LINK_REQ :: u16 where [go_consts]: "GW_REMOVE_CONTACT_INPUT_LINK_REQ = 0x0464"
definition GW_REMOVE_CONTACT_INPUT_LINK_CFM :: u16 where [go_consts]: "GW_REMOVE_CONTACT_INPUT_LINK_CFM = 0x0465"
definition GW_GET_ACTIVATION_LOG_HEADER_REQ :: u16 where [go_consts]: "GW_GET_ACTIVATION_LOG_HEADER_REQ = 0x0500"
definition GW_GET_ACTIVATION_LOG_HEADER_CFM :: u16 where [go_consts]: "GW_GET_ACTIVATION_LOG_HEADER_CFM = 0x0501"
definition GW_CLEAR_ACTIVATION_LOG_REQ :: u16 where [go_consts]: "GW_CLEAR_ACTIVATION_LOG_REQ = 0x0502"
definition GW_CLEAR_ACTIVATION_LOG_CFM :: u16 where [go_consts]: "GW_CLEAR_ACTIVATION_LOG_CFM = 0x0503"
definition GW_GET_ACTIVATION_LOG_LINE_REQ :: u16 where [go_consts]: "GW_GET_ACTIVATION_LOG_LINE_REQ = 0x0504"
definition GW_GET_ACTIVATION_LOG_LINE_CFM :: u16 where [go_consts]: "GW_GET_ACTIVATION_LOG_LINE_CFM = 0x0505"
definition GW_ACTIVATION_LOG_UPDATED_NTF :: u16 where [go_consts]: "GW_ACTIVATION_LOG_UPDATED_NTF = 0x0506"
definition GW_GET_MULTIPLE_ACTIVATION_LOG_LINES_REQ :: u16 where [go_consts]: "GW_GET_MULTIPLE_ACTIVATION_LOG_LINES_REQ = 0x0507"
definition GW_GET_MULTIPLE_ACTIVATION_LOG_LINES_NTF :: u16 where [go_consts]: "GW_GET_MULTIPLE_ACTIVATION_LOG_LINES_NTF = 0x0508"
definition GW_GET_MULTIPLE_ACTIVATION_LOG_LINES_CFN :: u16 where [go_consts]: "GW_GET_MULTIPLE_ACTIVATION_LOG_LINES_CFN = 0x0509"
definition GW_SET_UTC_REQ :: u16 where [go_consts]: "GW_SET_UTC_REQ = 0x2000"
definition GW_SET_UTC_CFM :: u16 where [go_consts]: "GW_SET_UTC_CFM = 0x2001"
definition GW_RTC_SET_TIME_ZONE_REQ :: u16 where [go_consts]: "GW_RTC_SET_TIME_ZONE_REQ = 0x2002"
definition GW_RTC_SET_TIME_ZONE_CFM :: u16 where [go_consts]: "GW_RTC_SET_TIME_ZONE_CFM = 0x2003"
definition GW_GET_LOCAL_TIME_REQ :: u16 where [go_consts]: "GW_GET_LOCAL_TIME_REQ = 0x2004"
definition GW_GET_LOCAL_TIME_CFM :: u16 where [go_consts]: "GW_GET_LOCAL_TIME_CFM = 0x2005"
definition GW_PASSWORD_ENTER_REQ :: u16 where [go_consts]: "GW_PASSWORD_ENTER_REQ = 0x3000"
definition GW_PASSWORD_ENTER_CFM :: u16 where [go_consts]: "GW_PASSWORD_ENTER_CFM = 0x3001"
definition GW_PASSWORD_CHANGE_REQ :: u16 where [go_consts]: "GW_PASSWORD_CHANGE_REQ = 0x3002"
definition GW_PASSWORD_CHANGE_CFM :: u16 where [go_consts]: "GW_PASSWORD_CHANGE_CFM = 0x3003"
definition GW_PASSWORD_CHANGE_NTF :: u16 where [go_consts]: "GW_PASSWORD_CHANGE_NTF = 0x3004"

section \<open>Names\<close>

text \<open>
  \<open>String()\<close> falls back to lower-case hexadecimal without leading zeros
  (\<^verbatim>\<open>strconv.FormatUint(c, 16)\<close>) for a code without a name.
\<close>

definition commandNames :: "(u16 \<times> string) list" where
  "commandNames =
    [(GW_ERROR_NTF, ''GW_ERROR_NTF''),
     (GW_REBOOT_REQ, ''GW_REBOOT_REQ''),
     (GW_REBOOT_CFM, ''GW_REBOOT_CFM''),
     (GW_SET_FACTORY_DEFAULT_REQ, ''GW_SET_FACTORY_DEFAULT_REQ''),
     (GW_SET_FACTORY_DEFAULT_CFM, ''GW_SET_FACTORY_DEFAULT_CFM''),
     (GW_GET_VERSION_REQ, ''GW_GET_VERSION_REQ''),
     (GW_GET_VERSION_CFM, ''GW_GET_VERSION_CFM''),
     (GW_GET_PROTOCOL_VERSION_REQ, ''GW_GET_PROTOCOL_VERSION_REQ''),
     (GW_GET_PROTOCOL_VERSION_CFM, ''GW_GET_PROTOCOL_VERSION_CFM''),
     (GW_GET_STATE_REQ, ''GW_GET_STATE_REQ''),
     (GW_GET_STATE_CFM, ''GW_GET_STATE_CFM''),
     (GW_LEAVE_LEARN_STATE_REQ, ''GW_LEAVE_LEARN_STATE_REQ''),
     (GW_LEAVE_LEARN_STATE_CFM, ''GW_LEAVE_LEARN_STATE_CFM''),
     (GW_GET_NETWORK_SETUP_REQ, ''GW_GET_NETWORK_SETUP_REQ''),
     (GW_GET_NETWORK_SETUP_CFM, ''GW_GET_NETWORK_SETUP_CFM''),
     (GW_SET_NETWORK_SETUP_REQ, ''GW_SET_NETWORK_SETUP_REQ''),
     (GW_SET_NETWORK_SETUP_CFM, ''GW_SET_NETWORK_SETUP_CFM''),
     (GW_CS_GET_SYSTEMTABLE_DATQ_REQ, ''GW_CS_GET_SYSTEMTABLE_DATQ_REQ''),
     (GW_CS_GET_SYSTEMTABLE_DATA_CFM, ''GW_CS_GET_SYSTEMTABLE_DATA_CFM''),
     (GW_CS_GET_SYSTEMTABLE_DATA_NTF, ''GW_CS_GET_SYSTEMTABLE_DATA_NTF''),
     (GW_CS_DISCOVER_NODES_REQ, ''GW_CS_DISCOVER_NODES_REQ''),
     (GW_CS_DISCOVER_NODES_CFM, ''GW_CS_DISCOVER_NODES_CFM''),
     (GW_CS_DISCOVER_NODES_NTF, ''GW_CS_DISCOVER_NODES_NTF''),
     (GW_CS_REMOVE_NODES_REQ, ''GW_CS_REMOVE_NODES_REQ''),
     (GW_CS_REMOVE_NODES_CFM, ''GW_CS_REMOVE_NODES_CFM''),
     (GW_CS_VIRGIN_STATE_REQ, ''GW_CS_VIRGIN_STATE_REQ''),
     (GW_CS_VIRGIN_STATE_CFM, ''GW_CS_VIRGIN_STATE_CFM''),
     (GW_CS_CONTROLLER_COPY_REQ, ''GW_CS_CONTROLLER_COPY_REQ''),
     (GW_CS_CONTROLLER_COPY_CFM, ''GW_CS_CONTROLLER_COPY_CFM''),
     (GW_CS_CONTROLLER_COPY_NTF, ''GW_CS_CONTROLLER_COPY_NTF''),
     (GW_CS_CONTROLLER_COPY_CANCEL_NTF, ''GW_CS_CONTROLLER_COPY_CANCEL_NTF''),
     (GW_CS_RECEIVE_KEY_REQ, ''GW_CS_RECEIVE_KEY_REQ''),
     (GW_CS_RECEIVE_KEY_CFM, ''GW_CS_RECEIVE_KEY_CFM''),
     (GW_CS_RECEIVE_KEY_NTF, ''GW_CS_RECEIVE_KEY_NTF''),
     (GW_CS_PGC_JOB_NTF, ''GW_CS_PGC_JOB_NTF''),
     (GW_CS_SYSTEM_TABLE_UPDATE_NTF, ''GW_CS_SYSTEM_TABLE_UPDATE_NTF''),
     (GW_CS_GENERATE_NEW_KEY_REQ, ''GW_CS_GENERATE_NEW_KEY_REQ''),
     (GW_CS_GENERATE_NEW_KEY_CFM, ''GW_CS_GENERATE_NEW_KEY_CFM''),
     (GW_CS_GENERATE_NEW_KEY_NTF, ''GW_CS_GENERATE_NEW_KEY_NTF''),
     (GW_CS_REPAIR_KEY_REQ, ''GW_CS_REPAIR_KEY_REQ''),
     (GW_CS_REPAIR_KEY_CFM, ''GW_CS_REPAIR_KEY_CFM''),
     (GW_CS_REPAID_KEY_NTF, ''GW_CS_REPAID_KEY_NTF''),
     (GW_CS_ACTIVATE_CONFIGURATION_MODE_REQ, ''GW_CS_ACTIVATE_CONFIGURATION_MODE_REQ''),
     (GW_CS_ACTIVATE_CONFIGURATION_MODE_CFM, ''GW_CS_ACTIVATE_CONFIGURATION_MODE_CFM''),
     (GW_GET_NODE_INFORMATION_REQ, ''GW_GET_NODE_INFORMATION_REQ''),
     (GW_GET_NODE_INFORMATION_CFM, ''GW_GET_NODE_INFORMATION_CFM''),
     (GW_GET_NODE_INFORMATION_NTF, ''GW_GET_NODE_INFORMATION_NTF''),
     (GW_GET_ALL_NODES_INFORMATION_REQ, ''GW_GET_ALL_NODES_INFORMATION_REQ''),
     (GW_GET_ALL_NODES_INFORMATION_CFM, ''GW_GET_ALL_NODES_INFORMATION_CFM''),
     (GW_GET_ALL_NODES_INFORMATION_NTF, ''GW_GET_ALL_NODES_INFORMATION_NTF''),
     (GW_GET_ALL_NODES_INFORMATION_FINISHED_NTF, ''GW_GET_ALL_NODES_INFORMATION_FINISHED_NTF''),
     (GW_SET_NODE_VARIATION_REQ, ''GW_SET_NODE_VARIATION_REQ''),
     (GW_SET_NODE_VARIATION_CFM, ''GW_SET_NODE_VARIATION_CFM''),
     (GW_SET_NODE_NAME_REQ, ''GW_SET_NODE_NAME_REQ''),
     (GW_SET_NODE_NAME_CFM, ''GW_SET_NODE_NAME_CFM''),
     (GW_SET_NODE_VELOCITY_REQ, ''GW_SET_NODE_VELOCITY_REQ''),
     (GW_SET_NODE_VELOCITY_CFM, ''GW_SET_NODE_VELOCITY_CFM''),
     (GW_NODE_INFORMATION_CHANGED_NTF, ''GW_NODE_INFORMATION_CHANGED_NTF''),
     (GW_NODE_STATE_POSITION_CHANGED_NTF, ''GW_NODE_STATE_POSITION_CHANGED_NTF''),
     (GW_SET_NODE_ORDER_AND_PLACEMENT_REQ, ''GW_SET_NODE_ORDER_AND_PLACEMENT_REQ''),
     (GW_SET_NODE_ORDER_AND_PLACEMENT_CFM, ''GW_SET_NODE_ORDER_AND_PLACEMENT_CFM''),
     (GW_GET_GROUP_INFORMATION_REQ, ''GW_GET_GROUP_INFORMATION_REQ''),
     (GW_GET_GROUP_INFORMATION_CFM, ''GW_GET_GROUP_INFORMATION_CFM''),
     (GW_GET_GROUP_INFORMATION_NTF, ''GW_GET_GROUP_INFORMATION_NTF''),
     (GW_SET_GROUP_INFORMATION_REQ, ''GW_SET_GROUP_INFORMATION_REQ''),
     (GW_SET_GROUP_INFORMATION_CFM, ''GW_SET_GROUP_INFORMATION_CFM''),
     (GW_GROUP_INFORMATION_CHANGED_NTF, ''GW_GROUP_INFORMATION_CHANGED_NTF''),
     (GW_DELETE_GROUP_REQ, ''GW_DELETE_GROUP_REQ''),
     (GW_DELETE_GROUP_CFM, ''GW_DELETE_GROUP_CFM''),
     (GW_NEW_GROUP_REQ, ''GW_NEW_GROUP_REQ''),
     (GW_NEW_GROUP_CFM, ''GW_NEW_GROUP_CFM''),
     (GW_GET_ALL_GROUPS_INFORMATION_REQ, ''GW_GET_ALL_GROUPS_INFORMATION_REQ''),
     (GW_GET_ALL_GROUPS_INFORMATION_CFM, ''GW_GET_ALL_GROUPS_INFORMATION_CFM''),
     (GW_GET_ALL_GROUPS_INFORMATION_NTF, ''GW_GET_ALL_GROUPS_INFORMATION_NTF''),
     (GW_GET_ALL_GROUPS_INFORMATION_FINISHED_NTF, ''GW_GET_ALL_GROUPS_INFORMATION_FINISHED_NTF''),
     (GW_GROUP_DELETED_NTF, ''GW_GROUP_DELETED_NTF''),
     (GW_HOUSE_STATUS_MONITOR_ENABLE_REQ, ''GW_HOUSE_STATUS_MONITOR_ENABLE_REQ''),
     (GW_HOUSE_STATUS_MONITOR_ENABLE_CFM, ''GW_HOUSE_STATUS_MONITOR_ENABLE_CFM''),
     (GW_HOUSE_STATUS_MONITOR_DISABLE_REQ, ''GW_HOUSE_STATUS_MONITOR_DISABLE_REQ''),
     (GW_HOUSE_STATUS_MONITOR_DISABLE_CFM, ''GW_HOUSE_STATUS_MONITOR_DISABLE_CFM''),
     (GW_COMMAND_SEND_REQ, ''GW_COMMAND_SEND_REQ''),
     (GW_COMMAND_SEND_CFM, ''GW_COMMAND_SEND_CFM''),
     (GW_COMMAND_RUN_STATUS_NTF, ''GW_COMMAND_RUN_STATUS_NTF''),
     (GW_COMMAND_REMAINING_TIME_NTF, ''GW_COMMAND_REMAINING_TIME_NTF''),
     (GW_SESSION_FINISHED_NTF, ''GW_SESSION_FINISHED_NTF''),
     (GW_STATUS_REQUEST_REQ, ''GW_STATUS_REQUEST_REQ''),
     (GW_STATUS_REQUEST_CFM, ''GW_STATUS_REQUEST_CFM''),
     (GW_STATUS_REQUEST_NTF, ''GW_STATUS_REQUEST_NTF''),
     (GW_WINK_SEND_REQ, ''GW_WINK_SEND_REQ''),
     (GW_WINK_SEND_CFM, ''GW_WINK_SEND_CFM''),
     (GW_WINK_SEND_NTF, ''GW_WINK_SEND_NTF''),
     (GW_SET_LIMITATION_REQ, ''GW_SET_LIMITATION_REQ''),
     (GW_SET_LIMITATION_CFM, ''GW_SET_LIMITATION_CFM''),
     (GW_GET_LIMITATION_STATUS_REQ, ''GW_GET_LIMITATION_STATUS_REQ''),
     (GW_GET_LIMITATION_STATUS_CFM, ''GW_GET_LIMITATION_STATUS_CFM''),
     (GW_LIMITATION_STATUS_NTF, ''GW_LIMITATION_STATUS_NTF''),
     (GW_MODE_SEND_REQ, ''GW_MODE_SEND_REQ''),
     (GW_MODE_SEND_CFM, ''GW_MODE_SEND_CFM''),
     (GW_MODE_SEND_NTF, ''GW_MODE_SEND_NTF''),
     (GW_INITIALIZE_SCENE_REQ, ''GW_INITIALIZE_SCENE_REQ''),
     (GW_INITIALIZE_SCENE_CFM, ''GW_INITIALIZE_SCENE_CFM''),
     (GW_INITIALIZE_SCENE_NTF, ''GW_INITIALIZE_SCENE_NTF''),
     (GW_INITIALIZE_SCENE_CANCEL_REQ, ''GW_INITIALIZE_SCENE_CANCEL_REQ''),
     (GW_INITIALIZE_SCENE_CANCEL_CFM, ''GW_INITIALIZE_SCENE_CANCEL_CFM''),
     (GW_RECORD_SCENE_REQ, ''GW_RECORD_SCENE_REQ''),
     (GW_RECORD_SCENE_CFM, ''GW_RECORD_SCENE_CFM''),
     (GW_RECORD_SCENE_NTF, ''GW_RECORD_SCENE_NTF''),
     (GW_DELETE_SCENE_REQ, ''GW_DELETE_SCENE_REQ''),
     (GW_DELETE_SCENE_CFM, ''GW_DELETE_SCENE_CFM''),
     (GW_RENAME_SCENE_REQ, ''GW_RENAME_SCENE_REQ''),
     (GW_RENAME_SCENE_CFM, ''GW_RENAME_SCENE_CFM''),
     (GW_GET_SCENE_LIST_REQ, ''GW_GET_SCENE_LIST_REQ''),
     (GW_GET_SCENE_LIST_CFM, ''GW_GET_SCENE_LIST_CFM''),
     (GW_GET_SCENE_LIST_NTF, ''GW_GET_SCENE_LIST_NTF''),
     (GW_GET_SCENE_INFORMATION_REQ, ''GW_GET_SCENE_INFORMATION_REQ''),
     (GW_GET_SCENE_INFORMATION_CFM, ''GW_GET_SCENE_INFORMATION_CFM''),
     (GW_GET_SCENE_INFORMATION_NTF, ''GW_GET_SCENE_INFORMATION_NTF''),
     (GW_ACTIVATE_SCENE_REQ, ''GW_ACTIVATE_SCENE_REQ''),
     (GW_ACTIVATE_SCENE_CFM, ''GW_ACTIVATE_SCENE_CFM''),
     (GW_STOP_SCENE_REQ, ''GW_STOP_SCENE_REQ''),
     (GW_STOP_SCENE_CFM, ''GW_STOP_SCENE_CFM''),
     (GW_SCENE_INFORMATION_CHANGED_NTF, ''GW_SCENE_INFORMATION_CHANGED_NTF''),
     (GW_ACTIVATE_PRODUCTGROUP_REQ, ''GW_ACTIVATE_PRODUCTGROUP_REQ''),
     (GW_ACTIVATE_PRODUCTGROUP_CFM, ''GW_ACTIVATE_PRODUCTGROUP_CFM''),
     (GW_ACTIVATE_PRODUCTGROUP_NTF, ''GW_ACTIVATE_PRODUCTGROUP_NTF''),
     (GW_GET_CONTACT_INPUT_LINK_LIST_REQ, ''GW_GET_CONTACT_INPUT_LINK_LIST_REQ''),
     (GW_GET_CONTACT_INPUT_LINK_LIST_CFM, ''GW_GET_CONTACT_INPUT_LINK_LIST_CFM''),
     (GW_SET_CONTACT_INPUT_LINK_REQ, ''GW_SET_CONTACT_INPUT_LINK_REQ''),
     (GW_SET_CONTACT_INPUT_LINK_CFM, ''GW_SET_CONTACT_INPUT_LINK_CFM''),
     (GW_REMOVE_CONTACT_INPUT_LINK_REQ, ''GW_REMOVE_CONTACT_INPUT_LINK_REQ''),
     (GW_REMOVE_CONTACT_INPUT_LINK_CFM, ''GW_REMOVE_CONTACT_INPUT_LINK_CFM''),
     (GW_GET_ACTIVATION_LOG_HEADER_REQ, ''GW_GET_ACTIVATION_LOG_HEADER_REQ''),
     (GW_GET_ACTIVATION_LOG_HEADER_CFM, ''GW_GET_ACTIVATION_LOG_HEADER_CFM''),
     (GW_CLEAR_ACTIVATION_LOG_REQ, ''GW_CLEAR_ACTIVATION_LOG_REQ''),
     (GW_CLEAR_ACTIVATION_LOG_CFM, ''GW_CLEAR_ACTIVATION_LOG_CFM''),
     (GW_GET_ACTIVATION_LOG_LINE_REQ, ''GW_GET_ACTIVATION_LOG_LINE_REQ''),
     (GW_GET_ACTIVATION_LOG_LINE_CFM, ''GW_GET_ACTIVATION_LOG_LINE_CFM''),
     (GW_ACTIVATION_LOG_UPDATED_NTF, ''GW_ACTIVATION_LOG_UPDATED_NTF''),
     (GW_GET_MULTIPLE_ACTIVATION_LOG_LINES_REQ, ''GW_GET_MULTIPLE_ACTIVATION_LOG_LINES_REQ''),
     (GW_GET_MULTIPLE_ACTIVATION_LOG_LINES_NTF, ''GW_GET_MULTIPLE_ACTIVATION_LOG_LINES_NTF''),
     (GW_GET_MULTIPLE_ACTIVATION_LOG_LINES_CFN, ''GW_GET_MULTIPLE_ACTIVATION_LOG_LINES_CFN''),
     (GW_SET_UTC_REQ, ''GW_SET_UTC_REQ''),
     (GW_SET_UTC_CFM, ''GW_SET_UTC_CFM''),
     (GW_RTC_SET_TIME_ZONE_REQ, ''GW_RTC_SET_TIME_ZONE_REQ''),
     (GW_RTC_SET_TIME_ZONE_CFM, ''GW_RTC_SET_TIME_ZONE_CFM''),
     (GW_GET_LOCAL_TIME_REQ, ''GW_GET_LOCAL_TIME_REQ''),
     (GW_GET_LOCAL_TIME_CFM, ''GW_GET_LOCAL_TIME_CFM''),
     (GW_PASSWORD_ENTER_REQ, ''GW_PASSWORD_ENTER_REQ''),
     (GW_PASSWORD_ENTER_CFM, ''GW_PASSWORD_ENTER_CFM''),
     (GW_PASSWORD_CHANGE_REQ, ''GW_PASSWORD_CHANGE_REQ''),
     (GW_PASSWORD_CHANGE_CFM, ''GW_PASSWORD_CHANGE_CFM''),
     (GW_PASSWORD_CHANGE_NTF, ''GW_PASSWORD_CHANGE_NTF'')]"

definition hex_digit :: "nat \<Rightarrow> char" where
  "hex_digit d = ''0123456789abcdef'' ! d"

fun FormatUint16 :: "nat \<Rightarrow> string" where
  "FormatUint16 n =
     (if n < 16 then [hex_digit n] else FormatUint16 (n div 16) @ [hex_digit (n mod 16)])"

declare FormatUint16.simps [simp del]

definition Command_String :: "u16 \<Rightarrow> string" where
  "Command_String c =
     (case map_of commandNames c of
        Some name \<Rightarrow> name
      | None \<Rightarrow> ''Command(0x'' @ FormatUint16 (unat c) @ '')'')"

section \<open>Enumerations\<close>

text \<open>\<open>type Originator uint8\<close>.\<close>

type_synonym Originator = byte
definition OriginatorUser :: Originator where [go_consts]: "OriginatorUser = 1"
definition OriginatorRain :: Originator where [go_consts]: "OriginatorRain = 2"
definition OriginatorTimer :: Originator where [go_consts]: "OriginatorTimer = 3"
definition OriginatorUPS :: Originator where [go_consts]: "OriginatorUPS = 5"
definition OriginatorSAAC :: Originator where [go_consts]: "OriginatorSAAC = 8"
definition OriginatorWind :: Originator where [go_consts]: "OriginatorWind = 9"
definition OriginatorLoadShedding :: Originator where [go_consts]: "OriginatorLoadShedding = 11"
definition OriginatorLocalLight :: Originator where [go_consts]: "OriginatorLocalLight = 12"
definition OriginatorUnspecificEnvironmentSensor :: Originator where [go_consts]: "OriginatorUnspecificEnvironmentSensor = 13"
definition OriginatorEmergency :: Originator where [go_consts]: "OriginatorEmergency = 255"

text \<open>\<open>type Priority uint8\<close>.\<close>

type_synonym Priority = byte
definition PriorityProtectionHuman :: Priority where [go_consts]: "PriorityProtectionHuman = 0"
definition PriorityProtectionEnvironment :: Priority where [go_consts]: "PriorityProtectionEnvironment = 1"
definition PriorityUserLevel1 :: Priority where [go_consts]: "PriorityUserLevel1 = 2"
definition PriorityUserLevel2 :: Priority where [go_consts]: "PriorityUserLevel2 = 3"
definition PriorityComfortLevel1 :: Priority where [go_consts]: "PriorityComfortLevel1 = 4"
definition PriorityComfortLevel2 :: Priority where [go_consts]: "PriorityComfortLevel2 = 5"
definition PriorityComfortLevel3 :: Priority where [go_consts]: "PriorityComfortLevel3 = 6"
definition PriorityComfortLevel4 :: Priority where [go_consts]: "PriorityComfortLevel4 = 7"

text \<open>\<open>type LockPriorityLevel uint8\<close>.\<close>

type_synonym LockPriorityLevel = byte
definition LockPriorityLevelNo :: LockPriorityLevel where [go_consts]: "LockPriorityLevelNo = 0"
definition LockPriorityLevelMin30 :: LockPriorityLevel where [go_consts]: "LockPriorityLevelMin30 = 1"
definition LockPriorityLevelForever :: LockPriorityLevel where [go_consts]: "LockPriorityLevelForever = 2"

text \<open>\<open>type Velocity uint8\<close>.\<close>

type_synonym Velocity = byte
definition VelocityDefault :: Velocity where [go_consts]: "VelocityDefault = 0"
definition VelocitySilent :: Velocity where [go_consts]: "VelocitySilent = 1"
definition VelocityFast :: Velocity where [go_consts]: "VelocityFast = 2"
definition VelocityNotAvailable :: Velocity where [go_consts]: "VelocityNotAvailable = 255"

text \<open>\<open>type NodeTypeWithSubtype uint16\<close>.\<close>

type_synonym NodeTypeWithSubtype = u16
definition NodeTypeWithSubtypeNoType :: NodeTypeWithSubtype where [go_consts]: "NodeTypeWithSubtypeNoType = 0"
definition NodeTypeWithSubtypeInteriorVenetianBlind :: NodeTypeWithSubtype where [go_consts]: "NodeTypeWithSubtypeInteriorVenetianBlind = 0x0040"
definition NodeTypeWithSubtypeRollerShutter :: NodeTypeWithSubtype where [go_consts]: "NodeTypeWithSubtypeRollerShutter = 0x0080"
definition NodeTypeWithSubtypeAdjustableSlutsRollingShutter :: NodeTypeWithSubtype where [go_consts]: "NodeTypeWithSubtypeAdjustableSlutsRollingShutter = 0x0081"
definition NodeTypeWithSubtypeAdjustableSlutsRollingShutterWithProjection :: NodeTypeWithSubtype where [go_consts]: "NodeTypeWithSubtypeAdjustableSlutsRollingShutterWithProjection = 0x0082"
definition NodeTypeWithSubtypeVerticalExteriorAwning :: NodeTypeWithSubtype where [go_consts]: "NodeTypeWithSubtypeVerticalExteriorAwning = 0x00C0"
definition NodeTypeWithSubtypeWindowOpener :: NodeTypeWithSubtype where [go_consts]: "NodeTypeWithSubtypeWindowOpener = 0x0100"
definition NodeTypeWithSubtypeWindowOpenerWithRainSensor :: NodeTypeWithSubtype where [go_consts]: "NodeTypeWithSubtypeWindowOpenerWithRainSensor = 0x0101"
definition NodeTypeWithSubtypeGarageDoorOpener :: NodeTypeWithSubtype where [go_consts]: "NodeTypeWithSubtypeGarageDoorOpener = 0x0140"
definition NodeTypeWithSubtypeLinarAngularPositionOfGarageDoor :: NodeTypeWithSubtype where [go_consts]: "NodeTypeWithSubtypeLinarAngularPositionOfGarageDoor = 0x017A"
definition NodeTypeWithSubtypeLight :: NodeTypeWithSubtype where [go_consts]: "NodeTypeWithSubtypeLight = 0x0180"
definition NodeTypeWithSubtypeLightOnOff :: NodeTypeWithSubtype where [go_consts]: "NodeTypeWithSubtypeLightOnOff = 0x01BA"
definition NodeTypeWithSubtypeGateOpener :: NodeTypeWithSubtype where [go_consts]: "NodeTypeWithSubtypeGateOpener = 0x01C0"
definition NodeTypeWithSubtypeGateOpenerAngularPosition :: NodeTypeWithSubtype where [go_consts]: "NodeTypeWithSubtypeGateOpenerAngularPosition = 0x01FA"
definition NodeTypeWithSubtypeDoorLock :: NodeTypeWithSubtype where [go_consts]: "NodeTypeWithSubtypeDoorLock = 0x0240"
definition NodeTypeWithSubtypeWindowLock :: NodeTypeWithSubtype where [go_consts]: "NodeTypeWithSubtypeWindowLock = 0x0241"
definition NodeTypeWithSubtypeVerticalInteriorBlinds :: NodeTypeWithSubtype where [go_consts]: "NodeTypeWithSubtypeVerticalInteriorBlinds = 0x0280"
definition NodeTypeWithSubtypeDualRollerShutter :: NodeTypeWithSubtype where [go_consts]: "NodeTypeWithSubtypeDualRollerShutter = 0x0340"
definition NodeTypeWithSubtypeOnOffSwitch :: NodeTypeWithSubtype where [go_consts]: "NodeTypeWithSubtypeOnOffSwitch = 0x03C0"
definition NodeTypeWithSubtypeHorizontalAwning :: NodeTypeWithSubtype where [go_consts]: "NodeTypeWithSubtypeHorizontalAwning = 0x0400"
definition NodeTypeWithSubtypeExteriorVenetianBlind :: NodeTypeWithSubtype where [go_consts]: "NodeTypeWithSubtypeExteriorVenetianBlind = 0x0440"
definition NodeTypeWithSubtypeLouverBlind :: NodeTypeWithSubtype where [go_consts]: "NodeTypeWithSubtypeLouverBlind = 0x0480"
definition NodeTypeWithSubtypeCurtainTrack :: NodeTypeWithSubtype where [go_consts]: "NodeTypeWithSubtypeCurtainTrack = 0x04C0"
definition NodeTypeWithSubtypeVentilationPoint :: NodeTypeWithSubtype where [go_consts]: "NodeTypeWithSubtypeVentilationPoint = 0x0500"
definition NodeTypeWithSubtypeVentilationPointAirInlet :: NodeTypeWithSubtype where [go_consts]: "NodeTypeWithSubtypeVentilationPointAirInlet = 0x0502"
definition NodeTypeWithSubtypeVentilationPointAirTransfer :: NodeTypeWithSubtype where [go_consts]: "NodeTypeWithSubtypeVentilationPointAirTransfer = 0x0503"
definition NodeTypeWithSubtypeVentilationPointAirOutlet :: NodeTypeWithSubtype where [go_consts]: "NodeTypeWithSubtypeVentilationPointAirOutlet = 0x0503"
definition NodeTypeWithSubtypeExteriorHeating :: NodeTypeWithSubtype where [go_consts]: "NodeTypeWithSubtypeExteriorHeating = 0x0540"
definition NodeTypeWithSubtypeSwingingShutters :: NodeTypeWithSubtype where [go_consts]: "NodeTypeWithSubtypeSwingingShutters = 0x0600"
definition NodeTypeWithSubtypeSwingingShutterWithIndependentLeaves :: NodeTypeWithSubtype where [go_consts]: "NodeTypeWithSubtypeSwingingShutterWithIndependentLeaves = 0x0601"
definition NodeTypeWithSubtypeBladeOpener :: NodeTypeWithSubtype where [go_consts]: "NodeTypeWithSubtypeBladeOpener = 0x0740"

text \<open>\<open>type NodeType uint8\<close>.\<close>

type_synonym NodeType = byte
definition NodeTypeNoType :: NodeType where [go_consts]: "NodeTypeNoType = 0"
definition NodeTypeVenetianBlind :: NodeType where [go_consts]: "NodeTypeVenetianBlind = 1"
definition NodeTypeRollerShutter :: NodeType where [go_consts]: "NodeTypeRollerShutter = 2"
definition NodeTypeAwning :: NodeType where [go_consts]: "NodeTypeAwning = 3"
definition NodeTypeWindowOpener :: NodeType where [go_consts]: "NodeTypeWindowOpener = 4"
definition NodeTypeGarageOpener :: NodeType where [go_consts]: "NodeTypeGarageOpener = 5"
definition NodeTypeLight :: NodeType where [go_consts]: "NodeTypeLight = 6"
definition NodeTypeGateOpener :: NodeType where [go_consts]: "NodeTypeGateOpener = 7"
definition NodeTypeRollingDoorOpener :: NodeType where [go_consts]: "NodeTypeRollingDoorOpener = 8"
definition NodeTypeLock :: NodeType where [go_consts]: "NodeTypeLock = 9"
definition NodeTypeBlind :: NodeType where [go_consts]: "NodeTypeBlind = 10"
definition NodeTypeSecureConfigurationDevice :: NodeType where [go_consts]: "NodeTypeSecureConfigurationDevice = 11"
definition NodeTypeBeacon :: NodeType where [go_consts]: "NodeTypeBeacon = 12"
definition NodeTypeDualShutter :: NodeType where [go_consts]: "NodeTypeDualShutter = 13"
definition NodeTypeHeatingTemperatureInterface :: NodeType where [go_consts]: "NodeTypeHeatingTemperatureInterface = 14"
definition NodeTypeOnOffSwitch :: NodeType where [go_consts]: "NodeTypeOnOffSwitch = 15"
definition NodeTypeHorizontalAwning :: NodeType where [go_consts]: "NodeTypeHorizontalAwning = 16"
definition NodeTypeExternalVenetianBlind :: NodeType where [go_consts]: "NodeTypeExternalVenetianBlind = 17"
definition NodeTypeLouvreBlint :: NodeType where [go_consts]: "NodeTypeLouvreBlint = 18"
definition NodeTypeCurtainTrack :: NodeType where [go_consts]: "NodeTypeCurtainTrack = 19"
definition NodeTypeVentilationPoint :: NodeType where [go_consts]: "NodeTypeVentilationPoint = 20"
definition NodeTypeExteriorHeating :: NodeType where [go_consts]: "NodeTypeExteriorHeating = 21"
definition NodeTypeHeatPump :: NodeType where [go_consts]: "NodeTypeHeatPump = 22"
definition NodeTypeIntrusionAlarm :: NodeType where [go_consts]: "NodeTypeIntrusionAlarm = 23"
definition NodeTypeSwingingShutter :: NodeType where [go_consts]: "NodeTypeSwingingShutter = 24"

text \<open>\<open>type NodeVariation uint8\<close>.\<close>

type_synonym NodeVariation = byte
definition NodeVariationNotSet :: NodeVariation where [go_consts]: "NodeVariationNotSet = 0"
definition NodeVariationTophung :: NodeVariation where [go_consts]: "NodeVariationTophung = 1"
definition NodeVariationKip :: NodeVariation where [go_consts]: "NodeVariationKip = 2"
definition NodeVariationFlatRoot :: NodeVariation where [go_consts]: "NodeVariationFlatRoot = 3"
definition NodeVariationSkyLight :: NodeVariation where [go_consts]: "NodeVariationSkyLight = 3"

text \<open>\<open>type DHCPParameter uint8\<close>.\<close>

type_synonym DHCPParameter = byte
definition DHCPParameterDisable :: DHCPParameter where [go_consts]: "DHCPParameterDisable = 0x00"
definition DHCPParameterEnable :: DHCPParameter where [go_consts]: "DHCPParameterEnable = 0x01"

text \<open>\<open>type GatewayState uint8\<close>.\<close>

type_synonym GatewayState = byte
definition GatewayStateTestMode :: GatewayState where [go_consts]: "GatewayStateTestMode = 0"
definition GatewayStateGatewayModeNoActuator :: GatewayState where [go_consts]: "GatewayStateGatewayModeNoActuator = 1"
definition GatewayStateGatewayModeWithActuators :: GatewayState where [go_consts]: "GatewayStateGatewayModeWithActuators = 2"
definition GatewayStateBeaconModeNotConfigured :: GatewayState where [go_consts]: "GatewayStateBeaconModeNotConfigured = 3"
definition GatewayStateBeaconModeConfigured :: GatewayState where [go_consts]: "GatewayStateBeaconModeConfigured = 4"

text \<open>\<open>type GatewaySubState uint8\<close>.\<close>

type_synonym GatewaySubState = byte
definition GatewaySubStateIdle :: GatewaySubState where [go_consts]: "GatewaySubStateIdle = 0x00"
definition GatewaySubStatePerformingTaskConfigurationServiceHandler :: GatewaySubState where [go_consts]: "GatewaySubStatePerformingTaskConfigurationServiceHandler = 0x01"
definition GatewaySubStatePerformingTaskSceneConfiguration :: GatewaySubState where [go_consts]: "GatewaySubStatePerformingTaskSceneConfiguration = 0x02"
definition GatewaySubStatePerformingTaskInformationServiceConfiguration :: GatewaySubState where [go_consts]: "GatewaySubStatePerformingTaskInformationServiceConfiguration = 0x03"
definition GatewaySubStatePerformingTaskContactInputConfiguration :: GatewaySubState where [go_consts]: "GatewaySubStatePerformingTaskContactInputConfiguration = 0x04"
definition GatewaySubStatePerformingTaskCommand :: GatewaySubState where [go_consts]: "GatewaySubStatePerformingTaskCommand = 0x80"
definition GatewaySubStatePerformingTaskActivateGroup :: GatewaySubState where [go_consts]: "GatewaySubStatePerformingTaskActivateGroup = 0x81"
definition GatewaySubStatePerformingTaskActivateScene :: GatewaySubState where [go_consts]: "GatewaySubStatePerformingTaskActivateScene = 0x82"
definition GatewaySubStateReserved132 :: GatewaySubState where [go_consts]: "GatewaySubStateReserved132 = 0x84"

text \<open>\<open>type LeaveLearnStateConfirmationStatus uint8\<close>.\<close>

type_synonym LeaveLearnStateConfirmationStatus = byte
definition LeaveLearnStateConfirmationStatusFailed :: LeaveLearnStateConfirmationStatus where [go_consts]: "LeaveLearnStateConfirmationStatusFailed = 0"
definition LeaveLearnStateConfirmationStatusSuccessful :: LeaveLearnStateConfirmationStatus where [go_consts]: "LeaveLearnStateConfirmationStatusSuccessful = 1"

text \<open>\<open>type ErrorNumber uint8\<close>.\<close>

type_synonym ErrorNumber = byte
definition ErrorNumberUndefined :: ErrorNumber where [go_consts]: "ErrorNumberUndefined = 0"
definition ErrorNumberWrongCommand :: ErrorNumber where [go_consts]: "ErrorNumberWrongCommand = 1"
definition ErrorNumberFrameError :: ErrorNumber where [go_consts]: "ErrorNumberFrameError = 2"
definition ErrorNumberBusy :: ErrorNumber where [go_consts]: "ErrorNumberBusy = 7"
definition ErrorNumberBadSystableIndex :: ErrorNumber where [go_consts]: "ErrorNumberBadSystableIndex = 8"
definition ErrorNumberNoAuth :: ErrorNumber where [go_consts]: "ErrorNumberNoAuth = 12"

text \<open>\<open>type ControllerCopyMode uint8\<close>.\<close>

type_synonym ControllerCopyMode = byte
definition ControllerCopyModeTCM :: ControllerCopyMode where [go_consts]: "ControllerCopyModeTCM = 0"
definition ControllerCopyModeRCM :: ControllerCopyMode where [go_consts]: "ControllerCopyModeRCM = 1"

text \<open>\<open>type ControllerCopyStatus uint8\<close>.\<close>

type_synonym ControllerCopyStatus = byte
definition ControllerCopyStatusOK :: ControllerCopyStatus where [go_consts]: "ControllerCopyStatusOK = 0"
definition ControllerCopyStatusFailedTransfer :: ControllerCopyStatus where [go_consts]: "ControllerCopyStatusFailedTransfer = 1"
definition ControllerCopyStatusCancelled :: ControllerCopyStatus where [go_consts]: "ControllerCopyStatusCancelled = 4"
definition ControllerCopyStatusFailedTimeout :: ControllerCopyStatus where [go_consts]: "ControllerCopyStatusFailedTimeout = 5"
definition ControllerCopyStatusFailedNotReady :: ControllerCopyStatus where [go_consts]: "ControllerCopyStatusFailedNotReady = 11"

text \<open>\<open>type ChangeKeyStatus uint8\<close>.\<close>

type_synonym ChangeKeyStatus = byte
definition ChangeKeyStatusOKController :: ChangeKeyStatus where [go_consts]: "ChangeKeyStatusOKController = 0"
definition ChangeKeyStatusOKAll :: ChangeKeyStatus where [go_consts]: "ChangeKeyStatusOKAll = 2"
definition ChangeKeyStatusOKPartially :: ChangeKeyStatus where [go_consts]: "ChangeKeyStatusOKPartially = 3"
definition ChangeKeyStatusOKReceived :: ChangeKeyStatus where [go_consts]: "ChangeKeyStatusOKReceived = 5"
definition ChangeKeyStatusFailedNotDisabled :: ChangeKeyStatus where [go_consts]: "ChangeKeyStatusFailedNotDisabled = 7"
definition ChangeKeyStatusFailedNoController :: ChangeKeyStatus where [go_consts]: "ChangeKeyStatusFailedNoController = 9"
definition ChangeKeyStatusFailedDTSNotReady :: ChangeKeyStatus where [go_consts]: "ChangeKeyStatusFailedDTSNotReady = 10"
definition ChangeKeyStatusFailedDTSError :: ChangeKeyStatus where [go_consts]: "ChangeKeyStatusFailedDTSError = 11"
definition ChangeKeyStatusFailedCSNotReady :: ChangeKeyStatus where [go_consts]: "ChangeKeyStatusFailedCSNotReady = 16"

text \<open>\<open>type PgcJobState uint8\<close>.\<close>

type_synonym PgcJobState = byte
definition PgcJobStateStarted :: PgcJobState where [go_consts]: "PgcJobStateStarted = 0"
definition PgcJobStateEnded :: PgcJobState where [go_consts]: "PgcJobStateEnded = 1"
definition PgcJobStateCSBusy :: PgcJobState where [go_consts]: "PgcJobStateCSBusy = 2"

text \<open>\<open>type PgcJobStatus uint8\<close>.\<close>

type_synonym PgcJobStatus = byte
definition PgcJobStatusOK :: PgcJobStatus where [go_consts]: "PgcJobStatusOK = 0"
definition PgcJobStatusOKPartially :: PgcJobStatus where [go_consts]: "PgcJobStatusOKPartially = 1"
definition PgcJobStatusFailedPGCCS :: PgcJobStatus where [go_consts]: "PgcJobStatusFailedPGCCS = 2"
definition PgcJobStatusFailed :: PgcJobStatus where [go_consts]: "PgcJobStatusFailed = 3"

text \<open>\<open>type PgcJobType uint8\<close>.\<close>

type_synonym PgcJobType = byte
definition PgcJobTypeReceiveOnly :: PgcJobType where [go_consts]: "PgcJobTypeReceiveOnly = 0"
definition PgcJobTypeReceiveDistribute :: PgcJobType where [go_consts]: "PgcJobTypeReceiveDistribute = 1"
definition PgcJobTypeTransmit :: PgcJobType where [go_consts]: "PgcJobTypeTransmit = 2"
definition PgcJobTypeGenerate :: PgcJobType where [go_consts]: "PgcJobTypeGenerate = 3"

text \<open>\<open>type DiscoverStatus uint8\<close>.\<close>

type_synonym DiscoverStatus = byte
definition DiscoverStatusOK :: DiscoverStatus where [go_consts]: "DiscoverStatusOK = 0"
definition DiscoverStatusFailedCSNotReady :: DiscoverStatus where [go_consts]: "DiscoverStatusFailedCSNotReady = 5"
definition DiscoverStatusOKPartially :: DiscoverStatus where [go_consts]: "DiscoverStatusOKPartially = 6"
definition DiscoverStatusFailedCSBusy :: DiscoverStatus where [go_consts]: "DiscoverStatusFailedCSBusy = 7"

text \<open>\<open>type PowerMode uint8\<close>.\<close>

type_synonym PowerMode = byte
definition PowerModeAlwaysAlive :: PowerMode where [go_consts]: "PowerModeAlwaysAlive = 0"
definition PowerModeLowPowerMode :: PowerMode where [go_consts]: "PowerModeLowPowerMode = 1"

text \<open>\<open>type ChangeType uint8\<close>.\<close>

type_synonym ChangeType = byte
definition ChangeTypeDeleted :: ChangeType where [go_consts]: "ChangeTypeDeleted = 0"
definition ChangeTypeModified :: ChangeType where [go_consts]: "ChangeTypeModified = 1"

text \<open>\<open>type ContactInputAssignement uint8\<close>.\<close>

type_synonym ContactInputAssignement = byte
definition ContactInputAssignementNotAssinged :: ContactInputAssignement where [go_consts]: "ContactInputAssignementNotAssinged = 0"
definition ContactInputAssignementScene :: ContactInputAssignement where [go_consts]: "ContactInputAssignementScene = 1"
definition ContactInputAssignementProductGroup :: ContactInputAssignement where [go_consts]: "ContactInputAssignementProductGroup = 2"
definition ContactInputAssignementByMode :: ContactInputAssignement where [go_consts]: "ContactInputAssignementByMode = 3"

text \<open>\<open>type OutputID uint8\<close>.\<close>

type_synonym OutputID = byte
definition OutputIDDontSend :: OutputID where [go_consts]: "OutputIDDontSend = 0"
definition OutputIDPulsePort1 :: OutputID where [go_consts]: "OutputIDPulsePort1 = 1"
definition OutputIDPulsePort2 :: OutputID where [go_consts]: "OutputIDPulsePort2 = 2"
definition OutputIDPulsePort3 :: OutputID where [go_consts]: "OutputIDPulsePort3 = 3"
definition OutputIDPulsePort4 :: OutputID where [go_consts]: "OutputIDPulsePort4 = 4"
definition OutputIDPulsePort5 :: OutputID where [go_consts]: "OutputIDPulsePort5 = 5"

text \<open>\<open>type GroupType uint8\<close>.\<close>

type_synonym GroupType = byte
definition GroupTypeUserGroup :: GroupType where [go_consts]: "GroupTypeUserGroup = 0"
definition GroupTypeRoom :: GroupType where [go_consts]: "GroupTypeRoom = 1"
definition GroupTypeHouse :: GroupType where [go_consts]: "GroupTypeHouse = 2"
definition GroupTypeAllGroup :: GroupType where [go_consts]: "GroupTypeAllGroup = 3"

text \<open>\<open>type LimitationTimer uint8\<close>.\<close>

type_synonym LimitationTimer = byte
definition LimitationTimerBySeconds :: LimitationTimer where [go_consts]: "LimitationTimerBySeconds = 1"
definition LimitationTimerUnlimited :: LimitationTimer where [go_consts]: "LimitationTimerUnlimited = 253"
definition LimitationTimerClearMaster :: LimitationTimer where [go_consts]: "LimitationTimerClearMaster = 254"
definition LimitationTimerClearAll :: LimitationTimer where [go_consts]: "LimitationTimerClearAll = 255"

text \<open>\<open>type LimitationType uint8\<close>.\<close>

type_synonym LimitationType = byte
definition LimitationTypeMinLimitation :: LimitationType where [go_consts]: "LimitationTypeMinLimitation = 0"
definition LimitationTypeMaxLimitation :: LimitationType where [go_consts]: "LimitationTypeMaxLimitation = 1"

text \<open>\<open>type LockTime uint8\<close>.\<close>

type_synonym LockTime = byte
definition LockTimeBySeconds :: LockTime where [go_consts]: "LockTimeBySeconds = 1"
definition LockTimeUnlimited :: LockTime where [go_consts]: "LockTimeUnlimited = 255"

text \<open>\<open>type WinkTime uint8\<close>.\<close>

type_synonym WinkTime = byte
definition WinkTimeStop :: WinkTime where [go_consts]: "WinkTimeStop = 0"
definition WinkTimeBySeconds :: WinkTime where [go_consts]: "WinkTimeBySeconds = 1"
definition WinkTimeByManufactuerer :: WinkTime where [go_consts]: "WinkTimeByManufactuerer = 254"
definition WinkTimeForever :: WinkTime where [go_consts]: "WinkTimeForever = 255"

text \<open>\<open>type NodeParameter uint8\<close>.\<close>

type_synonym NodeParameter = byte
definition NodeParameterMP :: NodeParameter where [go_consts]: "NodeParameterMP = 0x00"
definition NodeParameterFP1 :: NodeParameter where [go_consts]: "NodeParameterFP1 = 0x01"
definition NodeParameterFP2 :: NodeParameter where [go_consts]: "NodeParameterFP2 = 0x02"
definition NodeParameterFP3 :: NodeParameter where [go_consts]: "NodeParameterFP3 = 0x03"
definition NodeParameterFP4 :: NodeParameter where [go_consts]: "NodeParameterFP4 = 0x04"
definition NodeParameterFP5 :: NodeParameter where [go_consts]: "NodeParameterFP5 = 0x05"
definition NodeParameterFP6 :: NodeParameter where [go_consts]: "NodeParameterFP6 = 0x06"
definition NodeParameterFP7 :: NodeParameter where [go_consts]: "NodeParameterFP7 = 0x07"
definition NodeParameterFP8 :: NodeParameter where [go_consts]: "NodeParameterFP8 = 0x08"
definition NodeParameterFP9 :: NodeParameter where [go_consts]: "NodeParameterFP9 = 0x09"
definition NodeParameterFP10 :: NodeParameter where [go_consts]: "NodeParameterFP10 = 0x0A"
definition NodeParameterFP11 :: NodeParameter where [go_consts]: "NodeParameterFP11 = 0x0B"
definition NodeParameterFP12 :: NodeParameter where [go_consts]: "NodeParameterFP12 = 0x0C"
definition NodeParameterFP13 :: NodeParameter where [go_consts]: "NodeParameterFP13 = 0x0D"
definition NodeParameterFP14 :: NodeParameter where [go_consts]: "NodeParameterFP14 = 0x0E"
definition NodeParameterFP15 :: NodeParameter where [go_consts]: "NodeParameterFP15 = 0x0F"
definition NodeParameterFP16 :: NodeParameter where [go_consts]: "NodeParameterFP16 = 0x10"
definition NodeParameterNotUsed :: NodeParameter where [go_consts]: "NodeParameterNotUsed = 0xFF"

text \<open>\<open>type OperatingState uint8\<close>.\<close>

type_synonym OperatingState = byte
definition OperatingStateNonExecuting :: OperatingState where [go_consts]: "OperatingStateNonExecuting = 0"
definition OperatingStateErrorExecuting :: OperatingState where [go_consts]: "OperatingStateErrorExecuting = 1"
definition OperatingStateNotUsed :: OperatingState where [go_consts]: "OperatingStateNotUsed = 2"
definition OperatingStateWaitForPower :: OperatingState where [go_consts]: "OperatingStateWaitForPower = 3"
definition OperatingStateExecuting :: OperatingState where [go_consts]: "OperatingStateExecuting = 4"
definition OperatingStateDone :: OperatingState where [go_consts]: "OperatingStateDone = 5"
definition OperatingStateUnknown :: OperatingState where [go_consts]: "OperatingStateUnknown = 255"

text \<open>\<open>type StatusReply uint8\<close>.\<close>

type_synonym StatusReply = byte
definition StatusReplyUnknownStatusReply :: StatusReply where [go_consts]: "StatusReplyUnknownStatusReply = 0x00"
definition StatusReplyCommandCompletedOK :: StatusReply where [go_consts]: "StatusReplyCommandCompletedOK = 0x01"
definition StatusReplyNoContact :: StatusReply where [go_consts]: "StatusReplyNoContact = 0x02"
definition StatusReplyManuallyOperated :: StatusReply where [go_consts]: "StatusReplyManuallyOperated = 0x03"
definition StatusReplyBlocked :: StatusReply where [go_consts]: "StatusReplyBlocked = 0x04"
definition StatusReplyWrongSystemkey :: StatusReply where [go_consts]: "StatusReplyWrongSystemkey = 0x05"
definition StatusReplyPriorityLevelLocked :: StatusReply where [go_consts]: "StatusReplyPriorityLevelLocked = 0x06"
definition StatusReplyReachedWrongPosition :: StatusReply where [go_consts]: "StatusReplyReachedWrongPosition = 0x07"
definition StatusReplyErrorDuringExecution :: StatusReply where [go_consts]: "StatusReplyErrorDuringExecution = 0x08"
definition StatusReplyNoExecution :: StatusReply where [go_consts]: "StatusReplyNoExecution = 0x09"
definition StatusReplyCalibrating :: StatusReply where [go_consts]: "StatusReplyCalibrating = 0x0A"
definition StatusReplyPowerConsumptionTooHigh :: StatusReply where [go_consts]: "StatusReplyPowerConsumptionTooHigh = 0x0B"
definition StatusReplyPowerConsumptionTooLow :: StatusReply where [go_consts]: "StatusReplyPowerConsumptionTooLow = 0x0C"
definition StatusReplyLockPositionOpen :: StatusReply where [go_consts]: "StatusReplyLockPositionOpen = 0x0D"
definition StatusReplyMotionTimeTooLongCommunicationEnded :: StatusReply where [go_consts]: "StatusReplyMotionTimeTooLongCommunicationEnded = 0x0E"
definition StatusReplyThermalProtection :: StatusReply where [go_consts]: "StatusReplyThermalProtection = 0x0F"
definition StatusReplyProductNotOperational :: StatusReply where [go_consts]: "StatusReplyProductNotOperational = 0x10"
definition StatusReplyFilterMaintenanceNeeded :: StatusReply where [go_consts]: "StatusReplyFilterMaintenanceNeeded = 0x11"
definition StatusReplyBatteryLevel :: StatusReply where [go_consts]: "StatusReplyBatteryLevel = 0x12"
definition StatusReplyTargetModified :: StatusReply where [go_consts]: "StatusReplyTargetModified = 0x13"
definition StatusReplyModeNotImplemented :: StatusReply where [go_consts]: "StatusReplyModeNotImplemented = 0x14"
definition StatusReplyCommandIncompatibleToMovement :: StatusReply where [go_consts]: "StatusReplyCommandIncompatibleToMovement = 0x15"
definition StatusReplyUserAction :: StatusReply where [go_consts]: "StatusReplyUserAction = 0x16"
definition StatusReplyDeadBoltError :: StatusReply where [go_consts]: "StatusReplyDeadBoltError = 0x17"
definition StatusReplyAutomaticCycleEngaged :: StatusReply where [go_consts]: "StatusReplyAutomaticCycleEngaged = 0x18"
definition StatusReplyWrongLoadConnected :: StatusReply where [go_consts]: "StatusReplyWrongLoadConnected = 0x19"
definition StatusReplyColourNotReachable :: StatusReply where [go_consts]: "StatusReplyColourNotReachable = 0x1A"
definition StatusReplyTargetNotReachable :: StatusReply where [go_consts]: "StatusReplyTargetNotReachable = 0x1B"
definition StatusReplyBadIndexReceived :: StatusReply where [go_consts]: "StatusReplyBadIndexReceived = 0x1C"
definition StatusReplyCommandOverruled :: StatusReply where [go_consts]: "StatusReplyCommandOverruled = 0x1D"
definition StatusReplyNodeWaitingForPower :: StatusReply where [go_consts]: "StatusReplyNodeWaitingForPower = 0x1E"
definition StatusReplyInformationCode :: StatusReply where [go_consts]: "StatusReplyInformationCode = 0xDF"
definition StatusReplyParameterLimited :: StatusReply where [go_consts]: "StatusReplyParameterLimited = 0xE0"
definition StatusReplyLimitationByLocalUser :: StatusReply where [go_consts]: "StatusReplyLimitationByLocalUser = 0xE1"
definition StatusReplyLimitationByUser :: StatusReply where [go_consts]: "StatusReplyLimitationByUser = 0xE2"
definition StatusReplyLimitationByRain :: StatusReply where [go_consts]: "StatusReplyLimitationByRain = 0xE3"
definition StatusReplyLimitationByTimer :: StatusReply where [go_consts]: "StatusReplyLimitationByTimer = 0xE4"
definition StatusReplyLimitationByUPS :: StatusReply where [go_consts]: "StatusReplyLimitationByUPS = 0xE6"
definition StatusReplyLimitationByUnknownDevice :: StatusReply where [go_consts]: "StatusReplyLimitationByUnknownDevice = 0xE7"
definition StatusReplyLimitationBySAAC :: StatusReply where [go_consts]: "StatusReplyLimitationBySAAC = 0xEA"
definition StatusReplyLimitationByWind :: StatusReply where [go_consts]: "StatusReplyLimitationByWind = 0xEB"
definition StatusReplyLimitationByMyself :: StatusReply where [go_consts]: "StatusReplyLimitationByMyself = 0xEC"
definition StatusReplyLimitationByAutomaticCycle :: StatusReply where [go_consts]: "StatusReplyLimitationByAutomaticCycle = 0xED"
definition StatusReplyLimitationByEmergency :: StatusReply where [go_consts]: "StatusReplyLimitationByEmergency = 0xEE"

text \<open>\<open>type StatusId uint8\<close>.\<close>

type_synonym StatusId = byte
definition StatusIdStatusUser :: StatusId where [go_consts]: "StatusIdStatusUser = 0x01"
definition StatusIdStatusRain :: StatusId where [go_consts]: "StatusIdStatusRain = 0x02"
definition StatusIdStatusTimer :: StatusId where [go_consts]: "StatusIdStatusTimer = 0x03"
definition StatusIdStatusUPS :: StatusId where [go_consts]: "StatusIdStatusUPS = 0x05"
definition StatusIdStatusProgram :: StatusId where [go_consts]: "StatusIdStatusProgram = 0x08"
definition StatusIdStatusWind :: StatusId where [go_consts]: "StatusIdStatusWind = 0x09"
definition StatusIdStatusMyself :: StatusId where [go_consts]: "StatusIdStatusMyself = 0x0A"
definition StatusIdStatusAutomaticCycle :: StatusId where [go_consts]: "StatusIdStatusAutomaticCycle = 0x0B"
definition StatusIdStatusEmergency :: StatusId where [go_consts]: "StatusIdStatusEmergency = 0x0C"
definition StatusIdStatusUnknown :: StatusId where [go_consts]: "StatusIdStatusUnknown = 0xFF"

text \<open>\<open>type RunStatus uint8\<close>.\<close>

type_synonym RunStatus = byte
definition RunStatusExecutionCompleted :: RunStatus where [go_consts]: "RunStatusExecutionCompleted = 0"
definition RunStatusExecutionFailed :: RunStatus where [go_consts]: "RunStatusExecutionFailed = 1"
definition RunStatusExecutionActive :: RunStatus where [go_consts]: "RunStatusExecutionActive = 2"

text \<open>\<open>type StatusType uint8\<close>.\<close>

type_synonym StatusType = byte
definition StatusTypeRequestTargetPosition :: StatusType where [go_consts]: "StatusTypeRequestTargetPosition = 0"
definition StatusTypeRequestCurrentPosition :: StatusType where [go_consts]: "StatusTypeRequestCurrentPosition = 1"
definition StatusTypeRequestRemainingTime :: StatusType where [go_consts]: "StatusTypeRequestRemainingTime = 2"
definition StatusTypeRequestMainInfo :: StatusType where [go_consts]: "StatusTypeRequestMainInfo = 3"

section \<open>The command table\<close>

text \<open>
  Go rejects a map literal with a key twice; that the codes are distinct is checked here by
  sorting them, which needs few comparisons because the table is nearly in order.
\<close>

lemma sorted_wrt_less_pair:
  "sorted_wrt (<) (x # y # zs) \<longleftrightarrow> x < y \<and> sorted_wrt (<) (y # zs)" for x y :: "'a :: linorder"
  by (rule sorted_wrt2) (rule transp_on_less)

lemma distinct_if_sort_strict: "sorted_wrt (<) (sort xs) \<Longrightarrow> distinct xs"
  using strict_sorted_iff [of "sort xs"] by simp

lemma commandNames_distinct: "distinct (map fst commandNames)"
proof -
  have "sorted_wrt (<) (sort (map unat (map fst commandNames)))"
    by (simp add: commandNames_def go_consts sorted_wrt_less_pair sorted_wrt1 sort_key_def
        del: sorted_wrt.simps(2))
  then have "distinct (map unat (map fst commandNames))"
    by (rule distinct_if_sort_strict)
  then show ?thesis by (simp only: distinct_map)
qed

end
