(* ===== verification/Framing.thy ===== *)
theory Framing
  imports Slip Const
begin

text \<open>
  \<^verbatim>\<open>src/app/klf200/protocol/frame.go\<close>: the raw frame around a payload (protocol id, length,
  big-endian command, payload, XOR checksum), its construction and its validation, and the
  generic \<open>frame_codec\<close> interface that every frame type of the protocol fulfils
  (\<^verbatim>\<open>type Frame interface\<close>).
\<close>

section \<open>The code\<close>

text \<open>Go ranges over the bytes from the left with the accumulator \<open>crc\<close>.\<close>

definition CalcCRC :: "byte list \<Rightarrow> byte" where
  "CalcCRC raw = foldl (XOR) 0 raw"

definition BuildFrame :: "u16 \<Rightarrow> byte list \<Rightarrow> byte list" where
  "BuildFrame command payload =
     (let packetLength = 2 + length payload + 1;
          ret = [0, word_of_nat packetLength];
          ret = ret @ be_put16 command;
          ret = ret @ payload
      in ret @ [CalcCRC ret])"

text \<open>\<open>int\<close> is 64 bits wide and the numbers below stay under \<open>2 ^ 17\<close>, so they are \<^typ>\<open>int\<close>.\<close>

definition ExtractFromFrame :: "byte list \<Rightarrow> perror + (u16 \<times> byte list)" where
  "ExtractFromFrame data =
     (if length data \<le> 4 then Inl (TooShort (length data))
      else let len = uint (data ! 0) * 256 + uint (data ! 1) - 1 in
      if int (length data) \<noteq> len + 3 then Inl (InvalidLen (length data) (nat (len + 3)))
      else let crc = CalcCRC (slice 0 (length data - 1) data) in
      if crc \<noteq> data ! (length data - 1) then Inl (InvalidCRC (data ! (length data - 1)) crc)
      else let payload = slice 4 (length data - 1) data;
               command = word_of_int (uint (data ! 2) * 256 + uint (data ! 3))
           in Inr (command, payload))"

text \<open>
  \<open>MarshalFrame\<close> and \<open>FrameFromRaw\<close> use a frame through the interface
  \<^verbatim>\<open>Frame\<close> and the registry only; the operations are arguments here.
\<close>

definition marshal_frame ::
    "('f \<Rightarrow> u16) \<Rightarrow> ('f \<Rightarrow> perror + byte list) \<Rightarrow> 'f \<Rightarrow> perror + byte list" where
  "marshal_frame Command MarshalPayload frame =
     res_bind (MarshalPayload frame) (\<lambda>payload. Inr (BuildFrame (Command frame) payload))"

text \<open>\<open>Inr None\<close> is the result \<open>(nil, nil)\<close> for a command that is not implemented.\<close>

definition frame_from_raw ::
    "(u16 \<Rightarrow> 'f option) \<Rightarrow> ('f \<Rightarrow> byte list \<Rightarrow> perror + 'f) \<Rightarrow> byte list \<Rightarrow>
     perror + 'f option" where
  "frame_from_raw Create UnmarshalPayload raw =
     res_bind (ExtractFromFrame raw) (\<lambda>(command, payload).
       case Create command of
         None \<Rightarrow> Inr None
       | Some frame \<Rightarrow>
           res_bind (UnmarshalPayload frame payload) (\<lambda>frame. Inr (Some frame)))"

section \<open>Lemmas\<close>

lemma CalcCRC_append [simp]: "CalcCRC (xs @ [b]) = CalcCRC xs XOR b"
  by (simp add: CalcCRC_def)

lemma foldl_xor_start: "foldl (XOR) a xs = a XOR foldl (XOR) 0 xs" for a :: byte
proof (induction xs arbitrary: a)
  case (Cons x xs)
  show ?case using Cons [of "a XOR x"] Cons [of "0 XOR x"] by (simp add: ac_simps)
qed simp

lemma CalcCRC_concat: "CalcCRC (xs @ ys) = CalcCRC xs XOR CalcCRC ys"
  by (simp add: CalcCRC_def foldl_xor_start [of "foldl (XOR) 0 xs"])

lemma CalcCRC_Cons: "CalcCRC (x # xs) = x XOR CalcCRC xs"
  using CalcCRC_concat [of "[x]" xs] by (simp add: CalcCRC_def)

lemma length_BuildFrame [simp]: "length (BuildFrame c p) = length p + 5"
  by (simp add: BuildFrame_def Let_def)

lemma BuildFrame_eq:
  "BuildFrame c p = 0 # word_of_nat (length p + 3) # hi_byte c # lo_byte c # p @
     [CalcCRC (0 # word_of_nat (length p + 3) # hi_byte c # lo_byte c # p)]"
  by (simp add: BuildFrame_def Let_def add.commute)

lemma word_of_bytes: "word_of_int (uint b0 * 256 + uint b1) = u16_of b0 b1"
  by (simp add: u16_of_def)

lemma data_bytes_4:
  "4 < length data \<Longrightarrow>
   \<exists>a b c d p e. data = a # b # c # d # p @ [e]"
proof -
  assume h: "4 < length data"
  then obtain a b c d xs where xs: "data = a # b # c # d # xs"
    by (auto simp: Suc_le_eq [symmetric] Suc_le_length_iff numeral_eq_Suc)
  with h have "xs \<noteq> []" by auto
  then obtain p e where "xs = p @ [e]" by (metis append_butlast_last_id)
  with xs show ?thesis by blast
qed

text \<open>What \<open>ExtractFromFrame\<close> does on the shape that passes its first test.\<close>

lemma ExtractFromFrame_shape:
  "ExtractFromFrame (a # b # c # d # p @ [e]) =
     (if int (length p + 5) \<noteq> uint a * 256 + uint b + 2
      then Inl (InvalidLen (length p + 5) (nat (uint a * 256 + uint b + 2)))
      else if CalcCRC (a # b # c # d # p) \<noteq> e
      then Inl (InvalidCRC e (CalcCRC (a # b # c # d # p)))
      else Inr (u16_of c d, p))"
proof -
  have last: "(a # b # c # d # p @ [e]) ! (length (a # b # c # d # p @ [e]) - 1) = e"
    by (simp add: nth_append)
  have front: "slice 0 (length (a # b # c # d # p @ [e]) - 1) (a # b # c # d # p @ [e])
      = a # b # c # d # p"
    by (simp add: slice_def)
  have body: "slice 4 (length (a # b # c # d # p @ [e]) - 1) (a # b # c # d # p @ [e]) = p"
    by (simp add: slice_def)
  show ?thesis
    unfolding ExtractFromFrame_def Let_def last front body
    by (simp add: word_of_bytes u16_of_def algebra_simps)
qed

lemma uint_word_of_nat_byte: "n < 256 \<Longrightarrow> uint (word_of_nat n :: byte) = int n"
  by (simp add: unsigned_of_nat take_bit_nat_eq_self flip: uint_nat)

lemma ExtractFromFrame_BuildFrame:
  "length p \<le> 252 \<Longrightarrow> ExtractFromFrame (BuildFrame c p) = Inr (c, p)"
  using uint_word_of_nat_byte [of "length p + 3"]
  by (simp add: BuildFrame_eq ExtractFromFrame_shape del: of_nat_add)

text \<open>Beyond 252 bytes the length byte has wrapped, and the receiver refuses the frame.\<close>

lemma ExtractFromFrame_BuildFrame_long:
  assumes "252 < length p"
  shows "\<exists>m. ExtractFromFrame (BuildFrame c p) = Inl (InvalidLen (length p + 5) m)"
proof -
  have "uint (word_of_nat (length p + 3) :: byte) < 256"
    using uint_lt2p [of "word_of_nat (length p + 3) :: byte"] by simp
  with assms show ?thesis
    by (simp add: BuildFrame_eq ExtractFromFrame_shape del: of_nat_add)
qed

text \<open>What is accepted is exactly what \<open>BuildFrame\<close> sends, for the short frames the code
  builds (a first byte of zero).\<close>

lemma ExtractFromFrame_sound:
  assumes "ExtractFromFrame data = Inr (c, p)" "data ! 0 = 0"
  shows "data = BuildFrame c p"
proof -
  have "4 < length data" using assms(1) by (auto simp: ExtractFromFrame_def split: if_splits)
  then obtain a b h l q e where d: "data = a # b # h # l # q @ [e]"
    using data_bytes_4 by blast
  from assms have a: "a = 0" and len: "int (length q + 5) = uint b + 2"
    and crc: "CalcCRC (a # b # h # l # q) = e" and c: "c = u16_of h l" and p: "p = q"
    unfolding d ExtractFromFrame_shape by (auto split: if_splits)
  from len have "int (length q + 3) = uint b" by simp
  then have "word_of_nat (length q + 3) = b"
    by (metis of_int_of_nat_eq word_of_int_uint)
  with a crc c p show ?thesis by (simp add: d BuildFrame_eq)
qed

lemma xor_left_cancel: "a XOR x = a XOR y \<longleftrightarrow> x = y" for a x y :: byte
proof
  assume "a XOR x = a XOR y"
  then have "a XOR (a XOR x) = a XOR (a XOR y)" by (rule arg_cong)
  then show "x = y" by (simp flip: xor.assoc)
qed simp

lemma CalcCRC_detects:
  "CalcCRC (xs @ x # ys) = CalcCRC (xs @ y # ys) \<longleftrightarrow> x = y"
  by (simp add: CalcCRC_concat CalcCRC_Cons xor_left_cancel xor.commute [of _ "CalcCRC ys"])

text \<open>An accepted frame has checksum 0 as a whole, so no single corrupted byte goes unnoticed.\<close>

lemma ExtractFromFrame_crc:
  assumes "ExtractFromFrame data = Inr (c, p)"
  shows "CalcCRC data = 0"
proof -
  have "4 < length data" using assms by (auto simp: ExtractFromFrame_def split: if_splits)
  then obtain a b h l q e where d: "data = a # b # h # l # q @ [e]"
    using data_bytes_4 by blast
  from assms have "CalcCRC (a # b # h # l # q) = e"
    unfolding d ExtractFromFrame_shape by (auto split: if_splits)
  then show ?thesis unfolding d using CalcCRC_append [of "a # b # h # l # q" e] by simp
qed

lemma CalcCRC_update:
  "i < length xs \<Longrightarrow> CalcCRC (xs[i := b]) = CalcCRC xs \<longleftrightarrow> b = xs ! i"
  using CalcCRC_detects [of "take i xs" b "drop (Suc i) xs" "xs ! i"]
  by (simp add: upd_conv_take_nth_drop flip: id_take_nth_drop)

lemma CalcCRC_BuildFrame: "CalcCRC (BuildFrame c p) = 0"
  by (simp only: BuildFrame_def Let_def CalcCRC_append xor_self_eq)

lemma ExtractFromFrame_corrupt:
  assumes "i < length p + 5" "b \<noteq> BuildFrame c p ! i"
  shows "\<exists>e. ExtractFromFrame ((BuildFrame c p)[i := b]) = Inl e"
proof (cases "ExtractFromFrame ((BuildFrame c p)[i := b])")
  case (Inr r)
  then have "CalcCRC ((BuildFrame c p)[i := b]) = 0"
    using ExtractFromFrame_crc by (cases r) blast
  with assms show ?thesis
    using CalcCRC_update [of i "BuildFrame c p" b] by (simp add: CalcCRC_BuildFrame)
qed simp

section \<open>The contract of a set of frames\<close>

text \<open>
  A well-formed frame marshals to a payload that fits into a raw frame, and the frame that the
  registry creates for its command reads that payload back.
\<close>

locale frame_codec =
  fixes Command :: "'f \<Rightarrow> u16"
    and MarshalPayload :: "'f \<Rightarrow> perror + byte list"
    and Create :: "u16 \<Rightarrow> 'f option"
    and UnmarshalPayload :: "'f \<Rightarrow> byte list \<Rightarrow> perror + 'f"
    and wf :: "'f \<Rightarrow> bool"
  assumes payload_roundtrip:
    "wf f \<Longrightarrow> \<exists>p g. MarshalPayload f = Inr p \<and> length p \<le> 252 \<and>
       Create (Command f) = Some g \<and> UnmarshalPayload g p = Inr f"
begin

lemma raw_roundtrip:
  assumes "wf f"
  shows "\<exists>raw. marshal_frame Command MarshalPayload f = Inr raw \<and> raw \<noteq> [] \<and>
    frame_from_raw Create UnmarshalPayload raw = Inr (Some f)"
proof -
  from payload_roundtrip [OF assms] obtain p g where
    "MarshalPayload f = Inr p" "length p \<le> 252" "Create (Command f) = Some g"
    "UnmarshalPayload g p = Inr f" by blast
  moreover have "BuildFrame (Command f) p \<noteq> []"
    using length_BuildFrame [of "Command f" p] by (metis add_is_0 list.size(3) zero_neq_numeral)
  ultimately show ?thesis
    by (simp add: marshal_frame_def frame_from_raw_def ExtractFromFrame_BuildFrame)
qed

text \<open>A marshalled frame, SLIP-packed and sent with anything after it, is the next packet of the
  receiver and parses to the frame that was sent.\<close>

lemma packet_roundtrip:
  assumes "wf f"
  shows "\<exists>raw. marshal_frame Command MarshalPayload f = Inr raw \<and>
    GetNextSlip (SlipPack raw @ rest) = (Some raw, rest) \<and>
    frame_from_raw Create UnmarshalPayload raw = Inr (Some f)"
  using raw_roundtrip [OF assms] by (auto simp: GetNextSlip_pack fresh_slice_def)

lemma marshal_frame_inject:
  assumes "wf f" "wf g"
    "marshal_frame Command MarshalPayload f = marshal_frame Command MarshalPayload g"
  shows "f = g"
  using raw_roundtrip [OF assms(1)] raw_roundtrip [OF assms(2)] assms(3) by auto

end

section \<open>Properties\<close>



text \<open>
  C13: A raw frame in which one byte was corrupted (any byte, the length and the checksum
  included) is refused with an error: the XOR checksum and the length test miss no single error.
\<close>

theorem ExtractFromFrame_detects_corruption:
  assumes "i < length (BuildFrame c p)" "b \<noteq> BuildFrame c p ! i"
  shows "\<exists>e. ExtractFromFrame ((BuildFrame c p)[i := b]) = Inl e"
  using assms ExtractFromFrame_corrupt [of i p b c] by simp

theorem ExtractFromFrame_detects_corruption_witness:
  "\<exists>e. ExtractFromFrame ((BuildFrame GW_REBOOT_REQ [])[1 := 7]) = Inl e"
  using ExtractFromFrame_detects_corruption [of 1 GW_REBOOT_REQ "[]" 7] by (simp add: BuildFrame_eq)

end
