(* ===== verification/Parameter.thy ===== *)
theory Parameter
  imports Prelude Complex_Main
begin

text \<open>
  \<^verbatim>\<open>src/app/klf200/protocol/parameter.go\<close>: the two-byte parameter values of a node with their
  sentinels, the types that embed them (switch, position, intensity) and the one-byte
  limitation time. A Go \<open>int\<close> is an \<^typ>\<open>int\<close>; pointer arguments that may be nil are options;
  a method with a pointer receiver returns the changed value.
\<close>

section \<open>Parameter\<close>

definition ParameterUnknownValue :: int where "ParameterUnknownValue = 0xF7FF"
definition ParameterCurrent :: int where "ParameterCurrent = 0xD200"
definition ParameterMax :: int where "ParameterMax = 0xC800"
definition ParameterMin :: int where "ParameterMin = 0x0000"
definition ParameterOn :: int where "ParameterOn = 0x0000"
definition ParameterOff :: int where "ParameterOff = 0xC800"
definition ParameterTarget :: int where "ParameterTarget = 0xD100"
definition ParameterIgnore :: int where "ParameterIgnore = 0xD400"

lemmas parameter_consts = ParameterUnknownValue_def ParameterCurrent_def ParameterMax_def
  ParameterMin_def ParameterOn_def ParameterOff_def ParameterTarget_def ParameterIgnore_def

text \<open>\<open>Raw [2]byte\<close>: the pair of the big-endian bytes.\<close>

type_synonym raw2 = "byte \<times> byte"

record Parameter =
  Raw :: raw2

definition parameterFromInt :: "int \<Rightarrow> raw2" where
  "parameterFromInt value =
     (word_of_int (drop_bit 8 value AND 255), word_of_int (value AND 255))"

definition ParameterIsValidInt :: "int \<Rightarrow> bool" where
  "ParameterIsValidInt value =
     (if value \<ge> 0 \<and> value \<le> ParameterMax then True
      else value = ParameterUnknownValue \<or> value = ParameterIgnore \<or>
        value = ParameterCurrent \<or> value = ParameterTarget)"

definition ParameterFromInt :: "int \<Rightarrow> perror + raw2" where
  "ParameterFromInt value =
     (if \<not> ParameterIsValidInt value then Inl ValueOutOfRange
      else Inr (parameterFromInt value))"

definition parameterToInt :: "raw2 \<Rightarrow> int" where
  "parameterToInt raw = uint (fst raw) * 256 + uint (snd raw)"

definition parameterFromRaw :: "raw2 \<Rightarrow> perror + raw2" where
  "parameterFromRaw raw =
     (if raw \<noteq> parameterFromInt ParameterCurrent \<and>
         raw \<noteq> parameterFromInt ParameterIgnore \<and>
         raw \<noteq> parameterFromInt ParameterTarget \<and>
         raw \<noteq> parameterFromInt ParameterUnknownValue \<and>
         parameterToInt raw > ParameterMax
      then Inr (parameterFromInt ParameterUnknownValue)
      else Inr raw)"

definition NewParameter :: "raw2 option \<Rightarrow> perror + Parameter" where
  "NewParameter raw =
     (let p = \<lparr> Raw = parameterFromInt ParameterUnknownValue \<rparr>
      in case raw of
           None \<Rightarrow> Inr p
         | Some r \<Rightarrow> res_bind (parameterFromRaw r) (\<lambda>norm. Inr (p\<lparr> Raw := norm \<rparr>)))"

definition Parameter_FromParameter :: "Parameter \<Rightarrow> Parameter \<Rightarrow> Parameter" where
  "Parameter_FromParameter p other = p\<lparr> Raw := Raw other \<rparr>"

definition Parameter_Bytes :: "Parameter \<Rightarrow> byte list" where
  "Parameter_Bytes p = [fst (Raw p), snd (Raw p)]"

text \<open>\<open>%02X\<close> of a byte: two upper-case hexadecimal digits.\<close>

definition fmt_02X :: "byte \<Rightarrow> string" where
  "fmt_02X b =
     [''0123456789ABCDEF'' ! (unat b div 16), ''0123456789ABCDEF'' ! (unat b mod 16)]"

definition Parameter_String :: "Parameter \<Rightarrow> string" where
  "Parameter_String p = ''0x'' @ fmt_02X (fst (Raw p)) @ fmt_02X (snd (Raw p))"

section \<open>SwitchParameter\<close>

record SwitchParameter =
  sp_Parameter :: Parameter

definition NewSwitchParameter :: "Parameter option \<Rightarrow> SwitchParameter" where
  "NewSwitchParameter from =
     (let sp = \<lparr> sp_Parameter = \<lparr> Raw = parameterFromInt ParameterUnknownValue \<rparr> \<rparr>
      in case from of None \<Rightarrow> sp
         | Some p \<Rightarrow> sp\<lparr> sp_Parameter := Parameter_FromParameter (sp_Parameter sp) p \<rparr>)"

definition SwitchParameter_SetOn :: "SwitchParameter \<Rightarrow> SwitchParameter" where
  "SwitchParameter_SetOn sp = sp\<lparr> sp_Parameter := \<lparr> Raw = parameterFromInt ParameterOn \<rparr> \<rparr>"

definition SwitchParameter_SetOff :: "SwitchParameter \<Rightarrow> SwitchParameter" where
  "SwitchParameter_SetOff sp = sp\<lparr> sp_Parameter := \<lparr> Raw = parameterFromInt ParameterOff \<rparr> \<rparr>"

definition SwitchParameter_IsOn :: "SwitchParameter \<Rightarrow> bool" where
  "SwitchParameter_IsOn sp = (Raw (sp_Parameter sp) = parameterFromInt ParameterOn)"

definition SwitchParameter_IsOff :: "SwitchParameter \<Rightarrow> bool" where
  "SwitchParameter_IsOff sp = (Raw (sp_Parameter sp) = parameterFromInt ParameterOff)"

definition NewSwitchParameterOn :: SwitchParameter where
  "NewSwitchParameterOn = (let sp = NewSwitchParameter None in SwitchParameter_SetOn sp)"

definition NewSwitchParameterOff :: SwitchParameter where
  "NewSwitchParameterOff = (let sp = NewSwitchParameter None in SwitchParameter_SetOff sp)"

section \<open>Position\<close>

record Position =
  pos_Parameter :: Parameter

definition positionFromPercent :: "int \<Rightarrow> perror + raw2" where
  "positionFromPercent positionPercent =
     (if positionPercent < 0 then Inl PercentNegative
      else if positionPercent > 100 then Inl PercentOutOfRange
      else Inr (word_of_int (positionPercent * 2), 0))"

text \<open>
  \<open>int(float64(raw[0])/2 + 0.5)\<close>: every number in it is a multiple of a half below 2 ^ 8, so
  the floating-point arithmetic is exact, and the conversion truncates a positive number.
\<close>

definition positionToPercent :: "raw2 \<Rightarrow> int" where
  "positionToPercent raw = \<lfloor>(of_int (uint (fst raw)) / 2 + 1 / 2 :: rat)\<rfloor>"

definition Position_SetPosition :: "Position \<Rightarrow> int \<Rightarrow> perror + Position" where
  "Position_SetPosition p position =
     res_bind (ParameterFromInt position) (\<lambda>raw. Inr (p\<lparr> pos_Parameter := \<lparr> Raw = raw \<rparr> \<rparr>))"

definition Position_SetPositionPercent :: "Position \<Rightarrow> int \<Rightarrow> perror + Position" where
  "Position_SetPositionPercent p positionPercent =
     res_bind (positionFromPercent positionPercent)
       (\<lambda>raw. Inr (p\<lparr> pos_Parameter := \<lparr> Raw = raw \<rparr> \<rparr>))"

definition NewPosition :: "Parameter option \<Rightarrow> int option \<Rightarrow> int option \<Rightarrow> perror + Position" where
  "NewPosition from position positionPercent =
     (let p = \<lparr> pos_Parameter = \<lparr> Raw = parameterFromInt ParameterUnknownValue \<rparr> \<rparr>
      in case from of
           Some q \<Rightarrow> Inr (p\<lparr> pos_Parameter := Parameter_FromParameter (pos_Parameter p) q \<rparr>)
         | None \<Rightarrow>
             (case position of
                Some v \<Rightarrow> Position_SetPosition p v
              | None \<Rightarrow>
                  (case positionPercent of
                     Some pc \<Rightarrow> Position_SetPositionPercent p pc
                   | None \<Rightarrow> Inr p)))"

definition Position_Known :: "Position \<Rightarrow> bool" where
  "Position_Known p = (Raw (pos_Parameter p) \<noteq> parameterFromInt ParameterUnknownValue)"

definition Position_Open :: "Position \<Rightarrow> bool" where
  "Position_Open p = (Raw (pos_Parameter p) = parameterFromInt ParameterMin)"

definition Position_PositionPercent :: "Position \<Rightarrow> int" where
  "Position_PositionPercent p = positionToPercent (Raw (pos_Parameter p))"

definition Position_Closed :: "Position \<Rightarrow> bool" where
  "Position_Closed p = (Position_PositionPercent p = 100)"

definition Position_Position :: "Position \<Rightarrow> int" where
  "Position_Position p = parameterToInt (Raw (pos_Parameter p))"

text \<open>\<open>p, _ := NewPosition(...)\<close>: a failed call leaves the zero value in \<open>p\<close>.\<close>

definition zeroPosition :: Position where
  "zeroPosition = \<lparr> pos_Parameter = \<lparr> Raw = (0, 0) \<rparr> \<rparr>"

definition ignore_err :: "'a \<Rightarrow> perror + 'a \<Rightarrow> 'a" where
  "ignore_err z r = (case r of Inl e \<Rightarrow> z | Inr x \<Rightarrow> x)"

definition NewUnknownPosition :: Position where
  "NewUnknownPosition = ignore_err zeroPosition (NewPosition None (Some ParameterUnknownValue) None)"

definition NewCurrentPosition :: Position where
  "NewCurrentPosition = ignore_err zeroPosition (NewPosition None (Some ParameterCurrent) None)"

definition NewTargetPosition :: Position where
  "NewTargetPosition = ignore_err zeroPosition (NewPosition None (Some ParameterTarget) None)"

definition NewIgnorePosition :: Position where
  "NewIgnorePosition = ignore_err zeroPosition (NewPosition None (Some ParameterIgnore) None)"

definition Position_String :: "Position \<Rightarrow> string" where
  "Position_String p =
     (if Raw (pos_Parameter p) = parameterFromInt ParameterUnknownValue then ''UNKNOWN''
      else Itoa (Position_PositionPercent p) @ '' %'')"

section \<open>Intensity\<close>

record Intensity =
  int_Parameter :: Parameter

definition intensityFromPercent :: "int \<Rightarrow> perror + raw2" where
  "intensityFromPercent intensityPercent =
     (if intensityPercent < 0 then Inl PercentNegative
      else if intensityPercent > 100 then Inl PercentOutOfRange
      else Inr (word_of_int (intensityPercent * 2), 0))"

definition intensityToPercent :: "raw2 \<Rightarrow> int" where
  "intensityToPercent raw = uint (fst raw) div 2"

definition Intensity_SetIntensity :: "Intensity \<Rightarrow> int \<Rightarrow> perror + Intensity" where
  "Intensity_SetIntensity i intensity =
     res_bind (ParameterFromInt intensity) (\<lambda>raw. Inr (i\<lparr> int_Parameter := \<lparr> Raw = raw \<rparr> \<rparr>))"

definition Intensity_SetIntensityPercent :: "Intensity \<Rightarrow> int \<Rightarrow> perror + Intensity" where
  "Intensity_SetIntensityPercent i intensityPercent =
     res_bind (intensityFromPercent intensityPercent)
       (\<lambda>raw. Inr (i\<lparr> int_Parameter := \<lparr> Raw = raw \<rparr> \<rparr>))"

definition NewIntensity ::
    "Parameter option \<Rightarrow> int option \<Rightarrow> int option \<Rightarrow> perror + Intensity" where
  "NewIntensity from intensity intensityPercent =
     (let i = \<lparr> int_Parameter = \<lparr> Raw = parameterFromInt ParameterUnknownValue \<rparr> \<rparr>
      in case from of
           Some q \<Rightarrow> Inr (i\<lparr> int_Parameter := Parameter_FromParameter (int_Parameter i) q \<rparr>)
         | None \<Rightarrow>
             (case intensity of
                Some v \<Rightarrow> Intensity_SetIntensity i v
              | None \<Rightarrow>
                  (case intensityPercent of
                     Some pc \<Rightarrow> Intensity_SetIntensityPercent i pc
                   | None \<Rightarrow> Inr i)))"

definition Intensity_Known :: "Intensity \<Rightarrow> bool" where
  "Intensity_Known i = (Raw (int_Parameter i) \<noteq> parameterFromInt ParameterUnknownValue)"

definition Intensity_On :: "Intensity \<Rightarrow> bool" where
  "Intensity_On i = (Raw (int_Parameter i) = parameterFromInt ParameterMin)"

definition Intensity_Off :: "Intensity \<Rightarrow> bool" where
  "Intensity_Off i =
     (Raw (int_Parameter i) =
        (word_of_int (drop_bit 8 ParameterMax AND 255), word_of_int (ParameterMax AND 255)))"

definition Intensity_Intensity :: "Intensity \<Rightarrow> int" where
  "Intensity_Intensity i = parameterToInt (Raw (int_Parameter i))"

definition Intensity_IntensityPercent :: "Intensity \<Rightarrow> int" where
  "Intensity_IntensityPercent i = intensityToPercent (Raw (int_Parameter i))"

definition Intensity_String :: "Intensity \<Rightarrow> string" where
  "Intensity_String i =
     (if Raw (int_Parameter i) = parameterFromInt ParameterUnknownValue then ''UNKNOWN''
      else Itoa (Intensity_IntensityPercent i) @ '' %'')"

definition zeroIntensity :: Intensity where
  "zeroIntensity = \<lparr> int_Parameter = \<lparr> Raw = (0, 0) \<rparr> \<rparr>"

definition NewUnknownIntensity :: Intensity where
  "NewUnknownIntensity =
     ignore_err zeroIntensity (NewIntensity None (Some ParameterUnknownValue) None)"

definition NewCurrentIntensity :: Intensity where
  "NewCurrentIntensity = ignore_err zeroIntensity (NewIntensity None (Some ParameterCurrent) None)"

section \<open>LimitationTime\<close>

definition LimitationTimeUnlimitedRaw :: int where "LimitationTimeUnlimitedRaw = 253"
definition LimitationTimeClearMasterRaw :: int where "LimitationTimeClearMasterRaw = 254"
definition LimitationTimeClearAllRaw :: int where "LimitationTimeClearAllRaw = 255"

lemmas limitation_time_consts = LimitationTimeUnlimitedRaw_def LimitationTimeClearMasterRaw_def
  LimitationTimeClearAllRaw_def

record LimitationTime =
  lt_Raw :: byte

text \<open>
  \<open>math.Ceil(float64(t)/30)\<close>: for the times below 7590 s that reach it (and down to minus
  2 ^ 40) the quotient is either an integer or further from one than the rounding error, so
  the ceiling is that of the rational quotient. \<open>byte(raw)\<close> keeps the low eight bits.
\<close>

definition NewLimitationTime :: "int option \<Rightarrow> int option \<Rightarrow> int option \<Rightarrow> LimitationTime" where
  "NewLimitationTime timeSeconds limitationTime limitRaw =
     (let raw = LimitationTimeClearMasterRaw;
          raw = (case limitRaw of Some r \<Rightarrow> r | None \<Rightarrow> raw);
          raw = (case limitationTime of
                   Some l \<Rightarrow> l
                 | None \<Rightarrow>
                     (case timeSeconds of
                        Some t \<Rightarrow>
                          if t > 7590 then 252 else \<lceil>(of_int t / 30 :: rat)\<rceil> - 1
                      | None \<Rightarrow> raw))
      in \<lparr> lt_Raw = word_of_int raw \<rparr>)"

definition LimitationTime_Bytes :: "LimitationTime \<Rightarrow> byte list" where
  "LimitationTime_Bytes lt = [lt_Raw lt]"

definition LimitationTime_Equal :: "LimitationTime \<Rightarrow> LimitationTime \<Rightarrow> bool" where
  "LimitationTime_Equal lt other = (lt_Raw lt = lt_Raw other)"

definition LimitationTime_IsUnlimited :: "LimitationTime \<Rightarrow> bool" where
  "LimitationTime_IsUnlimited lt = (lt_Raw lt = word_of_int LimitationTimeUnlimitedRaw)"

definition LimitationTime_IsClearMaster :: "LimitationTime \<Rightarrow> bool" where
  "LimitationTime_IsClearMaster lt = (lt_Raw lt = word_of_int LimitationTimeClearMasterRaw)"

definition LimitationTime_IsClearAll :: "LimitationTime \<Rightarrow> bool" where
  "LimitationTime_IsClearAll lt = (lt_Raw lt = word_of_int LimitationTimeClearAllRaw)"

definition LimitationTime_GetTimeSeconds :: "LimitationTime \<Rightarrow> int" where
  "LimitationTime_GetTimeSeconds lt =
     (if lt_Raw lt = word_of_int LimitationTimeUnlimitedRaw \<or>
         lt_Raw lt = word_of_int LimitationTimeClearMasterRaw \<or>
         lt_Raw lt = word_of_int LimitationTimeClearAllRaw
      then - 1 else (uint (lt_Raw lt) + 1) * 30)"

definition NewLimitationTimeUnlimited :: LimitationTime where
  "NewLimitationTimeUnlimited = NewLimitationTime None (Some LimitationTimeUnlimitedRaw) None"

definition NewLimitationTimeClearMaster :: LimitationTime where
  "NewLimitationTimeClearMaster = NewLimitationTime None (Some LimitationTimeClearMasterRaw) None"

definition NewLimitationTimeClearAll :: LimitationTime where
  "NewLimitationTimeClearAll = NewLimitationTime None (Some LimitationTimeClearAllRaw) None"

section \<open>Lemmas\<close>

subsection \<open>Parameters\<close>

text \<open>The sentinels as bytes.\<close>

lemma parameterFromInt_sentinels [simp]:
  "parameterFromInt ParameterUnknownValue = (0xF7, 0xFF)"
  "parameterFromInt ParameterCurrent = (0xD2, 0)"
  "parameterFromInt ParameterMax = (0xC8, 0)"
  "parameterFromInt ParameterMin = (0, 0)"
  "parameterFromInt ParameterOn = (0, 0)"
  "parameterFromInt ParameterOff = (0xC8, 0)"
  "parameterFromInt ParameterTarget = (0xD1, 0)"
  "parameterFromInt ParameterIgnore = (0xD4, 0)"
  by (simp_all add: parameterFromInt_def parameter_consts)

lemma uint_byte_bounds [simp]: "0 \<le> uint (b :: byte)" "uint b < 256" "uint b \<le> 255"
  using uint_lt2p [of b] by simp_all

lemma word_of_int_and_255: "(word_of_int (k AND 255) :: byte) = word_of_int k"
proof -
  have "k AND 255 = take_bit 8 k"
    by (simp add: take_bit_eq_mask mask_eq_exp_minus_1)
  then show ?thesis by (simp add: word_of_int_eq_iff)
qed

lemma parameterToInt_bounds: "0 \<le> parameterToInt r" "parameterToInt r < 65536"
  using uint_byte_bounds(2) [of "fst r"] uint_byte_bounds(2) [of "snd r"]
  by (simp_all add: parameterToInt_def del: uint_byte_bounds)

lemma parameterToInt_parameterFromInt:
  assumes "0 \<le> v" "v < 65536"
  shows "parameterToInt (parameterFromInt v) = v"
  using assms
  by (simp add: parameterToInt_def parameterFromInt_def word_of_int_and_255 drop_bit_eq_div
      uint_word_of_int)

lemma parameterFromInt_parameterToInt: "parameterFromInt (parameterToInt r) = r"
proof -
  obtain a b where r: "r = (a, b)" by fastforce
  have "(uint a * 256 + uint b) div 256 = uint a" by (simp add: div_mult_self3)
  moreover have "(word_of_int (uint a * 256 + uint b) :: byte) = b"
  proof -
    have "(256 :: byte) = 0" by simp
    then show ?thesis by (simp only: of_int_add of_int_mult of_int_numeral) simp
  qed
  ultimately show ?thesis
    by (simp add: r parameterToInt_def parameterFromInt_def word_of_int_and_255 drop_bit_eq_div
        del: of_int_add)
qed

lemma parameterToInt_inject: "parameterToInt r = parameterToInt s \<longleftrightarrow> r = s"
  using parameterFromInt_parameterToInt by metis

text \<open>A two-byte value is valid when it is a value of the range or one of the four sentinels;
  \<open>parameterFromRaw\<close> keeps exactly these.\<close>

definition valid_raw :: "raw2 \<Rightarrow> bool" where
  "valid_raw r = ParameterIsValidInt (parameterToInt r)"

lemma parameterToInt_eq_iff:
  "parameterToInt r = v \<longleftrightarrow> 0 \<le> v \<and> v < 65536 \<and> r = parameterFromInt v"
  using parameterFromInt_parameterToInt [of r] parameterToInt_parameterFromInt [of v]
    parameterToInt_bounds [of r] by auto

lemma valid_raw_iff:
  "valid_raw r \<longleftrightarrow> parameterToInt r \<le> ParameterMax \<or>
     r = parameterFromInt ParameterUnknownValue \<or> r = parameterFromInt ParameterIgnore \<or>
     r = parameterFromInt ParameterCurrent \<or> r = parameterFromInt ParameterTarget"
  using parameterToInt_bounds [of r]
  unfolding valid_raw_def ParameterIsValidInt_def parameterToInt_eq_iff
  by (auto simp: parameter_consts)

lemma parameterFromRaw_eq:
  "parameterFromRaw r =
     Inr (if valid_raw r then r else parameterFromInt ParameterUnknownValue)"
  unfolding parameterFromRaw_def valid_raw_iff by auto

lemma NewParameter_Some:
  "NewParameter (Some r) =
     Inr \<lparr> Raw = (if valid_raw r then r else parameterFromInt ParameterUnknownValue) \<rparr>"
  by (simp add: NewParameter_def parameterFromRaw_eq)

lemma valid_raw_unknown [simp]: "valid_raw (0xF7, 0xFF)"
  using valid_raw_iff by simp

lemma NewParameter_valid: "NewParameter r = Inr p \<Longrightarrow> valid_raw (Raw p)"
  by (cases r) (auto simp: NewParameter_Some, auto simp: NewParameter_def)

lemma NewParameter_keeps [codec_simps]:
  "valid_raw (Raw p) \<Longrightarrow> NewParameter (Some (Raw p)) = Inr p"
  by (simp add: NewParameter_Some)

lemma NewParameter_total: "\<exists>p. NewParameter r = Inr p"
  by (cases r) (simp_all add: NewParameter_Some, simp add: NewParameter_def)

lemma ParameterFromInt_valid: "ParameterFromInt v = Inr r \<Longrightarrow> valid_raw r \<and> parameterToInt r = v"
proof -
  assume h: "ParameterFromInt v = Inr r"
  then have v: "ParameterIsValidInt v" and r: "r = parameterFromInt v"
    by (auto simp: ParameterFromInt_def split: if_splits)
  from v have "0 \<le> v" "v < 65536"
    by (auto simp: ParameterIsValidInt_def parameter_consts split: if_splits)
  with v r show ?thesis by (simp add: valid_raw_def parameterToInt_parameterFromInt)
qed

subsection \<open>Positions and intensities\<close>

lemma positionToPercent_eq: "positionToPercent r = (uint (fst r) + 1) div 2"
proof -
  have "(of_int (uint (fst r)) / 2 + 1 / 2 :: rat) = of_int (uint (fst r) + 1) / of_int 2"
    by (simp add: add_divide_distrib)
  then show ?thesis
    unfolding positionToPercent_def by (simp only: floor_divide_of_int_eq)
qed

lemma positionToPercent_bounds: "0 \<le> positionToPercent r \<and> positionToPercent r \<le> 128"
  using uint_byte_bounds(2) [of "fst r"] by (simp add: positionToPercent_eq del: uint_byte_bounds)

lemma positionToPercent_range:
  assumes "parameterToInt r \<le> ParameterMax"
  shows "positionToPercent r \<le> 100"
proof -
  have "uint (fst r) * 256 \<le> 0xC800"
    using assms uint_byte_bounds(1) [of "snd r"]
    unfolding parameterToInt_def parameter_consts by linarith
  then show ?thesis by (simp add: positionToPercent_eq)
qed

lemma percent_byte:
  "0 \<le> pc \<Longrightarrow> pc \<le> 100 \<Longrightarrow> uint (word_of_int (pc * 2) :: byte) = pc * 2"
  by (simp add: uint_word_of_int del: of_int_mult)

lemma positionFromPercent_Inr:
  "0 \<le> pc \<Longrightarrow> pc \<le> 100 \<Longrightarrow> positionFromPercent pc = Inr (word_of_int (pc * 2), 0)"
  by (simp add: positionFromPercent_def)

lemma SetPositionPercent_roundtrip:
  assumes "Position_SetPositionPercent p pc = Inr q"
  shows "0 \<le> pc \<and> pc \<le> 100 \<and> Position_PositionPercent q = pc \<and> Position_Known q \<and>
     Position_Position q \<le> ParameterMax"
proof -
  from assms have b: "0 \<le> pc" "pc \<le> 100" and q: "Raw (pos_Parameter q) = (word_of_int (pc * 2), 0)"
    by (auto simp: Position_SetPositionPercent_def positionFromPercent_def split: if_splits)
  note u = percent_byte [OF b]
  have "(word_of_int (pc * 2) :: byte) \<noteq> 0xF7"
  proof
    assume "(word_of_int (pc * 2) :: byte) = 0xF7"
    then have "uint (word_of_int (pc * 2) :: byte) = 0xF7" by (simp del: of_int_mult)
    with u b show False by simp
  qed
  with b q u show ?thesis
    by (simp add: Position_PositionPercent_def positionToPercent_eq Position_Known_def
        Position_Position_def parameterToInt_def ParameterMax_def del: of_int_mult)
qed

lemma SetPositionPercent_error:
  "pc < 0 \<Longrightarrow> Position_SetPositionPercent p pc = Inl PercentNegative"
  "100 < pc \<Longrightarrow> Position_SetPositionPercent p pc = Inl PercentOutOfRange"
  by (simp_all add: Position_SetPositionPercent_def positionFromPercent_def)

lemma Intensity_percent_le_position: "intensityToPercent r \<le> positionToPercent r"
  by (simp add: intensityToPercent_def positionToPercent_eq)

lemma SetIntensityPercent_roundtrip:
  assumes "Intensity_SetIntensityPercent i pc = Inr j"
  shows "Intensity_IntensityPercent j = pc"
proof -
  from assms have b: "0 \<le> pc" "pc \<le> 100" and q: "Raw (int_Parameter j) = (word_of_int (pc * 2), 0)"
    by (auto simp: Intensity_SetIntensityPercent_def intensityFromPercent_def split: if_splits)
  with percent_byte [OF b] show ?thesis
    by (simp add: Intensity_IntensityPercent_def intensityToPercent_def del: of_int_mult)
qed

lemma special_positions:
  "Raw (pos_Parameter NewUnknownPosition) = (0xF7, 0xFF)"
  "Raw (pos_Parameter NewCurrentPosition) = (0xD2, 0)"
  "Raw (pos_Parameter NewTargetPosition) = (0xD1, 0)"
  "Raw (pos_Parameter NewIgnorePosition) = (0xD4, 0)"
  by (simp_all add: NewUnknownPosition_def NewCurrentPosition_def NewTargetPosition_def
      NewIgnorePosition_def ignore_err_def NewPosition_def Position_SetPosition_def
      ParameterFromInt_def ParameterIsValidInt_def)

subsection \<open>Limitation times\<close>

lemma ceiling_div_30: "\<lceil>(of_int t / 30 :: rat)\<rceil> = (t + 29) div 30"
proof -
  have "\<lceil>(of_int t / of_int 30 :: rat)\<rceil> = - (- t div 30)"
    by (rule ceiling_divide_eq_div)
  then show ?thesis by simp
qed

lemma NewLimitationTime_seconds:
  "NewLimitationTime (Some t) None r =
     \<lparr> lt_Raw = word_of_int (if t > 7590 then 252 else (t + 29) div 30 - 1) \<rparr>"
  by (simp add: NewLimitationTime_def ceiling_div_30)

text \<open>A duration is rounded up to the next multiple of 30 seconds, and capped.\<close>

lemma LimitationTime_roundtrip:
  assumes "0 < t"
  shows "LimitationTime_GetTimeSeconds (NewLimitationTime (Some t) None r) =
    (if t > 7590 then 7590 else (t + 29) div 30 * 30)"
proof -
  let ?k = "if t > 7590 then 252 else (t + 29) div 30 - 1"
  have k: "0 \<le> ?k" "?k \<le> 252" using assms by auto
  then have u: "uint (word_of_int ?k :: byte) = ?k" by (simp add: uint_word_of_int)
  have "word_of_int ?k \<notin> {253 :: byte, 254, 255}"
  proof
    assume "word_of_int ?k \<in> {253 :: byte, 254, 255}"
    then have "uint (word_of_int ?k :: byte) \<in> {253, 254, 255}" by auto
    with u k show False by simp
  qed
  with u show ?thesis
    unfolding NewLimitationTime_seconds LimitationTime_GetTimeSeconds_def
    by (simp add: limitation_time_consts)
qed

section \<open>Properties\<close>

text \<open>
  Reading raw bytes never fails and always yields a valid parameter value: values of the
  range 0 to MAX and the four sentinels are kept, every other value above MAX becomes UNKNOWN;
  a second normalisation changes nothing.
\<close>

theorem parameterFromRaw_normalises:
  "\<exists>n. parameterFromRaw r = Inr n \<and> parameterFromRaw n = Inr n \<and>
     ParameterIsValidInt (parameterToInt n) \<and>
     n = (if ParameterIsValidInt (parameterToInt r) then r
          else parameterFromInt ParameterUnknownValue)"
  using valid_raw_unknown by (simp add: parameterFromRaw_eq valid_raw_def)

text \<open>
  A position can be set to a percentage exactly for 0 to 100; then the percentage read back
  is the one that was set, the position is known and lies between MIN and MAX. Outside that
  range the position is left alone and the error says on which side the value lies.
\<close>

theorem SetPositionPercent_exact:
  "(\<exists>q. Position_SetPositionPercent p pc = Inr q \<and> 0 \<le> pc \<and> pc \<le> 100 \<and>
      Position_PositionPercent q = pc \<and> Position_Known q \<and>
      Position_Position q \<le> ParameterMax) \<or>
   (Position_SetPositionPercent p pc = Inl PercentNegative \<and> pc < 0) \<or>
   (Position_SetPositionPercent p pc = Inl PercentOutOfRange \<and> 100 < pc)"
proof -
  consider "pc < 0" | "0 \<le> pc" "pc \<le> 100" | "100 < pc" by linarith
  then show ?thesis
  proof cases
    case 2
    then obtain q where "Position_SetPositionPercent p pc = Inr q"
      by (simp add: Position_SetPositionPercent_def positionFromPercent_def)
    then show ?thesis using SetPositionPercent_roundtrip by blast
  qed (simp_all add: SetPositionPercent_error)
qed

text \<open>
  A limitation time given in seconds is rounded up to the next multiple of 30 seconds and
  capped at 7590 seconds.
\<close>

theorem NewLimitationTime_rounds_up:
  assumes "0 < t"
  shows "let s = LimitationTime_GetTimeSeconds (NewLimitationTime (Some t) None None)
    in s mod 30 = 0 \<and> s \<le> 7590 \<and> (if t \<le> 7590 then t \<le> s \<and> s < t + 30 else s = 7590)"
  using assms by (simp add: LimitationTime_roundtrip Let_def) presburger

theorem NewLimitationTime_rounds_up_witness:
  "LimitationTime_GetTimeSeconds (NewLimitationTime (Some 31) None None) \<ge> 31"
  using NewLimitationTime_rounds_up [of 31] by (simp add: Let_def)

text \<open>
  A limitation time of zero seconds is not a short limitation but the CLEAR_ALL sentinel
  (the step counter wraps below zero), and so removes every limitation of the node.
\<close>

theorem NewLimitationTime_zero_clears_all:
  "LimitationTime_IsClearAll (NewLimitationTime (Some 0) None None) \<and>
   LimitationTime_Equal (NewLimitationTime (Some 0) None None) NewLimitationTimeClearAll"
  by (simp add: LimitationTime_IsClearAll_def LimitationTime_Equal_def NewLimitationTime_seconds
      NewLimitationTimeClearAll_def NewLimitationTime_def limitation_time_consts)

end
