(* ===== verification/FramesCommands.thy ===== *)
theory FramesCommands
  imports Framing Parameter "HOL-Library.AList"
begin

text \<open>
  \<^verbatim>\<open>src/app/klf200/protocol/frame_commands.go\<close>: the frames that carry a command to the
  nodes and report on it (command send, run status, remaining time, session finished), the
  status request and the position-changed notification. Each Go struct is a record, each
  constructor registered in an \<open>init\<close> a constant \<open>..._new\<close>, each pair of methods
  \<open>MarshalPayload\<close>, \<open>UnmarshalPayload\<close> two functions; an error discards the frame that is
  being filled, as its only caller \<open>FrameFromRaw\<close> does.
\<close>

section \<open>Command send\<close>

definition CommandSendConfirmationStatusRejected :: byte where
  [go_consts]: "CommandSendConfirmationStatusRejected = 0"
definition CommandSendConfirmationStatusAccepted :: byte where
  [go_consts]: "CommandSendConfirmationStatusAccepted = 1"

text \<open>\<open>FunctionalParameter [16][2]byte\<close> is a list of 16 byte pairs.\<close>

record FrameCommandSendRequest =
  csr_SessionID :: u16
  csr_Originator :: Originator
  csr_Priority :: Priority
  csr_ActiveParameter :: byte
  csr_FPI1 :: byte
  csr_FPI2 :: byte
  csr_Parameter :: Parameter
  csr_FunctionalParameter :: "raw2 list"
  csr_NodeIDs :: "byte list"

definition zeroParameter :: Parameter where
  "zeroParameter = \<lparr> Raw = (0, 0) \<rparr>"

definition FrameCommandSendRequest_new :: FrameCommandSendRequest where
  [codec_simps]: "FrameCommandSendRequest_new = \<lparr> csr_SessionID = 0, csr_Originator = 0, csr_Priority = 0,
     csr_ActiveParameter = 0, csr_FPI1 = 0, csr_FPI2 = 0, csr_Parameter = zeroParameter,
     csr_FunctionalParameter = replicate 16 (0, 0), csr_NodeIDs = [] \<rparr>"

definition raw2_bytes :: "raw2 \<Rightarrow> byte list" where
  "raw2_bytes r = [fst r, snd r]"

definition FrameCommandSendRequest_MarshalPayload ::
    "FrameCommandSendRequest \<Rightarrow> perror + byte list" where
  [codec_simps]: "FrameCommandSendRequest_MarshalPayload f =
     (if length (csr_NodeIDs f) > 20 then Inl (TooManyNodes (length (csr_NodeIDs f)))
      else Inr (
        [hi_byte (csr_SessionID f), lo_byte (csr_SessionID f)] @
        [csr_Originator f] @
        [csr_Priority f] @
        [csr_ActiveParameter f] @
        [csr_FPI1 f, csr_FPI2 f] @
        Parameter_Bytes (csr_Parameter f) @
        raw2_bytes (csr_FunctionalParameter f ! 0) @
        raw2_bytes (csr_FunctionalParameter f ! 1) @
        raw2_bytes (csr_FunctionalParameter f ! 2) @
        replicate 26 0 @
        [word_of_nat (length (csr_NodeIDs f))] @
        copy_pad 20 (csr_NodeIDs f) @
        [0] @ [0, 0] @ [0]))"

definition FrameCommandSendRequest_UnmarshalPayload ::
    "FrameCommandSendRequest \<Rightarrow> byte list \<Rightarrow> perror + FrameCommandSendRequest" where
  [codec_simps]: "FrameCommandSendRequest_UnmarshalPayload f payload =
     (if length payload \<noteq> 66 then Inl (InvalidLen (length payload) 66)
      else
       let f = f\<lparr> csr_SessionID := u16_of (payload ! 0) (payload ! 1),
                  csr_Originator := payload ! 2,
                  csr_Priority := payload ! 3 \<rparr>;
           lenNodeIDs = unat (payload ! 41)
       in if lenNodeIDs > 20 then Inl (WrongNodeLength lenNodeIDs)
          else
            let f = f\<lparr> csr_NodeIDs :=
                  map (\<lambda>i. payload ! 42 + word_of_nat i) [0..<lenNodeIDs] \<rparr>
            in res_bind (NewParameter (Some (payload ! 7, payload ! 8)))
                 (\<lambda>p. Inr (f\<lparr> csr_Parameter := p \<rparr>)))"

record FrameCommandSendConfirmation =
  csc_SessionID :: u16
  csc_Status :: byte

definition FrameCommandSendConfirmation_new :: FrameCommandSendConfirmation where
  [codec_simps]: "FrameCommandSendConfirmation_new = \<lparr> csc_SessionID = 0, csc_Status = 0 \<rparr>"

definition FrameCommandSendConfirmation_MarshalPayload ::
    "FrameCommandSendConfirmation \<Rightarrow> perror + byte list" where
  [codec_simps]: "FrameCommandSendConfirmation_MarshalPayload f =
     Inr [hi_byte (csc_SessionID f), lo_byte (csc_SessionID f), csc_Status f]"

definition FrameCommandSendConfirmation_UnmarshalPayload ::
    "FrameCommandSendConfirmation \<Rightarrow> byte list \<Rightarrow> perror + FrameCommandSendConfirmation" where
  [codec_simps]: "FrameCommandSendConfirmation_UnmarshalPayload f payload =
     (if length payload \<noteq> 3 then Inl (InvalidLen (length payload) 3)
      else Inr (f\<lparr> csc_SessionID := u16_of (payload ! 0) (payload ! 1),
                   csc_Status := payload ! 2 \<rparr>))"

record FrameCommandRunStatusNotification =
  crs_SessionID :: u16
  crs_StatusID :: byte
  crs_IndexID :: byte
  crs_NodeParameter :: byte
  crs_ParameterValue :: u16

definition FrameCommandRunStatusNotification_new :: FrameCommandRunStatusNotification where
  [codec_simps]: "FrameCommandRunStatusNotification_new = \<lparr> crs_SessionID = 0, crs_StatusID = 0,
     crs_IndexID = 0, crs_NodeParameter = 0, crs_ParameterValue = 0 \<rparr>"

definition FrameCommandRunStatusNotification_MarshalPayload ::
    "FrameCommandRunStatusNotification \<Rightarrow> perror + byte list" where
  [codec_simps]: "FrameCommandRunStatusNotification_MarshalPayload f =
     Inr ((replicate 13 0)
       [0 := hi_byte (crs_SessionID f),
        1 := lo_byte (crs_SessionID f),
        2 := crs_StatusID f,
        3 := crs_IndexID f,
        4 := crs_NodeParameter f,
        5 := hi_byte (crs_ParameterValue f),
        6 := lo_byte (crs_ParameterValue f)])"

definition FrameCommandRunStatusNotification_UnmarshalPayload ::
    "FrameCommandRunStatusNotification \<Rightarrow> byte list \<Rightarrow>
     perror + FrameCommandRunStatusNotification" where
  [codec_simps]: "FrameCommandRunStatusNotification_UnmarshalPayload f payload =
     (if length payload \<noteq> 13 then Inl (InvalidLen (length payload) 13)
      else Inr (f\<lparr> crs_SessionID := u16_of (payload ! 0) (payload ! 1),
                   crs_StatusID := payload ! 2,
                   crs_IndexID := payload ! 3,
                   crs_NodeParameter := payload ! 4,
                   crs_ParameterValue := u16_of (payload ! 5) (payload ! 6) \<rparr>))"

record FrameCommandRemainingTimeNotification =
  crt_SessionID :: u16
  crt_IndexID :: byte
  crt_NodeParameter :: byte
  crt_Seconds :: u16

definition FrameCommandRemainingTimeNotification_new :: FrameCommandRemainingTimeNotification where
  [codec_simps]: "FrameCommandRemainingTimeNotification_new = \<lparr> crt_SessionID = 0, crt_IndexID = 0,
     crt_NodeParameter = 0, crt_Seconds = 0 \<rparr>"

definition FrameCommandRemainingTimeNotification_MarshalPayload ::
    "FrameCommandRemainingTimeNotification \<Rightarrow> perror + byte list" where
  [codec_simps]: "FrameCommandRemainingTimeNotification_MarshalPayload f =
     Inr [hi_byte (crt_SessionID f), lo_byte (crt_SessionID f), crt_IndexID f,
          crt_NodeParameter f, hi_byte (crt_Seconds f), lo_byte (crt_Seconds f)]"

definition FrameCommandRemainingTimeNotification_UnmarshalPayload ::
    "FrameCommandRemainingTimeNotification \<Rightarrow> byte list \<Rightarrow>
     perror + FrameCommandRemainingTimeNotification" where
  [codec_simps]: "FrameCommandRemainingTimeNotification_UnmarshalPayload f payload =
     (if length payload \<noteq> 6 then Inl (InvalidLen (length payload) 6)
      else Inr (f\<lparr> crt_SessionID := u16_of (payload ! 0) (payload ! 1),
                   crt_IndexID := payload ! 2,
                   crt_NodeParameter := payload ! 3,
                   crt_Seconds := u16_of (payload ! 4) (payload ! 5) \<rparr>))"

record FrameSessionFinishedNotification =
  sfn_SessionID :: u16

definition FrameSessionFinishedNotification_new :: FrameSessionFinishedNotification where
  [codec_simps]: "FrameSessionFinishedNotification_new = \<lparr> sfn_SessionID = 0 \<rparr>"

definition FrameSessionFinishedNotification_MarshalPayload ::
    "FrameSessionFinishedNotification \<Rightarrow> perror + byte list" where
  [codec_simps]: "FrameSessionFinishedNotification_MarshalPayload f =
     Inr [hi_byte (sfn_SessionID f), lo_byte (sfn_SessionID f)]"

definition FrameSessionFinishedNotification_UnmarshalPayload ::
    "FrameSessionFinishedNotification \<Rightarrow> byte list \<Rightarrow>
     perror + FrameSessionFinishedNotification" where
  [codec_simps]: "FrameSessionFinishedNotification_UnmarshalPayload f payload =
     (if length payload \<noteq> 2 then Inl (InvalidLen (length payload) 2)
      else Inr (f\<lparr> sfn_SessionID := u16_of (payload ! 0) (payload ! 1) \<rparr>))"

section \<open>Status request\<close>

definition StatusRequestStatusRejected :: byte where
  [go_consts]: "StatusRequestStatusRejected = 0"
definition StatusRequestStatusAccepted :: byte where
  [go_consts]: "StatusRequestStatusAccepted = 1"

record FrameStatusRequestRequest =
  srr_SessionID :: u16
  srr_NodeIDs :: "byte list"
  srr_StatusType :: StatusType
  srr_FPI1 :: byte
  srr_FPI2 :: byte

definition FrameStatusRequestRequest_new :: FrameStatusRequestRequest where
  [codec_simps]: "FrameStatusRequestRequest_new = \<lparr> srr_SessionID = 0, srr_NodeIDs = [],
     srr_StatusType = StatusTypeRequestCurrentPosition, srr_FPI1 = 254, srr_FPI2 = 0 \<rparr>"

definition FrameStatusRequestRequest_MarshalPayload ::
    "FrameStatusRequestRequest \<Rightarrow> perror + byte list" where
  [codec_simps]: "FrameStatusRequestRequest_MarshalPayload f =
     (if length (srr_NodeIDs f) > 20 then Inl (TooManyNodes (length (srr_NodeIDs f)))
      else Inr (
        [hi_byte (srr_SessionID f), lo_byte (srr_SessionID f)] @
        [word_of_nat (length (srr_NodeIDs f))] @
        copy_pad 20 (srr_NodeIDs f) @
        [srr_StatusType f] @ [srr_FPI1 f] @ [srr_FPI2 f]))"

definition FrameStatusRequestRequest_UnmarshalPayload ::
    "FrameStatusRequestRequest \<Rightarrow> byte list \<Rightarrow> perror + FrameStatusRequestRequest" where
  [codec_simps]: "FrameStatusRequestRequest_UnmarshalPayload f payload =
     (if length payload \<noteq> 26 then Inl (InvalidLen (length payload) 26)
      else
       let f = f\<lparr> srr_SessionID := u16_of (payload ! 0) (payload ! 1) \<rparr>;
           lenNodeIDs = unat (payload ! 2)
       in if lenNodeIDs > 20 then Inl (WrongNodeLength lenNodeIDs)
          else Inr (f\<lparr> srr_NodeIDs := map (\<lambda>i. payload ! 3 + word_of_nat i) [0..<lenNodeIDs],
                       srr_StatusType := payload ! 23,
                       srr_FPI1 := payload ! 24,
                       srr_FPI2 := payload ! 25 \<rparr>))"

record FrameStatusRequestConfirmation =
  src_SessionID :: u16
  src_Status :: byte

definition FrameStatusRequestConfirmation_new :: FrameStatusRequestConfirmation where
  [codec_simps]: "FrameStatusRequestConfirmation_new = \<lparr> src_SessionID = 0, src_Status = 0 \<rparr>"

definition FrameStatusRequestConfirmation_MarshalPayload ::
    "FrameStatusRequestConfirmation \<Rightarrow> perror + byte list" where
  [codec_simps]: "FrameStatusRequestConfirmation_MarshalPayload f =
     Inr [hi_byte (src_SessionID f), lo_byte (src_SessionID f), src_Status f]"

definition FrameStatusRequestConfirmation_UnmarshalPayload ::
    "FrameStatusRequestConfirmation \<Rightarrow> byte list \<Rightarrow> perror + FrameStatusRequestConfirmation" where
  [codec_simps]: "FrameStatusRequestConfirmation_UnmarshalPayload f payload =
     (if length payload \<noteq> 3 then Inl (InvalidLen (length payload) 3)
      else Inr (f\<lparr> src_SessionID := u16_of (payload ! 0) (payload ! 1),
                   src_Status := payload ! 2 \<rparr>))"

text \<open>
  \<open>ParameterData map[NodeParameter]Parameter\<close> is an association list with distinct keys: its
  order is the order in which \<open>range\<close> visits the map, which Go leaves open.
\<close>

record FrameStatusRequestNotification =
  srn_SessionID :: u16
  srn_StatusID :: byte
  srn_NodeID :: byte
  srn_RunStatus :: RunStatus
  srn_StatusReply :: StatusReply
  srn_StatusType :: StatusType
  srn_TargetPosition :: Parameter
  srn_CurrentPosition :: Parameter
  srn_RemainingTime :: u16
  srn_LastMasterExecutionAddress :: u32
  srn_LastCommandOriginator :: byte
  srn_StatusCount :: byte
  srn_ParameterData :: "(NodeParameter \<times> Parameter) list"

definition FrameStatusRequestNotification_new :: FrameStatusRequestNotification where
  [codec_simps]: "FrameStatusRequestNotification_new = \<lparr> srn_SessionID = 0, srn_StatusID = 0, srn_NodeID = 0,
     srn_RunStatus = RunStatusExecutionCompleted,
     srn_StatusReply = StatusReplyUnknownStatusReply,
     srn_StatusType = StatusTypeRequestTargetPosition,
     srn_TargetPosition = zeroParameter, srn_CurrentPosition = zeroParameter,
     srn_RemainingTime = 0, srn_LastMasterExecutionAddress = 0, srn_LastCommandOriginator = 0,
     srn_StatusCount = 0, srn_ParameterData = [] \<rparr>"

text \<open>The loop over the map stops when \<open>count\<close> entries are written; a negative length of the
  padding is a panic of \<open>make\<close>.\<close>

fun srn_entries :: "nat \<Rightarrow> (NodeParameter \<times> Parameter) list \<Rightarrow> byte list" where
  "srn_entries count [] = []"
| "srn_entries count ((key, val) # rest) =
     (if count = 0 then []
      else [key] @ Parameter_Bytes val @ srn_entries (count - 1) rest)"

definition FrameStatusRequestNotification_MarshalPayload ::
    "FrameStatusRequestNotification \<Rightarrow> perror + byte list" where
  [codec_simps]: "FrameStatusRequestNotification_MarshalPayload f =
     (let payload = [hi_byte (srn_SessionID f), lo_byte (srn_SessionID f), srn_StatusID f,
            srn_NodeID f, srn_RunStatus f, srn_StatusReply f, srn_StatusType f]
      in if srn_StatusType f = StatusTypeRequestMainInfo
         then Inr (payload @ Parameter_Bytes (srn_TargetPosition f) @
                Parameter_Bytes (srn_CurrentPosition f) @
                [hi_byte (srn_RemainingTime f), lo_byte (srn_RemainingTime f)] @
                be_put32 (srn_LastMasterExecutionAddress f) @
                [srn_LastCommandOriginator f])
         else
           let payload = payload @ [srn_StatusCount f] @
                 srn_entries (unat (srn_StatusCount f)) (srn_ParameterData f);
               remaining = 51 - 3 * int (length (srn_ParameterData f))
           in if remaining < 0 then Inl GoPanic
              else Inr (payload @ replicate (nat remaining) 0))"

function srn_loop ::
    "byte list \<Rightarrow> nat \<Rightarrow> nat \<Rightarrow> (NodeParameter \<times> Parameter) list \<Rightarrow>
     perror + (NodeParameter \<times> Parameter) list" where
  "srn_loop payload i stop m =
     (if i < stop
      then res_bind (NewParameter (Some (payload ! (i + 1), payload ! (i + 2))))
             (\<lambda>p. srn_loop payload (i + 3) stop (AList.update (payload ! i) p m))
      else Inr m)"
  by pat_completeness auto
termination
  by (relation "measure (\<lambda>(payload, i, stop, m). stop - i)") auto

declare srn_loop.simps [simp del]

definition FrameStatusRequestNotification_UnmarshalPayload ::
    "FrameStatusRequestNotification \<Rightarrow> byte list \<Rightarrow> perror + FrameStatusRequestNotification" where
  [codec_simps]: "FrameStatusRequestNotification_UnmarshalPayload f payload =
     (if length payload < 7 then Inl (TooShort (length payload))
      else
       let f = f\<lparr> srn_SessionID := u16_of (payload ! 0) (payload ! 1),
                  srn_StatusID := payload ! 2,
                  srn_NodeID := payload ! 3,
                  srn_RunStatus := payload ! 4,
                  srn_StatusReply := payload ! 5,
                  srn_StatusType := payload ! 6,
                  srn_ParameterData := [] \<rparr>
       in if srn_StatusType f = StatusTypeRequestMainInfo
          then if length payload < 18 then Inl (TooShort (length payload))
               else
                 res_bind (NewParameter (Some (payload ! 7, payload ! 8))) (\<lambda>tp.
                 res_bind (NewParameter (Some (payload ! 9, payload ! 10))) (\<lambda>cp.
                 Inr (f\<lparr> srn_TargetPosition := tp,
                         srn_CurrentPosition := cp,
                         srn_RemainingTime := u16_of (payload ! 11) (payload ! 12),
                         srn_LastMasterExecutionAddress := be_get32 (slice 13 17 payload),
                         srn_LastCommandOriginator := payload ! 17 \<rparr>)))
          else if length payload < 8 then Inl (TooShort (length payload))
          else
            let f = f\<lparr> srn_StatusCount := payload ! 7 \<rparr>;
                stop = 8 + unat (srn_StatusCount f) * 3
            in if length payload < stop then Inl (TooShort (length payload))
               else res_bind (srn_loop payload 8 stop (srn_ParameterData f))
                      (\<lambda>m. Inr (f\<lparr> srn_ParameterData := m \<rparr>)))"

section \<open>Position changed\<close>

record FrameNodeStatePositionChangedNotification =
  psc_NodeID :: byte
  psc_State :: byte
  psc_CurrentPosition :: Parameter
  psc_Target :: Parameter
  psc_CurrentPositionFP1 :: Parameter
  psc_CurrentPositionFP2 :: Parameter
  psc_CurrentPositionFP3 :: Parameter
  psc_CurrentPositionFP4 :: Parameter
  psc_RemainingTime :: u16
  psc_Timestamp :: u32

definition FrameNodeStatePositionChangedNotification_new ::
    FrameNodeStatePositionChangedNotification where
  [codec_simps]: "FrameNodeStatePositionChangedNotification_new = \<lparr> psc_NodeID = 0, psc_State = 0,
     psc_CurrentPosition = zeroParameter, psc_Target = zeroParameter,
     psc_CurrentPositionFP1 = zeroParameter, psc_CurrentPositionFP2 = zeroParameter,
     psc_CurrentPositionFP3 = zeroParameter, psc_CurrentPositionFP4 = zeroParameter,
     psc_RemainingTime = 0, psc_Timestamp = 0 \<rparr>"

definition FrameNodeStatePositionChangedNotification_MarshalPayload ::
    "FrameNodeStatePositionChangedNotification \<Rightarrow> perror + byte list" where
  [codec_simps]: "FrameNodeStatePositionChangedNotification_MarshalPayload f =
     Inr ([psc_NodeID f] @ [psc_State f] @
       Parameter_Bytes (psc_CurrentPosition f) @
       Parameter_Bytes (psc_Target f) @
       Parameter_Bytes (psc_CurrentPositionFP1 f) @
       Parameter_Bytes (psc_CurrentPositionFP2 f) @
       Parameter_Bytes (psc_CurrentPositionFP3 f) @
       Parameter_Bytes (psc_CurrentPositionFP4 f) @
       [hi_byte (psc_RemainingTime f), lo_byte (psc_RemainingTime f)] @
       be_put32 (psc_Timestamp f))"

definition FrameNodeStatePositionChangedNotification_UnmarshalPayload ::
    "FrameNodeStatePositionChangedNotification \<Rightarrow> byte list \<Rightarrow>
     perror + FrameNodeStatePositionChangedNotification" where
  [codec_simps]: "FrameNodeStatePositionChangedNotification_UnmarshalPayload f payload =
     (if length payload \<noteq> 20 then Inl (InvalidLen (length payload) 20)
      else
        let f = f\<lparr> psc_NodeID := payload ! 0, psc_State := payload ! 1 \<rparr> in
        res_bind (NewParameter (Some (payload ! 2, payload ! 3))) (\<lambda>cp.
        res_bind (NewParameter (Some (payload ! 4, payload ! 5))) (\<lambda>tp.
        res_bind (NewParameter (Some (payload ! 6, payload ! 7))) (\<lambda>fp1.
        res_bind (NewParameter (Some (payload ! 8, payload ! 9))) (\<lambda>fp2.
        res_bind (NewParameter (Some (payload ! 10, payload ! 11))) (\<lambda>fp3.
        res_bind (NewParameter (Some (payload ! 12, payload ! 13))) (\<lambda>fp4.
        Inr (f\<lparr> psc_CurrentPosition := cp, psc_Target := tp,
                psc_CurrentPositionFP1 := fp1, psc_CurrentPositionFP2 := fp2,
                psc_CurrentPositionFP3 := fp3, psc_CurrentPositionFP4 := fp4,
                psc_RemainingTime := u16_of (payload ! 14) (payload ! 15),
                psc_Timestamp := be_get32 (slice 16 20 payload) \<rparr>))))))))"

section \<open>The frames of the file\<close>

text \<open>The dynamic type of a \<open>Frame\<close> value and its methods.\<close>

datatype commands_frame =
    FrCommandSendRequest FrameCommandSendRequest
  | FrCommandSendConfirmation FrameCommandSendConfirmation
  | FrCommandRunStatusNotification FrameCommandRunStatusNotification
  | FrCommandRemainingTimeNotification FrameCommandRemainingTimeNotification
  | FrSessionFinishedNotification FrameSessionFinishedNotification
  | FrStatusRequestRequest FrameStatusRequestRequest
  | FrStatusRequestConfirmation FrameStatusRequestConfirmation
  | FrStatusRequestNotification FrameStatusRequestNotification
  | FrNodeStatePositionChangedNotification FrameNodeStatePositionChangedNotification

fun commands_frame_Command :: "commands_frame \<Rightarrow> u16" where
  "commands_frame_Command (FrCommandSendRequest f) = GW_COMMAND_SEND_REQ"
| "commands_frame_Command (FrCommandSendConfirmation f) = GW_COMMAND_SEND_CFM"
| "commands_frame_Command (FrCommandRunStatusNotification f) = GW_COMMAND_RUN_STATUS_NTF"
| "commands_frame_Command (FrCommandRemainingTimeNotification f) = GW_COMMAND_REMAINING_TIME_NTF"
| "commands_frame_Command (FrSessionFinishedNotification f) = GW_SESSION_FINISHED_NTF"
| "commands_frame_Command (FrStatusRequestRequest f) = GW_STATUS_REQUEST_REQ"
| "commands_frame_Command (FrStatusRequestConfirmation f) = GW_STATUS_REQUEST_CFM"
| "commands_frame_Command (FrStatusRequestNotification f) = GW_STATUS_REQUEST_NTF"
| "commands_frame_Command (FrNodeStatePositionChangedNotification f) = GW_NODE_STATE_POSITION_CHANGED_NTF"

fun commands_frame_MarshalPayload :: "commands_frame \<Rightarrow> perror + byte list" where
  "commands_frame_MarshalPayload (FrCommandSendRequest f) = FrameCommandSendRequest_MarshalPayload f"
| "commands_frame_MarshalPayload (FrCommandSendConfirmation f) = FrameCommandSendConfirmation_MarshalPayload f"
| "commands_frame_MarshalPayload (FrCommandRunStatusNotification f) = FrameCommandRunStatusNotification_MarshalPayload f"
| "commands_frame_MarshalPayload (FrCommandRemainingTimeNotification f) = FrameCommandRemainingTimeNotification_MarshalPayload f"
| "commands_frame_MarshalPayload (FrSessionFinishedNotification f) = FrameSessionFinishedNotification_MarshalPayload f"
| "commands_frame_MarshalPayload (FrStatusRequestRequest f) = FrameStatusRequestRequest_MarshalPayload f"
| "commands_frame_MarshalPayload (FrStatusRequestConfirmation f) = FrameStatusRequestConfirmation_MarshalPayload f"
| "commands_frame_MarshalPayload (FrStatusRequestNotification f) = FrameStatusRequestNotification_MarshalPayload f"
| "commands_frame_MarshalPayload (FrNodeStatePositionChangedNotification f) = FrameNodeStatePositionChangedNotification_MarshalPayload f"

fun commands_frame_UnmarshalPayload :: "commands_frame \<Rightarrow> byte list \<Rightarrow> perror + commands_frame" where
  "commands_frame_UnmarshalPayload (FrCommandSendRequest f) payload =
     res_bind (FrameCommandSendRequest_UnmarshalPayload f payload) (\<lambda>f. Inr (FrCommandSendRequest f))"
| "commands_frame_UnmarshalPayload (FrCommandSendConfirmation f) payload =
     res_bind (FrameCommandSendConfirmation_UnmarshalPayload f payload) (\<lambda>f. Inr (FrCommandSendConfirmation f))"
| "commands_frame_UnmarshalPayload (FrCommandRunStatusNotification f) payload =
     res_bind (FrameCommandRunStatusNotification_UnmarshalPayload f payload) (\<lambda>f. Inr (FrCommandRunStatusNotification f))"
| "commands_frame_UnmarshalPayload (FrCommandRemainingTimeNotification f) payload =
     res_bind (FrameCommandRemainingTimeNotification_UnmarshalPayload f payload) (\<lambda>f. Inr (FrCommandRemainingTimeNotification f))"
| "commands_frame_UnmarshalPayload (FrSessionFinishedNotification f) payload =
     res_bind (FrameSessionFinishedNotification_UnmarshalPayload f payload) (\<lambda>f. Inr (FrSessionFinishedNotification f))"
| "commands_frame_UnmarshalPayload (FrStatusRequestRequest f) payload =
     res_bind (FrameStatusRequestRequest_UnmarshalPayload f payload) (\<lambda>f. Inr (FrStatusRequestRequest f))"
| "commands_frame_UnmarshalPayload (FrStatusRequestConfirmation f) payload =
     res_bind (FrameStatusRequestConfirmation_UnmarshalPayload f payload) (\<lambda>f. Inr (FrStatusRequestConfirmation f))"
| "commands_frame_UnmarshalPayload (FrStatusRequestNotification f) payload =
     res_bind (FrameStatusRequestNotification_UnmarshalPayload f payload) (\<lambda>f. Inr (FrStatusRequestNotification f))"
| "commands_frame_UnmarshalPayload (FrNodeStatePositionChangedNotification f) payload =
     res_bind (FrameNodeStatePositionChangedNotification_UnmarshalPayload f payload) (\<lambda>f. Inr (FrNodeStatePositionChangedNotification f))"

definition commands_frame_constructors :: "(u16 \<times> commands_frame) list" where
  "commands_frame_constructors =
    [(GW_COMMAND_SEND_REQ, FrCommandSendRequest FrameCommandSendRequest_new),
     (GW_COMMAND_SEND_CFM, FrCommandSendConfirmation FrameCommandSendConfirmation_new),
     (GW_COMMAND_RUN_STATUS_NTF, FrCommandRunStatusNotification FrameCommandRunStatusNotification_new),
     (GW_COMMAND_REMAINING_TIME_NTF, FrCommandRemainingTimeNotification FrameCommandRemainingTimeNotification_new),
     (GW_SESSION_FINISHED_NTF, FrSessionFinishedNotification FrameSessionFinishedNotification_new),
     (GW_STATUS_REQUEST_REQ, FrStatusRequestRequest FrameStatusRequestRequest_new),
     (GW_STATUS_REQUEST_CFM, FrStatusRequestConfirmation FrameStatusRequestConfirmation_new),
     (GW_STATUS_REQUEST_NTF, FrStatusRequestNotification FrameStatusRequestNotification_new),
     (GW_NODE_STATE_POSITION_CHANGED_NTF, FrNodeStatePositionChangedNotification FrameNodeStatePositionChangedNotification_new)]"

section \<open>Lemmas on the node array and the status data\<close>

text \<open>
  \<open>UnmarshalPayload\<close> adds the loop counter to the first byte of the node array, so what it
  reads back is the run of ids that starts with the first one.
\<close>

definition run_from :: "byte \<Rightarrow> nat \<Rightarrow> byte list" where
  "run_from b n = map (\<lambda>i. b + word_of_nat i) [0..<n]"

lemma length_run_from [simp]: "length (run_from b n) = n"
  by (simp add: run_from_def)

definition consecutive :: "byte list \<Rightarrow> bool" where
  "consecutive ids \<longleftrightarrow> ids = run_from (copy_pad 20 ids ! 0) (length ids)"

lemma consecutive_Nil [simp]: "consecutive []"
  by (simp add: consecutive_def run_from_def)

lemma consecutive_single [simp]: "consecutive [i]"
  by (simp add: consecutive_def run_from_def copy_pad_def)

lemma srn_entries_all:
  "length m \<le> n \<Longrightarrow> srn_entries n m = concat (map (\<lambda>(k, v). k # Parameter_Bytes v) m)"
  by (induction n m rule: srn_entries.induct) auto

lemma length_srn_concat [simp]:
  "length (concat (map (\<lambda>(k, v). k # Parameter_Bytes v) m)) = 3 * length m"
  by (induction m) (auto simp: Parameter_Bytes_def)

lemma AList_update_append:
  "k \<notin> fst ` set m \<Longrightarrow> AList.update k v m = m @ [(k, v)]"
  by (induction m) auto

lemma srn_loop_concat:
  assumes "distinct (map fst (done @ m))" "\<forall>(k, v)\<in>set m. valid_raw (Raw v)"
  shows "srn_loop (pre @ concat (map (\<lambda>(k, v). k # Parameter_Bytes v) m) @ post) (length pre)
    (length pre + 3 * length m) done = Inr (done @ m)"
  using assms
proof (induction m arbitrary: pre "done")
  case Nil
  then show ?case by (simp add: srn_loop.simps)
next
  case (Cons kv m)
  obtain k v where kv: "kv = (k, v)" by fastforce
  let ?pre = "pre @ k # Parameter_Bytes v"
  have "k \<notin> fst ` set done" using Cons.prems kv by auto
  then have upd: "AList.update k v done = done @ [(k, v)]" by (rule AList_update_append)
  have new: "NewParameter (Some (fst (Raw v), snd (Raw v))) = Inr v"
    using Cons.prems kv by (auto intro!: NewParameter_keeps)
  have "srn_loop (?pre @ concat (map (\<lambda>(k, v). k # Parameter_Bytes v) m) @ post) (length ?pre)
    (length ?pre + 3 * length m) (done @ [(k, v)]) = Inr ((done @ [(k, v)]) @ m)"
    using Cons.prems kv by (intro Cons.IH) auto
  then show ?case
    using kv upd new
    by (subst srn_loop.simps)
      (simp add: Parameter_Bytes_def nth_append numeral_3_eq_3 add.commute add.left_commute)
qed

text \<open>What is left of a command-send request after a round trip, for any node ids.\<close>

definition command_send_readback :: "FrameCommandSendRequest \<Rightarrow> FrameCommandSendRequest" where
  "command_send_readback f =
     f\<lparr> csr_NodeIDs := run_from (copy_pad 20 (csr_NodeIDs f) ! 0) (length (csr_NodeIDs f)),
        csr_ActiveParameter := 0, csr_FPI1 := 0, csr_FPI2 := 0,
        csr_FunctionalParameter := replicate 16 (0, 0) \<rparr>"

lemma CommandSendRequest_readback:
  assumes "length (csr_NodeIDs f) \<le> 20" "valid_raw (Raw (csr_Parameter f))"
  shows "\<exists>p. FrameCommandSendRequest_MarshalPayload f = Inr p \<and> length p = 66 \<and>
    FrameCommandSendRequest_UnmarshalPayload FrameCommandSendRequest_new p =
      Inr (command_send_readback f)"
  using assms
  by (cases f) (simp add: codec_simps slice_append Parameter_Bytes_def raw2_bytes_def Let_def
      command_send_readback_def run_from_def)

definition status_data_wf :: "FrameStatusRequestNotification \<Rightarrow> bool" where
  "status_data_wf f \<longleftrightarrow>
     (if srn_StatusType f = StatusTypeRequestMainInfo
      then valid_raw (Raw (srn_TargetPosition f)) \<and> valid_raw (Raw (srn_CurrentPosition f)) \<and>
        srn_StatusCount f = 0 \<and> srn_ParameterData f = []
      else srn_TargetPosition f = zeroParameter \<and> srn_CurrentPosition f = zeroParameter \<and>
        srn_RemainingTime f = 0 \<and> srn_LastMasterExecutionAddress f = 0 \<and>
        srn_LastCommandOriginator f = 0 \<and>
        unat (srn_StatusCount f) = length (srn_ParameterData f) \<and>
        length (srn_ParameterData f) \<le> 17 \<and> distinct (map fst (srn_ParameterData f)) \<and>
        (\<forall>(k, v)\<in>set (srn_ParameterData f). valid_raw (Raw v)))"

lemma StatusNotification_roundtrip:
  assumes "status_data_wf f"
  shows "\<exists>p. FrameStatusRequestNotification_MarshalPayload f = Inr p \<and> length p \<le> 252 \<and>
    FrameStatusRequestNotification_UnmarshalPayload FrameStatusRequestNotification_new p = Inr f"
proof (cases "srn_StatusType f = StatusTypeRequestMainInfo")
  case True
  with assms show ?thesis
    by (cases f) (simp add: status_data_wf_def codec_simps slice_append Parameter_Bytes_def Let_def)
next
  case False
  let ?m = "srn_ParameterData f"
  let ?pre = "[hi_byte (srn_SessionID f), lo_byte (srn_SessionID f), srn_StatusID f, srn_NodeID f,
    srn_RunStatus f, srn_StatusReply f, srn_StatusType f, srn_StatusCount f]"
  let ?post = "replicate (51 - 3 * length ?m) (0 :: byte)"
  let ?body = "concat (map (\<lambda>(k, v). k # Parameter_Bytes v) ?m)"
  from assms False have m: "unat (srn_StatusCount f) = length ?m" "length ?m \<le> 17"
    "distinct (map fst ([] @ ?m))" "\<forall>(k, v)\<in>set ?m. valid_raw (Raw v)"
    by (simp_all add: status_data_wf_def)
  have pre: "length ?pre = 8" by simp
  have loop: "srn_loop (?pre @ ?body @ ?post) 8 (8 + length ?m * 3) [] = Inr ?m"
    using srn_loop_concat [OF m(3,4), of ?pre ?post] unfolding pre
    by (simp only: append_Nil mult.commute)
  have "FrameStatusRequestNotification_MarshalPayload f = Inr (?pre @ ?body @ ?post)"
    using False m by (simp add: FrameStatusRequestNotification_MarshalPayload_def Let_def
        srn_entries_all nat_diff_distrib')
  moreover have "FrameStatusRequestNotification_UnmarshalPayload
      FrameStatusRequestNotification_new (?pre @ ?body @ ?post) = Inr f"
    using False assms m loop
    by (cases f) (simp add: codec_simps Let_def status_data_wf_def)
  ultimately show ?thesis using m by simp
qed

section \<open>Round trip\<close>

lemmas commands_frame_create_simps = commands_frame_constructors_def go_consts

fun commands_frame_wf :: "commands_frame \<Rightarrow> bool" where
  "commands_frame_wf (FrCommandSendRequest f) \<longleftrightarrow>
     length (csr_NodeIDs f) \<le> 20 \<and> consecutive (csr_NodeIDs f) \<and>
     valid_raw (Raw (csr_Parameter f)) \<and>
     csr_ActiveParameter f = 0 \<and> csr_FPI1 f = 0 \<and> csr_FPI2 f = 0 \<and>
     csr_FunctionalParameter f = replicate 16 (0, 0)"
| "commands_frame_wf (FrStatusRequestRequest f) \<longleftrightarrow>
     length (srr_NodeIDs f) \<le> 20 \<and> consecutive (srr_NodeIDs f)"
| "commands_frame_wf (FrStatusRequestNotification f) \<longleftrightarrow> status_data_wf f"
| "commands_frame_wf (FrNodeStatePositionChangedNotification f) \<longleftrightarrow>
     valid_raw (Raw (psc_CurrentPosition f)) \<and> valid_raw (Raw (psc_Target f)) \<and>
     valid_raw (Raw (psc_CurrentPositionFP1 f)) \<and> valid_raw (Raw (psc_CurrentPositionFP2 f)) \<and>
     valid_raw (Raw (psc_CurrentPositionFP3 f)) \<and> valid_raw (Raw (psc_CurrentPositionFP4 f))"
| "commands_frame_wf f \<longleftrightarrow> True"

lemma run_from_consecutive:
  "consecutive ids \<Longrightarrow>
   map (\<lambda>i. copy_pad 20 ids ! 0 + word_of_nat i) [0..<length ids] = ids"
  by (simp add: consecutive_def run_from_def)

lemma commands_frame_roundtrip:
  assumes "commands_frame_wf f"
  shows "\<exists>p g. commands_frame_MarshalPayload f = Inr p \<and> length p \<le> 252 \<and>
    map_of commands_frame_constructors (commands_frame_Command f) = Some g \<and> commands_frame_UnmarshalPayload g p = Inr f"
proof (cases f)
  case (FrCommandSendRequest r)
  with assms show ?thesis
    by (cases r) (simp add: commands_frame_create_simps codec_simps slice_append Parameter_Bytes_def
        raw2_bytes_def Let_def run_from_consecutive)
next
  case (FrCommandSendConfirmation r)
  with assms show ?thesis
    by (cases r) (simp add: commands_frame_create_simps codec_simps slice_append)
next
  case (FrCommandRunStatusNotification r)
  with assms show ?thesis
    by (cases r) (simp add: commands_frame_create_simps codec_simps slice_append)
next
  case (FrCommandRemainingTimeNotification r)
  with assms show ?thesis
    by (cases r) (simp add: commands_frame_create_simps codec_simps slice_append)
next
  case (FrSessionFinishedNotification r)
  with assms show ?thesis
    by (cases r) (simp add: commands_frame_create_simps codec_simps slice_append)
next
  case (FrStatusRequestRequest r)
  with assms show ?thesis
    by (cases r) (simp add: commands_frame_create_simps codec_simps slice_append Let_def
        run_from_consecutive)
next
  case (FrStatusRequestConfirmation r)
  with assms show ?thesis
    by (cases r) (simp add: commands_frame_create_simps codec_simps slice_append)
next
  case (FrStatusRequestNotification r)
  with assms obtain p where "FrameStatusRequestNotification_MarshalPayload r = Inr p" "length p \<le> 252"
    "FrameStatusRequestNotification_UnmarshalPayload FrameStatusRequestNotification_new p = Inr r"
    using StatusNotification_roundtrip [of r] by auto
  with FrStatusRequestNotification show ?thesis by (intro exI [of _ p]) (simp add: commands_frame_create_simps)
next
  case (FrNodeStatePositionChangedNotification r)
  with assms show ?thesis
    by (cases r) (simp add: commands_frame_create_simps codec_simps slice_append Parameter_Bytes_def Let_def)
qed

interpretation commands: frame_codec commands_frame_Command commands_frame_MarshalPayload
    "map_of commands_frame_constructors" commands_frame_UnmarshalPayload commands_frame_wf
  by unfold_locales (rule commands_frame_roundtrip)

end
