(* ===== verification/WireStrings.thy ===== *)
theory WireStrings
  imports Prelude
begin

text \<open>
  The fixed-width, NUL-padded strings of the frames: \<open>stringToBytes\<close> and \<open>bytesToString\<close> of
  \<^verbatim>\<open>src/app/klf200/protocol/frame_auth_system.go\<close>, and the scene-name variants of
  \<^verbatim>\<open>frame_scenes_wink.go\<close>, which are proved to be the same functions.
\<close>

definition stringToBytes :: "string \<Rightarrow> nat \<Rightarrow> perror + byte list" where
  "stringToBytes s n =
     (let encoded = bytes_of s in
      if length encoded > n then Inl (StringTooLong (length encoded) n)
      else Inr (copy_pad n encoded))"

text \<open>The loop \<open>for i, b := range raw\<close> with its early return.\<close>

fun bytesToString_loop :: "byte list \<Rightarrow> nat \<Rightarrow> byte list \<Rightarrow> string" where
  "bytesToString_loop raw i [] = string_of raw"
| "bytesToString_loop raw i (b # bs) =
     (if b = 0 then string_of (take i raw) else bytesToString_loop raw (i + 1) bs)"

definition bytesToString :: "byte list \<Rightarrow> string" where
  "bytesToString raw = bytesToString_loop raw 0 raw"

definition sceneNameToBytes :: "string \<Rightarrow> perror + byte list" where
  "sceneNameToBytes name =
     (let encoded = bytes_of name in
      if length encoded > 64 then Inl (StringTooLong (length encoded) 64)
      else Inr (copy_pad 64 encoded))"

definition sceneNameFromBytes :: "byte list \<Rightarrow> string" where
  "sceneNameFromBytes raw =
     (case IndexByte raw 0 of
        None \<Rightarrow> string_of raw
      | Some idx \<Rightarrow> string_of (take idx raw))"

section \<open>Lemmas\<close>

lemma takeWhile_no_nul: "0 \<notin> set bs \<Longrightarrow> takeWhile (\<lambda>b. b \<noteq> 0) bs = bs" for bs :: "byte list"
  by (simp add: takeWhile_eq_all_conv) metis

text \<open>Both decoders return the bytes before the first NUL.\<close>

lemma bytesToString_loop_eq:
  "raw = us @ bs \<Longrightarrow> 0 \<notin> set us \<Longrightarrow>
   bytesToString_loop raw (length us) bs = string_of (takeWhile (\<lambda>b. b \<noteq> 0) raw)"
proof (induction bs arbitrary: us)
  case (Cons b bs)
  then show ?case
    using Cons.IH [of "us @ [b]"] by (auto simp: takeWhile_append)
qed (simp add: takeWhile_no_nul)

lemma bytesToString_takeWhile:
  "bytesToString raw = string_of (takeWhile (\<lambda>b. b \<noteq> 0) raw)"
  using bytesToString_loop_eq [of raw "[]" raw] by (simp add: bytesToString_def)

lemma sceneNameFromBytes_takeWhile:
  "sceneNameFromBytes raw = string_of (takeWhile (\<lambda>b. b \<noteq> 0) raw)"
proof (cases "IndexByte raw 0")
  case None
  then have "0 \<notin> set raw" by (simp add: IndexByte_None_iff)
  with None show ?thesis by (simp add: sceneNameFromBytes_def takeWhile_no_nul)
next
  case (Some i)
  then obtain us vs where "raw = us @ 0 # vs" "length us = i" "0 \<notin> set us"
    using IndexByte_Some by blast
  with Some show ?thesis by (auto simp: sceneNameFromBytes_def takeWhile_append)
qed

lemma sceneNameFromBytes_eq: "sceneNameFromBytes = bytesToString"
  by (rule ext) (simp add: sceneNameFromBytes_takeWhile bytesToString_takeWhile)

lemma sceneNameToBytes_eq: "sceneNameToBytes s = stringToBytes s 64"
  by (simp add: sceneNameToBytes_def stringToBytes_def)

lemma stringToBytes_Inr [codec_simps]:
  "length s \<le> n \<Longrightarrow> stringToBytes s n = Inr (copy_pad n (bytes_of s))"
  by (simp add: stringToBytes_def)

lemma stringToBytes_Inl:
  "n < length s \<Longrightarrow> stringToBytes s n = Inl (StringTooLong (length s) n)"
  by (simp add: stringToBytes_def)

text \<open>A string survives when it fits and holds no NUL; a NUL cuts it off.\<close>

definition wire_string :: "nat \<Rightarrow> string \<Rightarrow> bool" where
  "wire_string n s \<longleftrightarrow> length s \<le> n \<and> 0 \<notin> set (bytes_of s)"

lemma bytesToString_copy_pad:
  assumes "length s \<le> n"
  shows "bytesToString (copy_pad n (bytes_of s)) =
    string_of (takeWhile (\<lambda>b. b \<noteq> 0) (bytes_of s))"
proof -
  have "takeWhile (\<lambda>b. b \<noteq> 0) (bytes_of s @ replicate k 0) = takeWhile (\<lambda>b. b \<noteq> 0) (bytes_of s)"
    for k
    by (cases k) (auto simp: takeWhile_append takeWhile_eq_all_conv [THEN iffD2])
  with assms show ?thesis by (simp add: bytesToString_takeWhile copy_pad_def)
qed

lemma bytesToString_wire [codec_simps]:
  assumes "wire_string n s"
  shows "bytesToString (copy_pad n (bytes_of s)) = s"
  using assms by (simp add: bytesToString_copy_pad wire_string_def takeWhile_no_nul)

lemma stringToBytes_wire [codec_simps]:
  "wire_string n s \<Longrightarrow> stringToBytes s n = Inr (copy_pad n (bytes_of s))"
  by (simp add: wire_string_def stringToBytes_Inr)

lemma wire_string_length: "wire_string n s \<Longrightarrow> length s \<le> n"
  by (simp add: wire_string_def)

lemma bytesToString_no_nul: "0 \<notin> set (bytes_of (bytesToString raw))"
  by (auto simp: bytesToString_takeWhile dest: set_takeWhileD)

lemma length_bytesToString: "length (bytesToString raw) \<le> length raw"
  by (simp add: bytesToString_takeWhile string_of_def length_takeWhile_le)

lemma wire_string_bytesToString: "length raw \<le> n \<Longrightarrow> wire_string n (bytesToString raw)"
  using length_bytesToString [of raw] bytesToString_no_nul [of raw]
  by (simp add: wire_string_def)

end
