(* ===== verification/GoTime.thy ===== *)
theory GoTime
  imports Main
begin

text \<open>
  The part of Go's package \<^verbatim>\<open>time\<close> that the local-time frame uses: \<^verbatim>\<open>time.Date\<close> with its
  normalisation and the calendar accessors (proleptic Gregorian calendar). A wall-clock time is
  the number of seconds from 0001-01-01 00:00:00 on that clock; locations are in
  \<^verbatim>\<open>Zones\<close>.
\<close>

type_synonym wall = int

definition is_leap :: "int \<Rightarrow> bool" where
  "is_leap y = (y mod 4 = 0 \<and> (y mod 100 \<noteq> 0 \<or> y mod 400 = 0))"

definition days_before_year :: "int \<Rightarrow> int" where
  "days_before_year y =
     (let p = y - 1 in 365 * p + p div 4 - p div 100 + p div 400)"

definition month_lengths :: "int \<Rightarrow> int list" where
  "month_lengths y =
     [31, if is_leap y then 29 else 28, 31, 30, 31, 30, 31, 31, 30, 31, 30, 31]"

definition days_before_month :: "int \<Rightarrow> int \<Rightarrow> int" where
  "days_before_month y m = sum_list (take (nat (m - 1)) (month_lengths y))"

text \<open>\<open>time.Date(year, month, day, hour, min, sec, 0, loc)\<close>: fields out of range carry over.\<close>

definition time_Date :: "int \<Rightarrow> int \<Rightarrow> int \<Rightarrow> int \<Rightarrow> int \<Rightarrow> int \<Rightarrow> wall" where
  "time_Date year month day hour mins sec =
     (let y = year + (month - 1) div 12;
          m = (month - 1) mod 12 + 1;
          days = days_before_year y + days_before_month y m + (day - 1)
      in days * 86400 + hour * 3600 + mins * 60 + sec)"

text \<open>The year of a day number: cycles of 400, 100, 4 years and single years.\<close>

definition year_parts :: "int \<Rightarrow> int \<times> int \<times> int \<times> int \<times> int" where
  "year_parts n =
     (let n400 = n div 146097; d = n mod 146097;
          n100 = d div 36524; n100 = n100 - n100 div 4; d = d - 36524 * n100;
          n4 = d div 1461; d = d - 1461 * n4;
          n1 = d div 365; n1 = n1 - n1 div 4; d = d - 365 * n1
      in (n400, n100, n4, n1, d))"

definition day_year :: "int \<Rightarrow> int" where
  "day_year n = (case year_parts n of (n400, n100, n4, n1, d) \<Rightarrow>
     400 * n400 + 100 * n100 + 4 * n4 + n1 + 1)"

definition day_yday :: "int \<Rightarrow> int" where
  "day_yday n = (case year_parts n of (n400, n100, n4, n1, d) \<Rightarrow> d)"

fun find_month :: "int list \<Rightarrow> int \<Rightarrow> int \<Rightarrow> int \<times> int" where
  "find_month [] d m = (m, d)"
| "find_month (l # ls) d m = (if d < l then (m, d) else find_month ls (d - l) (m + 1))"

definition wall_Year :: "wall \<Rightarrow> int" where
  "wall_Year t = day_year (t div 86400)"

definition wall_YearDay :: "wall \<Rightarrow> int" where
  "wall_YearDay t = day_yday (t div 86400) + 1"

definition wall_month_day :: "wall \<Rightarrow> int \<times> int" where
  "wall_month_day t = find_month (month_lengths (wall_Year t)) (day_yday (t div 86400)) 1"

definition wall_Month :: "wall \<Rightarrow> int" where "wall_Month t = fst (wall_month_day t)"
definition wall_Day :: "wall \<Rightarrow> int" where "wall_Day t = snd (wall_month_day t) + 1"
definition wall_Hour :: "wall \<Rightarrow> int" where "wall_Hour t = t mod 86400 div 3600"
definition wall_Minute :: "wall \<Rightarrow> int" where "wall_Minute t = t mod 3600 div 60"
definition wall_Second :: "wall \<Rightarrow> int" where "wall_Second t = t mod 60"

text \<open>\<open>time.Sunday = 0\<close>; 0001-01-01 was a Monday.\<close>

definition wall_Weekday :: "wall \<Rightarrow> int" where
  "wall_Weekday t = (t div 86400 + 1) mod 7"

section \<open>The accessors invert \<open>time.Date\<close>\<close>

lemma div_bounds: "k * (n div k) \<le> n" "n < k * (n div k) + k" if "0 < k" for k n :: int
  using that pos_mod_bound [of k n] pos_mod_sign [of k n] mult_div_mod_eq [of k n]
  by linarith+

lemma year_parts_bounds:
  assumes "year_parts n = (a, b, c, e, d)"
  shows "n = 146097 * a + 36524 * b + 1461 * c + 365 * e + d"
    "0 \<le> b" "b \<le> 3" "0 \<le> c" "c \<le> 24" "0 \<le> e" "e \<le> 3" "0 \<le> d" "d \<le> 365"
    "d = 365 \<longrightarrow> e = 3 \<and> (c < 24 \<or> b = 3)"
proof -
  define r where "r = n mod 146097"
  have r: "0 \<le> r" "r < 146097" by (simp_all add: r_def)
  define q where "q = r div 36524"
  have q: "0 \<le> q" "q \<le> 4" using r by (auto simp: q_def)
  have b: "b = q - q div 4" 
    using assms unfolding year_parts_def Let_def prod.inject r_def [symmetric] q_def [symmetric]
    by auto
  show "0 \<le> b" "b \<le> 3" using q b by auto
  define s where "s = r - 36524 * b"
  have qb: "q = 4 \<longrightarrow> b = 3" "q < 4 \<longrightarrow> b = q" using q b by auto
  have rq: "36524 * q \<le> r" "r < 36524 * q + 36524" unfolding q_def using div_bounds [of 36524 r] by simp_all
  from qb rq have s: "0 \<le> s" "s \<le> 36524" using r q by (auto simp: s_def)
  have c: "c = s div 1461"
    using assms unfolding year_parts_def Let_def prod.inject r_def [symmetric] q_def [symmetric]
      b [symmetric] s_def [symmetric]
    by auto
  show "0 \<le> c" "c \<le> 24" using s c by auto
  define u where "u = s mod 1461"
  have u: "0 \<le> u" "u < 1461" by (simp_all add: u_def)
  have su: "s - 1461 * c = u" by (simp add: c u_def minus_mult_div_eq_mod)
  define p where "p = u div 365"
  have p: "0 \<le> p" "p \<le> 4" "365 * p \<le> u" "u < 365 * p + 365"
    using u div_bounds [of 365 u] by (simp_all add: p_def)
  have e: "e = p - p div 4" and d: "d = u - 365 * e"
    using assms unfolding year_parts_def Let_def prod.inject r_def [symmetric] q_def [symmetric]
      b [symmetric] s_def [symmetric] c [symmetric] su p_def [symmetric]
    by auto
  show "0 \<le> e" "e \<le> 3" using p e by auto
  have pe: "p = 4 \<longrightarrow> e = 3" "p < 4 \<longrightarrow> e = p" using p e by auto
  then show "0 \<le> d" "d \<le> 365" using u p d by auto
  have sb: "b < 3 \<longrightarrow> s < 36524"
    using qb rq q by (auto simp: s_def)
  show "d = 365 \<longrightarrow> e = 3 \<and> (c < 24 \<or> b = 3)"
  proof
    assume d365: "d = 365"
    have e3: "e = 3"
    proof (rule ccontr)
      assume "e \<noteq> 3"
      then have "e = p" using pe p by linarith
      then show False using d365 d p by linarith
    qed
    have "c < 24" if "b < 3"
      using that sb su d d365 e3 \<open>c \<le> 24\<close> by (cases "c = 24") simp_all
    then show "e = 3 \<and> (c < 24 \<or> b = 3)" using e3 \<open>b \<le> 3\<close> by linarith
  qed
  have "a = n div 146097" 
    using conjunct1 [OF assms [unfolded year_parts_def Let_def prod.inject]] by (rule sym)
  then have "n = 146097 * a + r" by (simp add: r_def)
  then show "n = 146097 * a + 36524 * b + 1461 * c + 365 * e + d"
    using su d by (simp add: s_def)
qed

lemma days_before_day_year: "days_before_year (day_year n) + day_yday n = n"
proof -
  obtain a b c e d where yp: "year_parts n = (a, b, c, e, d)" by (cases "year_parts n") auto
  note y = year_parts_bounds [OF yp]
  let ?p = "400 * a + 100 * b + 4 * c + e"
  have "?p div 4 = 100 * a + 25 * b + c"
    using y by (intro int_div_pos_eq [where r = e]) simp_all
  moreover have "?p div 100 = 4 * a + b"
    using y by (intro int_div_pos_eq [where r = "4 * c + e"]) simp_all
  moreover have "?p div 400 = a"
    using y by (intro int_div_pos_eq [where r = "100 * b + 4 * c + e"]) simp_all
  ultimately show ?thesis
    using y(1) yp by (simp add: days_before_year_def day_year_def day_yday_def)
qed

lemma day_yday_bounds: "0 \<le> day_yday n" "day_yday n \<le> 365"
proof -
  obtain a b c e d where yp: "year_parts n = (a, b, c, e, d)" by (cases "year_parts n") auto
  show "0 \<le> day_yday n" "day_yday n \<le> 365"
    using year_parts_bounds [OF yp] yp by (simp_all add: day_yday_def)
qed

lemma find_month_sum:
  "find_month ls d m = (m', d') \<Longrightarrow>
   \<exists>k. m' = m + int k \<and> k \<le> length ls \<and> d = sum_list (take k ls) + d'"
proof (induction ls arbitrary: d m)
  case (Cons l ls)
  show ?case
  proof (cases "d < l")
    case True
    with Cons.prems show ?thesis by (intro exI [of _ 0]) simp
  next
    case False
    with Cons.prems have "find_month ls (d - l) (m + 1) = (m', d')" by simp
    from Cons.IH [OF this] obtain k where "m' = m + 1 + int k" "k \<le> length ls"
      "d - l = sum_list (take k ls) + d'" by blast
    then show ?thesis by (intro exI [of _ "Suc k"]) simp
  qed
qed simp

lemma find_month_day:
  "find_month ls d m = (m', d') \<Longrightarrow> 0 \<le> d \<Longrightarrow> d < sum_list ls \<Longrightarrow> \<forall>l\<in>set ls. l \<le> 31 \<Longrightarrow>
   0 \<le> d' \<and> d' < 31 \<and> m' < m + int (length ls)"
proof (induction ls arbitrary: d m)
  case (Cons l ls)
  show ?case
  proof (cases "d < l")
    case True
    with Cons.prems show ?thesis by auto
  next
    case False
    with Cons.prems have "0 \<le> d' \<and> d' < 31 \<and> m' < m + 1 + int (length ls)"
      by (intro Cons.IH [of "d - l"]) auto
    then show ?thesis by simp
  qed
qed simp

lemma sum_month_lengths: "sum_list (month_lengths y) = (if is_leap y then 366 else 365)"
  by (simp add: month_lengths_def)

lemma day_yday_in_year: "day_yday n < sum_list (month_lengths (day_year n))"
proof -
  obtain a b c e d where yp: "year_parts n = (a, b, c, e, d)" by (cases "year_parts n") auto
  note y = year_parts_bounds [OF yp]
  have d: "day_yday n = d" and yr: "day_year n = 400 * a + 100 * b + 4 * c + e + 1"
    using yp by (simp_all add: day_yday_def day_year_def)
  show ?thesis
  proof (cases "d = 365")
    case True
    with y have e: "e = 3" "c < 24 \<or> b = 3" by auto
    have 4: "day_year n mod 4 = 0"
      using e yr by (intro int_mod_pos_eq [where q = "100 * a + 25 * b + c + 1"]) simp_all
    have "day_year n mod 100 \<noteq> 0" if "c < 24"
    proof -
      have "day_year n mod 100 = 4 * c + 4"
        using that y(4) e yr by (intro int_mod_pos_eq [where q = "4 * a + b"]) simp_all
      with y(4) show ?thesis by simp
    qed
    moreover have "day_year n mod 400 = 0" if "\<not> c < 24"
      using that y e yr by (intro int_mod_pos_eq [where q = "a + 1"]) simp_all
    ultimately have "is_leap (day_year n)"
      using 4 by (cases "c < 24") (simp_all add: is_leap_def)
    with True d show ?thesis by (simp add: sum_month_lengths)
  next
    case False
    with y d show ?thesis by (simp add: sum_month_lengths)
  qed
qed

lemma wall_fields:
  "1 \<le> wall_Month t" "wall_Month t \<le> 12" "1 \<le> wall_Day t" "wall_Day t \<le> 31"
  "0 \<le> wall_Hour t" "wall_Hour t < 24" "0 \<le> wall_Minute t" "wall_Minute t < 60"
  "0 \<le> wall_Second t" "wall_Second t < 60" "0 \<le> wall_Weekday t" "wall_Weekday t < 7"
  "1 \<le> wall_YearDay t" "wall_YearDay t \<le> 366"
proof -
  obtain m d where md: "wall_month_day t = (m, d)" by fastforce
  have len: "length (month_lengths (wall_Year t)) = 12" by (simp add: month_lengths_def)
  have l31: "\<forall>l\<in>set (month_lengths (wall_Year t)). l \<le> 31" by (simp add: month_lengths_def)
  from find_month_day [OF md [unfolded wall_month_day_def] _ _ l31] len
  have b: "0 \<le> d" "d < 31" "m < 13"
    using day_yday_bounds [of "t div 86400"] day_yday_in_year [of "t div 86400"]
    by (simp_all add: wall_Year_def)
  from find_month_sum [OF md [unfolded wall_month_day_def]] have "1 \<le> m" by auto
  with b md show "1 \<le> wall_Month t" "wall_Month t \<le> 12" "1 \<le> wall_Day t" "wall_Day t \<le> 31"
    by (simp_all add: wall_Month_def wall_Day_def)
  show "0 \<le> wall_Hour t" "wall_Hour t < 24" "0 \<le> wall_Minute t" "wall_Minute t < 60"
    "0 \<le> wall_Second t" "wall_Second t < 60" "0 \<le> wall_Weekday t" "wall_Weekday t < 7"
    using pos_mod_bound [of 86400 t] pos_mod_bound [of 3600 t] div_bounds [of 3600 "t mod 86400"]
      div_bounds [of 60 "t mod 3600"]
      pos_mod_sign [of 86400 t] pos_mod_sign [of 3600 t] pos_mod_bound [of 60 t]
      pos_mod_sign [of 60 t] pos_mod_bound [of 7 "t div 86400 + 1"]
      pos_mod_sign [of 7 "t div 86400 + 1"]
    unfolding wall_Hour_def wall_Minute_def wall_Second_def wall_Weekday_def by linarith+
  show "1 \<le> wall_YearDay t" "wall_YearDay t \<le> 366"
    using day_yday_bounds [of "t div 86400"] by (simp_all add: wall_YearDay_def)
qed

theorem time_Date_fields:
  "time_Date (wall_Year t) (wall_Month t) (wall_Day t) (wall_Hour t) (wall_Minute t)
     (wall_Second t) = t"
proof -
  obtain m d where md: "wall_month_day t = (m, d)" by fastforce
  from find_month_sum [OF md [unfolded wall_month_day_def]] obtain k where
    k: "m = 1 + int k" "day_yday (t div 86400) = sum_list (take k (month_lengths (wall_Year t))) + d"
    by blast
  have m: "m - 1 = int k" "(m - 1) div 12 = 0" "(m - 1) mod 12 = int k"
    using wall_fields(1,2) [of t] md k(1) by (simp_all add: wall_Month_def)
  have days: "days_before_year (wall_Year t) + days_before_month (wall_Year t) m + d = t div 86400"
    using days_before_day_year [of "t div 86400"] k m
    by (simp add: wall_Year_def days_before_month_def)
  have "t mod 3600 = t mod 86400 mod 3600" "t mod 60 = t mod 3600 mod 60"
    by (simp_all add: mod_mod_cancel)
  then have "t = t div 86400 * 86400 + wall_Hour t * 3600 + wall_Minute t * 60 + wall_Second t"
    unfolding wall_Hour_def wall_Minute_def wall_Second_def
    using div_mult_mod_eq [of t 86400] div_mult_mod_eq [of "t mod 86400" 3600]
      div_mult_mod_eq [of "t mod 3600" 60] by linarith
  note t = this
  have "time_Date (wall_Year t) (wall_Month t) (wall_Day t) (wall_Hour t) (wall_Minute t)
      (wall_Second t) =
    (days_before_year (wall_Year t) + days_before_month (wall_Year t) m + d) * 86400 +
      wall_Hour t * 3600 + wall_Minute t * 60 + wall_Second t"
    using m k(1) md by (simp add: time_Date_def wall_Month_def wall_Day_def Let_def add.commute)
  then show ?thesis unfolding days using t by simp
qed

end
