(* ===== verification/FramesAuth.thy ===== *)
theory FramesAuth
  imports Framing Parameter WireStrings GoTime
begin

text \<open>
  \<^verbatim>\<open>src/app/klf200/protocol/frame_auth_system.go\<close>: the frames of the login, the password
  change, the reboot, factory default, leaving the learn state, versions, clock. Each Go struct
  is a record (an empty struct is \<^typ>\<open>unit\<close>), each registered constructor a constant
  \<open>..._new\<close>, each pair of methods two functions; an error discards the frame being filled.
\<close>

section \<open>Passwords\<close>

record FramePasswordEnterRequest =
  per_Password :: string

definition FramePasswordEnterRequest_new :: FramePasswordEnterRequest where
  [codec_simps]: "FramePasswordEnterRequest_new = \<lparr> per_Password = '''' \<rparr>"

definition FramePasswordEnterRequest_MarshalPayload ::
    "FramePasswordEnterRequest \<Rightarrow> perror + byte list" where
  [codec_simps]: "FramePasswordEnterRequest_MarshalPayload f =
     (if per_Password f = '''' then Inl EmptyField
      else stringToBytes (per_Password f) 32)"

definition FramePasswordEnterRequest_UnmarshalPayload ::
    "FramePasswordEnterRequest \<Rightarrow> byte list \<Rightarrow> perror + FramePasswordEnterRequest" where
  [codec_simps]: "FramePasswordEnterRequest_UnmarshalPayload f payload =
     (if length payload \<noteq> 32 then Inl (InvalidLen (length payload) 32)
      else Inr (f\<lparr> per_Password := bytesToString payload \<rparr>))"

record FramePasswordEnterConfirmation =
  pec_Status :: byte

definition FramePasswordEnterConfirmation_new :: FramePasswordEnterConfirmation where
  [codec_simps]: "FramePasswordEnterConfirmation_new =
     \<lparr> pec_Status = 0 \<rparr>"

definition FramePasswordEnterConfirmation_MarshalPayload ::
    "FramePasswordEnterConfirmation \<Rightarrow> perror + byte list" where
  [codec_simps]: "FramePasswordEnterConfirmation_MarshalPayload f =
     Inr [pec_Status f]"

definition FramePasswordEnterConfirmation_UnmarshalPayload ::
    "FramePasswordEnterConfirmation \<Rightarrow> byte list \<Rightarrow> perror + FramePasswordEnterConfirmation" where
  [codec_simps]: "FramePasswordEnterConfirmation_UnmarshalPayload f payload =
     (if length payload \<noteq> 1 then Inl (InvalidLen (length payload) 1)
      else Inr (f\<lparr> pec_Status := payload ! 0 \<rparr>))"

record FramePasswordChangeRequest =
  pcr_Currentpassword :: string
  pcr_Newpassword :: string

definition FramePasswordChangeRequest_new :: FramePasswordChangeRequest where
  [codec_simps]: "FramePasswordChangeRequest_new =
     \<lparr> pcr_Currentpassword = '''', pcr_Newpassword = '''' \<rparr>"

definition FramePasswordChangeRequest_MarshalPayload ::
    "FramePasswordChangeRequest \<Rightarrow> perror + byte list" where
  [codec_simps]: "FramePasswordChangeRequest_MarshalPayload f =
     (if pcr_Currentpassword f = '''' then Inl EmptyField
      else if pcr_Newpassword f = '''' then Inl EmptyField
      else res_bind (stringToBytes (pcr_Currentpassword f) 32) (\<lambda>cur.
           res_bind (stringToBytes (pcr_Newpassword f) 32) (\<lambda>nw. Inr (cur @ nw))))"

definition FramePasswordChangeRequest_UnmarshalPayload ::
    "FramePasswordChangeRequest \<Rightarrow> byte list \<Rightarrow> perror + FramePasswordChangeRequest" where
  [codec_simps]: "FramePasswordChangeRequest_UnmarshalPayload f payload =
     (if length payload \<noteq> 64 then Inl (InvalidLen (length payload) 64)
      else Inr (f\<lparr> pcr_Currentpassword := bytesToString (slice 0 32 payload),
                   pcr_Newpassword := bytesToString (drop 32 payload) \<rparr>))"

record FramePasswordChangeConfirmation =
  pcc_Status :: byte

definition FramePasswordChangeConfirmation_new :: FramePasswordChangeConfirmation where
  [codec_simps]: "FramePasswordChangeConfirmation_new =
     \<lparr> pcc_Status = 0 \<rparr>"

definition FramePasswordChangeConfirmation_MarshalPayload ::
    "FramePasswordChangeConfirmation \<Rightarrow> perror + byte list" where
  [codec_simps]: "FramePasswordChangeConfirmation_MarshalPayload f =
     Inr [pcc_Status f]"

definition FramePasswordChangeConfirmation_UnmarshalPayload ::
    "FramePasswordChangeConfirmation \<Rightarrow> byte list \<Rightarrow> perror + FramePasswordChangeConfirmation" where
  [codec_simps]: "FramePasswordChangeConfirmation_UnmarshalPayload f payload =
     (if length payload \<noteq> 1 then Inl (InvalidLen (length payload) 1)
      else Inr (f\<lparr> pcc_Status := payload ! 0 \<rparr>))"

record FramePasswordChangeNotification =
  pcn_Newpassword :: string

definition FramePasswordChangeNotification_new :: FramePasswordChangeNotification where
  [codec_simps]: "FramePasswordChangeNotification_new = \<lparr> pcn_Newpassword = '''' \<rparr>"

definition FramePasswordChangeNotification_MarshalPayload ::
    "FramePasswordChangeNotification \<Rightarrow> perror + byte list" where
  [codec_simps]: "FramePasswordChangeNotification_MarshalPayload f =
     (if pcn_Newpassword f = '''' then Inl EmptyField
      else stringToBytes (pcn_Newpassword f) 32)"

definition FramePasswordChangeNotification_UnmarshalPayload ::
    "FramePasswordChangeNotification \<Rightarrow> byte list \<Rightarrow> perror + FramePasswordChangeNotification" where
  [codec_simps]: "FramePasswordChangeNotification_UnmarshalPayload f payload =
     (if length payload \<noteq> 32 then Inl (InvalidLen (length payload) 32)
      else Inr (f\<lparr> pcn_Newpassword := bytesToString payload \<rparr>))"

section \<open>Reboot, factory default, learn state\<close>

type_synonym FrameGatewayRebootRequest = unit

definition FrameGatewayRebootRequest_new :: FrameGatewayRebootRequest where
  [codec_simps]: "FrameGatewayRebootRequest_new = ()"

definition FrameGatewayRebootRequest_MarshalPayload :: "FrameGatewayRebootRequest \<Rightarrow> perror + byte list" where
  [codec_simps]: "FrameGatewayRebootRequest_MarshalPayload f = Inr []"

definition FrameGatewayRebootRequest_UnmarshalPayload ::
    "FrameGatewayRebootRequest \<Rightarrow> byte list \<Rightarrow> perror + FrameGatewayRebootRequest" where
  [codec_simps]: "FrameGatewayRebootRequest_UnmarshalPayload f payload =
     (if length payload \<noteq> 0 then Inl (InvalidLen (length payload) 0) else Inr f)"

type_synonym FrameGatewayRebootConfirmation = unit

definition FrameGatewayRebootConfirmation_new :: FrameGatewayRebootConfirmation where
  [codec_simps]: "FrameGatewayRebootConfirmation_new = ()"

definition FrameGatewayRebootConfirmation_MarshalPayload :: "FrameGatewayRebootConfirmation \<Rightarrow> perror + byte list" where
  [codec_simps]: "FrameGatewayRebootConfirmation_MarshalPayload f = Inr []"

definition FrameGatewayRebootConfirmation_UnmarshalPayload ::
    "FrameGatewayRebootConfirmation \<Rightarrow> byte list \<Rightarrow> perror + FrameGatewayRebootConfirmation" where
  [codec_simps]: "FrameGatewayRebootConfirmation_UnmarshalPayload f payload =
     (if length payload \<noteq> 0 then Inl (InvalidLen (length payload) 0) else Inr f)"

type_synonym FrameGatewayFactoryDefaultRequest = unit

definition FrameGatewayFactoryDefaultRequest_new :: FrameGatewayFactoryDefaultRequest where
  [codec_simps]: "FrameGatewayFactoryDefaultRequest_new = ()"

definition FrameGatewayFactoryDefaultRequest_MarshalPayload :: "FrameGatewayFactoryDefaultRequest \<Rightarrow> perror + byte list" where
  [codec_simps]: "FrameGatewayFactoryDefaultRequest_MarshalPayload f = Inr []"

definition FrameGatewayFactoryDefaultRequest_UnmarshalPayload ::
    "FrameGatewayFactoryDefaultRequest \<Rightarrow> byte list \<Rightarrow> perror + FrameGatewayFactoryDefaultRequest" where
  [codec_simps]: "FrameGatewayFactoryDefaultRequest_UnmarshalPayload f payload =
     (if length payload \<noteq> 0 then Inl (InvalidLen (length payload) 0) else Inr f)"

type_synonym FrameGatewayFactoryDefaultConfirmation = unit

definition FrameGatewayFactoryDefaultConfirmation_new :: FrameGatewayFactoryDefaultConfirmation where
  [codec_simps]: "FrameGatewayFactoryDefaultConfirmation_new = ()"

definition FrameGatewayFactoryDefaultConfirmation_MarshalPayload :: "FrameGatewayFactoryDefaultConfirmation \<Rightarrow> perror + byte list" where
  [codec_simps]: "FrameGatewayFactoryDefaultConfirmation_MarshalPayload f = Inr []"

definition FrameGatewayFactoryDefaultConfirmation_UnmarshalPayload ::
    "FrameGatewayFactoryDefaultConfirmation \<Rightarrow> byte list \<Rightarrow>
     perror + FrameGatewayFactoryDefaultConfirmation" where
  [codec_simps]: "FrameGatewayFactoryDefaultConfirmation_UnmarshalPayload f payload =
     (if length payload \<noteq> 0 then Inl (InvalidLen (length payload) 0) else Inr f)"

type_synonym FrameLeaveLearnStateRequest = unit

definition FrameLeaveLearnStateRequest_new :: FrameLeaveLearnStateRequest where
  [codec_simps]: "FrameLeaveLearnStateRequest_new = ()"

definition FrameLeaveLearnStateRequest_MarshalPayload :: "FrameLeaveLearnStateRequest \<Rightarrow> perror + byte list" where
  [codec_simps]: "FrameLeaveLearnStateRequest_MarshalPayload f = Inr []"

definition FrameLeaveLearnStateRequest_UnmarshalPayload ::
    "FrameLeaveLearnStateRequest \<Rightarrow> byte list \<Rightarrow> perror + FrameLeaveLearnStateRequest" where
  [codec_simps]: "FrameLeaveLearnStateRequest_UnmarshalPayload f payload =
     (if length payload \<noteq> 0 then Inl (InvalidLen (length payload) 0) else Inr f)"

record FrameLeaveLearnStateConfirmation =
  llc_Status :: LeaveLearnStateConfirmationStatus

definition FrameLeaveLearnStateConfirmation_new :: FrameLeaveLearnStateConfirmation where
  [codec_simps]: "FrameLeaveLearnStateConfirmation_new =
     \<lparr> llc_Status = 0 \<rparr>"

definition FrameLeaveLearnStateConfirmation_MarshalPayload ::
    "FrameLeaveLearnStateConfirmation \<Rightarrow> perror + byte list" where
  [codec_simps]: "FrameLeaveLearnStateConfirmation_MarshalPayload f =
     Inr [llc_Status f]"

definition FrameLeaveLearnStateConfirmation_UnmarshalPayload ::
    "FrameLeaveLearnStateConfirmation \<Rightarrow> byte list \<Rightarrow> perror + FrameLeaveLearnStateConfirmation" where
  [codec_simps]: "FrameLeaveLearnStateConfirmation_UnmarshalPayload f payload =
     (if length payload \<noteq> 1 then Inl (InvalidLen (length payload) 1)
      else Inr (f\<lparr> llc_Status := payload ! 0 \<rparr>))"

section \<open>Versions\<close>

type_synonym FrameGetVersionRequest = unit

definition FrameGetVersionRequest_new :: FrameGetVersionRequest where
  [codec_simps]: "FrameGetVersionRequest_new = ()"

definition FrameGetVersionRequest_MarshalPayload :: "FrameGetVersionRequest \<Rightarrow> perror + byte list" where
  [codec_simps]: "FrameGetVersionRequest_MarshalPayload f = Inr []"

definition FrameGetVersionRequest_UnmarshalPayload ::
    "FrameGetVersionRequest \<Rightarrow> byte list \<Rightarrow> perror + FrameGetVersionRequest" where
  [codec_simps]: "FrameGetVersionRequest_UnmarshalPayload f payload =
     (if length payload \<noteq> 0 then Inl (InvalidLen (length payload) 0) else Inr f)"

record FrameGetVersionConfirmation =
  gvc_SoftwareVersion :: "byte list"
  gvc_HardwareVersion :: byte
  gvc_ProductGroup :: byte
  gvc_ProductType :: byte

definition FrameGetVersionConfirmation_new :: FrameGetVersionConfirmation where
  [codec_simps]: "FrameGetVersionConfirmation_new =
     \<lparr> gvc_SoftwareVersion = replicate 6 0, gvc_HardwareVersion = 0, gvc_ProductGroup = 0,
       gvc_ProductType = 0 \<rparr>"

definition FrameGetVersionConfirmation_MarshalPayload ::
    "FrameGetVersionConfirmation \<Rightarrow> perror + byte list" where
  [codec_simps]: "FrameGetVersionConfirmation_MarshalPayload f =
     Inr (gvc_SoftwareVersion f @ [gvc_HardwareVersion f, gvc_ProductGroup f, gvc_ProductType f])"

definition FrameGetVersionConfirmation_UnmarshalPayload ::
    "FrameGetVersionConfirmation \<Rightarrow> byte list \<Rightarrow> perror + FrameGetVersionConfirmation" where
  [codec_simps]: "FrameGetVersionConfirmation_UnmarshalPayload f payload =
     (if length payload \<noteq> 9 then Inl (InvalidLen (length payload) 9)
      else Inr (f\<lparr> gvc_SoftwareVersion := slice 0 6 payload, gvc_HardwareVersion := payload ! 6,
            gvc_ProductGroup := payload ! 7, gvc_ProductType := payload ! 8 \<rparr>))"

definition SoftwareVersionString :: "FrameGetVersionConfirmation \<Rightarrow> string" where
  "SoftwareVersionString f = strings_Join (map byte_dec (gvc_SoftwareVersion f)) ''.''"

definition Product :: "FrameGetVersionConfirmation \<Rightarrow> string" where
  "Product f =
     (if gvc_ProductGroup f = 14 \<and> gvc_ProductType f = 3 then ''KLF 200''
      else ''Unknown Product: '' @ byte_dec (gvc_ProductGroup f) @ '':'' @
        byte_dec (gvc_ProductType f))"

type_synonym FrameGetProtocolVersionRequest = unit

definition FrameGetProtocolVersionRequest_new :: FrameGetProtocolVersionRequest where
  [codec_simps]: "FrameGetProtocolVersionRequest_new = ()"

definition FrameGetProtocolVersionRequest_MarshalPayload :: "FrameGetProtocolVersionRequest \<Rightarrow> perror + byte list" where
  [codec_simps]: "FrameGetProtocolVersionRequest_MarshalPayload f = Inr []"

definition FrameGetProtocolVersionRequest_UnmarshalPayload ::
    "FrameGetProtocolVersionRequest \<Rightarrow> byte list \<Rightarrow> perror + FrameGetProtocolVersionRequest" where
  [codec_simps]: "FrameGetProtocolVersionRequest_UnmarshalPayload f payload =
     (if length payload \<noteq> 0 then Inl (InvalidLen (length payload) 0) else Inr f)"

record FrameGetProtocolVersionConfirmation =
  gpc_MajorVersion :: u16
  gpc_MinorVersion :: u16

definition FrameGetProtocolVersionConfirmation_new :: FrameGetProtocolVersionConfirmation where
  [codec_simps]: "FrameGetProtocolVersionConfirmation_new =
     \<lparr> gpc_MajorVersion = 0, gpc_MinorVersion = 0 \<rparr>"

definition FrameGetProtocolVersionConfirmation_MarshalPayload ::
    "FrameGetProtocolVersionConfirmation \<Rightarrow> perror + byte list" where
  [codec_simps]: "FrameGetProtocolVersionConfirmation_MarshalPayload f =
     Inr (be_put16 (gpc_MajorVersion f) @ be_put16 (gpc_MinorVersion f))"

definition FrameGetProtocolVersionConfirmation_UnmarshalPayload ::
    "FrameGetProtocolVersionConfirmation \<Rightarrow> byte list \<Rightarrow>
     perror + FrameGetProtocolVersionConfirmation" where
  [codec_simps]: "FrameGetProtocolVersionConfirmation_UnmarshalPayload f payload =
     (if length payload \<noteq> 4 then Inl (InvalidLen (length payload) 4)
      else Inr (f\<lparr> gpc_MajorVersion := be_get16 (slice 0 2 payload),
            gpc_MinorVersion := be_get16 (slice 2 4 payload) \<rparr>))"

section \<open>Clock\<close>

record FrameSetUTCRequest =
  sur_Timestamp :: u32

definition FrameSetUTCRequest_new :: FrameSetUTCRequest where
  [codec_simps]: "FrameSetUTCRequest_new =
     \<lparr> sur_Timestamp = 0 \<rparr>"

definition FrameSetUTCRequest_MarshalPayload ::
    "FrameSetUTCRequest \<Rightarrow> perror + byte list" where
  [codec_simps]: "FrameSetUTCRequest_MarshalPayload f =
     Inr (be_put32 (sur_Timestamp f))"

definition FrameSetUTCRequest_UnmarshalPayload ::
    "FrameSetUTCRequest \<Rightarrow> byte list \<Rightarrow> perror + FrameSetUTCRequest" where
  [codec_simps]: "FrameSetUTCRequest_UnmarshalPayload f payload =
     (if length payload \<noteq> 4 then Inl (InvalidLen (length payload) 4)
      else Inr (f\<lparr> sur_Timestamp := be_get32 (slice 0 4 payload) \<rparr>))"

type_synonym FrameSetUTCConfirmation = unit

definition FrameSetUTCConfirmation_new :: FrameSetUTCConfirmation where
  [codec_simps]: "FrameSetUTCConfirmation_new = ()"

definition FrameSetUTCConfirmation_MarshalPayload :: "FrameSetUTCConfirmation \<Rightarrow> perror + byte list" where
  [codec_simps]: "FrameSetUTCConfirmation_MarshalPayload f = Inr []"

definition FrameSetUTCConfirmation_UnmarshalPayload ::
    "FrameSetUTCConfirmation \<Rightarrow> byte list \<Rightarrow> perror + FrameSetUTCConfirmation" where
  [codec_simps]: "FrameSetUTCConfirmation_UnmarshalPayload f payload =
     (if length payload \<noteq> 0 then Inl (InvalidLen (length payload) 0) else Inr f)"

text \<open>
  \<open>LocalTime\<close>: the UTC instant is its Unix time, the local time its wall clock
  (\<^verbatim>\<open>GoTime\<close>), as set, before a location makes it an instant (\<^verbatim>\<open>LocalTimes\<close>); the
  daylight-saving byte of the payload is read and dropped by the code.
\<close>

record LocalTime =
  lt_UTCTime :: int
  lt_LocalTime :: wall

type_synonym FrameGetLocalTimeRequest = unit

definition FrameGetLocalTimeRequest_new :: FrameGetLocalTimeRequest where
  [codec_simps]: "FrameGetLocalTimeRequest_new = ()"

definition FrameGetLocalTimeRequest_MarshalPayload :: "FrameGetLocalTimeRequest \<Rightarrow> perror + byte list" where
  [codec_simps]: "FrameGetLocalTimeRequest_MarshalPayload f = Inr []"

definition FrameGetLocalTimeRequest_UnmarshalPayload ::
    "FrameGetLocalTimeRequest \<Rightarrow> byte list \<Rightarrow> perror + FrameGetLocalTimeRequest" where
  [codec_simps]: "FrameGetLocalTimeRequest_UnmarshalPayload f payload =
     (if length payload \<noteq> 0 then Inl (InvalidLen (length payload) 0) else Inr f)"

record FrameGetLocalTimeConfirmation =
  glc_Time :: LocalTime

text \<open>The zero \<open>time.Time\<close> is 0001-01-01 00:00:00 UTC.\<close>

definition FrameGetLocalTimeConfirmation_new :: FrameGetLocalTimeConfirmation where
  [codec_simps]: "FrameGetLocalTimeConfirmation_new =
     \<lparr> glc_Time = \<lparr> lt_UTCTime = - 62135596800, lt_LocalTime = 0 \<rparr> \<rparr>"

definition FrameGetLocalTimeConfirmation_MarshalPayload ::
    "FrameGetLocalTimeConfirmation \<Rightarrow> perror + byte list" where
  [codec_simps]: "FrameGetLocalTimeConfirmation_MarshalPayload f =
     (let lt = lt_LocalTime (glc_Time f);
          yearsOff = wall_Year lt - 1900;
          wd = wall_Weekday lt
      in Inr (be_put32 (word_of_int (lt_UTCTime (glc_Time f))) @
           [word_of_int (wall_Second lt), word_of_int (wall_Minute lt),
            word_of_int (wall_Hour lt), word_of_int (wall_Day lt),
            word_of_int (wall_Month lt - 1)] @
           be_put16 (word_of_int yearsOff) @
           [if wd = 0 then 0 else word_of_int wd] @
           be_put16 (word_of_int (wall_YearDay lt)) @ [0]))"

definition FrameGetLocalTimeConfirmation_UnmarshalPayload ::
    "FrameGetLocalTimeConfirmation \<Rightarrow> byte list \<Rightarrow> perror + FrameGetLocalTimeConfirmation" where
  [codec_simps]: "FrameGetLocalTimeConfirmation_UnmarshalPayload f payload =
     (if length payload \<noteq> 15 then Inl (InvalidLen (length payload) 15)
      else
        let utcSec = uint (be_get32 (slice 0 4 payload));
            second = uint (payload ! 4);
            minute = uint (payload ! 5);
            hour = uint (payload ! 6);
            day = uint (payload ! 7);
            month = uint (payload ! 8) + 1;
            year = uint (be_get16 (slice 9 11 payload)) + 1900
        in Inr (f\<lparr> glc_Time :=
             \<lparr> lt_UTCTime = utcSec,
               lt_LocalTime = time_Date year month day hour minute second \<rparr> \<rparr>))"

section \<open>The frames of the file\<close>

text \<open>The dynamic type of a \<open>Frame\<close> value and its methods.\<close>

datatype auth_frame =
    FrPasswordEnterRequest FramePasswordEnterRequest
  | FrPasswordEnterConfirmation FramePasswordEnterConfirmation
  | FrPasswordChangeRequest FramePasswordChangeRequest
  | FrPasswordChangeConfirmation FramePasswordChangeConfirmation
  | FrPasswordChangeNotification FramePasswordChangeNotification
  | FrGatewayRebootRequest FrameGatewayRebootRequest
  | FrGatewayRebootConfirmation FrameGatewayRebootConfirmation
  | FrGatewayFactoryDefaultRequest FrameGatewayFactoryDefaultRequest
  | FrGatewayFactoryDefaultConfirmation FrameGatewayFactoryDefaultConfirmation
  | FrLeaveLearnStateRequest FrameLeaveLearnStateRequest
  | FrLeaveLearnStateConfirmation FrameLeaveLearnStateConfirmation
  | FrGetVersionRequest FrameGetVersionRequest
  | FrGetVersionConfirmation FrameGetVersionConfirmation
  | FrGetProtocolVersionRequest FrameGetProtocolVersionRequest
  | FrGetProtocolVersionConfirmation FrameGetProtocolVersionConfirmation
  | FrSetUTCRequest FrameSetUTCRequest
  | FrSetUTCConfirmation FrameSetUTCConfirmation
  | FrGetLocalTimeRequest FrameGetLocalTimeRequest
  | FrGetLocalTimeConfirmation FrameGetLocalTimeConfirmation

fun auth_frame_Command :: "auth_frame \<Rightarrow> u16" where
  "auth_frame_Command (FrPasswordEnterRequest f) = GW_PASSWORD_ENTER_REQ"
| "auth_frame_Command (FrPasswordEnterConfirmation f) = GW_PASSWORD_ENTER_CFM"
| "auth_frame_Command (FrPasswordChangeRequest f) = GW_PASSWORD_CHANGE_REQ"
| "auth_frame_Command (FrPasswordChangeConfirmation f) = GW_PASSWORD_CHANGE_CFM"
| "auth_frame_Command (FrPasswordChangeNotification f) = GW_PASSWORD_CHANGE_NTF"
| "auth_frame_Command (FrGatewayRebootRequest f) = GW_REBOOT_REQ"
| "auth_frame_Command (FrGatewayRebootConfirmation f) = GW_REBOOT_CFM"
| "auth_frame_Command (FrGatewayFactoryDefaultRequest f) = GW_SET_FACTORY_DEFAULT_REQ"
| "auth_frame_Command (FrGatewayFactoryDefaultConfirmation f) = GW_SET_FACTORY_DEFAULT_CFM"
| "auth_frame_Command (FrLeaveLearnStateRequest f) = GW_LEAVE_LEARN_STATE_REQ"
| "auth_frame_Command (FrLeaveLearnStateConfirmation f) = GW_LEAVE_LEARN_STATE_CFM"
| "auth_frame_Command (FrGetVersionRequest f) = GW_GET_VERSION_REQ"
| "auth_frame_Command (FrGetVersionConfirmation f) = GW_GET_VERSION_CFM"
| "auth_frame_Command (FrGetProtocolVersionRequest f) = GW_GET_PROTOCOL_VERSION_REQ"
| "auth_frame_Command (FrGetProtocolVersionConfirmation f) = GW_GET_PROTOCOL_VERSION_CFM"
| "auth_frame_Command (FrSetUTCRequest f) = GW_SET_UTC_REQ"
| "auth_frame_Command (FrSetUTCConfirmation f) = GW_SET_UTC_CFM"
| "auth_frame_Command (FrGetLocalTimeRequest f) = GW_GET_LOCAL_TIME_REQ"
| "auth_frame_Command (FrGetLocalTimeConfirmation f) = GW_GET_LOCAL_TIME_CFM"

fun auth_frame_MarshalPayload :: "auth_frame \<Rightarrow> perror + byte list" where
  "auth_frame_MarshalPayload (FrPasswordEnterRequest f) = FramePasswordEnterRequest_MarshalPayload f"
| "auth_frame_MarshalPayload (FrPasswordEnterConfirmation f) = FramePasswordEnterConfirmation_MarshalPayload f"
| "auth_frame_MarshalPayload (FrPasswordChangeRequest f) = FramePasswordChangeRequest_MarshalPayload f"
| "auth_frame_MarshalPayload (FrPasswordChangeConfirmation f) = FramePasswordChangeConfirmation_MarshalPayload f"
| "auth_frame_MarshalPayload (FrPasswordChangeNotification f) = FramePasswordChangeNotification_MarshalPayload f"
| "auth_frame_MarshalPayload (FrGatewayRebootRequest f) = FrameGatewayRebootRequest_MarshalPayload f"
| "auth_frame_MarshalPayload (FrGatewayRebootConfirmation f) = FrameGatewayRebootConfirmation_MarshalPayload f"
| "auth_frame_MarshalPayload (FrGatewayFactoryDefaultRequest f) = FrameGatewayFactoryDefaultRequest_MarshalPayload f"
| "auth_frame_MarshalPayload (FrGatewayFactoryDefaultConfirmation f) = FrameGatewayFactoryDefaultConfirmation_MarshalPayload f"
| "auth_frame_MarshalPayload (FrLeaveLearnStateRequest f) = FrameLeaveLearnStateRequest_MarshalPayload f"
| "auth_frame_MarshalPayload (FrLeaveLearnStateConfirmation f) = FrameLeaveLearnStateConfirmation_MarshalPayload f"
| "auth_frame_MarshalPayload (FrGetVersionRequest f) = FrameGetVersionRequest_MarshalPayload f"
| "auth_frame_MarshalPayload (FrGetVersionConfirmation f) = FrameGetVersionConfirmation_MarshalPayload f"
| "auth_frame_MarshalPayload (FrGetProtocolVersionRequest f) = FrameGetProtocolVersionRequest_MarshalPayload f"
| "auth_frame_MarshalPayload (FrGetProtocolVersionConfirmation f) = FrameGetProtocolVersionConfirmation_MarshalPayload f"
| "auth_frame_MarshalPayload (FrSetUTCRequest f) = FrameSetUTCRequest_MarshalPayload f"
| "auth_frame_MarshalPayload (FrSetUTCConfirmation f) = FrameSetUTCConfirmation_MarshalPayload f"
| "auth_frame_MarshalPayload (FrGetLocalTimeRequest f) = FrameGetLocalTimeRequest_MarshalPayload f"
| "auth_frame_MarshalPayload (FrGetLocalTimeConfirmation f) = FrameGetLocalTimeConfirmation_MarshalPayload f"

fun auth_frame_UnmarshalPayload :: "auth_frame \<Rightarrow> byte list \<Rightarrow> perror + auth_frame" where
  "auth_frame_UnmarshalPayload (FrPasswordEnterRequest f) payload =
     res_bind (FramePasswordEnterRequest_UnmarshalPayload f payload) (\<lambda>f. Inr (FrPasswordEnterRequest f))"
| "auth_frame_UnmarshalPayload (FrPasswordEnterConfirmation f) payload =
     res_bind (FramePasswordEnterConfirmation_UnmarshalPayload f payload) (\<lambda>f. Inr (FrPasswordEnterConfirmation f))"
| "auth_frame_UnmarshalPayload (FrPasswordChangeRequest f) payload =
     res_bind (FramePasswordChangeRequest_UnmarshalPayload f payload) (\<lambda>f. Inr (FrPasswordChangeRequest f))"
| "auth_frame_UnmarshalPayload (FrPasswordChangeConfirmation f) payload =
     res_bind (FramePasswordChangeConfirmation_UnmarshalPayload f payload) (\<lambda>f. Inr (FrPasswordChangeConfirmation f))"
| "auth_frame_UnmarshalPayload (FrPasswordChangeNotification f) payload =
     res_bind (FramePasswordChangeNotification_UnmarshalPayload f payload) (\<lambda>f. Inr (FrPasswordChangeNotification f))"
| "auth_frame_UnmarshalPayload (FrGatewayRebootRequest f) payload =
     res_bind (FrameGatewayRebootRequest_UnmarshalPayload f payload) (\<lambda>f. Inr (FrGatewayRebootRequest f))"
| "auth_frame_UnmarshalPayload (FrGatewayRebootConfirmation f) payload =
     res_bind (FrameGatewayRebootConfirmation_UnmarshalPayload f payload) (\<lambda>f. Inr (FrGatewayRebootConfirmation f))"
| "auth_frame_UnmarshalPayload (FrGatewayFactoryDefaultRequest f) payload =
     res_bind (FrameGatewayFactoryDefaultRequest_UnmarshalPayload f payload) (\<lambda>f. Inr (FrGatewayFactoryDefaultRequest f))"
| "auth_frame_UnmarshalPayload (FrGatewayFactoryDefaultConfirmation f) payload =
     res_bind (FrameGatewayFactoryDefaultConfirmation_UnmarshalPayload f payload) (\<lambda>f. Inr (FrGatewayFactoryDefaultConfirmation f))"
| "auth_frame_UnmarshalPayload (FrLeaveLearnStateRequest f) payload =
     res_bind (FrameLeaveLearnStateRequest_UnmarshalPayload f payload) (\<lambda>f. Inr (FrLeaveLearnStateRequest f))"
| "auth_frame_UnmarshalPayload (FrLeaveLearnStateConfirmation f) payload =
     res_bind (FrameLeaveLearnStateConfirmation_UnmarshalPayload f payload) (\<lambda>f. Inr (FrLeaveLearnStateConfirmation f))"
| "auth_frame_UnmarshalPayload (FrGetVersionRequest f) payload =
     res_bind (FrameGetVersionRequest_UnmarshalPayload f payload) (\<lambda>f. Inr (FrGetVersionRequest f))"
| "auth_frame_UnmarshalPayload (FrGetVersionConfirmation f) payload =
     res_bind (FrameGetVersionConfirmation_UnmarshalPayload f payload) (\<lambda>f. Inr (FrGetVersionConfirmation f))"
| "auth_frame_UnmarshalPayload (FrGetProtocolVersionRequest f) payload =
     res_bind (FrameGetProtocolVersionRequest_UnmarshalPayload f payload) (\<lambda>f. Inr (FrGetProtocolVersionRequest f))"
| "auth_frame_UnmarshalPayload (FrGetProtocolVersionConfirmation f) payload =
     res_bind (FrameGetProtocolVersionConfirmation_UnmarshalPayload f payload) (\<lambda>f. Inr (FrGetProtocolVersionConfirmation f))"
| "auth_frame_UnmarshalPayload (FrSetUTCRequest f) payload =
     res_bind (FrameSetUTCRequest_UnmarshalPayload f payload) (\<lambda>f. Inr (FrSetUTCRequest f))"
| "auth_frame_UnmarshalPayload (FrSetUTCConfirmation f) payload =
     res_bind (FrameSetUTCConfirmation_UnmarshalPayload f payload) (\<lambda>f. Inr (FrSetUTCConfirmation f))"
| "auth_frame_UnmarshalPayload (FrGetLocalTimeRequest f) payload =
     res_bind (FrameGetLocalTimeRequest_UnmarshalPayload f payload) (\<lambda>f. Inr (FrGetLocalTimeRequest f))"
| "auth_frame_UnmarshalPayload (FrGetLocalTimeConfirmation f) payload =
     res_bind (FrameGetLocalTimeConfirmation_UnmarshalPayload f payload) (\<lambda>f. Inr (FrGetLocalTimeConfirmation f))"

definition auth_frame_constructors :: "(u16 \<times> auth_frame) list" where
  "auth_frame_constructors =
    [(GW_PASSWORD_ENTER_REQ, FrPasswordEnterRequest FramePasswordEnterRequest_new),
     (GW_PASSWORD_ENTER_CFM, FrPasswordEnterConfirmation FramePasswordEnterConfirmation_new),
     (GW_PASSWORD_CHANGE_REQ, FrPasswordChangeRequest FramePasswordChangeRequest_new),
     (GW_PASSWORD_CHANGE_CFM, FrPasswordChangeConfirmation FramePasswordChangeConfirmation_new),
     (GW_PASSWORD_CHANGE_NTF, FrPasswordChangeNotification FramePasswordChangeNotification_new),
     (GW_REBOOT_REQ, FrGatewayRebootRequest FrameGatewayRebootRequest_new),
     (GW_REBOOT_CFM, FrGatewayRebootConfirmation FrameGatewayRebootConfirmation_new),
     (GW_SET_FACTORY_DEFAULT_REQ, FrGatewayFactoryDefaultRequest FrameGatewayFactoryDefaultRequest_new),
     (GW_SET_FACTORY_DEFAULT_CFM, FrGatewayFactoryDefaultConfirmation FrameGatewayFactoryDefaultConfirmation_new),
     (GW_LEAVE_LEARN_STATE_REQ, FrLeaveLearnStateRequest FrameLeaveLearnStateRequest_new),
     (GW_LEAVE_LEARN_STATE_CFM, FrLeaveLearnStateConfirmation FrameLeaveLearnStateConfirmation_new),
     (GW_GET_VERSION_REQ, FrGetVersionRequest FrameGetVersionRequest_new),
     (GW_GET_VERSION_CFM, FrGetVersionConfirmation FrameGetVersionConfirmation_new),
     (GW_GET_PROTOCOL_VERSION_REQ, FrGetProtocolVersionRequest FrameGetProtocolVersionRequest_new),
     (GW_GET_PROTOCOL_VERSION_CFM, FrGetProtocolVersionConfirmation FrameGetProtocolVersionConfirmation_new),
     (GW_SET_UTC_REQ, FrSetUTCRequest FrameSetUTCRequest_new),
     (GW_SET_UTC_CFM, FrSetUTCConfirmation FrameSetUTCConfirmation_new),
     (GW_GET_LOCAL_TIME_REQ, FrGetLocalTimeRequest FrameGetLocalTimeRequest_new),
     (GW_GET_LOCAL_TIME_CFM, FrGetLocalTimeConfirmation FrameGetLocalTimeConfirmation_new)]"

section \<open>Round trip\<close>

lemmas auth_frame_create_simps = auth_frame_constructors_def go_consts

fun auth_frame_wf :: "auth_frame \<Rightarrow> bool" where
  "auth_frame_wf (FrPasswordEnterRequest f) \<longleftrightarrow>
     per_Password f \<noteq> '''' \<and> wire_string 32 (per_Password f)"
| "auth_frame_wf (FrPasswordChangeRequest f) \<longleftrightarrow>
     pcr_Currentpassword f \<noteq> '''' \<and> pcr_Newpassword f \<noteq> '''' \<and>
     wire_string 32 (pcr_Currentpassword f) \<and> wire_string 32 (pcr_Newpassword f)"
| "auth_frame_wf (FrPasswordChangeNotification f) \<longleftrightarrow>
     pcn_Newpassword f \<noteq> '''' \<and> wire_string 32 (pcn_Newpassword f)"
| "auth_frame_wf (FrGetVersionConfirmation f) \<longleftrightarrow> length (gvc_SoftwareVersion f) = 6"
| "auth_frame_wf (FrGetLocalTimeConfirmation f) \<longleftrightarrow>
     0 \<le> lt_UTCTime (glc_Time f) \<and> lt_UTCTime (glc_Time f) < 2 ^ 32 \<and>
     1900 \<le> wall_Year (lt_LocalTime (glc_Time f)) \<and>
     wall_Year (lt_LocalTime (glc_Time f)) < 1900 + 2 ^ 16"
| "auth_frame_wf f \<longleftrightarrow> True"

lemma uint_of_wall_field:
  "0 \<le> k \<Longrightarrow> k < 256 \<Longrightarrow> uint (word_of_int k :: byte) = k"
  by (simp add: uint_word_of_int)

lemma LocalTime_roundtrip:
  assumes "auth_frame_wf (FrGetLocalTimeConfirmation r)"
  shows "\<exists>p. FrameGetLocalTimeConfirmation_MarshalPayload r = Inr p \<and> length p = 15 \<and>
    FrameGetLocalTimeConfirmation_UnmarshalPayload g p = Inr r"
proof -
  let ?t = "lt_LocalTime (glc_Time r)"
  let ?u = "lt_UTCTime (glc_Time r)"
  have f: "uint (word_of_int (wall_Second ?t) :: byte) = wall_Second ?t"
    "uint (word_of_int (wall_Minute ?t) :: byte) = wall_Minute ?t"
    "uint (word_of_int (wall_Hour ?t) :: byte) = wall_Hour ?t"
    "uint (word_of_int (wall_Day ?t) :: byte) = wall_Day ?t"
    "uint (word_of_int (wall_Month ?t - 1) :: byte) = wall_Month ?t - 1"
    using wall_fields [of ?t] by (intro uint_of_wall_field; linarith)+
  have y: "uint (word_of_int (wall_Year ?t - 1900) :: u16) = wall_Year ?t - 1900"
    using assms by (simp add: uint_word_of_int del: of_int_diff)
  have u: "uint (word_of_int ?u :: u32) = ?u"
    using assms by (simp add: uint_word_of_int)
  show ?thesis
    unfolding FrameGetLocalTimeConfirmation_MarshalPayload_def
      FrameGetLocalTimeConfirmation_UnmarshalPayload_def Let_def
    by (rule exI, intro conjI, rule refl)
      (auto intro!: FrameGetLocalTimeConfirmation.equality LocalTime.equality
        simp: codec_simps slice_append f y u time_Date_fields simp del: of_int_diff)
qed

lemma auth_frame_roundtrip:
  assumes "auth_frame_wf f"
  shows "\<exists>p g. auth_frame_MarshalPayload f = Inr p \<and> length p \<le> 252 \<and>
    map_of auth_frame_constructors (auth_frame_Command f) = Some g \<and> auth_frame_UnmarshalPayload g p = Inr f"
proof (cases f)
  case (FrPasswordEnterRequest r)
  with assms show ?thesis
    by (cases r) (simp add: auth_frame_create_simps codec_simps slice_append)
next
  case (FrPasswordEnterConfirmation r)
  with assms show ?thesis
    by (cases r) (simp add: auth_frame_create_simps codec_simps slice_append)
next
  case (FrPasswordChangeRequest r)
  with assms show ?thesis
    by (cases r) (simp add: auth_frame_create_simps codec_simps slice_append)
next
  case (FrPasswordChangeConfirmation r)
  with assms show ?thesis
    by (cases r) (simp add: auth_frame_create_simps codec_simps slice_append)
next
  case (FrPasswordChangeNotification r)
  with assms show ?thesis
    by (cases r) (simp add: auth_frame_create_simps codec_simps slice_append)
next
  case (FrLeaveLearnStateConfirmation r)
  with assms show ?thesis
    by (cases r) (simp add: auth_frame_create_simps codec_simps slice_append)
next
  case (FrGetVersionConfirmation r)
  with assms show ?thesis
    by (cases r) (simp add: auth_frame_create_simps codec_simps slice_append)
next
  case (FrGetProtocolVersionConfirmation r)
  with assms show ?thesis
    by (cases r) (simp add: auth_frame_create_simps codec_simps slice_append)
next
  case (FrSetUTCRequest r)
  with assms show ?thesis
    by (cases r) (simp add: auth_frame_create_simps codec_simps slice_append)
next
  case (FrGetLocalTimeConfirmation r)
  with assms obtain p where "FrameGetLocalTimeConfirmation_MarshalPayload r = Inr p" "length p = 15"
    "FrameGetLocalTimeConfirmation_UnmarshalPayload FrameGetLocalTimeConfirmation_new p = Inr r"
    using LocalTime_roundtrip by blast
  with FrGetLocalTimeConfirmation show ?thesis
    by (intro exI [of _ p]) (simp add: auth_frame_create_simps)
qed (simp_all add: auth_frame_create_simps codec_simps)

interpretation auth: frame_codec auth_frame_Command auth_frame_MarshalPayload
    "map_of auth_frame_constructors" auth_frame_UnmarshalPayload auth_frame_wf
  by unfold_locales (rule auth_frame_roundtrip)

end
