(* ===== verification/FramesNodes.thy ===== *)
theory FramesNodes
  imports Framing Parameter WireStrings
begin

text \<open>
  \<^verbatim>\<open>src/app/klf200/protocol/frame_nodes.go\<close>: the node-information frames with the alias array
  and the 124-byte node record they share, node discovery and renaming.
\<close>

section \<open>The alias array\<close>

record aliasEntry =
  alias_typ :: raw2
  alias_val :: raw2

record AliasArray =
  entries :: "aliasEntry list"

definition aliasArrayFromBytes :: "byte list \<Rightarrow> perror + AliasArray" where
  "aliasArrayFromBytes raw =
     (if length raw \<noteq> 21 then Inl (InvalidAliasSize (length raw))
      else
        let nbrOfAlias = unat (raw ! 0) in
        if nbrOfAlias > 5 then Inl (InvalidNbrOfAlias nbrOfAlias)
        else Inr \<lparr> entries =
          map (\<lambda>i. let base = i * 4 + 1 in
                \<lparr> alias_typ = (raw ! base, raw ! (base + 1)),
                  alias_val = (raw ! (base + 2), raw ! (base + 3)) \<rparr>)
            [0..<nbrOfAlias] \<rparr>)"

text \<open>
  The writes at \<open>base = i * 4 + 1\<close> go into a zeroed array of 21 bytes; a sixth alias would
  be written out of range.
\<close>

definition alias_bytes :: "aliasEntry \<Rightarrow> byte list" where
  "alias_bytes e = [fst (alias_typ e), snd (alias_typ e), fst (alias_val e), snd (alias_val e)]"

definition AliasArray_Bytes :: "AliasArray \<Rightarrow> perror + byte list" where
  "AliasArray_Bytes a =
     (if length (entries a) > 5 then Inl GoPanic
      else Inr (copy_pad 21
        (word_of_nat (length (entries a)) # concat (map alias_bytes (entries a)))))"

definition fmt_02x :: "byte \<Rightarrow> string" where
  "fmt_02x b = [''0123456789abcdef'' ! (unat b div 16), ''0123456789abcdef'' ! (unat b mod 16)]"

definition alias_String :: "aliasEntry \<Rightarrow> string" where
  "alias_String e = fmt_02x (fst (alias_typ e)) @ fmt_02x (snd (alias_typ e)) @ ''='' @
     fmt_02x (fst (alias_val e)) @ fmt_02x (snd (alias_val e))"

text \<open>The loop puts a comma in front of every entry but the first.\<close>

definition AliasArray_String :: "AliasArray \<Rightarrow> string" where
  "AliasArray_String a = strings_Join (map alias_String (entries a)) '', ''"

section \<open>Node information\<close>

record nodeInfo =
  ni_NodeID :: byte
  ni_Order :: u16
  ni_Placement :: byte
  ni_Name :: string
  ni_Velocity :: Velocity
  ni_NodeType :: NodeTypeWithSubtype
  ni_ProductGroup :: byte
  ni_ProductType :: byte
  ni_NodeVariation :: NodeVariation
  ni_PowerMode :: byte
  ni_BuildNumber :: byte
  ni_SerialNumber :: "byte list"
  ni_State :: byte
  ni_CurrentPosition :: Parameter
  ni_Target :: Parameter
  ni_CurrentPositionFP1 :: Parameter
  ni_CurrentPositionFP2 :: Parameter
  ni_CurrentPositionFP3 :: Parameter
  ni_CurrentPositionFP4 :: Parameter
  ni_RemainingTime :: u16
  ni_Timestamp :: u32
  ni_AliasArray :: AliasArray

definition nodeInfoPayloadLen :: nat where "nodeInfoPayloadLen = 124"

definition marshalNodeInfo :: "nodeInfo \<Rightarrow> perror + byte list" where
  "marshalNodeInfo n =
     res_bind (stringToBytes (ni_Name n) 64) (\<lambda>nameBytes.
     res_bind (AliasArray_Bytes (ni_AliasArray n)) (\<lambda>aliases.
     Inr ([ni_NodeID n] @
       [hi_byte (ni_Order n), lo_byte (ni_Order n)] @
       [ni_Placement n] @
       nameBytes @
       [ni_Velocity n] @
       [hi_byte (ni_NodeType n), lo_byte (ni_NodeType n)] @
       [ni_ProductGroup n] @ [ni_ProductType n] @ [ni_NodeVariation n] @
       [ni_PowerMode n] @ [ni_BuildNumber n] @
       ni_SerialNumber n @
       [ni_State n] @
       Parameter_Bytes (ni_CurrentPosition n) @
       Parameter_Bytes (ni_Target n) @
       Parameter_Bytes (ni_CurrentPositionFP1 n) @
       Parameter_Bytes (ni_CurrentPositionFP2 n) @
       Parameter_Bytes (ni_CurrentPositionFP3 n) @
       Parameter_Bytes (ni_CurrentPositionFP4 n) @
       [hi_byte (ni_RemainingTime n), lo_byte (ni_RemainingTime n)] @
       be_put32 (ni_Timestamp n) @
       aliases)))"

definition unmarshalNodeInfo :: "byte list \<Rightarrow> nodeInfo \<Rightarrow> perror + nodeInfo" where
  "unmarshalNodeInfo payload n =
     (if length payload \<noteq> nodeInfoPayloadLen
      then Inl (InvalidLen (length payload) nodeInfoPayloadLen)
      else
        let n = n\<lparr> ni_NodeID := payload ! 0,
              ni_Order := u16_of (payload ! 1) (payload ! 2),
              ni_Placement := payload ! 3,
              ni_Name := bytesToString (slice 4 68 payload),
              ni_Velocity := payload ! 68,
              ni_NodeType := u16_of (payload ! 69) (payload ! 70),
              ni_ProductGroup := payload ! 71,
              ni_ProductType := payload ! 72,
              ni_NodeVariation := payload ! 73,
              ni_PowerMode := payload ! 74,
              ni_BuildNumber := payload ! 75,
              ni_SerialNumber := slice 76 84 payload,
              ni_State := payload ! 84 \<rparr> in
        res_bind (NewParameter (Some (payload ! 85, payload ! 86))) (\<lambda>p.
        let n = n\<lparr> ni_CurrentPosition := p \<rparr> in
        res_bind (NewParameter (Some (payload ! 87, payload ! 88))) (\<lambda>p.
        let n = n\<lparr> ni_Target := p \<rparr> in
        res_bind (NewParameter (Some (payload ! 89, payload ! 90))) (\<lambda>p.
        let n = n\<lparr> ni_CurrentPositionFP1 := p \<rparr> in
        res_bind (NewParameter (Some (payload ! 91, payload ! 92))) (\<lambda>p.
        let n = n\<lparr> ni_CurrentPositionFP2 := p \<rparr> in
        res_bind (NewParameter (Some (payload ! 93, payload ! 94))) (\<lambda>p.
        let n = n\<lparr> ni_CurrentPositionFP3 := p \<rparr> in
        res_bind (NewParameter (Some (payload ! 95, payload ! 96))) (\<lambda>p.
        let n = n\<lparr> ni_CurrentPositionFP4 := p,
              ni_RemainingTime := u16_of (payload ! 97) (payload ! 98),
              ni_Timestamp := be_get32 (slice 99 103 payload) \<rparr> in
        res_bind (aliasArrayFromBytes (slice 103 124 payload)) (\<lambda>aa.
        Inr (n\<lparr> ni_AliasArray := aa \<rparr>)))))))))"

definition zeroParam :: Parameter where
  "zeroParam = \<lparr> Raw = (0, 0) \<rparr>"

definition nodeInfo_zero :: nodeInfo where
  "nodeInfo_zero = \<lparr> ni_NodeID = 0, ni_Order = 0, ni_Placement = 0, ni_Name = '''',
     ni_Velocity = 0, ni_NodeType = 0, ni_ProductGroup = 0, ni_ProductType = 0,
     ni_NodeVariation = 0, ni_PowerMode = 0, ni_BuildNumber = 0, ni_SerialNumber = replicate 8 0,
     ni_State = 0, ni_CurrentPosition = zeroParam, ni_Target = zeroParam,
     ni_CurrentPositionFP1 = zeroParam, ni_CurrentPositionFP2 = zeroParam,
     ni_CurrentPositionFP3 = zeroParam, ni_CurrentPositionFP4 = zeroParam,
     ni_RemainingTime = 0, ni_Timestamp = 0, ni_AliasArray = \<lparr> entries = [] \<rparr> \<rparr>"

section \<open>Frames\<close>

type_synonym FrameGetAllNodesInformationRequest = unit

definition FrameGetAllNodesInformationRequest_new :: FrameGetAllNodesInformationRequest where
  [codec_simps]: "FrameGetAllNodesInformationRequest_new = ()"

definition FrameGetAllNodesInformationRequest_MarshalPayload :: "FrameGetAllNodesInformationRequest \<Rightarrow> perror + byte list" where
  [codec_simps]: "FrameGetAllNodesInformationRequest_MarshalPayload f = Inr []"

definition FrameGetAllNodesInformationRequest_UnmarshalPayload ::
    "FrameGetAllNodesInformationRequest \<Rightarrow> byte list \<Rightarrow>
     perror + FrameGetAllNodesInformationRequest" where
  [codec_simps]: "FrameGetAllNodesInformationRequest_UnmarshalPayload f payload =
     (if length payload \<noteq> 0 then Inl (InvalidLen (length payload) 0) else Inr f)"

definition AllNodesInformationStatusOK :: byte where [go_consts]: "AllNodesInformationStatusOK = 0"
definition AllNodesInformationStatusErrorSystemTableEmpty :: byte where [go_consts]: "AllNodesInformationStatusErrorSystemTableEmpty = 1"

record FrameGetAllNodesInformationConfirmation =
  gac_Status :: byte
  gac_NumberOfNodes :: byte

definition FrameGetAllNodesInformationConfirmation_new :: FrameGetAllNodesInformationConfirmation where
  [codec_simps]: "FrameGetAllNodesInformationConfirmation_new =
     \<lparr> gac_Status = 0, gac_NumberOfNodes = 0 \<rparr>"

definition FrameGetAllNodesInformationConfirmation_MarshalPayload ::
    "FrameGetAllNodesInformationConfirmation \<Rightarrow> perror + byte list" where
  [codec_simps]: "FrameGetAllNodesInformationConfirmation_MarshalPayload f =
     Inr [gac_Status f, gac_NumberOfNodes f]"

definition FrameGetAllNodesInformationConfirmation_UnmarshalPayload ::
    "FrameGetAllNodesInformationConfirmation \<Rightarrow> byte list \<Rightarrow>
     perror + FrameGetAllNodesInformationConfirmation" where
  [codec_simps]: "FrameGetAllNodesInformationConfirmation_UnmarshalPayload f payload =
     (if length payload \<noteq> 2 then Inl (InvalidLen (length payload) 2)
      else Inr (f\<lparr> gac_Status := payload ! 0, gac_NumberOfNodes := payload ! 1 \<rparr>))"

record FrameGetAllNodesInformationNotification =
  gan_nodeInfo :: nodeInfo

definition FrameGetAllNodesInformationNotification_new :: FrameGetAllNodesInformationNotification where
  [codec_simps]: "FrameGetAllNodesInformationNotification_new = \<lparr> gan_nodeInfo = nodeInfo_zero \<rparr>"

definition FrameGetAllNodesInformationNotification_MarshalPayload ::
    "FrameGetAllNodesInformationNotification \<Rightarrow> perror + byte list" where
  [codec_simps]: "FrameGetAllNodesInformationNotification_MarshalPayload f = marshalNodeInfo (gan_nodeInfo f)"

definition FrameGetAllNodesInformationNotification_UnmarshalPayload ::
    "FrameGetAllNodesInformationNotification \<Rightarrow> byte list \<Rightarrow>
     perror + FrameGetAllNodesInformationNotification" where
  [codec_simps]: "FrameGetAllNodesInformationNotification_UnmarshalPayload f payload =
     res_bind (unmarshalNodeInfo payload (gan_nodeInfo f))
       (\<lambda>n. Inr (f\<lparr> gan_nodeInfo := n \<rparr>))"

type_synonym FrameGetAllNodesInformationFinishedNotification = unit

definition FrameGetAllNodesInformationFinishedNotification_new :: FrameGetAllNodesInformationFinishedNotification where
  [codec_simps]: "FrameGetAllNodesInformationFinishedNotification_new = ()"

definition FrameGetAllNodesInformationFinishedNotification_MarshalPayload :: "FrameGetAllNodesInformationFinishedNotification \<Rightarrow> perror + byte list" where
  [codec_simps]: "FrameGetAllNodesInformationFinishedNotification_MarshalPayload f = Inr []"

definition FrameGetAllNodesInformationFinishedNotification_UnmarshalPayload ::
    "FrameGetAllNodesInformationFinishedNotification \<Rightarrow> byte list \<Rightarrow>
     perror + FrameGetAllNodesInformationFinishedNotification" where
  [codec_simps]: "FrameGetAllNodesInformationFinishedNotification_UnmarshalPayload f payload =
     (if length payload \<noteq> 0 then Inl (InvalidLen (length payload) 0) else Inr f)"

record FrameGetNodeInformationRequest =
  gnr_NodeID :: byte

definition FrameGetNodeInformationRequest_new :: FrameGetNodeInformationRequest where
  [codec_simps]: "FrameGetNodeInformationRequest_new =
     \<lparr> gnr_NodeID = 0 \<rparr>"

definition FrameGetNodeInformationRequest_MarshalPayload ::
    "FrameGetNodeInformationRequest \<Rightarrow> perror + byte list" where
  [codec_simps]: "FrameGetNodeInformationRequest_MarshalPayload f =
     Inr [gnr_NodeID f]"

definition FrameGetNodeInformationRequest_UnmarshalPayload ::
    "FrameGetNodeInformationRequest \<Rightarrow> byte list \<Rightarrow> perror + FrameGetNodeInformationRequest" where
  [codec_simps]: "FrameGetNodeInformationRequest_UnmarshalPayload f payload =
     (if length payload \<noteq> 1 then Inl (InvalidLen (length payload) 1)
      else Inr (f\<lparr> gnr_NodeID := payload ! 0 \<rparr>))"

definition NodeInformationStatusOK :: byte where [go_consts]: "NodeInformationStatusOK = 0"
definition NodeInformationStatusErrorRequestRejected :: byte where [go_consts]: "NodeInformationStatusErrorRequestRejected = 1"
definition NodeInformationStatusErrorInvalidNodeIndex :: byte where [go_consts]: "NodeInformationStatusErrorInvalidNodeIndex = 2"

record FrameGetNodeInformationConfirmation =
  gnc_Status :: byte
  gnc_NodeID :: byte

definition FrameGetNodeInformationConfirmation_new :: FrameGetNodeInformationConfirmation where
  [codec_simps]: "FrameGetNodeInformationConfirmation_new =
     \<lparr> gnc_Status = 0, gnc_NodeID = 0 \<rparr>"

definition FrameGetNodeInformationConfirmation_MarshalPayload ::
    "FrameGetNodeInformationConfirmation \<Rightarrow> perror + byte list" where
  [codec_simps]: "FrameGetNodeInformationConfirmation_MarshalPayload f =
     Inr [gnc_Status f, gnc_NodeID f]"

definition FrameGetNodeInformationConfirmation_UnmarshalPayload ::
    "FrameGetNodeInformationConfirmation \<Rightarrow> byte list \<Rightarrow>
     perror + FrameGetNodeInformationConfirmation" where
  [codec_simps]: "FrameGetNodeInformationConfirmation_UnmarshalPayload f payload =
     (if length payload \<noteq> 2 then Inl (InvalidLen (length payload) 2)
      else Inr (f\<lparr> gnc_Status := payload ! 0, gnc_NodeID := payload ! 1 \<rparr>))"

record FrameGetNodeInformationNotification =
  gnn_nodeInfo :: nodeInfo

definition FrameGetNodeInformationNotification_new :: FrameGetNodeInformationNotification where
  [codec_simps]: "FrameGetNodeInformationNotification_new = \<lparr> gnn_nodeInfo = nodeInfo_zero \<rparr>"

definition FrameGetNodeInformationNotification_MarshalPayload ::
    "FrameGetNodeInformationNotification \<Rightarrow> perror + byte list" where
  [codec_simps]: "FrameGetNodeInformationNotification_MarshalPayload f = marshalNodeInfo (gnn_nodeInfo f)"

definition FrameGetNodeInformationNotification_UnmarshalPayload ::
    "FrameGetNodeInformationNotification \<Rightarrow> byte list \<Rightarrow>
     perror + FrameGetNodeInformationNotification" where
  [codec_simps]: "FrameGetNodeInformationNotification_UnmarshalPayload f payload =
     res_bind (unmarshalNodeInfo payload (gnn_nodeInfo f))
       (\<lambda>n. Inr (f\<lparr> gnn_nodeInfo := n \<rparr>))"

record FrameNodeInformationChangedNotification =
  nic_NodeID :: byte
  nic_Name :: string
  nic_Order :: u16
  nic_Placement :: byte
  nic_NodeVariation :: NodeVariation

definition FrameNodeInformationChangedNotification_new ::
    FrameNodeInformationChangedNotification where
  [codec_simps]: "FrameNodeInformationChangedNotification_new = \<lparr> nic_NodeID = 0, nic_Name = '''',
     nic_Order = 0, nic_Placement = 0, nic_NodeVariation = 0 \<rparr>"

definition FrameNodeInformationChangedNotification_MarshalPayload ::
    "FrameNodeInformationChangedNotification \<Rightarrow> perror + byte list" where
  [codec_simps]: "FrameNodeInformationChangedNotification_MarshalPayload f =
     res_bind (stringToBytes (nic_Name f) 64) (\<lambda>nameBytes.
     Inr ([nic_NodeID f] @ nameBytes @ [hi_byte (nic_Order f), lo_byte (nic_Order f)] @
       [nic_Placement f] @ [nic_NodeVariation f]))"

definition FrameNodeInformationChangedNotification_UnmarshalPayload ::
    "FrameNodeInformationChangedNotification \<Rightarrow> byte list \<Rightarrow>
     perror + FrameNodeInformationChangedNotification" where
  [codec_simps]: "FrameNodeInformationChangedNotification_UnmarshalPayload f payload =
     (if length payload \<noteq> 69 then Inl (InvalidLen (length payload) 69)
      else Inr (f\<lparr> nic_NodeID := payload ! 0,
                   nic_Name := bytesToString (slice 1 65 payload),
                   nic_Order := u16_of (payload ! 65) (payload ! 66),
                   nic_Placement := payload ! 67,
                   nic_NodeVariation := payload ! 68 \<rparr>))"

record FrameDiscoverNodesRequest =
  dnr_NodeType :: NodeType

definition FrameDiscoverNodesRequest_new :: FrameDiscoverNodesRequest where
  [codec_simps]: "FrameDiscoverNodesRequest_new =
     \<lparr> dnr_NodeType = 0 \<rparr>"

definition FrameDiscoverNodesRequest_MarshalPayload ::
    "FrameDiscoverNodesRequest \<Rightarrow> perror + byte list" where
  [codec_simps]: "FrameDiscoverNodesRequest_MarshalPayload f =
     Inr [dnr_NodeType f]"

definition FrameDiscoverNodesRequest_UnmarshalPayload ::
    "FrameDiscoverNodesRequest \<Rightarrow> byte list \<Rightarrow> perror + FrameDiscoverNodesRequest" where
  [codec_simps]: "FrameDiscoverNodesRequest_UnmarshalPayload f payload =
     (if length payload \<noteq> 1 then Inl (InvalidLen (length payload) 1)
      else Inr (f\<lparr> dnr_NodeType := payload ! 0 \<rparr>))"

type_synonym FrameDiscoverNodesConfirmation = unit

definition FrameDiscoverNodesConfirmation_new :: FrameDiscoverNodesConfirmation where
  [codec_simps]: "FrameDiscoverNodesConfirmation_new = ()"

definition FrameDiscoverNodesConfirmation_MarshalPayload :: "FrameDiscoverNodesConfirmation \<Rightarrow> perror + byte list" where
  [codec_simps]: "FrameDiscoverNodesConfirmation_MarshalPayload f = Inr []"

definition FrameDiscoverNodesConfirmation_UnmarshalPayload ::
    "FrameDiscoverNodesConfirmation \<Rightarrow> byte list \<Rightarrow> perror + FrameDiscoverNodesConfirmation" where
  [codec_simps]: "FrameDiscoverNodesConfirmation_UnmarshalPayload f payload =
     (if length payload \<noteq> 0 then Inl (InvalidLen (length payload) 0) else Inr f)"

record FrameDiscoverNodesNotification =
  dnn_Payload :: "byte list"

definition FrameDiscoverNodesNotification_new :: FrameDiscoverNodesNotification where
  [codec_simps]: "FrameDiscoverNodesNotification_new =
     \<lparr> dnn_Payload = replicate 131 0 \<rparr>"

definition FrameDiscoverNodesNotification_MarshalPayload ::
    "FrameDiscoverNodesNotification \<Rightarrow> perror + byte list" where
  [codec_simps]: "FrameDiscoverNodesNotification_MarshalPayload f =
     Inr (dnn_Payload f)"

definition FrameDiscoverNodesNotification_UnmarshalPayload ::
    "FrameDiscoverNodesNotification \<Rightarrow> byte list \<Rightarrow> perror + FrameDiscoverNodesNotification" where
  [codec_simps]: "FrameDiscoverNodesNotification_UnmarshalPayload f payload =
     (if length payload \<noteq> 131 then Inl (InvalidLen (length payload) 131)
      else Inr (f\<lparr> dnn_Payload := slice 0 131 payload \<rparr>))"

record FrameSetNodeNameRequest =
  snr_NodeID :: byte
  snr_Name :: string

definition FrameSetNodeNameRequest_new :: FrameSetNodeNameRequest where
  [codec_simps]: "FrameSetNodeNameRequest_new = \<lparr> snr_NodeID = 0, snr_Name = '''' \<rparr>"

definition FrameSetNodeNameRequest_MarshalPayload ::
    "FrameSetNodeNameRequest \<Rightarrow> perror + byte list" where
  [codec_simps]: "FrameSetNodeNameRequest_MarshalPayload f =
     res_bind (stringToBytes (snr_Name f) 64) (\<lambda>nameBytes. Inr ([snr_NodeID f] @ nameBytes))"

definition FrameSetNodeNameRequest_UnmarshalPayload ::
    "FrameSetNodeNameRequest \<Rightarrow> byte list \<Rightarrow> perror + FrameSetNodeNameRequest" where
  [codec_simps]: "FrameSetNodeNameRequest_UnmarshalPayload f payload =
     (if length payload \<noteq> 65 then Inl (InvalidLen (length payload) 65)
      else Inr (f\<lparr> snr_NodeID := payload ! 0,
                   snr_Name := bytesToString (slice 1 65 payload) \<rparr>))"

definition SetNodeNameConfirmationStatusOK :: byte where [go_consts]: "SetNodeNameConfirmationStatusOK = 0"
definition SetNodeNameConfirmationStatusErrorRequestRejected :: byte where [go_consts]: "SetNodeNameConfirmationStatusErrorRequestRejected = 1"
definition SetNodeNameConfirmationStatusErrorInvalidSystemTableIndex :: byte where [go_consts]: "SetNodeNameConfirmationStatusErrorInvalidSystemTableIndex = 2"

record FrameSetNodeNameConfirmation =
  snc_Status :: byte
  snc_NodeID :: byte

definition FrameSetNodeNameConfirmation_new :: FrameSetNodeNameConfirmation where
  [codec_simps]: "FrameSetNodeNameConfirmation_new =
     \<lparr> snc_Status = 0, snc_NodeID = 0 \<rparr>"

definition FrameSetNodeNameConfirmation_MarshalPayload ::
    "FrameSetNodeNameConfirmation \<Rightarrow> perror + byte list" where
  [codec_simps]: "FrameSetNodeNameConfirmation_MarshalPayload f =
     Inr [snc_Status f, snc_NodeID f]"

definition FrameSetNodeNameConfirmation_UnmarshalPayload ::
    "FrameSetNodeNameConfirmation \<Rightarrow> byte list \<Rightarrow> perror + FrameSetNodeNameConfirmation" where
  [codec_simps]: "FrameSetNodeNameConfirmation_UnmarshalPayload f payload =
     (if length payload \<noteq> 2 then Inl (InvalidLen (length payload) 2)
      else Inr (f\<lparr> snc_Status := payload ! 0, snc_NodeID := payload ! 1 \<rparr>))"

section \<open>The frames of the file\<close>

text \<open>The dynamic type of a \<open>Frame\<close> value and its methods.\<close>

datatype nodes_frame =
    FrGetAllNodesInformationRequest FrameGetAllNodesInformationRequest
  | FrGetAllNodesInformationConfirmation FrameGetAllNodesInformationConfirmation
  | FrGetAllNodesInformationNotification FrameGetAllNodesInformationNotification
  | FrGetAllNodesInformationFinishedNotification FrameGetAllNodesInformationFinishedNotification
  | FrGetNodeInformationRequest FrameGetNodeInformationRequest
  | FrGetNodeInformationConfirmation FrameGetNodeInformationConfirmation
  | FrGetNodeInformationNotification FrameGetNodeInformationNotification
  | FrNodeInformationChangedNotification FrameNodeInformationChangedNotification
  | FrDiscoverNodesRequest FrameDiscoverNodesRequest
  | FrDiscoverNodesConfirmation FrameDiscoverNodesConfirmation
  | FrDiscoverNodesNotification FrameDiscoverNodesNotification
  | FrSetNodeNameRequest FrameSetNodeNameRequest
  | FrSetNodeNameConfirmation FrameSetNodeNameConfirmation

fun nodes_frame_Command :: "nodes_frame \<Rightarrow> u16" where
  "nodes_frame_Command (FrGetAllNodesInformationRequest f) = GW_GET_ALL_NODES_INFORMATION_REQ"
| "nodes_frame_Command (FrGetAllNodesInformationConfirmation f) = GW_GET_ALL_NODES_INFORMATION_CFM"
| "nodes_frame_Command (FrGetAllNodesInformationNotification f) = GW_GET_ALL_NODES_INFORMATION_NTF"
| "nodes_frame_Command (FrGetAllNodesInformationFinishedNotification f) = GW_GET_ALL_NODES_INFORMATION_FINISHED_NTF"
| "nodes_frame_Command (FrGetNodeInformationRequest f) = GW_GET_NODE_INFORMATION_REQ"
| "nodes_frame_Command (FrGetNodeInformationConfirmation f) = GW_GET_NODE_INFORMATION_CFM"
| "nodes_frame_Command (FrGetNodeInformationNotification f) = GW_GET_NODE_INFORMATION_NTF"
| "nodes_frame_Command (FrNodeInformationChangedNotification f) = GW_NODE_INFORMATION_CHANGED_NTF"
| "nodes_frame_Command (FrDiscoverNodesRequest f) = GW_CS_DISCOVER_NODES_REQ"
| "nodes_frame_Command (FrDiscoverNodesConfirmation f) = GW_CS_DISCOVER_NODES_CFM"
| "nodes_frame_Command (FrDiscoverNodesNotification f) = GW_CS_DISCOVER_NODES_NTF"
| "nodes_frame_Command (FrSetNodeNameRequest f) = GW_SET_NODE_NAME_REQ"
| "nodes_frame_Command (FrSetNodeNameConfirmation f) = GW_SET_NODE_NAME_CFM"

fun nodes_frame_MarshalPayload :: "nodes_frame \<Rightarrow> perror + byte list" where
  "nodes_frame_MarshalPayload (FrGetAllNodesInformationRequest f) = FrameGetAllNodesInformationRequest_MarshalPayload f"
| "nodes_frame_MarshalPayload (FrGetAllNodesInformationConfirmation f) = FrameGetAllNodesInformationConfirmation_MarshalPayload f"
| "nodes_frame_MarshalPayload (FrGetAllNodesInformationNotification f) = FrameGetAllNodesInformationNotification_MarshalPayload f"
| "nodes_frame_MarshalPayload (FrGetAllNodesInformationFinishedNotification f) = FrameGetAllNodesInformationFinishedNotification_MarshalPayload f"
| "nodes_frame_MarshalPayload (FrGetNodeInformationRequest f) = FrameGetNodeInformationRequest_MarshalPayload f"
| "nodes_frame_MarshalPayload (FrGetNodeInformationConfirmation f) = FrameGetNodeInformationConfirmation_MarshalPayload f"
| "nodes_frame_MarshalPayload (FrGetNodeInformationNotification f) = FrameGetNodeInformationNotification_MarshalPayload f"
| "nodes_frame_MarshalPayload (FrNodeInformationChangedNotification f) = FrameNodeInformationChangedNotification_MarshalPayload f"
| "nodes_frame_MarshalPayload (FrDiscoverNodesRequest f) = FrameDiscoverNodesRequest_MarshalPayload f"
| "nodes_frame_MarshalPayload (FrDiscoverNodesConfirmation f) = FrameDiscoverNodesConfirmation_MarshalPayload f"
| "nodes_frame_MarshalPayload (FrDiscoverNodesNotification f) = FrameDiscoverNodesNotification_MarshalPayload f"
| "nodes_frame_MarshalPayload (FrSetNodeNameRequest f) = FrameSetNodeNameRequest_MarshalPayload f"
| "nodes_frame_MarshalPayload (FrSetNodeNameConfirmation f) = FrameSetNodeNameConfirmation_MarshalPayload f"

fun nodes_frame_UnmarshalPayload :: "nodes_frame \<Rightarrow> byte list \<Rightarrow> perror + nodes_frame" where
  "nodes_frame_UnmarshalPayload (FrGetAllNodesInformationRequest f) payload =
     res_bind (FrameGetAllNodesInformationRequest_UnmarshalPayload f payload) (\<lambda>f. Inr (FrGetAllNodesInformationRequest f))"
| "nodes_frame_UnmarshalPayload (FrGetAllNodesInformationConfirmation f) payload =
     res_bind (FrameGetAllNodesInformationConfirmation_UnmarshalPayload f payload) (\<lambda>f. Inr (FrGetAllNodesInformationConfirmation f))"
| "nodes_frame_UnmarshalPayload (FrGetAllNodesInformationNotification f) payload =
     res_bind (FrameGetAllNodesInformationNotification_UnmarshalPayload f payload) (\<lambda>f. Inr (FrGetAllNodesInformationNotification f))"
| "nodes_frame_UnmarshalPayload (FrGetAllNodesInformationFinishedNotification f) payload =
     res_bind (FrameGetAllNodesInformationFinishedNotification_UnmarshalPayload f payload) (\<lambda>f. Inr (FrGetAllNodesInformationFinishedNotification f))"
| "nodes_frame_UnmarshalPayload (FrGetNodeInformationRequest f) payload =
     res_bind (FrameGetNodeInformationRequest_UnmarshalPayload f payload) (\<lambda>f. Inr (FrGetNodeInformationRequest f))"
| "nodes_frame_UnmarshalPayload (FrGetNodeInformationConfirmation f) payload =
     res_bind (FrameGetNodeInformationConfirmation_UnmarshalPayload f payload) (\<lambda>f. Inr (FrGetNodeInformationConfirmation f))"
| "nodes_frame_UnmarshalPayload (FrGetNodeInformationNotification f) payload =
     res_bind (FrameGetNodeInformationNotification_UnmarshalPayload f payload) (\<lambda>f. Inr (FrGetNodeInformationNotification f))"
| "nodes_frame_UnmarshalPayload (FrNodeInformationChangedNotification f) payload =
     res_bind (FrameNodeInformationChangedNotification_UnmarshalPayload f payload) (\<lambda>f. Inr (FrNodeInformationChangedNotification f))"
| "nodes_frame_UnmarshalPayload (FrDiscoverNodesRequest f) payload =
     res_bind (FrameDiscoverNodesRequest_UnmarshalPayload f payload) (\<lambda>f. Inr (FrDiscoverNodesRequest f))"
| "nodes_frame_UnmarshalPayload (FrDiscoverNodesConfirmation f) payload =
     res_bind (FrameDiscoverNodesConfirmation_UnmarshalPayload f payload) (\<lambda>f. Inr (FrDiscoverNodesConfirmation f))"
| "nodes_frame_UnmarshalPayload (FrDiscoverNodesNotification f) payload =
     res_bind (FrameDiscoverNodesNotification_UnmarshalPayload f payload) (\<lambda>f. Inr (FrDiscoverNodesNotification f))"
| "nodes_frame_UnmarshalPayload (FrSetNodeNameRequest f) payload =
     res_bind (FrameSetNodeNameRequest_UnmarshalPayload f payload) (\<lambda>f. Inr (FrSetNodeNameRequest f))"
| "nodes_frame_UnmarshalPayload (FrSetNodeNameConfirmation f) payload =
     res_bind (FrameSetNodeNameConfirmation_UnmarshalPayload f payload) (\<lambda>f. Inr (FrSetNodeNameConfirmation f))"

definition nodes_frame_constructors :: "(u16 \<times> nodes_frame) list" where
  "nodes_frame_constructors =
    [(GW_GET_ALL_NODES_INFORMATION_REQ, FrGetAllNodesInformationRequest FrameGetAllNodesInformationRequest_new),
     (GW_GET_ALL_NODES_INFORMATION_CFM, FrGetAllNodesInformationConfirmation FrameGetAllNodesInformationConfirmation_new),
     (GW_GET_ALL_NODES_INFORMATION_NTF, FrGetAllNodesInformationNotification FrameGetAllNodesInformationNotification_new),
     (GW_GET_ALL_NODES_INFORMATION_FINISHED_NTF, FrGetAllNodesInformationFinishedNotification FrameGetAllNodesInformationFinishedNotification_new),
     (GW_GET_NODE_INFORMATION_REQ, FrGetNodeInformationRequest FrameGetNodeInformationRequest_new),
     (GW_GET_NODE_INFORMATION_CFM, FrGetNodeInformationConfirmation FrameGetNodeInformationConfirmation_new),
     (GW_GET_NODE_INFORMATION_NTF, FrGetNodeInformationNotification FrameGetNodeInformationNotification_new),
     (GW_NODE_INFORMATION_CHANGED_NTF, FrNodeInformationChangedNotification FrameNodeInformationChangedNotification_new),
     (GW_CS_DISCOVER_NODES_REQ, FrDiscoverNodesRequest FrameDiscoverNodesRequest_new),
     (GW_CS_DISCOVER_NODES_CFM, FrDiscoverNodesConfirmation FrameDiscoverNodesConfirmation_new),
     (GW_CS_DISCOVER_NODES_NTF, FrDiscoverNodesNotification FrameDiscoverNodesNotification_new),
     (GW_SET_NODE_NAME_REQ, FrSetNodeNameRequest FrameSetNodeNameRequest_new),
     (GW_SET_NODE_NAME_CFM, FrSetNodeNameConfirmation FrameSetNodeNameConfirmation_new)]"

section \<open>Lemmas on the node record\<close>

definition AliasArray_wf :: "AliasArray \<Rightarrow> bool" where
  "AliasArray_wf a \<longleftrightarrow> length (entries a) \<le> 5"

lemma length_alias_bytes [simp]: "length (alias_bytes e) = 4"
  by (simp add: alias_bytes_def)

lemma length_concat_alias [simp]: "length (concat (map alias_bytes es)) = 4 * length es"
  by (induction es) simp_all

lemma concat_alias_nth:
  "i < length es \<Longrightarrow> k < 4 \<Longrightarrow> concat (map alias_bytes es) ! (i * 4 + k) = alias_bytes (es ! i) ! k"
proof (induction es arbitrary: i)
  case (Cons e es)
  then show ?case by (cases i) (auto simp: nth_append)
qed simp

lemma AliasArray_roundtrip:
  assumes "AliasArray_wf a"
  shows "\<exists>b. AliasArray_Bytes a = Inr b \<and> length b = 21 \<and> aliasArrayFromBytes b = Inr a"
proof -
  let ?n = "length (entries a)"
  let ?c = "concat (map alias_bytes (entries a))"
  let ?b = "copy_pad 21 (word_of_nat ?n # ?c)"
  have n: "?n \<le> 5" using assms by (simp add: AliasArray_wf_def)
  then have u: "unat (word_of_nat ?n :: byte) = ?n" by (intro unat_count) simp
  have b: "?b = (word_of_nat ?n # ?c) @ replicate (20 - 4 * ?n) 0"
    using n by (simp add: copy_pad_def)
  have nth: "?b ! (i * 4 + 1 + k) = alias_bytes (entries a ! i) ! k" if "i < ?n" "k < 4" for i k
    using that concat_alias_nth [of i "entries a" k] by (simp add: b nth_append)
  have "\<lparr> alias_typ = (?b ! (i * 4 + 1), ?b ! (i * 4 + 1 + 1)),
      alias_val = (?b ! (i * 4 + 1 + 2), ?b ! (i * 4 + 1 + 3)) \<rparr> = entries a ! i"
    if "i < ?n" for i
    using nth [OF that, of 0] nth [OF that, of 1] nth [OF that, of 2] nth [OF that, of 3]
    by (cases "entries a ! i") (simp add: alias_bytes_def)
  then have "map (\<lambda>i. \<lparr> alias_typ = (?b ! (i * 4 + 1), ?b ! (i * 4 + 1 + 1)),
      alias_val = (?b ! (i * 4 + 1 + 2), ?b ! (i * 4 + 1 + 3)) \<rparr>) [0..<?n] = entries a"
    by (intro nth_equalityI) simp_all
  then have "aliasArrayFromBytes ?b = Inr a"
    using n u by (cases a) (simp add: aliasArrayFromBytes_def Let_def)
  with n show ?thesis by (simp add: AliasArray_Bytes_def)
qed

lemma aliasArrayFromBytes_wf: "aliasArrayFromBytes raw = Inr a \<Longrightarrow> AliasArray_wf a"
  by (auto simp: aliasArrayFromBytes_def AliasArray_wf_def Let_def split: if_splits)

definition nodeInfo_wf :: "nodeInfo \<Rightarrow> bool" where
  "nodeInfo_wf n \<longleftrightarrow> wire_string 64 (ni_Name n) \<and> length (ni_SerialNumber n) = 8 \<and>
     valid_raw (Raw (ni_CurrentPosition n)) \<and> valid_raw (Raw (ni_Target n)) \<and>
     valid_raw (Raw (ni_CurrentPositionFP1 n)) \<and> valid_raw (Raw (ni_CurrentPositionFP2 n)) \<and>
     valid_raw (Raw (ni_CurrentPositionFP3 n)) \<and> valid_raw (Raw (ni_CurrentPositionFP4 n)) \<and>
     AliasArray_wf (ni_AliasArray n)"

lemma nodeInfo_roundtrip:
  assumes "nodeInfo_wf n"
  shows "\<exists>p. marshalNodeInfo n = Inr p \<and> length p = 124 \<and> unmarshalNodeInfo p m = Inr n"
proof -
  from assms obtain b where b: "AliasArray_Bytes (ni_AliasArray n) = Inr b" "length b = 21"
    "aliasArrayFromBytes b = Inr (ni_AliasArray n)"
    using AliasArray_roundtrip unfolding nodeInfo_wf_def by blast
  with assms show ?thesis
    by (cases n, cases m) (simp add: nodeInfo_wf_def marshalNodeInfo_def unmarshalNodeInfo_def
        nodeInfoPayloadLen_def codec_simps slice_append Parameter_Bytes_def Let_def)
qed

text \<open>Whatever is parsed is well formed.\<close>

lemma unmarshalNodeInfo_wf:
  assumes "unmarshalNodeInfo payload m = Inr n"
  shows "nodeInfo_wf n"
  using assms
  by (auto simp: unmarshalNodeInfo_def nodeInfoPayloadLen_def Let_def res_bind_eq_Inr nodeInfo_wf_def
      wire_string_bytesToString split: if_splits dest: NewParameter_valid aliasArrayFromBytes_wf)

section \<open>Round trip\<close>

lemmas nodes_frame_create_simps = nodes_frame_constructors_def go_consts

fun nodes_frame_wf :: "nodes_frame \<Rightarrow> bool" where
  "nodes_frame_wf (FrGetAllNodesInformationNotification f) \<longleftrightarrow> nodeInfo_wf (gan_nodeInfo f)"
| "nodes_frame_wf (FrGetNodeInformationNotification f) \<longleftrightarrow> nodeInfo_wf (gnn_nodeInfo f)"
| "nodes_frame_wf (FrNodeInformationChangedNotification f) \<longleftrightarrow> wire_string 64 (nic_Name f)"
| "nodes_frame_wf (FrDiscoverNodesNotification f) \<longleftrightarrow> length (dnn_Payload f) = 131"
| "nodes_frame_wf (FrSetNodeNameRequest f) \<longleftrightarrow> wire_string 64 (snr_Name f)"
| "nodes_frame_wf f \<longleftrightarrow> True"

lemma nodeInfo_frame_roundtrip:
  assumes "nodeInfo_wf n"
  shows "\<exists>p. marshalNodeInfo n = Inr p \<and> length p \<le> 252 \<and> unmarshalNodeInfo p m = Inr n"
  using nodeInfo_roundtrip [OF assms, of m] by auto

lemma nodes_frame_roundtrip:
  assumes "nodes_frame_wf f"
  shows "\<exists>p g. nodes_frame_MarshalPayload f = Inr p \<and> length p \<le> 252 \<and>
    map_of nodes_frame_constructors (nodes_frame_Command f) = Some g \<and> nodes_frame_UnmarshalPayload g p = Inr f"
proof (cases f)
  case (FrGetAllNodesInformationConfirmation r)
  with assms show ?thesis
    by (cases r) (simp add: nodes_frame_create_simps codec_simps slice_append)
next
  case (FrGetAllNodesInformationNotification r)
  with assms show ?thesis
    by (cases r) (auto simp: nodes_frame_create_simps codec_simps dest: nodeInfo_frame_roundtrip
      [where m = nodeInfo_zero])
next
  case (FrGetNodeInformationRequest r)
  with assms show ?thesis
    by (cases r) (simp add: nodes_frame_create_simps codec_simps slice_append)
next
  case (FrGetNodeInformationConfirmation r)
  with assms show ?thesis
    by (cases r) (simp add: nodes_frame_create_simps codec_simps slice_append)
next
  case (FrGetNodeInformationNotification r)
  with assms show ?thesis
    by (cases r) (auto simp: nodes_frame_create_simps codec_simps dest: nodeInfo_frame_roundtrip
      [where m = nodeInfo_zero])
next
  case (FrNodeInformationChangedNotification r)
  with assms show ?thesis
    by (cases r) (simp add: nodes_frame_create_simps codec_simps slice_append)
next
  case (FrDiscoverNodesRequest r)
  with assms show ?thesis
    by (cases r) (simp add: nodes_frame_create_simps codec_simps slice_append)
next
  case (FrDiscoverNodesNotification r)
  with assms show ?thesis
    by (cases r) (simp add: nodes_frame_create_simps codec_simps slice_append)
next
  case (FrSetNodeNameRequest r)
  with assms show ?thesis
    by (cases r) (simp add: nodes_frame_create_simps codec_simps slice_append)
next
  case (FrSetNodeNameConfirmation r)
  with assms show ?thesis
    by (cases r) (simp add: nodes_frame_create_simps codec_simps slice_append)
qed (simp_all add: nodes_frame_create_simps codec_simps)

interpretation nodes: frame_codec nodes_frame_Command nodes_frame_MarshalPayload
    "map_of nodes_frame_constructors" nodes_frame_UnmarshalPayload nodes_frame_wf
  by unfold_locales (rule nodes_frame_roundtrip)

end
