(* ===== verification/FramesState.thy ===== *)
theory FramesState
  imports Framing Parameter
begin

text \<open>
  \<^verbatim>\<open>src/app/klf200/protocol/frame_state_network.go\<close>: the gateway state, the network setup, the
  error notification and the activation-log notification.
\<close>

section \<open>Frames\<close>

type_synonym FrameGetStateRequest = unit

definition FrameGetStateRequest_new :: FrameGetStateRequest where
  [codec_simps]: "FrameGetStateRequest_new = ()"

definition FrameGetStateRequest_MarshalPayload :: "FrameGetStateRequest \<Rightarrow> perror + byte list" where
  [codec_simps]: "FrameGetStateRequest_MarshalPayload f = Inr []"

definition FrameGetStateRequest_UnmarshalPayload ::
    "FrameGetStateRequest \<Rightarrow> byte list \<Rightarrow> perror + FrameGetStateRequest" where
  [codec_simps]: "FrameGetStateRequest_UnmarshalPayload f payload =
     (if length payload \<noteq> 0 then Inl (InvalidLen (length payload) 0) else Inr f)"

record FrameGetStateConfirmation =
  gsc_GatewayState :: GatewayState
  gsc_GatewaySubState :: GatewaySubState

definition FrameGetStateConfirmation_new :: FrameGetStateConfirmation where
  [codec_simps]: "FrameGetStateConfirmation_new =
     \<lparr> gsc_GatewayState = 0, gsc_GatewaySubState = 0 \<rparr>"

definition FrameGetStateConfirmation_MarshalPayload ::
    "FrameGetStateConfirmation \<Rightarrow> perror + byte list" where
  [codec_simps]: "FrameGetStateConfirmation_MarshalPayload f =
     Inr ([gsc_GatewayState f, gsc_GatewaySubState f] @ replicate 4 0)"

definition FrameGetStateConfirmation_UnmarshalPayload ::
    "FrameGetStateConfirmation \<Rightarrow> byte list \<Rightarrow> perror + FrameGetStateConfirmation" where
  [codec_simps]: "FrameGetStateConfirmation_UnmarshalPayload f payload =
     (if length payload \<noteq> 6 then Inl (InvalidLen (length payload) 6)
      else Inr (f\<lparr> gsc_GatewayState := payload ! 0, gsc_GatewaySubState := payload ! 1 \<rparr>))"

type_synonym FrameGetNetworkSetupRequest = unit

definition FrameGetNetworkSetupRequest_new :: FrameGetNetworkSetupRequest where
  [codec_simps]: "FrameGetNetworkSetupRequest_new = ()"

definition FrameGetNetworkSetupRequest_MarshalPayload :: "FrameGetNetworkSetupRequest \<Rightarrow> perror + byte list" where
  [codec_simps]: "FrameGetNetworkSetupRequest_MarshalPayload f = Inr []"

definition FrameGetNetworkSetupRequest_UnmarshalPayload ::
    "FrameGetNetworkSetupRequest \<Rightarrow> byte list \<Rightarrow> perror + FrameGetNetworkSetupRequest" where
  [codec_simps]: "FrameGetNetworkSetupRequest_UnmarshalPayload f payload =
     (if length payload \<noteq> 0 then Inl (InvalidLen (length payload) 0) else Inr f)"

record FrameGetNetworkSetupConfirmation =
  nsc_IPAddress :: "byte list"
  nsc_Netmask :: "byte list"
  nsc_Gateway :: "byte list"
  nsc_DHCP :: DHCPParameter

definition FrameGetNetworkSetupConfirmation_new :: FrameGetNetworkSetupConfirmation where
  [codec_simps]: "FrameGetNetworkSetupConfirmation_new =
     \<lparr> nsc_IPAddress = replicate 4 0, nsc_Netmask = replicate 4 0, nsc_Gateway = replicate 4 0,
       nsc_DHCP = 0 \<rparr>"

definition FrameGetNetworkSetupConfirmation_MarshalPayload ::
    "FrameGetNetworkSetupConfirmation \<Rightarrow> perror + byte list" where
  [codec_simps]: "FrameGetNetworkSetupConfirmation_MarshalPayload f =
     Inr (nsc_IPAddress f @ nsc_Netmask f @ nsc_Gateway f @ [nsc_DHCP f])"

definition FrameGetNetworkSetupConfirmation_UnmarshalPayload ::
    "FrameGetNetworkSetupConfirmation \<Rightarrow> byte list \<Rightarrow> perror + FrameGetNetworkSetupConfirmation" where
  [codec_simps]: "FrameGetNetworkSetupConfirmation_UnmarshalPayload f payload =
     (if length payload \<noteq> 13 then Inl (InvalidLen (length payload) 13)
      else Inr (f\<lparr> nsc_IPAddress := slice 0 4 payload, nsc_Netmask := slice 4 8 payload,
            nsc_Gateway := slice 8 12 payload, nsc_DHCP := payload ! 12 \<rparr>))"

text \<open>\<^verbatim>\<open>net.IP(b).String()\<close> of four bytes is the dotted decimal form.\<close>

definition net_IP_String :: "byte list \<Rightarrow> string" where
  "net_IP_String ip = strings_Join (map byte_dec ip) [CHR ''.'']"

definition IPAddressString :: "FrameGetNetworkSetupConfirmation \<Rightarrow> string" where
  "IPAddressString f = net_IP_String (nsc_IPAddress f)"

definition NetmaskString :: "FrameGetNetworkSetupConfirmation \<Rightarrow> string" where
  "NetmaskString f = net_IP_String (nsc_Netmask f)"

definition GatewayString :: "FrameGetNetworkSetupConfirmation \<Rightarrow> string" where
  "GatewayString f = net_IP_String (nsc_Gateway f)"

record FrameErrorNotification =
  ern_ErrorType :: ErrorNumber

definition FrameErrorNotification_new :: FrameErrorNotification where
  [codec_simps]: "FrameErrorNotification_new =
     \<lparr> ern_ErrorType = 0 \<rparr>"

definition FrameErrorNotification_MarshalPayload ::
    "FrameErrorNotification \<Rightarrow> perror + byte list" where
  [codec_simps]: "FrameErrorNotification_MarshalPayload f =
     Inr [ern_ErrorType f]"

definition FrameErrorNotification_UnmarshalPayload ::
    "FrameErrorNotification \<Rightarrow> byte list \<Rightarrow> perror + FrameErrorNotification" where
  [codec_simps]: "FrameErrorNotification_UnmarshalPayload f payload =
     (if length payload \<noteq> 1 then Inl (InvalidLen (length payload) 1)
      else Inr (f\<lparr> ern_ErrorType := payload ! 0 \<rparr>))"

type_synonym FrameActivationLogUpdatedNotification = unit

definition FrameActivationLogUpdatedNotification_new :: FrameActivationLogUpdatedNotification where
  [codec_simps]: "FrameActivationLogUpdatedNotification_new = ()"

definition FrameActivationLogUpdatedNotification_MarshalPayload :: "FrameActivationLogUpdatedNotification \<Rightarrow> perror + byte list" where
  [codec_simps]: "FrameActivationLogUpdatedNotification_MarshalPayload f = Inr []"

definition FrameActivationLogUpdatedNotification_UnmarshalPayload ::
    "FrameActivationLogUpdatedNotification \<Rightarrow> byte list \<Rightarrow>
     perror + FrameActivationLogUpdatedNotification" where
  [codec_simps]: "FrameActivationLogUpdatedNotification_UnmarshalPayload f payload =
     (if length payload \<noteq> 0 then Inl (InvalidLen (length payload) 0) else Inr f)"

section \<open>The frames of the file\<close>

text \<open>The dynamic type of a \<open>Frame\<close> value and its methods.\<close>

datatype state_frame =
    FrGetStateRequest FrameGetStateRequest
  | FrGetStateConfirmation FrameGetStateConfirmation
  | FrGetNetworkSetupRequest FrameGetNetworkSetupRequest
  | FrGetNetworkSetupConfirmation FrameGetNetworkSetupConfirmation
  | FrErrorNotification FrameErrorNotification
  | FrActivationLogUpdatedNotification FrameActivationLogUpdatedNotification

fun state_frame_Command :: "state_frame \<Rightarrow> u16" where
  "state_frame_Command (FrGetStateRequest f) = GW_GET_STATE_REQ"
| "state_frame_Command (FrGetStateConfirmation f) = GW_GET_STATE_CFM"
| "state_frame_Command (FrGetNetworkSetupRequest f) = GW_GET_NETWORK_SETUP_REQ"
| "state_frame_Command (FrGetNetworkSetupConfirmation f) = GW_GET_NETWORK_SETUP_CFM"
| "state_frame_Command (FrErrorNotification f) = GW_ERROR_NTF"
| "state_frame_Command (FrActivationLogUpdatedNotification f) = GW_ACTIVATION_LOG_UPDATED_NTF"

fun state_frame_MarshalPayload :: "state_frame \<Rightarrow> perror + byte list" where
  "state_frame_MarshalPayload (FrGetStateRequest f) = FrameGetStateRequest_MarshalPayload f"
| "state_frame_MarshalPayload (FrGetStateConfirmation f) = FrameGetStateConfirmation_MarshalPayload f"
| "state_frame_MarshalPayload (FrGetNetworkSetupRequest f) = FrameGetNetworkSetupRequest_MarshalPayload f"
| "state_frame_MarshalPayload (FrGetNetworkSetupConfirmation f) = FrameGetNetworkSetupConfirmation_MarshalPayload f"
| "state_frame_MarshalPayload (FrErrorNotification f) = FrameErrorNotification_MarshalPayload f"
| "state_frame_MarshalPayload (FrActivationLogUpdatedNotification f) = FrameActivationLogUpdatedNotification_MarshalPayload f"

fun state_frame_UnmarshalPayload :: "state_frame \<Rightarrow> byte list \<Rightarrow> perror + state_frame" where
  "state_frame_UnmarshalPayload (FrGetStateRequest f) payload =
     res_bind (FrameGetStateRequest_UnmarshalPayload f payload) (\<lambda>f. Inr (FrGetStateRequest f))"
| "state_frame_UnmarshalPayload (FrGetStateConfirmation f) payload =
     res_bind (FrameGetStateConfirmation_UnmarshalPayload f payload) (\<lambda>f. Inr (FrGetStateConfirmation f))"
| "state_frame_UnmarshalPayload (FrGetNetworkSetupRequest f) payload =
     res_bind (FrameGetNetworkSetupRequest_UnmarshalPayload f payload) (\<lambda>f. Inr (FrGetNetworkSetupRequest f))"
| "state_frame_UnmarshalPayload (FrGetNetworkSetupConfirmation f) payload =
     res_bind (FrameGetNetworkSetupConfirmation_UnmarshalPayload f payload) (\<lambda>f. Inr (FrGetNetworkSetupConfirmation f))"
| "state_frame_UnmarshalPayload (FrErrorNotification f) payload =
     res_bind (FrameErrorNotification_UnmarshalPayload f payload) (\<lambda>f. Inr (FrErrorNotification f))"
| "state_frame_UnmarshalPayload (FrActivationLogUpdatedNotification f) payload =
     res_bind (FrameActivationLogUpdatedNotification_UnmarshalPayload f payload) (\<lambda>f. Inr (FrActivationLogUpdatedNotification f))"

definition state_frame_constructors :: "(u16 \<times> state_frame) list" where
  "state_frame_constructors =
    [(GW_GET_STATE_REQ, FrGetStateRequest FrameGetStateRequest_new),
     (GW_GET_STATE_CFM, FrGetStateConfirmation FrameGetStateConfirmation_new),
     (GW_GET_NETWORK_SETUP_REQ, FrGetNetworkSetupRequest FrameGetNetworkSetupRequest_new),
     (GW_GET_NETWORK_SETUP_CFM, FrGetNetworkSetupConfirmation FrameGetNetworkSetupConfirmation_new),
     (GW_ERROR_NTF, FrErrorNotification FrameErrorNotification_new),
     (GW_ACTIVATION_LOG_UPDATED_NTF, FrActivationLogUpdatedNotification FrameActivationLogUpdatedNotification_new)]"

section \<open>Round trip\<close>

lemmas state_frame_create_simps = state_frame_constructors_def go_consts

fun state_frame_wf :: "state_frame \<Rightarrow> bool" where
  "state_frame_wf (FrGetNetworkSetupConfirmation f) \<longleftrightarrow>
     length (nsc_IPAddress f) = 4 \<and> length (nsc_Netmask f) = 4 \<and> length (nsc_Gateway f) = 4"
| "state_frame_wf f \<longleftrightarrow> True"

lemma state_frame_roundtrip:
  assumes "state_frame_wf f"
  shows "\<exists>p g. state_frame_MarshalPayload f = Inr p \<and> length p \<le> 252 \<and>
    map_of state_frame_constructors (state_frame_Command f) = Some g \<and> state_frame_UnmarshalPayload g p = Inr f"
proof (cases f)
  case (FrGetStateConfirmation r)
  with assms show ?thesis
    by (cases r) (simp add: state_frame_create_simps codec_simps slice_append)
next
  case (FrGetNetworkSetupConfirmation r)
  with assms show ?thesis
    by (cases r) (simp add: state_frame_create_simps codec_simps slice_append)
next
  case (FrErrorNotification r)
  with assms show ?thesis
    by (cases r) (simp add: state_frame_create_simps codec_simps slice_append)
qed (simp_all add: state_frame_create_simps codec_simps)

interpretation state: frame_codec state_frame_Command state_frame_MarshalPayload
    "map_of state_frame_constructors" state_frame_UnmarshalPayload state_frame_wf
  by unfold_locales (rule state_frame_roundtrip)

end
