(* ===== verification/FramesScenes.thy ===== *)
theory FramesScenes
  imports Framing Parameter WireStrings
begin

text \<open>
  \<^verbatim>\<open>src/app/klf200/protocol/frame_scenes_wink.go\<close>: the scene list, scene activation and the
  wink frames.
\<close>

section \<open>Scenes\<close>

type_synonym FrameGetSceneListRequest = unit

definition FrameGetSceneListRequest_new :: FrameGetSceneListRequest where
  [codec_simps]: "FrameGetSceneListRequest_new = ()"

definition FrameGetSceneListRequest_MarshalPayload :: "FrameGetSceneListRequest \<Rightarrow> perror + byte list" where
  [codec_simps]: "FrameGetSceneListRequest_MarshalPayload f = Inr []"

definition FrameGetSceneListRequest_UnmarshalPayload ::
    "FrameGetSceneListRequest \<Rightarrow> byte list \<Rightarrow> perror + FrameGetSceneListRequest" where
  [codec_simps]: "FrameGetSceneListRequest_UnmarshalPayload f payload =
     (if length payload \<noteq> 0 then Inl (InvalidLen (length payload) 0) else Inr f)"

record FrameGetSceneListConfirmation =
  slc_CountScenes :: byte

definition FrameGetSceneListConfirmation_new :: FrameGetSceneListConfirmation where
  [codec_simps]: "FrameGetSceneListConfirmation_new =
     \<lparr> slc_CountScenes = 0 \<rparr>"

definition FrameGetSceneListConfirmation_MarshalPayload ::
    "FrameGetSceneListConfirmation \<Rightarrow> perror + byte list" where
  [codec_simps]: "FrameGetSceneListConfirmation_MarshalPayload f =
     Inr [slc_CountScenes f]"

definition FrameGetSceneListConfirmation_UnmarshalPayload ::
    "FrameGetSceneListConfirmation \<Rightarrow> byte list \<Rightarrow> perror + FrameGetSceneListConfirmation" where
  [codec_simps]: "FrameGetSceneListConfirmation_UnmarshalPayload f payload =
     (if length payload \<noteq> 1 then Inl (InvalidLen (length payload) 1)
      else Inr (f\<lparr> slc_CountScenes := payload ! 0 \<rparr>))"

record SceneEntry =
  se_Number :: byte
  se_Name :: string

record FrameGetSceneListNotification =
  sln_Scenes :: "SceneEntry list"
  sln_RemainingScenes :: byte

definition FrameGetSceneListNotification_new :: FrameGetSceneListNotification where
  [codec_simps]: "FrameGetSceneListNotification_new = \<lparr> sln_Scenes = [], sln_RemainingScenes = 0 \<rparr>"

fun sln_entries :: "SceneEntry list \<Rightarrow> byte list \<Rightarrow> perror + byte list" where
  "sln_entries [] buf = Inr buf"
| "sln_entries (s # ss) buf =
     res_bind (sceneNameToBytes (se_Name s))
       (\<lambda>nameBytes. sln_entries ss (buf @ [se_Number s] @ nameBytes))"

definition FrameGetSceneListNotification_MarshalPayload ::
    "FrameGetSceneListNotification \<Rightarrow> perror + byte list" where
  [codec_simps]: "FrameGetSceneListNotification_MarshalPayload f =
     res_bind (sln_entries (sln_Scenes f) [word_of_nat (length (sln_Scenes f))])
       (\<lambda>buf. Inr (buf @ [sln_RemainingScenes f]))"

definition FrameGetSceneListNotification_UnmarshalPayload ::
    "FrameGetSceneListNotification \<Rightarrow> byte list \<Rightarrow> perror + FrameGetSceneListNotification" where
  [codec_simps]: "FrameGetSceneListNotification_UnmarshalPayload f payload =
     (if length payload < 2 then Inl (TooShort (length payload))
      else
        let numberOfObjects = unat (payload ! 0);
            predicted = numberOfObjects * 65 + 2
        in if length payload \<noteq> predicted then Inl (InvalidLen (length payload) predicted)
           else Inr (f\<lparr> sln_RemainingScenes := payload ! (length payload - 1),
             sln_Scenes := map (\<lambda>i.
               let start = i * 65 + 1; scene = slice start (start + 65) payload
               in \<lparr> se_Number = scene ! 0, se_Name = sceneNameFromBytes (drop 1 scene) \<rparr>)
               [0..<numberOfObjects] \<rparr>))"

record FrameActivateSceneRequest =
  asr_SceneID :: byte
  asr_SessionID :: u16
  asr_Originator :: Originator
  asr_Priority :: Priority
  asr_Velocity :: Velocity

definition FrameActivateSceneRequest_new :: FrameActivateSceneRequest where
  [codec_simps]: "FrameActivateSceneRequest_new =
     \<lparr> asr_SceneID = 0, asr_SessionID = 0, asr_Originator = OriginatorUser,
       asr_Priority = PriorityUserLevel2, asr_Velocity = VelocityDefault \<rparr>"

definition FrameActivateSceneRequest_MarshalPayload ::
    "FrameActivateSceneRequest \<Rightarrow> perror + byte list" where
  [codec_simps]: "FrameActivateSceneRequest_MarshalPayload f =
     Inr (be_put16 (asr_SessionID f) @
       [asr_Originator f, asr_Priority f, asr_SceneID f, asr_Velocity f])"

definition FrameActivateSceneRequest_UnmarshalPayload ::
    "FrameActivateSceneRequest \<Rightarrow> byte list \<Rightarrow> perror + FrameActivateSceneRequest" where
  [codec_simps]: "FrameActivateSceneRequest_UnmarshalPayload f payload =
     (if length payload \<noteq> 6 then Inl (InvalidLen (length payload) 6)
      else Inr (f\<lparr> asr_SessionID := be_get16 (slice 0 2 payload), asr_Originator := payload ! 2,
            asr_Priority := payload ! 3, asr_SceneID := payload ! 4, asr_Velocity := payload ! 5 \<rparr>))"

definition ActivateSceneConfirmationStatusAccepted :: byte where [go_consts]: "ActivateSceneConfirmationStatusAccepted = 0"
definition ActivateSceneConfirmationStatusErrorInvalidParameter :: byte where [go_consts]: "ActivateSceneConfirmationStatusErrorInvalidParameter = 1"
definition ActivateSceneConfirmationStatusErrorRequestRejected :: byte where [go_consts]: "ActivateSceneConfirmationStatusErrorRequestRejected = 2"

record FrameActivateSceneConfirmation =
  asc_SessionID :: u16
  asc_Status :: byte

definition FrameActivateSceneConfirmation_new :: FrameActivateSceneConfirmation where
  [codec_simps]: "FrameActivateSceneConfirmation_new =
     \<lparr> asc_SessionID = 0, asc_Status = 0 \<rparr>"

definition FrameActivateSceneConfirmation_MarshalPayload ::
    "FrameActivateSceneConfirmation \<Rightarrow> perror + byte list" where
  [codec_simps]: "FrameActivateSceneConfirmation_MarshalPayload f =
     Inr ([asc_Status f] @ be_put16 (asc_SessionID f))"

definition FrameActivateSceneConfirmation_UnmarshalPayload ::
    "FrameActivateSceneConfirmation \<Rightarrow> byte list \<Rightarrow> perror + FrameActivateSceneConfirmation" where
  [codec_simps]: "FrameActivateSceneConfirmation_UnmarshalPayload f payload =
     (if length payload \<noteq> 3 then Inl (InvalidLen (length payload) 3)
      else Inr (f\<lparr> asc_Status := payload ! 0, asc_SessionID := be_get16 (slice 1 3 payload) \<rparr>))"

section \<open>Wink\<close>

record FrameWinkSendRequest =
  wsr_SessionID :: u16
  wsr_Originator :: Originator
  wsr_Priority :: Priority
  wsr_NodeIDs :: "byte list"
  wsr_WinkState :: byte
  wsr_WinkTime :: WinkTime

definition FrameWinkSendRequest_new :: FrameWinkSendRequest where
  [codec_simps]: "FrameWinkSendRequest_new = \<lparr> wsr_SessionID = 0, wsr_Originator = OriginatorUser,
     wsr_Priority = PriorityUserLevel2, wsr_NodeIDs = [], wsr_WinkState = 0, wsr_WinkTime = 0 \<rparr>"

definition FrameWinkSendRequest_MarshalPayload ::
    "FrameWinkSendRequest \<Rightarrow> perror + byte list" where
  [codec_simps]: "FrameWinkSendRequest_MarshalPayload f =
     (if length (wsr_NodeIDs f) > 20 then Inl (TooManyNodes (length (wsr_NodeIDs f)))
      else Inr (be_put16 (wsr_SessionID f) @
        [wsr_Originator f, wsr_Priority f, wsr_WinkState f, wsr_WinkTime f,
         word_of_nat (length (wsr_NodeIDs f))] @
        copy_pad 20 (wsr_NodeIDs f)))"

definition FrameWinkSendRequest_UnmarshalPayload ::
    "FrameWinkSendRequest \<Rightarrow> byte list \<Rightarrow> perror + FrameWinkSendRequest" where
  [codec_simps]: "FrameWinkSendRequest_UnmarshalPayload f payload =
     (if length payload \<noteq> 27 then Inl (InvalidLen (length payload) 27)
      else
        let f = f\<lparr> wsr_SessionID := be_get16 (slice 0 2 payload),
                   wsr_Originator := payload ! 2,
                   wsr_Priority := payload ! 3,
                   wsr_WinkState := payload ! 4,
                   wsr_WinkTime := payload ! 5 \<rparr>;
            numberOfNodes = unat (payload ! 6)
        in if numberOfNodes > 20 then Inl (TooManyNodes numberOfNodes)
           else Inr (f\<lparr> wsr_NodeIDs := slice 7 (7 + numberOfNodes) payload \<rparr>))"

definition WinkSendConfirmationStatusAccepted :: byte where [go_consts]: "WinkSendConfirmationStatusAccepted = 0"
definition WinkSendConfirmationStatusRejected :: byte where [go_consts]: "WinkSendConfirmationStatusRejected = 1"

record FrameWinkSendConfirmation =
  wsc_SessionID :: u16
  wsc_Status :: byte

definition FrameWinkSendConfirmation_new :: FrameWinkSendConfirmation where
  [codec_simps]: "FrameWinkSendConfirmation_new =
     \<lparr> wsc_SessionID = 0, wsc_Status = 0 \<rparr>"

definition FrameWinkSendConfirmation_MarshalPayload ::
    "FrameWinkSendConfirmation \<Rightarrow> perror + byte list" where
  [codec_simps]: "FrameWinkSendConfirmation_MarshalPayload f =
     Inr (be_put16 (wsc_SessionID f) @ [wsc_Status f])"

definition FrameWinkSendConfirmation_UnmarshalPayload ::
    "FrameWinkSendConfirmation \<Rightarrow> byte list \<Rightarrow> perror + FrameWinkSendConfirmation" where
  [codec_simps]: "FrameWinkSendConfirmation_UnmarshalPayload f payload =
     (if length payload \<noteq> 3 then Inl (InvalidLen (length payload) 3)
      else Inr (f\<lparr> wsc_SessionID := be_get16 (slice 0 2 payload), wsc_Status := payload ! 2 \<rparr>))"

record FrameWinkSendNotification =
  wsn_SessionID :: u16

definition FrameWinkSendNotification_new :: FrameWinkSendNotification where
  [codec_simps]: "FrameWinkSendNotification_new =
     \<lparr> wsn_SessionID = 0 \<rparr>"

definition FrameWinkSendNotification_MarshalPayload ::
    "FrameWinkSendNotification \<Rightarrow> perror + byte list" where
  [codec_simps]: "FrameWinkSendNotification_MarshalPayload f =
     Inr (be_put16 (wsn_SessionID f))"

definition FrameWinkSendNotification_UnmarshalPayload ::
    "FrameWinkSendNotification \<Rightarrow> byte list \<Rightarrow> perror + FrameWinkSendNotification" where
  [codec_simps]: "FrameWinkSendNotification_UnmarshalPayload f payload =
     (if length payload \<noteq> 2 then Inl (InvalidLen (length payload) 2)
      else Inr (f\<lparr> wsn_SessionID := be_get16 (slice 0 2 payload) \<rparr>))"

section \<open>The frames of the file\<close>

text \<open>The dynamic type of a \<open>Frame\<close> value and its methods.\<close>

datatype scenes_frame =
    FrGetSceneListRequest FrameGetSceneListRequest
  | FrGetSceneListConfirmation FrameGetSceneListConfirmation
  | FrGetSceneListNotification FrameGetSceneListNotification
  | FrActivateSceneRequest FrameActivateSceneRequest
  | FrActivateSceneConfirmation FrameActivateSceneConfirmation
  | FrWinkSendRequest FrameWinkSendRequest
  | FrWinkSendConfirmation FrameWinkSendConfirmation
  | FrWinkSendNotification FrameWinkSendNotification

fun scenes_frame_Command :: "scenes_frame \<Rightarrow> u16" where
  "scenes_frame_Command (FrGetSceneListRequest f) = GW_GET_SCENE_LIST_REQ"
| "scenes_frame_Command (FrGetSceneListConfirmation f) = GW_GET_SCENE_LIST_CFM"
| "scenes_frame_Command (FrGetSceneListNotification f) = GW_GET_SCENE_LIST_NTF"
| "scenes_frame_Command (FrActivateSceneRequest f) = GW_ACTIVATE_SCENE_REQ"
| "scenes_frame_Command (FrActivateSceneConfirmation f) = GW_ACTIVATE_SCENE_CFM"
| "scenes_frame_Command (FrWinkSendRequest f) = GW_WINK_SEND_REQ"
| "scenes_frame_Command (FrWinkSendConfirmation f) = GW_WINK_SEND_CFM"
| "scenes_frame_Command (FrWinkSendNotification f) = GW_WINK_SEND_NTF"

fun scenes_frame_MarshalPayload :: "scenes_frame \<Rightarrow> perror + byte list" where
  "scenes_frame_MarshalPayload (FrGetSceneListRequest f) = FrameGetSceneListRequest_MarshalPayload f"
| "scenes_frame_MarshalPayload (FrGetSceneListConfirmation f) = FrameGetSceneListConfirmation_MarshalPayload f"
| "scenes_frame_MarshalPayload (FrGetSceneListNotification f) = FrameGetSceneListNotification_MarshalPayload f"
| "scenes_frame_MarshalPayload (FrActivateSceneRequest f) = FrameActivateSceneRequest_MarshalPayload f"
| "scenes_frame_MarshalPayload (FrActivateSceneConfirmation f) = FrameActivateSceneConfirmation_MarshalPayload f"
| "scenes_frame_MarshalPayload (FrWinkSendRequest f) = FrameWinkSendRequest_MarshalPayload f"
| "scenes_frame_MarshalPayload (FrWinkSendConfirmation f) = FrameWinkSendConfirmation_MarshalPayload f"
| "scenes_frame_MarshalPayload (FrWinkSendNotification f) = FrameWinkSendNotification_MarshalPayload f"

fun scenes_frame_UnmarshalPayload :: "scenes_frame \<Rightarrow> byte list \<Rightarrow> perror + scenes_frame" where
  "scenes_frame_UnmarshalPayload (FrGetSceneListRequest f) payload =
     res_bind (FrameGetSceneListRequest_UnmarshalPayload f payload) (\<lambda>f. Inr (FrGetSceneListRequest f))"
| "scenes_frame_UnmarshalPayload (FrGetSceneListConfirmation f) payload =
     res_bind (FrameGetSceneListConfirmation_UnmarshalPayload f payload) (\<lambda>f. Inr (FrGetSceneListConfirmation f))"
| "scenes_frame_UnmarshalPayload (FrGetSceneListNotification f) payload =
     res_bind (FrameGetSceneListNotification_UnmarshalPayload f payload) (\<lambda>f. Inr (FrGetSceneListNotification f))"
| "scenes_frame_UnmarshalPayload (FrActivateSceneRequest f) payload =
     res_bind (FrameActivateSceneRequest_UnmarshalPayload f payload) (\<lambda>f. Inr (FrActivateSceneRequest f))"
| "scenes_frame_UnmarshalPayload (FrActivateSceneConfirmation f) payload =
     res_bind (FrameActivateSceneConfirmation_UnmarshalPayload f payload) (\<lambda>f. Inr (FrActivateSceneConfirmation f))"
| "scenes_frame_UnmarshalPayload (FrWinkSendRequest f) payload =
     res_bind (FrameWinkSendRequest_UnmarshalPayload f payload) (\<lambda>f. Inr (FrWinkSendRequest f))"
| "scenes_frame_UnmarshalPayload (FrWinkSendConfirmation f) payload =
     res_bind (FrameWinkSendConfirmation_UnmarshalPayload f payload) (\<lambda>f. Inr (FrWinkSendConfirmation f))"
| "scenes_frame_UnmarshalPayload (FrWinkSendNotification f) payload =
     res_bind (FrameWinkSendNotification_UnmarshalPayload f payload) (\<lambda>f. Inr (FrWinkSendNotification f))"

definition scenes_frame_constructors :: "(u16 \<times> scenes_frame) list" where
  "scenes_frame_constructors =
    [(GW_GET_SCENE_LIST_REQ, FrGetSceneListRequest FrameGetSceneListRequest_new),
     (GW_GET_SCENE_LIST_CFM, FrGetSceneListConfirmation FrameGetSceneListConfirmation_new),
     (GW_GET_SCENE_LIST_NTF, FrGetSceneListNotification FrameGetSceneListNotification_new),
     (GW_ACTIVATE_SCENE_REQ, FrActivateSceneRequest FrameActivateSceneRequest_new),
     (GW_ACTIVATE_SCENE_CFM, FrActivateSceneConfirmation FrameActivateSceneConfirmation_new),
     (GW_WINK_SEND_REQ, FrWinkSendRequest FrameWinkSendRequest_new),
     (GW_WINK_SEND_CFM, FrWinkSendConfirmation FrameWinkSendConfirmation_new),
     (GW_WINK_SEND_NTF, FrWinkSendNotification FrameWinkSendNotification_new)]"

section \<open>Lemmas on the scene list\<close>

definition scene_bytes :: "SceneEntry \<Rightarrow> byte list" where
  "scene_bytes s = se_Number s # copy_pad 64 (bytes_of (se_Name s))"

lemma length_scene_bytes [simp]: "length (scene_bytes s) = 65"
  by (simp add: scene_bytes_def)

lemma sln_entries_eq:
  "\<forall>s\<in>set ss. wire_string 64 (se_Name s) \<Longrightarrow>
   sln_entries ss buf = Inr (buf @ concat (map scene_bytes ss))"
  by (induction ss arbitrary: buf) (simp_all add: sceneNameToBytes_eq codec_simps scene_bytes_def)

lemma length_concat_scenes [simp]: "length (concat (map scene_bytes ss)) = 65 * length ss"
  by (induction ss) simp_all

lemma concat_scenes_slice:
  "i < length ss \<Longrightarrow> slice (i * 65) (i * 65 + 65) (concat (map scene_bytes ss) @ rest) = scene_bytes (ss ! i)"
proof (induction ss arbitrary: i)
  case (Cons s ss)
  then show ?case
    by (cases i) (auto simp: slice_0 slice_append_left slice_append_right add.commute)
qed simp

lemma SceneList_roundtrip:
  assumes "\<forall>s\<in>set (sln_Scenes f). wire_string 64 (se_Name s)" "length (sln_Scenes f) \<le> 3"
  shows "\<exists>p. FrameGetSceneListNotification_MarshalPayload f = Inr p \<and> length p \<le> 252 \<and>
    FrameGetSceneListNotification_UnmarshalPayload g p = Inr f"
proof -
  let ?ss = "sln_Scenes f"
  let ?p = "(word_of_nat (length ?ss) # concat (map scene_bytes ?ss)) @ [sln_RemainingScenes f]"
  have u: "unat (word_of_nat (length ?ss) :: byte) = length ?ss"
    using assms(2) by (intro unat_count) simp
  have sl: "slice (i * 65 + 1) (i * 65 + 1 + 65) ?p = scene_bytes (?ss ! i)" if "i < length ?ss" for i
    using concat_scenes_slice [OF that, of "[sln_RemainingScenes f]"]
    by (simp add: slice_Cons add.commute)
  have name: "wire_string 64 (se_Name (?ss ! i))" if "i < length ?ss" for i
    using assms(1) that by simp
  have "map (\<lambda>i. \<lparr> se_Number = slice (i * 65 + 1) (i * 65 + 1 + 65) ?p ! 0,
      se_Name = sceneNameFromBytes (drop 1 (slice (i * 65 + 1) (i * 65 + 1 + 65) ?p)) \<rparr>)
      [0..<length ?ss] = ?ss"
    using sl name by (intro nth_equalityI)
      (simp_all add: scene_bytes_def sceneNameFromBytes_eq codec_simps)
  moreover have "?p ! (length ?p - 1) = sln_RemainingScenes f"
    by (simp add: nth_append)
  ultimately have "FrameGetSceneListNotification_UnmarshalPayload g ?p = Inr f"
    using u by (cases f)
      (simp add: FrameGetSceneListNotification_UnmarshalPayload_def Let_def)
  with assms show ?thesis
    by (simp add: FrameGetSceneListNotification_MarshalPayload_def sln_entries_eq)
qed

section \<open>Round trip\<close>

lemmas scenes_frame_create_simps = scenes_frame_constructors_def go_consts

fun scenes_frame_wf :: "scenes_frame \<Rightarrow> bool" where
  "scenes_frame_wf (FrGetSceneListNotification f) \<longleftrightarrow>
     (\<forall>s\<in>set (sln_Scenes f). wire_string 64 (se_Name s)) \<and> length (sln_Scenes f) \<le> 3"
| "scenes_frame_wf (FrWinkSendRequest f) \<longleftrightarrow> length (wsr_NodeIDs f) \<le> 20"
| "scenes_frame_wf f \<longleftrightarrow> True"

lemma scenes_frame_roundtrip:
  assumes "scenes_frame_wf f"
  shows "\<exists>p g. scenes_frame_MarshalPayload f = Inr p \<and> length p \<le> 252 \<and>
    map_of scenes_frame_constructors (scenes_frame_Command f) = Some g \<and> scenes_frame_UnmarshalPayload g p = Inr f"
proof (cases f)
  case (FrGetSceneListConfirmation r)
  with assms show ?thesis
    by (cases r) (simp add: scenes_frame_create_simps codec_simps slice_append)
next
  case (FrGetSceneListNotification r)
  with assms obtain p where "FrameGetSceneListNotification_MarshalPayload r = Inr p" "length p \<le> 252"
    "FrameGetSceneListNotification_UnmarshalPayload FrameGetSceneListNotification_new p = Inr r"
    using SceneList_roundtrip [of r] by auto
  with FrGetSceneListNotification show ?thesis by (intro exI [of _ p]) (simp add: scenes_frame_create_simps)
next
  case (FrActivateSceneRequest r)
  with assms show ?thesis
    by (cases r) (simp add: scenes_frame_create_simps codec_simps slice_append)
next
  case (FrActivateSceneConfirmation r)
  with assms show ?thesis
    by (cases r) (simp add: scenes_frame_create_simps codec_simps slice_append)
next
  case (FrWinkSendRequest r)
  with assms show ?thesis
    by (cases r) (simp add: scenes_frame_create_simps codec_simps slice_append)
next
  case (FrWinkSendConfirmation r)
  with assms show ?thesis
    by (cases r) (simp add: scenes_frame_create_simps codec_simps slice_append)
next
  case (FrWinkSendNotification r)
  with assms show ?thesis
    by (cases r) (simp add: scenes_frame_create_simps codec_simps slice_append)
qed (simp_all add: scenes_frame_create_simps codec_simps)

interpretation scenes: frame_codec scenes_frame_Command scenes_frame_MarshalPayload
    "map_of scenes_frame_constructors" scenes_frame_UnmarshalPayload scenes_frame_wf
  by unfold_locales (rule scenes_frame_roundtrip)

end
