(* ===== verification/FramesLimitation.thy ===== *)
theory FramesLimitation
  imports Framing Parameter
begin

text \<open>
  \<^verbatim>\<open>src/app/klf200/protocol/frame_limitation_hsm.go\<close>: reading and setting the limitations of a
  node, and the house status monitor.
\<close>

section \<open>Limitations\<close>

definition SetLimitationRequestStatusRejected :: byte where [go_consts]: "SetLimitationRequestStatusRejected = 0"
definition SetLimitationRequestStatusAccepted :: byte where [go_consts]: "SetLimitationRequestStatusAccepted = 1"

record FrameGetLimitationStatusRequest =
  glr_SessionID :: u16
  glr_NodeIDs :: "byte list"
  glr_ParameterID :: byte
  glr_LimitationsType :: LimitationType

definition FrameGetLimitationStatusRequest_new :: FrameGetLimitationStatusRequest where
  [codec_simps]: "FrameGetLimitationStatusRequest_new = \<lparr> glr_SessionID = 0, glr_NodeIDs = [],
     glr_ParameterID = 0, glr_LimitationsType = 0 \<rparr>"

definition FrameGetLimitationStatusRequest_MarshalPayload ::
    "FrameGetLimitationStatusRequest \<Rightarrow> perror + byte list" where
  [codec_simps]: "FrameGetLimitationStatusRequest_MarshalPayload f =
     (let nodeCount = length (glr_NodeIDs f) in
      if nodeCount > 20 then Inl (TooManyNodes nodeCount)
      else Inr (be_put16 (glr_SessionID f) @ [word_of_nat nodeCount] @
        copy_pad 20 (glr_NodeIDs f) @ [glr_ParameterID f, glr_LimitationsType f]))"

definition FrameGetLimitationStatusRequest_UnmarshalPayload ::
    "FrameGetLimitationStatusRequest \<Rightarrow> byte list \<Rightarrow>
     perror + FrameGetLimitationStatusRequest" where
  [codec_simps]: "FrameGetLimitationStatusRequest_UnmarshalPayload f payload =
     (if length payload \<noteq> 25 then Inl (InvalidLen (length payload) 25)
      else
        let f = f\<lparr> glr_SessionID := be_get16 (slice 0 2 payload) \<rparr>;
            nodeCount = unat (payload ! 2)
        in if nodeCount > 20 then Inl (TooManyNodes nodeCount)
           else Inr (f\<lparr> glr_NodeIDs := slice 3 (3 + nodeCount) payload,
                        glr_ParameterID := payload ! 23,
                        glr_LimitationsType := payload ! 24 \<rparr>))"

record FrameGetLimitationStatusConfirmation =
  gls_SessionID :: u16
  gls_Data :: byte

definition FrameGetLimitationStatusConfirmation_new :: FrameGetLimitationStatusConfirmation where
  [codec_simps]: "FrameGetLimitationStatusConfirmation_new =
     \<lparr> gls_SessionID = 0, gls_Data = 0 \<rparr>"

definition FrameGetLimitationStatusConfirmation_MarshalPayload ::
    "FrameGetLimitationStatusConfirmation \<Rightarrow> perror + byte list" where
  [codec_simps]: "FrameGetLimitationStatusConfirmation_MarshalPayload f =
     Inr (be_put16 (gls_SessionID f) @ [gls_Data f])"

definition FrameGetLimitationStatusConfirmation_UnmarshalPayload ::
    "FrameGetLimitationStatusConfirmation \<Rightarrow> byte list \<Rightarrow>
     perror + FrameGetLimitationStatusConfirmation" where
  [codec_simps]: "FrameGetLimitationStatusConfirmation_UnmarshalPayload f payload =
     (if length payload \<noteq> 3 then Inl (InvalidLen (length payload) 3)
      else Inr (f\<lparr> gls_SessionID := be_get16 (slice 0 2 payload), gls_Data := payload ! 2 \<rparr>))"

record FrameLimitationStatusNotification =
  lsn_SessionID :: u16
  lsn_NodeID :: byte
  lsn_ParameterID :: byte
  lsn_MinValue :: u16
  lsn_MaxValue :: u16
  lsn_LimitOriginator :: Originator
  lsn_LimitTime :: byte

definition FrameLimitationStatusNotification_new :: FrameLimitationStatusNotification where
  [codec_simps]: "FrameLimitationStatusNotification_new =
     \<lparr> lsn_SessionID = 0, lsn_NodeID = 0, lsn_ParameterID = 0, lsn_MinValue = 0,
       lsn_MaxValue = 0, lsn_LimitOriginator = 0, lsn_LimitTime = 0 \<rparr>"

definition FrameLimitationStatusNotification_MarshalPayload ::
    "FrameLimitationStatusNotification \<Rightarrow> perror + byte list" where
  [codec_simps]: "FrameLimitationStatusNotification_MarshalPayload f =
     Inr (be_put16 (lsn_SessionID f) @ [lsn_NodeID f, lsn_ParameterID f] @
       be_put16 (lsn_MinValue f) @ be_put16 (lsn_MaxValue f) @
       [lsn_LimitOriginator f, lsn_LimitTime f])"

definition FrameLimitationStatusNotification_UnmarshalPayload ::
    "FrameLimitationStatusNotification \<Rightarrow> byte list \<Rightarrow> perror + FrameLimitationStatusNotification" where
  [codec_simps]: "FrameLimitationStatusNotification_UnmarshalPayload f payload =
     (if length payload \<noteq> 10 then Inl (InvalidLen (length payload) 10)
      else Inr (f\<lparr> lsn_SessionID := be_get16 (slice 0 2 payload), lsn_NodeID := payload ! 2,
            lsn_ParameterID := payload ! 3, lsn_MinValue := be_get16 (slice 4 6 payload),
            lsn_MaxValue := be_get16 (slice 6 8 payload), lsn_LimitOriginator := payload ! 8,
            lsn_LimitTime := payload ! 9 \<rparr>))"

record FrameSetLimitationRequest =
  slr_SessionID :: u16
  slr_Originator :: Originator
  slr_Priority :: Priority
  slr_NodeIDs :: "byte list"
  slr_ParameterID :: byte
  slr_LimitationValueMin :: raw2
  slr_LimitationValueMax :: raw2
  slr_LimitationTime :: LimitationTime

definition FrameSetLimitationRequest_new :: FrameSetLimitationRequest where
  [codec_simps]: "FrameSetLimitationRequest_new = \<lparr> slr_SessionID = 0, slr_Originator = 0, slr_Priority = 0,
     slr_NodeIDs = [], slr_ParameterID = 0, slr_LimitationValueMin = (0, 0),
     slr_LimitationValueMax = (0, 0), slr_LimitationTime = \<lparr> lt_Raw = 0 \<rparr> \<rparr>"

definition FrameSetLimitationRequest_MarshalPayload ::
    "FrameSetLimitationRequest \<Rightarrow> perror + byte list" where
  [codec_simps]: "FrameSetLimitationRequest_MarshalPayload f =
     (let nodeCount = length (slr_NodeIDs f) in
      if nodeCount > 20 then Inl (TooManyNodes nodeCount)
      else Inr (be_put16 (slr_SessionID f) @ [slr_Originator f, slr_Priority f] @
        [word_of_nat nodeCount] @ copy_pad 20 (slr_NodeIDs f) @
        [slr_ParameterID f] @
        [fst (slr_LimitationValueMin f), snd (slr_LimitationValueMin f)] @
        [fst (slr_LimitationValueMax f), snd (slr_LimitationValueMax f)] @
        LimitationTime_Bytes (slr_LimitationTime f)))"

definition FrameSetLimitationRequest_UnmarshalPayload ::
    "FrameSetLimitationRequest \<Rightarrow> byte list \<Rightarrow> perror + FrameSetLimitationRequest" where
  [codec_simps]: "FrameSetLimitationRequest_UnmarshalPayload f payload =
     (if length payload \<noteq> 31 then Inl (InvalidLen (length payload) 31)
      else
        let f = f\<lparr> slr_SessionID := be_get16 (slice 0 2 payload),
                   slr_Originator := payload ! 2,
                   slr_Priority := payload ! 3 \<rparr>;
            nodeCount = unat (payload ! 4)
        in if nodeCount > 20 then Inl (TooManyNodes nodeCount)
           else Inr (f\<lparr> slr_NodeIDs := slice 5 (5 + nodeCount) payload,
                        slr_ParameterID := payload ! 25,
                        slr_LimitationValueMin := (payload ! 26, payload ! 27),
                        slr_LimitationValueMax := (payload ! 28, payload ! 29),
                        slr_LimitationTime := \<lparr> lt_Raw = payload ! 30 \<rparr> \<rparr>))"

record FrameSetLimitationConfirmation =
  slm_SessionID :: u16
  slm_Status :: byte

definition FrameSetLimitationConfirmation_new :: FrameSetLimitationConfirmation where
  [codec_simps]: "FrameSetLimitationConfirmation_new =
     \<lparr> slm_SessionID = 0, slm_Status = 0 \<rparr>"

definition FrameSetLimitationConfirmation_MarshalPayload ::
    "FrameSetLimitationConfirmation \<Rightarrow> perror + byte list" where
  [codec_simps]: "FrameSetLimitationConfirmation_MarshalPayload f =
     Inr (be_put16 (slm_SessionID f) @ [slm_Status f])"

definition FrameSetLimitationConfirmation_UnmarshalPayload ::
    "FrameSetLimitationConfirmation \<Rightarrow> byte list \<Rightarrow> perror + FrameSetLimitationConfirmation" where
  [codec_simps]: "FrameSetLimitationConfirmation_UnmarshalPayload f payload =
     (if length payload \<noteq> 3 then Inl (InvalidLen (length payload) 3)
      else Inr (f\<lparr> slm_SessionID := be_get16 (slice 0 2 payload), slm_Status := payload ! 2 \<rparr>))"

section \<open>House status monitor\<close>

type_synonym FrameHouseStatusMonitorEnableRequest = unit

definition FrameHouseStatusMonitorEnableRequest_new :: FrameHouseStatusMonitorEnableRequest where
  [codec_simps]: "FrameHouseStatusMonitorEnableRequest_new = ()"

definition FrameHouseStatusMonitorEnableRequest_MarshalPayload :: "FrameHouseStatusMonitorEnableRequest \<Rightarrow> perror + byte list" where
  [codec_simps]: "FrameHouseStatusMonitorEnableRequest_MarshalPayload f = Inr []"

definition FrameHouseStatusMonitorEnableRequest_UnmarshalPayload ::
    "FrameHouseStatusMonitorEnableRequest \<Rightarrow> byte list \<Rightarrow>
     perror + FrameHouseStatusMonitorEnableRequest" where
  [codec_simps]: "FrameHouseStatusMonitorEnableRequest_UnmarshalPayload f payload =
     (if length payload \<noteq> 0 then Inl (InvalidLen (length payload) 0) else Inr f)"

type_synonym FrameHouseStatusMonitorEnableConfirmation = unit

definition FrameHouseStatusMonitorEnableConfirmation_new :: FrameHouseStatusMonitorEnableConfirmation where
  [codec_simps]: "FrameHouseStatusMonitorEnableConfirmation_new = ()"

definition FrameHouseStatusMonitorEnableConfirmation_MarshalPayload :: "FrameHouseStatusMonitorEnableConfirmation \<Rightarrow> perror + byte list" where
  [codec_simps]: "FrameHouseStatusMonitorEnableConfirmation_MarshalPayload f = Inr []"

definition FrameHouseStatusMonitorEnableConfirmation_UnmarshalPayload ::
    "FrameHouseStatusMonitorEnableConfirmation \<Rightarrow> byte list \<Rightarrow>
     perror + FrameHouseStatusMonitorEnableConfirmation" where
  [codec_simps]: "FrameHouseStatusMonitorEnableConfirmation_UnmarshalPayload f payload =
     (if length payload \<noteq> 0 then Inl (InvalidLen (length payload) 0) else Inr f)"

type_synonym FrameHouseStatusMonitorDisableRequest = unit

definition FrameHouseStatusMonitorDisableRequest_new :: FrameHouseStatusMonitorDisableRequest where
  [codec_simps]: "FrameHouseStatusMonitorDisableRequest_new = ()"

definition FrameHouseStatusMonitorDisableRequest_MarshalPayload :: "FrameHouseStatusMonitorDisableRequest \<Rightarrow> perror + byte list" where
  [codec_simps]: "FrameHouseStatusMonitorDisableRequest_MarshalPayload f = Inr []"

definition FrameHouseStatusMonitorDisableRequest_UnmarshalPayload ::
    "FrameHouseStatusMonitorDisableRequest \<Rightarrow> byte list \<Rightarrow>
     perror + FrameHouseStatusMonitorDisableRequest" where
  [codec_simps]: "FrameHouseStatusMonitorDisableRequest_UnmarshalPayload f payload =
     (if length payload \<noteq> 0 then Inl (InvalidLen (length payload) 0) else Inr f)"

type_synonym FrameHouseStatusMonitorDisableConfirmation = unit

definition FrameHouseStatusMonitorDisableConfirmation_new :: FrameHouseStatusMonitorDisableConfirmation where
  [codec_simps]: "FrameHouseStatusMonitorDisableConfirmation_new = ()"

definition FrameHouseStatusMonitorDisableConfirmation_MarshalPayload :: "FrameHouseStatusMonitorDisableConfirmation \<Rightarrow> perror + byte list" where
  [codec_simps]: "FrameHouseStatusMonitorDisableConfirmation_MarshalPayload f = Inr []"

definition FrameHouseStatusMonitorDisableConfirmation_UnmarshalPayload ::
    "FrameHouseStatusMonitorDisableConfirmation \<Rightarrow> byte list \<Rightarrow>
     perror + FrameHouseStatusMonitorDisableConfirmation" where
  [codec_simps]: "FrameHouseStatusMonitorDisableConfirmation_UnmarshalPayload f payload =
     (if length payload \<noteq> 0 then Inl (InvalidLen (length payload) 0) else Inr f)"

section \<open>The frames of the file\<close>

text \<open>The dynamic type of a \<open>Frame\<close> value and its methods.\<close>

datatype limitation_frame =
    FrGetLimitationStatusRequest FrameGetLimitationStatusRequest
  | FrGetLimitationStatusConfirmation FrameGetLimitationStatusConfirmation
  | FrLimitationStatusNotification FrameLimitationStatusNotification
  | FrSetLimitationRequest FrameSetLimitationRequest
  | FrSetLimitationConfirmation FrameSetLimitationConfirmation
  | FrHouseStatusMonitorEnableRequest FrameHouseStatusMonitorEnableRequest
  | FrHouseStatusMonitorEnableConfirmation FrameHouseStatusMonitorEnableConfirmation
  | FrHouseStatusMonitorDisableRequest FrameHouseStatusMonitorDisableRequest
  | FrHouseStatusMonitorDisableConfirmation FrameHouseStatusMonitorDisableConfirmation

fun limitation_frame_Command :: "limitation_frame \<Rightarrow> u16" where
  "limitation_frame_Command (FrGetLimitationStatusRequest f) = GW_GET_LIMITATION_STATUS_REQ"
| "limitation_frame_Command (FrGetLimitationStatusConfirmation f) = GW_GET_LIMITATION_STATUS_CFM"
| "limitation_frame_Command (FrLimitationStatusNotification f) = GW_LIMITATION_STATUS_NTF"
| "limitation_frame_Command (FrSetLimitationRequest f) = GW_SET_LIMITATION_REQ"
| "limitation_frame_Command (FrSetLimitationConfirmation f) = GW_SET_LIMITATION_CFM"
| "limitation_frame_Command (FrHouseStatusMonitorEnableRequest f) = GW_HOUSE_STATUS_MONITOR_ENABLE_REQ"
| "limitation_frame_Command (FrHouseStatusMonitorEnableConfirmation f) = GW_HOUSE_STATUS_MONITOR_ENABLE_CFM"
| "limitation_frame_Command (FrHouseStatusMonitorDisableRequest f) = GW_HOUSE_STATUS_MONITOR_DISABLE_REQ"
| "limitation_frame_Command (FrHouseStatusMonitorDisableConfirmation f) = GW_HOUSE_STATUS_MONITOR_DISABLE_CFM"

fun limitation_frame_MarshalPayload :: "limitation_frame \<Rightarrow> perror + byte list" where
  "limitation_frame_MarshalPayload (FrGetLimitationStatusRequest f) = FrameGetLimitationStatusRequest_MarshalPayload f"
| "limitation_frame_MarshalPayload (FrGetLimitationStatusConfirmation f) = FrameGetLimitationStatusConfirmation_MarshalPayload f"
| "limitation_frame_MarshalPayload (FrLimitationStatusNotification f) = FrameLimitationStatusNotification_MarshalPayload f"
| "limitation_frame_MarshalPayload (FrSetLimitationRequest f) = FrameSetLimitationRequest_MarshalPayload f"
| "limitation_frame_MarshalPayload (FrSetLimitationConfirmation f) = FrameSetLimitationConfirmation_MarshalPayload f"
| "limitation_frame_MarshalPayload (FrHouseStatusMonitorEnableRequest f) = FrameHouseStatusMonitorEnableRequest_MarshalPayload f"
| "limitation_frame_MarshalPayload (FrHouseStatusMonitorEnableConfirmation f) = FrameHouseStatusMonitorEnableConfirmation_MarshalPayload f"
| "limitation_frame_MarshalPayload (FrHouseStatusMonitorDisableRequest f) = FrameHouseStatusMonitorDisableRequest_MarshalPayload f"
| "limitation_frame_MarshalPayload (FrHouseStatusMonitorDisableConfirmation f) = FrameHouseStatusMonitorDisableConfirmation_MarshalPayload f"

fun limitation_frame_UnmarshalPayload :: "limitation_frame \<Rightarrow> byte list \<Rightarrow> perror + limitation_frame" where
  "limitation_frame_UnmarshalPayload (FrGetLimitationStatusRequest f) payload =
     res_bind (FrameGetLimitationStatusRequest_UnmarshalPayload f payload) (\<lambda>f. Inr (FrGetLimitationStatusRequest f))"
| "limitation_frame_UnmarshalPayload (FrGetLimitationStatusConfirmation f) payload =
     res_bind (FrameGetLimitationStatusConfirmation_UnmarshalPayload f payload) (\<lambda>f. Inr (FrGetLimitationStatusConfirmation f))"
| "limitation_frame_UnmarshalPayload (FrLimitationStatusNotification f) payload =
     res_bind (FrameLimitationStatusNotification_UnmarshalPayload f payload) (\<lambda>f. Inr (FrLimitationStatusNotification f))"
| "limitation_frame_UnmarshalPayload (FrSetLimitationRequest f) payload =
     res_bind (FrameSetLimitationRequest_UnmarshalPayload f payload) (\<lambda>f. Inr (FrSetLimitationRequest f))"
| "limitation_frame_UnmarshalPayload (FrSetLimitationConfirmation f) payload =
     res_bind (FrameSetLimitationConfirmation_UnmarshalPayload f payload) (\<lambda>f. Inr (FrSetLimitationConfirmation f))"
| "limitation_frame_UnmarshalPayload (FrHouseStatusMonitorEnableRequest f) payload =
     res_bind (FrameHouseStatusMonitorEnableRequest_UnmarshalPayload f payload) (\<lambda>f. Inr (FrHouseStatusMonitorEnableRequest f))"
| "limitation_frame_UnmarshalPayload (FrHouseStatusMonitorEnableConfirmation f) payload =
     res_bind (FrameHouseStatusMonitorEnableConfirmation_UnmarshalPayload f payload) (\<lambda>f. Inr (FrHouseStatusMonitorEnableConfirmation f))"
| "limitation_frame_UnmarshalPayload (FrHouseStatusMonitorDisableRequest f) payload =
     res_bind (FrameHouseStatusMonitorDisableRequest_UnmarshalPayload f payload) (\<lambda>f. Inr (FrHouseStatusMonitorDisableRequest f))"
| "limitation_frame_UnmarshalPayload (FrHouseStatusMonitorDisableConfirmation f) payload =
     res_bind (FrameHouseStatusMonitorDisableConfirmation_UnmarshalPayload f payload) (\<lambda>f. Inr (FrHouseStatusMonitorDisableConfirmation f))"

definition limitation_frame_constructors :: "(u16 \<times> limitation_frame) list" where
  "limitation_frame_constructors =
    [(GW_GET_LIMITATION_STATUS_REQ, FrGetLimitationStatusRequest FrameGetLimitationStatusRequest_new),
     (GW_GET_LIMITATION_STATUS_CFM, FrGetLimitationStatusConfirmation FrameGetLimitationStatusConfirmation_new),
     (GW_LIMITATION_STATUS_NTF, FrLimitationStatusNotification FrameLimitationStatusNotification_new),
     (GW_SET_LIMITATION_REQ, FrSetLimitationRequest FrameSetLimitationRequest_new),
     (GW_SET_LIMITATION_CFM, FrSetLimitationConfirmation FrameSetLimitationConfirmation_new),
     (GW_HOUSE_STATUS_MONITOR_ENABLE_REQ, FrHouseStatusMonitorEnableRequest FrameHouseStatusMonitorEnableRequest_new),
     (GW_HOUSE_STATUS_MONITOR_ENABLE_CFM, FrHouseStatusMonitorEnableConfirmation FrameHouseStatusMonitorEnableConfirmation_new),
     (GW_HOUSE_STATUS_MONITOR_DISABLE_REQ, FrHouseStatusMonitorDisableRequest FrameHouseStatusMonitorDisableRequest_new),
     (GW_HOUSE_STATUS_MONITOR_DISABLE_CFM, FrHouseStatusMonitorDisableConfirmation FrameHouseStatusMonitorDisableConfirmation_new)]"

section \<open>Round trip\<close>

lemmas limitation_frame_create_simps = limitation_frame_constructors_def go_consts

fun limitation_frame_wf :: "limitation_frame \<Rightarrow> bool" where
  "limitation_frame_wf (FrGetLimitationStatusRequest f) \<longleftrightarrow> length (glr_NodeIDs f) \<le> 20"
| "limitation_frame_wf (FrSetLimitationRequest f) \<longleftrightarrow> length (slr_NodeIDs f) \<le> 20"
| "limitation_frame_wf f \<longleftrightarrow> True"

lemma limitation_frame_roundtrip:
  assumes "limitation_frame_wf f"
  shows "\<exists>p g. limitation_frame_MarshalPayload f = Inr p \<and> length p \<le> 252 \<and>
    map_of limitation_frame_constructors (limitation_frame_Command f) = Some g \<and> limitation_frame_UnmarshalPayload g p = Inr f"
proof (cases f)
  case (FrGetLimitationStatusRequest r)
  with assms show ?thesis
    by (cases r) (simp add: limitation_frame_create_simps codec_simps slice_append Let_def)
next
  case (FrGetLimitationStatusConfirmation r)
  with assms show ?thesis
    by (cases r) (simp add: limitation_frame_create_simps codec_simps slice_append Let_def)
next
  case (FrLimitationStatusNotification r)
  with assms show ?thesis
    by (cases r) (simp add: limitation_frame_create_simps codec_simps slice_append Let_def)
next
  case (FrSetLimitationRequest r)
  with assms show ?thesis
    by (cases r) (simp add: limitation_frame_create_simps codec_simps slice_append LimitationTime_Bytes_def Let_def)
next
  case (FrSetLimitationConfirmation r)
  with assms show ?thesis
    by (cases r) (simp add: limitation_frame_create_simps codec_simps slice_append Let_def)
qed (simp_all add: limitation_frame_create_simps codec_simps)

interpretation limitation: frame_codec limitation_frame_Command limitation_frame_MarshalPayload
    "map_of limitation_frame_constructors" limitation_frame_UnmarshalPayload limitation_frame_wf
  by unfold_locales (rule limitation_frame_roundtrip)

end
