(* ===== verification/Store.thy ===== *)
theory Store
  imports Main
begin

text \<open>
  The contract of a collection that is kept as a list without two elements of the same key:
  adding replaces an element with the same key in place or appends. The nodes and the scenes of
  a client are such collections; rebuilding one from a list of reports is analysed here once.
\<close>

lemma find_append:
  "List.find P (xs @ ys) = (case List.find P xs of None \<Rightarrow> List.find P ys | Some a \<Rightarrow> Some a)"
  by (induction xs) simp_all

locale keyed_store =
  fixes key :: "'a \<Rightarrow> 'k"
    and add :: "'a \<Rightarrow> 'a list \<Rightarrow> 'a list"
    and lookup :: "'k \<Rightarrow> 'a list \<Rightarrow> 'a option"
  assumes lookup_Nil: "lookup k [] = None"
    and lookup_add: "lookup k (add a xs) = (if key a = k then Some a else lookup k xs)"
    and keys_add: "map key (add a xs) =
      (if key a \<in> key ` set xs then map key xs else map key xs @ [key a])"
begin

lemma lookup_fold: "lookup k (fold add ys xs) =
    (case List.find (\<lambda>a. key a = k) (rev ys) of None \<Rightarrow> lookup k xs | Some a \<Rightarrow> Some a)"
  by (induction ys arbitrary: xs) (simp_all add: find_append lookup_add split: option.split)

text \<open>After rebuilding, a key has the last element reported for it, and no other key has one.\<close>

lemma rebuild_lookup: "lookup k (fold add ys []) = List.find (\<lambda>a. key a = k) (rev ys)"
  by (simp add: lookup_fold lookup_Nil split: option.split)

lemma distinct_keys_add: "distinct (map key xs) \<Longrightarrow> distinct (map key (add a xs))"
  unfolding keys_add by (simp add: image_iff)

lemma distinct_keys_fold: "distinct (map key xs) \<Longrightarrow> distinct (map key (fold add ys xs))"
  by (induction ys arbitrary: xs) (simp_all add: distinct_keys_add)

lemma keys_fold: "key ` set (fold add ys xs) = key ` set ys \<union> key ` set xs"
proof (induction ys arbitrary: xs)
  case (Cons y ys)
  have "key ` set (add y xs) = insert (key y) (key ` set xs)"
    using arg_cong [OF keys_add, of set y xs] by (auto split: if_splits)
  with Cons show ?case by auto
qed simp

end

section \<open>Registries\<close>

text \<open>
  The contract of a registry that the \<open>init\<close> functions fill: a code is taken once, and a second
  registration of it panics. The frame registry and the node-type registry are such.
\<close>

locale init_registry =
  fixes register :: "'k \<Rightarrow> 'c \<Rightarrow> ('k \<rightharpoonup> 'c) \<Rightarrow> 'e + ('k \<rightharpoonup> 'c)"
    and registers :: "('k \<times> 'c) list \<Rightarrow> ('k \<rightharpoonup> 'c) \<Rightarrow> 'e + ('k \<rightharpoonup> 'c)"
  assumes register_free: "r k = None \<Longrightarrow> register k c r = Inr (r(k \<mapsto> c))"
    and register_taken: "r k \<noteq> None \<Longrightarrow> \<exists>e. register k c r = Inl e"
    and registers_Nil: "registers [] r = Inr r"
    and registers_Cons: "registers ((k, c) # cs) r =
      (case register k c r of Inl e \<Rightarrow> Inl e | Inr r' \<Rightarrow> registers cs r')"
begin

lemma registers_fresh:
  assumes "distinct (map fst cs)" "fst ` set cs \<inter> dom r = {}"
  shows "registers cs r = Inr (r ++ map_of cs)"
  using assms
proof (induction cs arbitrary: r)
  case (Cons p cs)
  obtain k c where p: "p = (k, c)" by fastforce
  from Cons.prems p have "r k = None" "k \<notin> fst ` set cs" by auto
  moreover from this Cons.prems p have "registers cs (r(k \<mapsto> c)) = Inr (r(k \<mapsto> c) ++ map_of cs)"
    by (intro Cons.IH) (force split: if_splits)+
  moreover have "r(k \<mapsto> c) ++ map_of cs = r ++ map_of (p # cs)"
    using \<open>k \<notin> fst ` set cs\<close>
    by (auto simp: p fun_eq_iff map_add_def map_of_eq_None_iff [symmetric] split: option.split)
  ultimately show ?case by (simp only: p registers_Cons register_free sum.case)
qed (simp add: registers_Nil)

lemma registers_distinct: "distinct (map fst cs) \<Longrightarrow> registers cs Map.empty = Inr (map_of cs)"
  using registers_fresh [of cs Map.empty] by simp

lemma registers_clash:
  assumes "registers cs r = Inr r'"
  shows "distinct (map fst cs) \<and> fst ` set cs \<inter> dom r = {}"
  using assms
proof (induction cs arbitrary: r)
  case (Cons p cs)
  obtain k c where p: "p = (k, c)" by fastforce
  have free: "r k = None"
  proof (rule ccontr)
    assume "r k \<noteq> None"
    then obtain e where "register k c r = Inl e" using register_taken [of r k c] by blast
    with Cons.prems show False by (simp add: p registers_Cons)
  qed
  then have "registers cs (r(k \<mapsto> c)) = Inr r'"
    using Cons.prems by (simp add: p registers_Cons register_free)
  from Cons.IH [OF this] free show ?case by (auto simp: p)
qed simp

end

end
