(* ===== verification/Frames.thy ===== *)
theory Frames
  imports Framing FramesCommands FramesAuth FramesNodes FramesState FramesScenes FramesLimitation Store
begin

text \<open>
  \<^verbatim>\<open>src/app/klf200/protocol/frame.go\<close>, \<^verbatim>\<open>creation.go\<close>: the interface \<open>Frame\<close> over the frame
  types of all files, the registry that their \<open>init\<close> functions fill, and the way from raw bytes
  to a frame and back. The locale \<open>frame_codec\<close> of \<^verbatim>\<open>Framing\<close>, which the theories of the
  frame files interpret for their frames, is interpreted here on the registry of the program.
\<close>

section \<open>The interface \<open>Frame\<close>\<close>

datatype frame =
    CommandsFrame commands_frame
  | AuthFrame auth_frame
  | NodesFrame nodes_frame
  | StateFrame state_frame
  | ScenesFrame scenes_frame
  | LimitationFrame limitation_frame

fun frame_Command :: "frame \<Rightarrow> u16" where
  "frame_Command (CommandsFrame f) = commands_frame_Command f"
| "frame_Command (AuthFrame f) = auth_frame_Command f"
| "frame_Command (NodesFrame f) = nodes_frame_Command f"
| "frame_Command (StateFrame f) = state_frame_Command f"
| "frame_Command (ScenesFrame f) = scenes_frame_Command f"
| "frame_Command (LimitationFrame f) = limitation_frame_Command f"

fun frame_MarshalPayload :: "frame \<Rightarrow> perror + byte list" where
  "frame_MarshalPayload (CommandsFrame f) = commands_frame_MarshalPayload f"
| "frame_MarshalPayload (AuthFrame f) = auth_frame_MarshalPayload f"
| "frame_MarshalPayload (NodesFrame f) = nodes_frame_MarshalPayload f"
| "frame_MarshalPayload (StateFrame f) = state_frame_MarshalPayload f"
| "frame_MarshalPayload (ScenesFrame f) = scenes_frame_MarshalPayload f"
| "frame_MarshalPayload (LimitationFrame f) = limitation_frame_MarshalPayload f"

fun frame_UnmarshalPayload :: "frame \<Rightarrow> byte list \<Rightarrow> perror + frame" where
  "frame_UnmarshalPayload (CommandsFrame f) payload =
     res_bind (commands_frame_UnmarshalPayload f payload) (\<lambda>f. Inr (CommandsFrame f))"
| "frame_UnmarshalPayload (AuthFrame f) payload =
     res_bind (auth_frame_UnmarshalPayload f payload) (\<lambda>f. Inr (AuthFrame f))"
| "frame_UnmarshalPayload (NodesFrame f) payload =
     res_bind (nodes_frame_UnmarshalPayload f payload) (\<lambda>f. Inr (NodesFrame f))"
| "frame_UnmarshalPayload (StateFrame f) payload =
     res_bind (state_frame_UnmarshalPayload f payload) (\<lambda>f. Inr (StateFrame f))"
| "frame_UnmarshalPayload (ScenesFrame f) payload =
     res_bind (scenes_frame_UnmarshalPayload f payload) (\<lambda>f. Inr (ScenesFrame f))"
| "frame_UnmarshalPayload (LimitationFrame f) payload =
     res_bind (limitation_frame_UnmarshalPayload f payload) (\<lambda>f. Inr (LimitationFrame f))"

section \<open>The registry\<close>

text \<open>\<open>RegisterFrame\<close> panics on a code that is taken; the mutex is not modelled (registration
  happens in \<open>init\<close> functions only). A constructor is represented by the frame it returns.\<close>

type_synonym registry = "u16 \<rightharpoonup> frame"

definition RegisterFrame :: "u16 \<Rightarrow> frame \<Rightarrow> registry \<Rightarrow> perror + registry" where
  "RegisterFrame cmd constructor frameRegistry =
     (case frameRegistry cmd of
        Some _ \<Rightarrow> Inl (DuplicateRegistration cmd)
      | None \<Rightarrow> Inr (frameRegistry(cmd \<mapsto> constructor)))"

fun RegisterFrames :: "(u16 \<times> frame) list \<Rightarrow> registry \<Rightarrow> perror + registry" where
  "RegisterFrames [] r = Inr r"
| "RegisterFrames ((cmd, c) # rest) r = res_bind (RegisterFrame cmd c r) (RegisterFrames rest)"

text \<open>The registrations of all \<open>init\<close> functions of the package.\<close>

definition all_constructors :: "(u16 \<times> frame) list" where
  "all_constructors =
     map (map_prod id AuthFrame) auth_frame_constructors @
     map (map_prod id CommandsFrame) commands_frame_constructors @
     map (map_prod id LimitationFrame) limitation_frame_constructors @
     map (map_prod id NodesFrame) nodes_frame_constructors @
     map (map_prod id ScenesFrame) scenes_frame_constructors @
     map (map_prod id StateFrame) state_frame_constructors"

definition frameRegistry :: registry where
  "frameRegistry = map_of all_constructors"

definition CreateFrame :: "u16 \<Rightarrow> frame option" where
  "CreateFrame cmd = frameRegistry cmd"

section \<open>From and to raw bytes\<close>

definition MarshalFrame :: "frame \<Rightarrow> perror + byte list" where
  "MarshalFrame = marshal_frame frame_Command frame_MarshalPayload"

definition FrameFromRaw :: "byte list \<Rightarrow> perror + frame option" where
  "FrameFromRaw = frame_from_raw CreateFrame frame_UnmarshalPayload"

section \<open>The registry has no duplicates\<close>

interpretation frame_registry: init_registry RegisterFrame RegisterFrames
  by unfold_locales (auto simp: RegisterFrame_def res_bind_def split: option.split sum.split)

lemmas constructor_lists = all_constructors_def auth_frame_constructors_def
  commands_frame_constructors_def limitation_frame_constructors_def nodes_frame_constructors_def
  scenes_frame_constructors_def state_frame_constructors_def

lemma all_constructors_distinct: "distinct (map fst all_constructors)"
proof -
  have "sorted_wrt (<) (sort (map unat (map fst all_constructors)))"
    by (simp add: constructor_lists go_consts sorted_wrt_less_pair sorted_wrt1 sort_key_def
        del: sorted_wrt.simps(2))
  then have "distinct (map unat (map fst all_constructors))"
    by (rule distinct_if_sort_strict)
  then show ?thesis by (simp only: distinct_map)
qed

lemma length_all_constructors: "length all_constructors = 64"
  by (simp add: constructor_lists)

section \<open>Every frame of the registry round-trips\<close>

fun frame_wf :: "frame \<Rightarrow> bool" where
  "frame_wf (CommandsFrame f) = commands_frame_wf f"
| "frame_wf (AuthFrame f) = auth_frame_wf f"
| "frame_wf (NodesFrame f) = nodes_frame_wf f"
| "frame_wf (StateFrame f) = state_frame_wf f"
| "frame_wf (ScenesFrame f) = scenes_frame_wf f"
| "frame_wf (LimitationFrame f) = limitation_frame_wf f"

lemma CreateFrame_part:
  assumes "all_constructors = xs @ map (map_prod id C) cs @ ys" "map_of cs c = Some g"
  shows "CreateFrame c = Some (C g)"
proof -
  from assms(2) have "(c, g) \<in> set cs" by (rule map_of_SomeD)
  then have "(c, C g) \<in> set all_constructors" unfolding assms(1) by force
  then show ?thesis
    unfolding CreateFrame_def frameRegistry_def
    by (simp add: map_of_is_SomeI all_constructors_distinct)
qed

lemma CreateFrame_parts:
  "map_of auth_frame_constructors c = Some g1 \<Longrightarrow> CreateFrame c = Some (AuthFrame g1)"
  "map_of commands_frame_constructors c = Some g2 \<Longrightarrow> CreateFrame c = Some (CommandsFrame g2)"
  "map_of limitation_frame_constructors c = Some g3 \<Longrightarrow> CreateFrame c = Some (LimitationFrame g3)"
  "map_of nodes_frame_constructors c = Some g4 \<Longrightarrow> CreateFrame c = Some (NodesFrame g4)"
  "map_of scenes_frame_constructors c = Some g5 \<Longrightarrow> CreateFrame c = Some (ScenesFrame g5)"
  "map_of state_frame_constructors c = Some g6 \<Longrightarrow> CreateFrame c = Some (StateFrame g6)"
proof -
  let ?a = "map (map_prod id AuthFrame) auth_frame_constructors"
  let ?c = "map (map_prod id CommandsFrame) commands_frame_constructors"
  let ?l = "map (map_prod id LimitationFrame) limitation_frame_constructors"
  let ?n = "map (map_prod id NodesFrame) nodes_frame_constructors"
  let ?s = "map (map_prod id ScenesFrame) scenes_frame_constructors"
  let ?t = "map (map_prod id StateFrame) state_frame_constructors"
  note part = CreateFrame_part [unfolded all_constructors_def]
  show "map_of auth_frame_constructors c = Some g1 \<Longrightarrow> CreateFrame c = Some (AuthFrame g1)"
    by (rule part [where xs = "[]" and ys = "?c @ ?l @ ?n @ ?s @ ?t"]) simp_all
  show "map_of commands_frame_constructors c = Some g2 \<Longrightarrow> CreateFrame c = Some (CommandsFrame g2)"
    by (rule part [where xs = "?a" and ys = "?l @ ?n @ ?s @ ?t"]) simp_all
  show "map_of limitation_frame_constructors c = Some g3 \<Longrightarrow> CreateFrame c = Some (LimitationFrame g3)"
    by (rule part [where xs = "?a @ ?c" and ys = "?n @ ?s @ ?t"]) simp_all
  show "map_of nodes_frame_constructors c = Some g4 \<Longrightarrow> CreateFrame c = Some (NodesFrame g4)"
    by (rule part [where xs = "?a @ ?c @ ?l" and ys = "?s @ ?t"]) simp_all
  show "map_of scenes_frame_constructors c = Some g5 \<Longrightarrow> CreateFrame c = Some (ScenesFrame g5)"
    by (rule part [where xs = "?a @ ?c @ ?l @ ?n" and ys = "?t"]) simp_all
  show "map_of state_frame_constructors c = Some g6 \<Longrightarrow> CreateFrame c = Some (StateFrame g6)"
    by (rule part [where xs = "?a @ ?c @ ?l @ ?n @ ?s" and ys = "[]"]) simp_all
qed

interpretation gw: frame_codec frame_Command frame_MarshalPayload CreateFrame
    frame_UnmarshalPayload frame_wf
proof
  fix f :: frame
  assume wf: "frame_wf f"
  show "\<exists>p g. frame_MarshalPayload f = Inr p \<and> length p \<le> 252 \<and>
    CreateFrame (frame_Command f) = Some g \<and> frame_UnmarshalPayload g p = Inr f"
  proof (cases f)
    case (CommandsFrame x)
    with wf commands.payload_roundtrip [of x] show ?thesis by (force dest: CreateFrame_parts)
  next
    case (AuthFrame x)
    with wf auth.payload_roundtrip [of x] show ?thesis by (force dest: CreateFrame_parts)
  next
    case (NodesFrame x)
    with wf nodes.payload_roundtrip [of x] show ?thesis by (force dest: CreateFrame_parts)
  next
    case (StateFrame x)
    with wf state.payload_roundtrip [of x] show ?thesis by (force dest: CreateFrame_parts)
  next
    case (ScenesFrame x)
    with wf scenes.payload_roundtrip [of x] show ?thesis by (force dest: CreateFrame_parts)
  next
    case (LimitationFrame x)
    with wf limitation.payload_roundtrip [of x] show ?thesis by (force dest: CreateFrame_parts)
  qed
qed

section \<open>Properties\<close>

text \<open>
  C1: End to end: every well-formed frame of the 64 types marshals; the raw frame, SLIP-packed
  and followed by anything, is taken off the stream as one packet and parsed back to the very
  frame that was sent.
\<close>

theorem frame_wire_roundtrip:
  assumes "frame_wf f"
  shows "\<exists>raw. MarshalFrame f = Inr raw \<and>
    GetNextSlip (SlipPack raw @ rest) = (Some raw, rest) \<and> FrameFromRaw raw = Inr (Some f)"
  using gw.packet_roundtrip [OF assms] by (simp add: MarshalFrame_def FrameFromRaw_def)

theorem frame_wire_roundtrip_witness:
  "\<exists>raw. MarshalFrame (AuthFrame (FrPasswordEnterRequest \<lparr> per_Password = ''velux123'' \<rparr>)) = Inr raw \<and>
     FrameFromRaw raw = Inr (Some (AuthFrame (FrPasswordEnterRequest \<lparr> per_Password = ''velux123'' \<rparr>)))"
  using frame_wire_roundtrip [of "AuthFrame (FrPasswordEnterRequest \<lparr> per_Password = ''velux123'' \<rparr>)" "[]"]
  by (auto simp: wire_string_def bytes_of_def)

text \<open>
  The registrations of all \<open>init\<close> functions run through without a duplicate panic and leave
  the registry with exactly the 64 registered codes; the frame created for a code carries that
  code.
\<close>

theorem registry_complete:
  "\<exists>r. RegisterFrames all_constructors Map.empty = Inr r \<and> r = frameRegistry \<and>
     card (dom r) = 64 \<and>
     (\<forall>c. map_option frame_Command (r c) = map_option (\<lambda>_. c) (r c))"
proof -
  have "RegisterFrames all_constructors Map.empty = Inr frameRegistry"
    unfolding frameRegistry_def
    by (rule frame_registry.registers_distinct [OF all_constructors_distinct])
  moreover have "card (dom frameRegistry) = 64"
    using distinct_card [OF all_constructors_distinct] length_all_constructors
    by (simp only: frameRegistry_def dom_map_of_conv_image_fst set_map length_map)
  moreover have "\<forall>(c, f)\<in>set all_constructors. frame_Command f = c"
    by (simp add: constructor_lists)
  then have "map_option frame_Command (frameRegistry c) = map_option (\<lambda>_. c) (frameRegistry c)" for c
    by (cases "frameRegistry c") (auto simp: frameRegistry_def dest!: map_of_SomeD)
  ultimately show ?thesis by blast
qed

text \<open>
  \<open>FrameFromRaw\<close> on a raw frame that passed its checks: a code without a registered frame
  gives no frame and no error; otherwise the result is the frame of that code filled from the
  payload, or the error of its \<open>UnmarshalPayload\<close>.
\<close>

theorem FrameFromRaw_BuildFrame:
  assumes "length p \<le> 252"
  shows "FrameFromRaw (BuildFrame c p) =
    (case frameRegistry c of None \<Rightarrow> Inr None
     | Some g \<Rightarrow> res_bind (frame_UnmarshalPayload g p) (\<lambda>f. Inr (Some f)))"
  using assms by (simp add: FrameFromRaw_def frame_from_raw_def ExtractFromFrame_BuildFrame
      CreateFrame_def)

theorem FrameFromRaw_BuildFrame_witness:
  "FrameFromRaw (BuildFrame GW_SET_UTC_CFM []) = Inr (Some (AuthFrame (FrSetUTCConfirmation ())))"
  using FrameFromRaw_BuildFrame [of "[]" GW_SET_UTC_CFM]
  by (simp add: frameRegistry_def constructor_lists go_consts codec_simps)

text \<open>
  A command-send request does not survive a round trip in general: the node ids read back
  are the run of ids counted up from the first one (the code adds the loop counter to byte 42
  instead of reading byte 42 + i), and the active parameter, the functional-parameter
  indicators and the functional parameters are lost.
\<close>

theorem CommandSendRequest_readback_exact:
  assumes "length (csr_NodeIDs f) \<le> 20" "valid_raw (Raw (csr_Parameter f))"
  shows "\<exists>raw. MarshalFrame (CommandsFrame (FrCommandSendRequest f)) = Inr raw \<and>
    FrameFromRaw raw = Inr (Some (CommandsFrame (FrCommandSendRequest (command_send_readback f))))"
proof -
  from CommandSendRequest_readback [OF assms] obtain p where p:
    "FrameCommandSendRequest_MarshalPayload f = Inr p" "length p = 66"
    "FrameCommandSendRequest_UnmarshalPayload FrameCommandSendRequest_new p =
      Inr (command_send_readback f)" by blast
  have "CreateFrame GW_COMMAND_SEND_REQ =
      Some (CommandsFrame (FrCommandSendRequest FrameCommandSendRequest_new))"
    by (rule CreateFrame_parts) (simp add: commands_frame_constructors_def)
  with p show ?thesis
    by (simp add: MarshalFrame_def marshal_frame_def FrameFromRaw_def frame_from_raw_def
        ExtractFromFrame_BuildFrame)
qed

theorem CommandSendRequest_readback_exact_witness:
  "csr_NodeIDs (command_send_readback (FrameCommandSendRequest_new\<lparr> csr_NodeIDs := [5, 9] \<rparr>)) = [5, 6] \<and>
   (\<exists>raw. MarshalFrame (CommandsFrame (FrCommandSendRequest
       (FrameCommandSendRequest_new\<lparr> csr_NodeIDs := [5, 9] \<rparr>))) = Inr raw \<and>
     FrameFromRaw raw = Inr (Some (CommandsFrame (FrCommandSendRequest (command_send_readback
       (FrameCommandSendRequest_new\<lparr> csr_NodeIDs := [5, 9] \<rparr>))))))"
proof
  show "csr_NodeIDs (command_send_readback (FrameCommandSendRequest_new\<lparr> csr_NodeIDs := [5, 9] \<rparr>)) = [5, 6]"
    by (simp add: command_send_readback_def run_from_def upt_rec)
  show "\<exists>raw. MarshalFrame (CommandsFrame (FrCommandSendRequest
       (FrameCommandSendRequest_new\<lparr> csr_NodeIDs := [5, 9] \<rparr>))) = Inr raw \<and>
     FrameFromRaw raw = Inr (Some (CommandsFrame (FrCommandSendRequest (command_send_readback
       (FrameCommandSendRequest_new\<lparr> csr_NodeIDs := [5, 9] \<rparr>)))))"
    by (rule CommandSendRequest_readback_exact)
      (simp_all add: FrameCommandSendRequest_new_def zeroParameter_def valid_raw_iff
        parameterToInt_def parameter_consts)
qed

end
