(* ===== verification/Session.thy ===== *)
theory Session
  imports Prelude
begin

text \<open>
  \<^verbatim>\<open>src/app/klf200/session.go\<close>: the generator of session ids. \<open>NewSessionID\<close> is a
  compare-and-swap loop, so besides the function that one undisturbed call computes there is a
  step relation in which any number of goroutines interleave their loads and swaps.
\<close>

section \<open>The code\<close>

definition maxSessionID :: u32 where "maxSessionID = 65535"

text \<open>\<open>next := old + 1; if next > maxSessionID { next = 1 }\<close>\<close>

definition next_id :: "u32 \<Rightarrow> u32" where
  "next_id old = (let n = old + 1 in if n > maxSessionID then 1 else n)"

definition NewSessionIDGenerator :: u32 where "NewSessionIDGenerator = 0"

text \<open>One call without interference: the new value of \<open>last\<close> and the result.\<close>

definition NewSessionID :: "u32 \<Rightarrow> u32 \<times> u16" where
  "NewSessionID g = (let n = next_id g in (n, ucast n))"

definition SetSessionID :: "u16 \<Rightarrow> u32" where
  "SetSessionID value = ucast value"

section \<open>Interleaved calls\<close>

text \<open>
  A goroutine is between its load and its swap (\<open>Loaded old\<close>) or before a load (\<open>Idle\<close>; a lost race
  sends it back there). \<open>returned\<close>
  records the results of all calls in the order of their successful swaps.
\<close>

datatype caller = Idle | Loaded u32

record session_state =
  gen_last :: u32
  callers :: "nat \<Rightarrow> caller"
  returned :: "u16 list"

inductive session_step :: "session_state \<Rightarrow> session_state \<Rightarrow> bool" where
  load: "callers s t = Idle \<Longrightarrow>
    session_step s (s\<lparr> callers := (callers s)(t := Loaded (gen_last s)) \<rparr>)"
| swap: "callers s t = Loaded old \<Longrightarrow> gen_last s = old \<Longrightarrow>
    session_step s (s\<lparr> gen_last := next_id old, callers := (callers s)(t := Idle),
      returned := returned s @ [ucast (next_id old)] \<rparr>)"
| retry: "callers s t = Loaded old \<Longrightarrow> gen_last s \<noteq> old \<Longrightarrow>
    session_step s (s\<lparr> callers := (callers s)(t := Idle) \<rparr>)"

definition session_init :: "u16 \<Rightarrow> session_state" where
  "session_init v = \<lparr> gen_last = SetSessionID v, callers = (\<lambda>_. Idle), returned = [] \<rparr>"

section \<open>Lemmas\<close>

text \<open>The id of the \<open>k\<close>-th call after \<open>SetSessionID v\<close>.\<close>

definition session_nth :: "u16 \<Rightarrow> nat \<Rightarrow> nat" where
  "session_nth v k = (unat v + k) mod 65535 + 1"

lemma session_nth_bounds: "1 \<le> session_nth v k" "session_nth v k \<le> 65535"
  using mod_less_divisor [of 65535 "unat v + k"] by (simp_all add: session_nth_def)

lemma next_id_nat:
  assumes "n \<le> 65535"
  shows "next_id (of_nat n) = of_nat (n mod 65535 + 1)"
proof -
  have u: "unat (of_nat (Suc n) :: u32) = Suc n"
    using assms by (simp add: unat_of_nat del: of_nat_Suc)
  have "unat (65535 :: u32) = 65535" by simp
  then have "(65535 :: u32) < of_nat (Suc n) \<longleftrightarrow> 65535 < Suc n"
    unfolding word_less_nat_alt u by simp
  then have "(of_nat n + 1 :: u32) > 65535 \<longleftrightarrow> Suc n > 65535"
    by (simp only: of_nat_Suc add.commute)
  then show ?thesis
    using assms by (cases "n = 65535") (simp_all add: next_id_def maxSessionID_def Let_def)
qed

lemma next_id_session_nth:
  "next_id (of_nat (session_nth v k)) = of_nat (session_nth v (Suc k))"
  using next_id_nat [OF session_nth_bounds(2)] by (simp add: session_nth_def mod_Suc_eq mod_simps)

lemma next_id_first: "next_id (ucast v) = of_nat (session_nth v 0)" for v :: u16
proof -
  have "unat v \<le> 65535" using unsigned_less [of v, where ?'a = nat] by simp
  then have "next_id (of_nat (unat v)) = of_nat (unat v mod 65535 + 1)" by (rule next_id_nat)
  then show ?thesis by (simp add: session_nth_def)
qed

text \<open>
  The invariant of every interleaving: the results so far are the first ids of the sequence, and
  \<open>last\<close> is the latest of them.
\<close>

definition session_inv :: "u16 \<Rightarrow> session_state \<Rightarrow> bool" where
  "session_inv v s \<longleftrightarrow>
     gen_last s = (if returned s = [] then ucast v else of_nat (session_nth v (length (returned s) - 1))) \<and>
     returned s = map (\<lambda>k. of_nat (session_nth v k)) [0..<length (returned s)]"

lemma session_inv_init: "session_inv v (session_init v)"
  by (simp add: session_inv_def session_init_def SetSessionID_def)

lemma session_inv_next:
  "session_inv v s \<Longrightarrow> next_id (gen_last s) = of_nat (session_nth v (length (returned s)))"
  by (cases "returned s") (auto simp: session_inv_def next_id_first next_id_session_nth)

lemma session_inv_step:
  assumes "session_step s s'" "session_inv v s"
  shows "session_inv v s'"
  using assms(1)
proof cases
  case (swap t old)
  let ?n = "session_nth v (length (returned s))"
  have n: "next_id old = of_nat ?n" using session_inv_next [OF assms(2)] swap by simp
  have "(ucast (of_nat ?n :: u32) :: u16) = of_nat ?n"
    using session_nth_bounds(2) [of v "length (returned s)"]
    by (simp add: unsigned_of_nat take_bit_nat_eq_self)
  with assms(2) n show ?thesis by (simp add: session_inv_def swap(1))
qed (use assms(2) in \<open>simp_all add: session_inv_def\<close>)

lemma session_inv_reachable:
  "session_step\<^sup>*\<^sup>* (session_init v) s \<Longrightarrow> session_inv v s"
  by (induction rule: rtranclp_induct) (auto intro: session_inv_init session_inv_step)

lemma unat_session_nth: "unat (of_nat (session_nth v k) :: u16) = session_nth v k"
  using session_nth_bounds(2) [of v k] by (simp add: unat_of_nat)

lemma session_nth_inject:
  assumes "i < n" "j < n" "n \<le> 65535" "session_nth v i = session_nth v j"
  shows "i = j"
proof -
  have m: "(unat v + i) mod 65535 = (unat v + j) mod 65535"
    using assms(4) by (simp add: session_nth_def)
  have "x = y" if "x \<le> y" "y < n" "(unat v + x) mod 65535 = (unat v + y) mod 65535" for x y
  proof -
    from that have "65535 dvd (unat v + y) - (unat v + x)"
      by (subst mod_eq_dvd_iff_nat [symmetric]) simp_all
    then have "65535 dvd y - x" by simp
    with that assms(3) show ?thesis by (auto dest: dvd_imp_le)
  qed
  from this [of i j] this [of j i] m assms show ?thesis by (cases "i \<le> j") auto
qed

section \<open>Properties\<close>

text \<open>
  However the calls of any number of goroutines interleave, the results, in the order of the
  successful swaps, are the ids that follow the starting value one after the other: the \<open>k\<close>-th
  one is \<open>(v + k) mod 65535 + 1\<close>, so 1 to 65535 with a wrap back to 1 and never 0.
\<close>

theorem session_ids_sequential:
  assumes "session_step\<^sup>*\<^sup>* (session_init v) s" "k < length (returned s)"
  shows "unat (returned s ! k) = (unat v + k) mod 65535 + 1"
proof -
  have "returned s ! k = of_nat (session_nth v k)"
    using session_inv_reachable [OF assms(1)] assms(2) unfolding session_inv_def
    by (metis (no_types, lifting) add_0 diff_zero length_upt nth_map nth_upt)
  then show ?thesis
    using unat_session_nth [of v k] by (simp only: session_nth_def)
qed

lemma two_calls:
  "session_step\<^sup>*\<^sup>* (session_init 65534)
     \<lparr> gen_last = 1, callers = (\<lambda>_. Idle), returned = [65535, 1] \<rparr>"
proof -
  let ?i = "\<lambda>_ :: nat. Idle"
  have 1: "session_step (session_init 65534)
      \<lparr> gen_last = 65534, callers = ?i(0 := Loaded 65534), returned = [] \<rparr>"
    using load [of "session_init 65534" 0] by (simp add: session_init_def SetSessionID_def)
  have 2: "session_step \<lparr> gen_last = 65534, callers = ?i(0 := Loaded 65534), returned = [] \<rparr>
      \<lparr> gen_last = 65535, callers = ?i, returned = [65535] \<rparr>"
    using swap [of "\<lparr> gen_last = 65534, callers = ?i(0 := Loaded 65534), returned = [] \<rparr>" 0 65534]
    by (simp add: next_id_def maxSessionID_def fun_upd_idem)
  have 3: "session_step \<lparr> gen_last = 65535, callers = ?i, returned = [65535] \<rparr>
      \<lparr> gen_last = 65535, callers = ?i(0 := Loaded 65535), returned = [65535] \<rparr>"
    using load [of "\<lparr> gen_last = 65535, callers = ?i, returned = [65535] \<rparr>" 0] by simp
  have 4: "session_step \<lparr> gen_last = 65535, callers = ?i(0 := Loaded 65535), returned = [65535] \<rparr>
      \<lparr> gen_last = 1, callers = ?i, returned = [65535, 1] \<rparr>"
    using swap [of "\<lparr> gen_last = 65535, callers = ?i(0 := Loaded 65535), returned = [65535] \<rparr>" 0 65535]
    by (simp add: next_id_def maxSessionID_def fun_upd_idem)
  from 1 2 3 4 show ?thesis
    by (meson rtranclp.rtrancl_into_rtrancl rtranclp.rtrancl_refl)
qed

theorem session_ids_sequential_witness:
  "unat ([65535, 1 :: u16] ! 1) = (unat (65534 :: u16) + 1) mod 65535 + 1"
  using session_ids_sequential [OF two_calls, of 1] by simp

text \<open>
  C27: Among any 65535 ids handed out by concurrent callers no two are equal, so a confirmation
  frame is never attributed to another request that is still running.
\<close>

theorem session_ids_distinct:
  assumes "session_step\<^sup>*\<^sup>* (session_init v) s" "length (returned s) \<le> 65535"
  shows "distinct (returned s) \<and> 0 \<notin> set (returned s)"
proof
  let ?f = "\<lambda>k. of_nat (session_nth v k) :: u16"
  have r: "returned s = map ?f [0..<length (returned s)]"
    using session_inv_reachable [OF assms(1)] by (simp add: session_inv_def)
  note u = unat_session_nth
  have "inj_on ?f {0..<length (returned s)}"
  proof (rule inj_onI)
    fix i j assume ij: "i \<in> {0..<length (returned s)}" "j \<in> {0..<length (returned s)}" "?f i = ?f j"
    then have "session_nth v i = session_nth v j" using u by metis
    with ij assms(2) show "i = j" by (intro session_nth_inject [of i _ j v]) auto
  qed
  then show "distinct (returned s)" by (subst r) (simp add: distinct_map)
  have "?f k \<noteq> 0" for k
    using u [of v k] session_nth_bounds(1) [of v k] by (metis not_one_le_zero unsigned_0)
  then show "0 \<notin> set (returned s)" by (subst r) auto
qed

theorem session_ids_distinct_witness: "distinct [65535, 1 :: u16] \<and> 0 \<notin> set [65535, 1 :: u16]"
  using session_ids_distinct [OF two_calls] by simp

end
