(* ===== verification/Conn.thy ===== *)
theory Conn
  imports Frames
begin

text \<open>
  \<^verbatim>\<open>src/app/klf200/connection.go\<close>: the connection to the gateway. The first half is the read
  loop: the draining of the SLIP stream into frames, for any segmentation of the bytes into
  reads. The second half is the state of \<open>Conn\<close> with its operations, one function per critical
  section, and the step relation in which callers and read loops interleave them.

  TLS and TCP are the environment: a socket is a number, a dial succeeds or fails, a read
  delivers bytes or an error. \<^verbatim>\<open>crypto/sha1\<close> is a parameter.
\<close>

section \<open>Certificate pinning\<close>

datatype conn_error =
    NoCertificate
  | FingerprintMismatch "byte list" "byte list"
  | AlreadyConnected
  | DialFailed
  | NilFrame
  | MarshalFailed perror
  | NotConnected
  | WriteFailed

definition veluxCertFingerprintSHA1 :: "byte list" where
  "veluxCertFingerprintSHA1 =
     [0x02, 0x8C, 0x23, 0xA0, 0x89, 0x2B, 0x62, 0x98,
      0xC4, 0x99, 0x00, 0x5B, 0xD2, 0xE7, 0x2E, 0x0A,
      0x70, 0x3D, 0x71, 0x6A]"

definition verifyPinnedFingerprint ::
    "(byte list \<Rightarrow> byte list) \<Rightarrow> byte list list \<Rightarrow> byte list \<Rightarrow> conn_error option" where
  "verifyPinnedFingerprint sha1_Sum rawCerts pinned =
     (if length rawCerts = 0 then Some NoCertificate
      else let got = sha1_Sum (rawCerts ! 0) in
           if got \<noteq> pinned then Some (FingerprintMismatch got pinned) else None)"

section \<open>Draining the stream\<close>

text \<open>
  The inner loop of \<open>readLoop\<close>: while the stream starts with a packet, take it off, parse it
  and dispatch the frame. A nil packet leaves the loop; a parse error and an unknown command are
  skipped. \<open>parse\<close> stands for \<open>protocol.FrameFromRaw\<close>.
\<close>

lemma GetNextSlip_decreases:
  "IsSlip s \<Longrightarrow> (p, s') = GetNextSlip s \<Longrightarrow> length s' < length s"
  using GetNextSlip_shorter [of s] by (cases "GetNextSlip s") auto

function drain :: "(byte list \<Rightarrow> 'e + 'f option) \<Rightarrow> byte list \<Rightarrow> 'f list \<times> byte list" where
  "drain parse stream =
     (if IsSlip stream
      then case GetNextSlip stream of
             (None, stream') \<Rightarrow> ([], stream')
           | (Some packet, stream') \<Rightarrow>
               let (fs, stream'') = drain parse stream'
               in (case parse packet of
                     Inl _ \<Rightarrow> (fs, stream'')
                   | Inr None \<Rightarrow> (fs, stream'')
                   | Inr (Some frame) \<Rightarrow> (frame # fs, stream''))
      else ([], stream))"
  by pat_completeness auto
termination
  by (relation "measure (\<lambda>(parse, stream). length stream)")
    (auto dest: GetNextSlip_decreases)

declare drain.simps [simp del]

text \<open>One \<open>Read\<close> of the outer loop appends its bytes and drains; a run of reads collects the
  dispatched frames.\<close>

fun read_all ::
    "(byte list \<Rightarrow> 'e + 'f option) \<Rightarrow> byte list list \<Rightarrow> byte list \<Rightarrow> 'f list \<times> byte list" where
  "read_all parse [] stream = ([], stream)"
| "read_all parse (chunk # chunks) stream =
     (let (fs, stream') = drain parse (stream @ chunk);
          (gs, stream'') = read_all parse chunks stream'
      in (fs @ gs, stream''))"

text \<open>The frames that a list of raw packets stands for.\<close>

definition parsed :: "(byte list \<Rightarrow> 'e + 'f option) \<Rightarrow> byte list list \<Rightarrow> 'f list" where
  "parsed parse raws =
     concat (map (\<lambda>raw. case parse raw of Inr (Some f) \<Rightarrow> [f] | _ \<Rightarrow> []) raws)"

lemma parsed_simps [simp]:
  "parsed parse [] = []"
  "parsed parse (raw # raws) =
     (case parse raw of Inr (Some f) \<Rightarrow> [f] | _ \<Rightarrow> []) @ parsed parse raws"
  "parsed parse (xs @ ys) = parsed parse xs @ parsed parse ys"
  by (simp_all add: parsed_def)

lemma drain_not_slip: "\<not> IsSlip s \<Longrightarrow> drain parse s = ([], s)"
  by (simp add: drain.simps)

lemma drain_pack:
  "raw \<noteq> [] \<Longrightarrow> drain parse (SlipPack raw @ rest) =
     (parsed parse [raw] @ fst (drain parse rest), snd (drain parse rest))"
  by (subst drain.simps)
    (auto simp: GetNextSlip_pack fresh_slice_def split: prod.splits sum.splits option.splits)

lemma drain_empty_packet: "drain parse (SlipPack [] @ rest) = ([], rest)"
  by (subst drain.simps) (simp add: GetNextSlip_pack fresh_slice_def)

lemma proper_prefix_not_slip:
  assumes "s @ t = SlipPack raw" "t \<noteq> []"
  shows "\<not> IsSlip s"
proof
  assume "IsSlip s"
  then obtain body rest where s: "s = SlipEnd # body @ SlipEnd # rest" "SlipEnd \<notin> set body"
    unfolding IsSlip_iff by blast
  from assms(2) obtain t' x where t: "t = t' @ [x]" by (metis append_butlast_last_id)
  from assms(1) have "body @ SlipEnd # rest @ t' @ [x] = SlipEncode raw @ [SlipEnd]"
    unfolding s t by (simp add: SlipPack_def)
  then have "body @ SlipEnd # rest @ t' = SlipEncode raw"
    by (metis append.assoc append_Cons butlast_snoc)
  then have "SlipEnd \<in> set (SlipEncode raw)" by (metis in_set_conv_decomp)
  then show False using SlipEncode_no_end by simp
qed

text \<open>
  A stream that is a prefix of a sequence of packed packets is drained of the packets that are
  complete; what stays is not a packet, and continues with the remaining ones.
\<close>

lemma drain_prefix:
  assumes "s @ t = concat (map SlipPack raws)" "\<forall>r\<in>set raws. r \<noteq> []"
  shows "\<exists>xs ys s'. raws = xs @ ys \<and> drain parse s = (parsed parse xs, s') \<and>
    s' @ t = concat (map SlipPack ys) \<and> \<not> IsSlip s'"
  using assms
proof (induction raws arbitrary: s)
  case Nil
  then show ?case by (intro exI [of _ "[]"]) (simp add: drain_not_slip IsSlip_def)
next
  case (Cons r raws)
  from Cons.prems(1) have "s @ t = SlipPack r @ concat (map SlipPack raws)" by simp
  then obtain v where "s = SlipPack r @ v \<and> v @ t = concat (map SlipPack raws) \<or>
      s @ v = SlipPack r \<and> t = v @ concat (map SlipPack raws)"
    unfolding append_eq_append_conv2 by blast
  then consider u where "s = SlipPack r @ u" "u @ t = concat (map SlipPack raws)"
    | u where "s @ u = SlipPack r" "u \<noteq> []" "t = u @ concat (map SlipPack raws)"
    by (cases "v = []") auto
  then show ?case
  proof cases
    case (1 u)
    from Cons.IH [OF 1(2)] Cons.prems(2) obtain xs ys s' where
      "raws = xs @ ys" "drain parse u = (parsed parse xs, s')"
      "s' @ t = concat (map SlipPack ys)" "\<not> IsSlip s'" by auto
    moreover have "drain parse s = (parsed parse [r] @ fst (drain parse u), snd (drain parse u))"
      unfolding 1(1) using Cons.prems(2) by (intro drain_pack) simp
    ultimately show ?thesis by (intro exI [of _ "r # xs"] exI [of _ ys] exI [of _ s']) simp
  next
    case (2 u)
    then have "\<not> IsSlip s" by (intro proper_prefix_not_slip)
    with Cons.prems(1) show ?thesis
      by (intro exI [of _ "[]"] exI [of _ "r # raws"] exI [of _ s]) (simp add: drain_not_slip)
  qed
qed

lemma read_all_packets:
  assumes "s @ concat chunks = concat (map SlipPack raws)" "\<forall>r\<in>set raws. r \<noteq> []" "\<not> IsSlip s"
  shows "read_all parse chunks s = (parsed parse raws, [])"
  using assms
proof (induction chunks arbitrary: s raws)
  case Nil
  then have "raws = []" by (cases raws) auto
  with Nil show ?case by simp
next
  case (Cons c chunks)
  have "(s @ c) @ concat chunks = concat (map SlipPack raws)" using Cons.prems(1) by simp
  from drain_prefix [OF this Cons.prems(2)] obtain xs ys s' where
    "raws = xs @ ys" "drain parse (s @ c) = (parsed parse xs, s')"
    "s' @ concat chunks = concat (map SlipPack ys)" "\<not> IsSlip s'" by blast
  with Cons.IH [of s' ys] Cons.prems(2) show ?case by auto
qed

context frame_codec begin

text \<open>The bytes of a list of frames as \<open>Write\<close> sends them.\<close>

lemma stream_roundtrip:
  assumes "\<forall>f\<in>set fs. wf f" "concat chunks = concat (map SlipPack raws)"
    "map Inr raws = map (marshal_frame Command MarshalPayload) fs"
  shows "read_all (frame_from_raw Create UnmarshalPayload) chunks [] = (fs, [])"
proof -
  from assms(1,3) have "(\<forall>r\<in>set raws. r \<noteq> []) \<and>
      parsed (frame_from_raw Create UnmarshalPayload) raws = fs"
  proof (induction fs arbitrary: raws)
    case (Cons f fs)
    then obtain r rs where r: "raws = r # rs" "marshal_frame Command MarshalPayload f = Inr r"
      "map Inr rs = map (marshal_frame Command MarshalPayload) fs"
      by (cases raws) auto
    from Cons.prems(1) raw_roundtrip [of f] r(2) have
      "r \<noteq> []" "frame_from_raw Create UnmarshalPayload r = Inr (Some f)" by auto
    with Cons.IH [of rs] Cons.prems(1) r(1,3) show ?case by simp
  qed simp
  then show ?thesis
    using read_all_packets [of "[]" chunks raws "frame_from_raw Create UnmarshalPayload"] assms(2)
    by (simp add: IsSlip_def)
qed

end

section \<open>The state of \<open>Conn\<close>\<close>

text \<open>
  A socket and a lifecycle are numbers, handed out by \<open>cs_next\<close>. \<open>cs_lost\<close> holds the closed
  lifecycle channels, \<open>cs_open\<close> the sockets that were opened and not closed, \<open>cs_loops\<close> the
  running read loops (socket to lifecycle and buffered stream), \<open>cs_dialing\<close> the number of
  \<open>Connect\<close> calls between their check and their dial, \<open>cs_closing\<close> the \<open>Disconnect\<close> calls that
  hold a socket and its lifecycle and have not closed it yet. \<open>cs_delivered\<close> records the
  dispatched frames with the callback that got them, \<open>cs_sent\<close> the written bytes. The 64-bit
  counter of the callback handles is a \<^typ>\<open>nat\<close>.
\<close>

record 'cb conn_state =
  cs_host :: string
  cs_port :: int
  cs_tlsConn :: "nat option"
  cs_connected :: bool
  cs_nextCBID :: nat
  cs_callbacks :: "(nat \<times> 'cb) list"
  cs_connectionCounter :: nat
  cs_life :: nat
  cs_lost :: "nat set"
  cs_open :: "nat set"
  cs_loops :: "nat \<rightharpoonup> nat \<times> byte list"
  cs_next :: nat
  cs_dialing :: nat
  cs_closing :: "(nat \<times> nat) list"
  cs_delivered :: "('cb \<times> frame) list"
  cs_sent :: "(nat \<times> byte list) list"

definition DefaultPort :: int where "DefaultPort = 51200"

definition NewConn :: "string \<Rightarrow> int \<Rightarrow> 'cb conn_state" where
  "NewConn host port =
     \<lparr> cs_host = host, cs_port = (if port = 0 then DefaultPort else port),
       cs_tlsConn = None, cs_connected = False, cs_nextCBID = 0, cs_callbacks = [],
       cs_connectionCounter = 0, cs_life = 0, cs_lost = {}, cs_open = {}, cs_loops = Map.empty,
       cs_next = 1, cs_dialing = 0, cs_closing = [], cs_delivered = [], cs_sent = [] \<rparr>"

text \<open>\<open>Connect\<close>: the check under the lock; after a successful dial the installation under the
  lock, with a fresh lifecycle, and the start of the read loop.\<close>

definition Connect_check :: "'cb conn_state \<Rightarrow> conn_error + 'cb conn_state" where
  "Connect_check c =
     (if cs_connected c then Inl AlreadyConnected
      else Inr (c\<lparr> cs_dialing := cs_dialing c + 1 \<rparr>))"

definition Connect_failed :: "'cb conn_state \<Rightarrow> 'cb conn_state" where
  "Connect_failed c = c\<lparr> cs_dialing := cs_dialing c - 1 \<rparr>"

definition Connect_install :: "'cb conn_state \<Rightarrow> 'cb conn_state" where
  "Connect_install c =
     (let n = cs_next c in
      c\<lparr> cs_tlsConn := Some n, cs_connected := True,
         cs_connectionCounter := cs_connectionCounter c + 1,
         cs_life := n, cs_open := insert n (cs_open c),
         cs_loops := (cs_loops c)(n \<mapsto> (n, [])),
         cs_next := n + 1, cs_dialing := cs_dialing c - 1 \<rparr>)"

definition Connected :: "'cb conn_state \<Rightarrow> bool" where
  "Connected c = cs_connected c"

definition ConnectionCounter :: "'cb conn_state \<Rightarrow> nat" where
  "ConnectionCounter c = cs_connectionCounter c"

definition Lost :: "'cb conn_state \<Rightarrow> nat" where
  "Lost c = cs_life c"

definition RegisterFrameReceivedCB :: "'cb \<Rightarrow> 'cb conn_state \<Rightarrow> nat \<times> 'cb conn_state" where
  "RegisterFrameReceivedCB cb c =
     (let n = cs_nextCBID c + 1
      in (n, c\<lparr> cs_nextCBID := n, cs_callbacks := cs_callbacks c @ [(n, cb)] \<rparr>))"

fun remove_handle :: "nat \<Rightarrow> (nat \<times> 'cb) list \<Rightarrow> (nat \<times> 'cb) list" where
  "remove_handle handle [] = []"
| "remove_handle handle ((n, cb) # cbs) =
     (if n = handle then cbs else (n, cb) # remove_handle handle cbs)"

definition UnregisterFrameReceivedCB :: "nat \<Rightarrow> 'cb conn_state \<Rightarrow> 'cb conn_state" where
  "UnregisterFrameReceivedCB handle c =
     c\<lparr> cs_callbacks := remove_handle handle (cs_callbacks c) \<rparr>"

text \<open>\<open>frame = None\<close> is a nil frame; \<open>io_ok\<close> is the outcome of the write to the socket.\<close>

definition Conn_Write ::
    "bool \<Rightarrow> frame option \<Rightarrow> 'cb conn_state \<Rightarrow> conn_error option \<times> 'cb conn_state" where
  "Conn_Write io_ok frame c =
     (case frame of
        None \<Rightarrow> (Some NilFrame, c)
      | Some f \<Rightarrow>
          (case MarshalFrame f of
             Inl e \<Rightarrow> (Some (MarshalFailed e), c)
           | Inr raw \<Rightarrow>
               (case (cs_connected c, cs_tlsConn c) of
                  (True, Some conn) \<Rightarrow>
                    if io_ok
                    then (None, c\<lparr> cs_sent := cs_sent c @ [(conn, SlipPack raw)] \<rparr>)
                    else (Some WriteFailed, c)
                | _ \<Rightarrow> (Some NotConnected, c))))"

text \<open>\<open>Disconnect\<close>: the part under the lock hands over the socket and the lifecycle it read;
  then the socket is closed and the loss signalled.\<close>

definition Disconnect_begin :: "'cb conn_state \<Rightarrow> 'cb conn_state" where
  "Disconnect_begin c =
     (let d = c\<lparr> cs_tlsConn := None, cs_connected := False \<rparr>
      in case cs_tlsConn c of
           None \<Rightarrow> d
         | Some conn \<Rightarrow> d\<lparr> cs_closing := (conn, cs_life c) # cs_closing c \<rparr>)"

definition Disconnect_end :: "nat \<times> nat \<Rightarrow> 'cb conn_state \<Rightarrow> 'cb conn_state" where
  "Disconnect_end cl c =
     c\<lparr> cs_closing := remove1 cl (cs_closing c), cs_open := cs_open c - {fst cl},
        cs_lost := insert (snd cl) (cs_lost c) \<rparr>"

text \<open>What \<open>Disconnect\<close> returns: the first error of the two closes, and none without a socket.\<close>

definition Disconnect_result :: "'e option \<Rightarrow> 'e option \<Rightarrow> 'cb conn_state \<Rightarrow> 'e option" where
  "Disconnect_result closeWrite close c =
     (case cs_tlsConn c of
        None \<Rightarrow> None
      | Some conn \<Rightarrow>
          let firstErr = closeWrite
          in if close \<noteq> None \<and> firstErr = None then close else firstErr)"

text \<open>\<open>dispatch\<close>: every callback of the snapshot gets the frame, in the order of registration.\<close>

definition dispatch :: "frame \<Rightarrow> 'cb conn_state \<Rightarrow> 'cb conn_state" where
  "dispatch f c =
     c\<lparr> cs_delivered := cs_delivered c @ map (\<lambda>(_, cb). (cb, f)) (cs_callbacks c) \<rparr>"

text \<open>\<open>readLoop\<close>: one read of \<open>chunk\<close> from the socket \<open>conn\<close>, and the deferred function that
  runs when a read fails.\<close>

definition readLoop_data :: "nat \<Rightarrow> byte list \<Rightarrow> 'cb conn_state \<Rightarrow> 'cb conn_state" where
  "readLoop_data conn chunk c =
     (case cs_loops c conn of
        None \<Rightarrow> c
      | Some (life, stream) \<Rightarrow>
          let (fs, stream') = drain FrameFromRaw (stream @ chunk)
          in fold dispatch fs (c\<lparr> cs_loops := (cs_loops c)(conn \<mapsto> (life, stream')) \<rparr>))"

definition readLoop_exit :: "nat \<Rightarrow> 'cb conn_state \<Rightarrow> 'cb conn_state" where
  "readLoop_exit conn c =
     (case cs_loops c conn of
        None \<Rightarrow> c
      | Some (life, stream) \<Rightarrow>
          let d = (if cs_tlsConn c = Some conn
                   then c\<lparr> cs_connected := False, cs_tlsConn := None \<rparr> else c)
          in d\<lparr> cs_lost := insert life (cs_lost d), cs_loops := (cs_loops d)(conn := None) \<rparr>)"

inductive conn_step :: "'cb conn_state \<Rightarrow> 'cb conn_state \<Rightarrow> bool" where
  connect_check: "Connect_check c = Inr d \<Longrightarrow> conn_step c d"
| connect_failed: "0 < cs_dialing c \<Longrightarrow> conn_step c (Connect_failed c)"
| connect_install: "0 < cs_dialing c \<Longrightarrow> conn_step c (Connect_install c)"
| register: "conn_step c (snd (RegisterFrameReceivedCB cb c))"
| unregister: "conn_step c (UnregisterFrameReceivedCB h c)"
| conn_write: "conn_step c (snd (Conn_Write ok f c))"
| disconnect_begin: "conn_step c (Disconnect_begin c)"
| disconnect_end: "cl \<in> set (cs_closing c) \<Longrightarrow> conn_step c (Disconnect_end cl c)"
| read_data: "cs_loops c conn \<noteq> None \<Longrightarrow> conn_step c (readLoop_data conn chunk c)"
| read_exit: "cs_loops c conn \<noteq> None \<Longrightarrow> conn_step c (readLoop_exit conn c)"

section \<open>Invariants\<close>

lemma fold_dispatch:
  "fold dispatch fs c =
     c\<lparr> cs_delivered := cs_delivered c @
          concat (map (\<lambda>f. map (\<lambda>(_, cb). (cb, f)) (cs_callbacks c)) fs) \<rparr>"
  by (induction fs arbitrary: c) (simp_all add: dispatch_def)

text \<open>
  Connected means that there is an active socket, whose read loop runs and whose lifecycle is
  the current one; a lifecycle that was installed and is not lost has a running read loop; each
  loop has the lifecycle installed with its socket.
\<close>

definition inv_active :: "'cb conn_state \<Rightarrow> bool" where
  "inv_active c \<longleftrightarrow>
     (case cs_tlsConn c of
        None \<Rightarrow> \<not> cs_connected c
      | Some n \<Rightarrow> cs_connected c \<and> cs_life c = n \<and> n \<in> dom (cs_loops c) \<and> n \<notin> cs_lost c \<and>
          n \<notin> fst ` set (cs_closing c) \<and> n \<in> cs_open c)"

definition inv_loops :: "'cb conn_state \<Rightarrow> bool" where
  "inv_loops c \<longleftrightarrow>
     (\<forall>n\<in>dom (cs_loops c). fst (the (cs_loops c n)) = n \<and> 0 < n \<and> n < cs_next c)"

definition inv_lost :: "'cb conn_state \<Rightarrow> bool" where
  "inv_lost c \<longleftrightarrow> {0<..<cs_next c} \<subseteq> cs_lost c \<union> dom (cs_loops c) \<and> cs_lost c \<subseteq> {0<..<cs_next c}"

definition inv_closing :: "'cb conn_state \<Rightarrow> bool" where
  "inv_closing c \<longleftrightarrow> (\<forall>(n, l)\<in>set (cs_closing c). l = n \<and> 0 < n \<and> n < cs_next c)"

definition inv_bounds :: "'cb conn_state \<Rightarrow> bool" where
  "inv_bounds c \<longleftrightarrow> cs_life c < cs_next c \<and> cs_open c \<subseteq> {..<cs_next c}"

definition conn_inv :: "'cb conn_state \<Rightarrow> bool" where
  "conn_inv c \<longleftrightarrow> inv_active c \<and> inv_loops c \<and> inv_lost c \<and> inv_closing c \<and> inv_bounds c"

lemmas inv_defs = inv_active_def inv_loops_def inv_lost_def inv_closing_def inv_bounds_def

lemma inv_loopsD:
  assumes "inv_loops c" "cs_loops c n = Some (l, s)"
  shows "l = n" "0 < n" "n < cs_next c"
proof -
  have "n \<in> dom (cs_loops c)" using assms(2) by (rule domI)
  with assms(1) have "fst (the (cs_loops c n)) = n \<and> 0 < n \<and> n < cs_next c"
    unfolding inv_loops_def by (rule bspec)
  with assms(2) show "l = n" "0 < n" "n < cs_next c" by simp_all
qed

lemma conn_inv_NewConn: "conn_inv (NewConn host port)"
  by (auto simp: conn_inv_def inv_defs NewConn_def)

lemma conn_inv_same:
  "conn_inv c \<Longrightarrow> cs_connected d = cs_connected c \<Longrightarrow> cs_tlsConn d = cs_tlsConn c \<Longrightarrow>
   cs_life d = cs_life c \<Longrightarrow> cs_loops d = cs_loops c \<Longrightarrow> cs_lost d = cs_lost c \<Longrightarrow>
   cs_next d = cs_next c \<Longrightarrow> cs_closing d = cs_closing c \<Longrightarrow> cs_open d = cs_open c \<Longrightarrow> conn_inv d"
  unfolding conn_inv_def inv_defs by (simp cong: option.case_cong)

lemma conn_inv_install:
  assumes "conn_inv c"
  shows "conn_inv (Connect_install c)"
  unfolding conn_inv_def
proof (intro conjI)
  from assms have i: "inv_loops c" "inv_lost c" "inv_closing c" "inv_bounds c"
    by (simp_all add: conn_inv_def)
  show "inv_loops (Connect_install c)"
    unfolding inv_loops_def
  proof (rule ballI)
    let ?d = "Connect_install c"
    have d: "cs_loops ?d = (cs_loops c)(cs_next c \<mapsto> (cs_next c, []))" "cs_next ?d = cs_next c + 1"
      by (simp_all add: Connect_install_def Let_def)
    fix m assume m: "m \<in> dom (cs_loops ?d)"
    show "fst (the (cs_loops ?d m)) = m \<and> 0 < m \<and> m < cs_next ?d"
    proof (cases "m = cs_next c")
      case True
      have "0 < cs_next c" using i(4) by (auto simp: inv_bounds_def)
      with True show ?thesis by (simp add: d)
    next
      case False
      with m have "m \<in> dom (cs_loops c)" by (simp add: d dom_def)
      with i(1) have "fst (the (cs_loops c m)) = m \<and> 0 < m \<and> m < cs_next c"
        unfolding inv_loops_def by (rule bspec)
      with False show ?thesis by (simp add: d)
    qed
  qed
  from i(2) show "inv_lost (Connect_install c)"
    by (auto simp: inv_lost_def Connect_install_def Let_def less_Suc_eq subset_iff)
  from i(3) show "inv_closing (Connect_install c)"
    by (auto simp: inv_closing_def Connect_install_def Let_def)
  from i(4) show "inv_bounds (Connect_install c)"
    by (auto simp: inv_bounds_def Connect_install_def Let_def)
  have "cs_next c \<notin> cs_lost c" using i(2) by (auto simp: inv_lost_def)
  moreover have "cs_next c \<notin> fst ` set (cs_closing c)" using i(3) by (auto simp: inv_closing_def)
  ultimately show "inv_active (Connect_install c)"
    by (simp add: inv_active_def Connect_install_def Let_def)
qed

lemma conn_inv_disconnect_begin:
  assumes "conn_inv c"
  shows "conn_inv (Disconnect_begin c)"
proof (cases "cs_tlsConn c")
  case None
  with assms show ?thesis
    by (simp add: conn_inv_def inv_defs Disconnect_begin_def Let_def)
next
  case (Some n)
  from assms have i: "inv_active c" "inv_loops c" "inv_lost c" "inv_closing c" "inv_bounds c"
    by (simp_all add: conn_inv_def)
  let ?d = "Disconnect_begin c"
  have d: "?d = c\<lparr> cs_tlsConn := None, cs_connected := False, cs_closing := (n, n) # cs_closing c \<rparr>"
    using i(1) Some by (simp add: Disconnect_begin_def inv_active_def)
  have "n \<in> dom (cs_loops c)" using i(1) Some by (simp add: inv_active_def)
  then have "0 < n \<and> n < cs_next c" using i(2) unfolding inv_loops_def by blast
  with i show ?thesis
    unfolding conn_inv_def d by (simp add: inv_defs)
qed

lemma conn_inv_disconnect_end:
  assumes "conn_inv c" "cl \<in> set (cs_closing c)"
  shows "conn_inv (Disconnect_end cl c)"
  unfolding conn_inv_def
proof (intro conjI)
  obtain n l where cl: "cl = (n, l)" by fastforce
  from assms(1) have i: "inv_active c" "inv_loops c" "inv_lost c" "inv_closing c" "inv_bounds c"
    by (simp_all add: conn_inv_def)
  have n: "l = n" "0 < n" "n < cs_next c"
    using i(4) assms(2) by (auto simp: inv_closing_def cl)
  have sub: "set (remove1 cl (cs_closing c)) \<subseteq> set (cs_closing c)" by (rule set_remove1_subset)
  have nt: "cs_tlsConn c \<noteq> Some n"
    using i(1) assms(2) by (force simp: inv_active_def cl split: option.splits)
  show "inv_loops (Disconnect_end cl c)" "inv_bounds (Disconnect_end cl c)"
    using i(2,5) by (auto simp: inv_loops_def inv_bounds_def Disconnect_end_def)
  show "inv_lost (Disconnect_end cl c)"
    using i(3) n by (auto simp: inv_lost_def Disconnect_end_def cl subset_iff)
  show "inv_closing (Disconnect_end cl c)"
    using i(4) sub by (auto simp: inv_closing_def Disconnect_end_def)
  show "inv_active (Disconnect_end cl c)"
  proof (cases "cs_tlsConn c")
    case (Some m)
    moreover have "m \<notin> fst ` set (remove1 cl (cs_closing c))"
      using i(1) Some sub by (auto simp: inv_active_def)
    ultimately show ?thesis using i(1) nt n by (simp add: inv_active_def Disconnect_end_def cl)
  qed (use i(1) in \<open>simp add: inv_active_def Disconnect_end_def\<close>)
qed

lemma conn_inv_exit:
  assumes "conn_inv c"
  shows "conn_inv (readLoop_exit n c)"
proof (cases "cs_loops c n")
  case (Some p)
  from assms have i: "inv_active c" "inv_loops c" "inv_lost c" "inv_closing c" "inv_bounds c"
    by (simp_all add: conn_inv_def)
  obtain l s where p: "p = (l, s)" by fastforce
  have n: "l = n" "0 < n" "n < cs_next c"
    using inv_loopsD [OF i(2)] Some p by auto
  define d where "d = readLoop_exit n c"
  have d: "cs_life d = cs_life c" "cs_next d = cs_next c" "cs_closing d = cs_closing c"
    "cs_open d = cs_open c" "cs_lost d = insert n (cs_lost c)" "cs_loops d = (cs_loops c)(n := None)"
    "cs_tlsConn d = (if cs_tlsConn c = Some n then None else cs_tlsConn c)"
    "cs_connected d = (if cs_tlsConn c = Some n then False else cs_connected c)"
    using Some p n(1) by (simp_all add: d_def readLoop_exit_def)
  have "inv_active d" using i(1) by (simp add: inv_active_def d split: option.splits)
  moreover have "inv_loops d" using i(2) by (simp add: inv_loops_def d)
  moreover have "inv_lost d" using i(3) n by (auto simp: inv_lost_def d)
  moreover have "inv_closing d" "inv_bounds d" using i(4,5) by (simp_all add: inv_closing_def inv_bounds_def d)
  ultimately show ?thesis by (simp add: conn_inv_def d_def)
qed (simp add: readLoop_exit_def assms)

lemma conn_inv_data:
  assumes "conn_inv c"
  shows "conn_inv (readLoop_data n chunk c)"
proof (cases "cs_loops c n")
  case (Some p)
  from assms have i: "inv_active c" "inv_loops c" "inv_lost c" "inv_closing c" "inv_bounds c"
    by (simp_all add: conn_inv_def)
  obtain l s where p: "p = (l, s)" by fastforce
  obtain fs s' where d: "drain FrameFromRaw (s @ chunk) = (fs, s')" by fastforce
  let ?c = "c\<lparr> cs_loops := (cs_loops c)(n \<mapsto> (l, s')) \<rparr>"
  have dom: "dom (cs_loops ?c) = dom (cs_loops c)" using Some by auto
  have "l = n" using inv_loopsD [OF i(2)] Some p by auto
  then have "inv_loops ?c" using i(2) Some inv_loopsD [OF i(2) Some [unfolded p]]
    by (auto simp: inv_loops_def)
  then have "conn_inv ?c"
    using i dom unfolding conn_inv_def
    by (simp add: inv_active_def inv_lost_def inv_closing_def inv_bounds_def split: option.splits)
  then have "conn_inv (fold dispatch fs ?c)"
    by (rule conn_inv_same) (simp_all add: fold_dispatch)
  with Some p d show ?thesis by (simp add: readLoop_data_def)
qed (simp add: readLoop_data_def assms)

lemma conn_inv_write: "conn_inv c \<Longrightarrow> conn_inv (snd (Conn_Write ok f c))"
  by (erule conn_inv_same) (simp_all add: Conn_Write_def split: option.split sum.split bool.split)

lemma conn_inv_step: "conn_step c d \<Longrightarrow> conn_inv c \<Longrightarrow> conn_inv d"
proof (induction rule: conn_step.induct)
  case (connect_check c d)
  then have "d = c\<lparr> cs_dialing := cs_dialing c + 1 \<rparr>" by (simp add: Connect_check_def split: if_splits)
  with connect_check show ?case by (auto elim: conn_inv_same)
next
  case (connect_failed c)
  then show ?case by (auto elim: conn_inv_same simp: Connect_failed_def)
next
  case (register cb c)
  then show ?case by (auto elim: conn_inv_same simp: RegisterFrameReceivedCB_def Let_def)
next
  case (unregister c h)
  then show ?case by (auto elim: conn_inv_same simp: UnregisterFrameReceivedCB_def)
qed (simp_all add: conn_inv_install conn_inv_disconnect_begin conn_inv_disconnect_end
    conn_inv_exit conn_inv_data conn_inv_write)

lemma conn_inv_reachable: "conn_step\<^sup>*\<^sup>* (NewConn host port) c \<Longrightarrow> conn_inv c"
  by (induction rule: rtranclp_induct) (auto intro: conn_inv_NewConn conn_inv_step)

subsection \<open>Callback handles\<close>

definition handles_inv :: "'cb conn_state \<Rightarrow> bool" where
  "handles_inv c \<longleftrightarrow> distinct (map fst (cs_callbacks c)) \<and>
     (\<forall>h\<in>fst ` set (cs_callbacks c). 0 < h \<and> h \<le> cs_nextCBID c)"

lemma set_remove_handle: "set (remove_handle h cbs) \<subseteq> set cbs"
  by (induction h cbs rule: remove_handle.induct) auto

lemma remove_handle_filter:
  "distinct (map fst cbs) \<Longrightarrow> remove_handle h cbs = filter (\<lambda>p. fst p \<noteq> h) cbs"
proof (induction h cbs rule: remove_handle.induct)
  case (2 handle n cb cbs)
  then show ?case by (auto intro!: filter_True [symmetric] simp: image_iff)
qed simp

lemma handles_inv_register: "handles_inv c \<Longrightarrow> handles_inv (snd (RegisterFrameReceivedCB cb c))"
  by (force simp: handles_inv_def RegisterFrameReceivedCB_def Let_def)

lemma handles_inv_unregister: "handles_inv c \<Longrightarrow> handles_inv (UnregisterFrameReceivedCB h c)"
  by (auto simp: handles_inv_def UnregisterFrameReceivedCB_def remove_handle_filter distinct_map_filter)

lemma handles_inv_same:
  "handles_inv c \<Longrightarrow> cs_callbacks d = cs_callbacks c \<Longrightarrow> cs_nextCBID d = cs_nextCBID c \<Longrightarrow>
   handles_inv d"
  by (simp add: handles_inv_def)

lemma handles_inv_step: "conn_step c d \<Longrightarrow> handles_inv c \<Longrightarrow> handles_inv d"
proof (induction rule: conn_step.induct)
  case (connect_check c d)
  then have "d = c\<lparr> cs_dialing := cs_dialing c + 1 \<rparr>" by (simp add: Connect_check_def split: if_splits)
  with connect_check show ?case by (auto elim: handles_inv_same)
next
  case (conn_write c ok f)
  then show ?case
    by (elim handles_inv_same)
      (simp_all add: Conn_Write_def split: option.split sum.split bool.split)
next
  case (disconnect_begin c)
  then show ?case by (elim handles_inv_same) (simp_all add: Disconnect_begin_def Let_def split: option.split)
next
  case (read_data c conn chunk)
  then show ?case
    by (elim handles_inv_same)
      (simp_all add: readLoop_data_def fold_dispatch split: option.split prod.split)
next
  case (read_exit c conn)
  then show ?case
    by (elim handles_inv_same) (simp_all add: readLoop_exit_def Let_def split: option.split)
qed (auto elim: handles_inv_same intro: handles_inv_register handles_inv_unregister
    simp: Connect_failed_def Connect_install_def Let_def Disconnect_end_def)

lemma handles_inv_NewConn: "handles_inv (NewConn host port)"
  by (simp add: handles_inv_def NewConn_def)

lemma handles_inv_reachable: "conn_step\<^sup>*\<^sup>* (NewConn host port) c \<Longrightarrow> handles_inv c"
  by (induction rule: rtranclp_induct) (auto intro: handles_inv_step handles_inv_NewConn)

subsection \<open>Runs of the read loop\<close>

lemma readLoop_run:
  assumes "cs_loops c conn = Some (life, stream)" "read_all FrameFromRaw chunks stream = (fs, stream')"
  shows "fold (readLoop_data conn) chunks c =
    c\<lparr> cs_loops := (cs_loops c)(conn \<mapsto> (life, stream')),
       cs_delivered := cs_delivered c @
         concat (map (\<lambda>f. map (\<lambda>(_, cb). (cb, f)) (cs_callbacks c)) fs) \<rparr>"
  using assms
proof (induction chunks arbitrary: c stream fs stream')
  case Nil
  then show ?case by (cases c) (auto simp: fun_upd_idem)
next
  case (Cons chunk chunks)
  obtain gs t where d: "drain FrameFromRaw (stream @ chunk) = (gs, t)" by fastforce
  obtain hs u where r: "read_all FrameFromRaw chunks t = (hs, u)" by fastforce
  from Cons.prems(2) d r have fs: "fs = gs @ hs" "u = stream'" by simp_all
  let ?c = "readLoop_data conn chunk c"
  have c: "?c = c\<lparr> cs_loops := (cs_loops c)(conn \<mapsto> (life, t)),
      cs_delivered := cs_delivered c @
        concat (map (\<lambda>f. map (\<lambda>(_, cb). (cb, f)) (cs_callbacks c)) gs) \<rparr>"
    using Cons.prems(1) d by (simp add: readLoop_data_def fold_dispatch)
  have "cs_loops ?c conn = Some (life, t)" by (simp add: c)
  from Cons.IH [OF this r] show ?case by (simp add: c fs fun_upd_def cong: if_cong)
qed

text \<open>A socket that is open, not the active one and not about to be closed is out of reach.\<close>

definition leaked :: "'cb conn_state \<Rightarrow> nat \<Rightarrow> bool" where
  "leaked c n \<longleftrightarrow> n \<in> cs_open c \<and> cs_tlsConn c \<noteq> Some n \<and> n \<notin> fst ` set (cs_closing c)"

lemma leaked_step:
  assumes "conn_step c d" "conn_inv c" "leaked c n"
  shows "leaked d n"
  using assms
proof (induction rule: conn_step.induct)
  case (connect_check c d)
  then show ?case by (auto simp: Connect_check_def leaked_def split: if_splits)
next
  case (connect_install c)
  then have "n \<noteq> cs_next c" by (auto simp: conn_inv_def inv_bounds_def leaked_def)
  with connect_install show ?case by (simp add: leaked_def Connect_install_def Let_def)
next
  case (conn_write c ok f)
  have "cs_tlsConn (snd (Conn_Write ok f c)) = cs_tlsConn c"
    "cs_open (snd (Conn_Write ok f c)) = cs_open c"
    "cs_closing (snd (Conn_Write ok f c)) = cs_closing c"
    by (simp_all add: Conn_Write_def split: option.split sum.split bool.split)
  with conn_write show ?case unfolding leaked_def by metis
next
  case (disconnect_begin c)
  then show ?case by (auto simp: leaked_def Disconnect_begin_def Let_def split: option.split)
next
  case (disconnect_end cl c)
  then have "fst cl \<noteq> n" by (force simp: leaked_def)
  moreover have "fst ` set (remove1 cl (cs_closing c)) \<subseteq> fst ` set (cs_closing c)"
    by (intro image_mono set_remove1_subset)
  ultimately show ?case using disconnect_end by (auto simp: leaked_def Disconnect_end_def)
next
  case (read_data c conn chunk)
  then show ?case
    by (simp add: leaked_def readLoop_data_def fold_dispatch split: option.split prod.split)
next
  case (read_exit c conn)
  then show ?case by (auto simp: leaked_def readLoop_exit_def Let_def split: option.split)
qed (simp_all add: leaked_def Connect_failed_def RegisterFrameReceivedCB_def Let_def
    UnregisterFrameReceivedCB_def)

lemma leaked_forever:
  assumes "conn_inv c" "leaked c n" "conn_step\<^sup>*\<^sup>* c d"
  shows "leaked d n"
proof -
  from assms(3) have "conn_inv d \<and> leaked d n"
    by (induction rule: rtranclp_induct) (use assms in \<open>auto intro: conn_inv_step leaked_step\<close>)
  then show ?thesis ..
qed

section \<open>Properties\<close>

text \<open>
  C4: However the bytes of a sequence of frames are cut into reads, the read loop hands exactly
  these frames, in order, to every registered callback, and its buffer is empty afterwards.
\<close>

theorem readLoop_delivers:
  assumes "cs_loops c conn = Some (life, [])" "\<forall>f\<in>set fs. frame_wf f"
    "map Inr raws = map MarshalFrame fs" "concat chunks = concat (map SlipPack raws)"
  shows "cs_delivered (fold (readLoop_data conn) chunks c) =
      cs_delivered c @ concat (map (\<lambda>f. map (\<lambda>(_, cb). (cb, f)) (cs_callbacks c)) fs) \<and>
    cs_loops (fold (readLoop_data conn) chunks c) conn = Some (life, [])"
proof -
  have "read_all FrameFromRaw chunks [] = (fs, [])"
    using gw.stream_roundtrip [OF assms(2,4)] assms(3)
    by (simp add: MarshalFrame_def FrameFromRaw_def)
  from readLoop_run [OF assms(1) this] show ?thesis by simp
qed

lemma two_frames_raw:
  "map Inr [BuildFrame GW_REBOOT_CFM [], BuildFrame GW_SET_UTC_CFM []] =
   map MarshalFrame [AuthFrame (FrGatewayRebootConfirmation ()), AuthFrame (FrSetUTCConfirmation ())]"
  by (simp add: MarshalFrame_def marshal_frame_def codec_simps)

theorem readLoop_delivers_witness:
  "let c = Connect_install (snd (RegisterFrameReceivedCB True (NewConn ''klf'' 0)));
       bytes = SlipPack (BuildFrame GW_REBOOT_CFM []) @ SlipPack (BuildFrame GW_SET_UTC_CFM []);
       chunks = [take 3 bytes, drop 3 bytes]
   in cs_delivered (fold (readLoop_data 1) chunks c) =
      [(True, AuthFrame (FrGatewayRebootConfirmation ())), (True, AuthFrame (FrSetUTCConfirmation ()))]"
proof -
  let ?c = "Connect_install (snd (RegisterFrameReceivedCB True (NewConn ''klf'' 0)))"
  define bytes where
    "bytes = SlipPack (BuildFrame GW_REBOOT_CFM []) @ SlipPack (BuildFrame GW_SET_UTC_CFM [])"
  have c: "cs_loops ?c 1 = Some (1, [])" "cs_callbacks ?c = [(1, True)]" "cs_delivered ?c = []"
    by (simp_all add: Connect_install_def RegisterFrameReceivedCB_def NewConn_def Let_def)
  have "concat [take 3 bytes, drop 3 bytes] = bytes" by simp
  then have "concat [take 3 bytes, drop 3 bytes] =
      concat (map SlipPack [BuildFrame GW_REBOOT_CFM [], BuildFrame GW_SET_UTC_CFM []])"
    by (simp only: bytes_def list.map concat.simps append_Nil2)
  from readLoop_delivers [OF c(1) _ two_frames_raw this] c(2,3)
  show ?thesis unfolding Let_def bytes_def [symmetric] by simp
qed

text \<open>
  C8: In every reachable state of the connection, with any number of callers of \<open>Connect\<close> and
  \<open>Disconnect\<close> and with read loops of earlier connections still running: connected means that
  there is an active socket, its read loop runs and its lost channel is open; and as long as the
  lost channel of the latest connection is open its read loop runs, so a waiter is released when
  that loop ends.
\<close>

theorem connection_lifecycle:
  assumes "conn_step\<^sup>*\<^sup>* (NewConn host port) c"
  shows "(Connected c \<longleftrightarrow> cs_tlsConn c \<noteq> None) \<and>
    (Connected c \<longrightarrow> Lost c \<notin> cs_lost c \<and> cs_loops c (Lost c) \<noteq> None) \<and>
    (0 < Lost c \<and> Lost c \<notin> cs_lost c \<longrightarrow> cs_loops c (Lost c) \<noteq> None)"
proof -
  have i: "inv_active c" "inv_lost c" "inv_bounds c"
    using conn_inv_reachable [OF assms] by (simp_all add: conn_inv_def)
  have "Lost c \<in> dom (cs_loops c)" if "0 < Lost c" "Lost c \<notin> cs_lost c"
  proof -
    have "Lost c \<in> {0<..<cs_next c}" using i(3) that(1) by (simp add: inv_bounds_def Lost_def)
    with i(2) that(2) show ?thesis unfolding inv_lost_def by blast
  qed
  with i(1) show ?thesis
    by (auto simp: inv_active_def Connected_def Lost_def split: option.splits)
qed

lemma connect_reachable:
  "conn_step\<^sup>*\<^sup>* (NewConn ''klf'' 0 :: bool conn_state)
     (Connect_install ((NewConn ''klf'' 0)\<lparr> cs_dialing := 1 \<rparr>))"
proof -
  let ?n = "NewConn ''klf'' 0 :: bool conn_state"
  have "conn_step ?n (?n\<lparr> cs_dialing := 1 \<rparr>)"
    by (rule connect_check) (simp add: Connect_check_def NewConn_def)
  moreover have "conn_step (?n\<lparr> cs_dialing := 1 \<rparr>) (Connect_install (?n\<lparr> cs_dialing := 1 \<rparr>))"
    by (rule connect_install) simp
  ultimately show ?thesis by (meson rtranclp.rtrancl_into_rtrancl rtranclp.rtrancl_refl)
qed

theorem connection_lifecycle_witness:
  "cs_loops (Connect_install ((NewConn ''klf'' 0 :: bool conn_state)\<lparr> cs_dialing := 1 \<rparr>)) 1 \<noteq> None"
  using connection_lifecycle [OF connect_reachable]
  by (simp add: Connect_install_def Connected_def Lost_def Let_def NewConn_def)

text \<open>
  C40: A connection that ends by a read error is never closed: the deferred function of the read
  loop forgets the socket, a later \<open>Disconnect\<close> is a no-op, and no sequence of operations closes
  the socket any more.
\<close>

theorem lost_connection_not_closed:
  assumes "conn_step\<^sup>*\<^sup>* (NewConn host port) c" "cs_tlsConn c = Some n"
    "conn_step\<^sup>*\<^sup>* (readLoop_exit n c) d"
  shows "n \<in> cs_open d \<and> Disconnect_begin (readLoop_exit n c) = readLoop_exit n c"
proof -
  note inv = conn_inv_reachable [OF assms(1)]
  then have a: "n \<in> dom (cs_loops c)" "n \<in> cs_open c" "n \<notin> fst ` set (cs_closing c)"
    using assms(2) by (simp_all add: conn_inv_def inv_active_def)
  then obtain l s where l: "cs_loops c n = Some (l, s)" by auto
  have "leaked (readLoop_exit n c) n"
    using a l assms(2) by (simp add: leaked_def readLoop_exit_def)
  from leaked_forever [OF conn_inv_exit [OF inv] this assms(3)] have "n \<in> cs_open d"
    by (simp add: leaked_def)
  moreover have "Disconnect_begin (readLoop_exit n c) = readLoop_exit n c"
    using assms(2) l by (simp add: Disconnect_begin_def readLoop_exit_def)
  ultimately show ?thesis ..
qed

theorem lost_connection_not_closed_witness:
  "1 \<in> cs_open (readLoop_exit 1 (Connect_install ((NewConn ''klf'' 0 :: bool conn_state)\<lparr> cs_dialing := 1 \<rparr>)))"
  using lost_connection_not_closed [OF connect_reachable, of 1]
  by (simp add: Connect_install_def Let_def NewConn_def)

text \<open>
  Callback handles are never shared: in every reachable state the handles are distinct, a new
  registration gets an unused one, and unregistering it takes exactly that callback out.
\<close>

theorem callback_handles:
  assumes "conn_step\<^sup>*\<^sup>* (NewConn host port) c"
  shows "let (h, d) = RegisterFrameReceivedCB cb c in
    distinct (map fst (cs_callbacks d)) \<and> h \<notin> fst ` set (cs_callbacks c) \<and>
    cs_callbacks (UnregisterFrameReceivedCB h d) = cs_callbacks c"
proof -
  have h: "handles_inv c" by (rule handles_inv_reachable [OF assms])
  then have d: "handles_inv (snd (RegisterFrameReceivedCB cb c))" by (rule handles_inv_register)
  have "cs_nextCBID c + 1 \<notin> fst ` set (cs_callbacks c)"
    using h by (auto simp: handles_inv_def)
  moreover from this have "filter (\<lambda>p. fst p \<noteq> Suc (cs_nextCBID c)) (cs_callbacks c) = cs_callbacks c"
    by (auto intro!: filter_True simp: image_iff)
  ultimately show ?thesis
    using d by (simp add: handles_inv_def RegisterFrameReceivedCB_def UnregisterFrameReceivedCB_def
        Let_def remove_handle_filter)
qed

theorem callback_handles_witness:
  "fst (RegisterFrameReceivedCB True (NewConn ''klf'' 0)) \<notin> {}"
  using callback_handles [of "''klf''" 0 "NewConn ''klf'' 0 :: bool conn_state" True]
  by (simp add: RegisterFrameReceivedCB_def NewConn_def Let_def)

text \<open>
  An empty packet ends the draining of a read: packets behind it stay in the buffer and are
  not delivered before more bytes arrive.
\<close>

theorem empty_packet_stalls:
  "drain parse (SlipPack [] @ SlipPack raw @ rest) = ([], SlipPack raw @ rest) \<and>
   IsSlip (SlipPack raw @ rest)"
  by (simp add: drain_empty_packet)

end
