(* ===== verification/Client.thy ===== *)
theory Client
  imports Conn Session
begin

text \<open>
  \<^verbatim>\<open>src/app/klf200/event.go\<close> and \<^verbatim>\<open>client.go\<close>: one request/response exchange over the
  connection, and the client that owns the connection, the session ids and the inbound dispatch.

  What the gateway and the network do during an exchange is an \<open>exchange\<close>: whether the socket
  write succeeds, which frames the read loop dispatches while the callback of the call is
  registered, and which case of the final \<open>select\<close> is taken. A client holds the exchanges still
  to come as a script, so a theorem about all scripts covers every gateway. A frame handler is a
  function on the variables its closure captures.
\<close>

section \<open>Exchanges\<close>

datatype call_end = SelDone | SelLost | SelCtx

record exchange =
  ex_write :: bool
  ex_frames :: "frame list"
  ex_end :: call_end

datatype api_error = SendRequest conn_error | LostAwaitingResponse | TimeoutAwaitingResponse

text \<open>The frames go through the handler one by one; \<open>done\<close> is closed by the first \<open>true\<close>.\<close>

fun feed :: "(frame \<Rightarrow> 's \<Rightarrow> bool \<times> 's) \<Rightarrow> frame list \<Rightarrow> bool \<times> 's \<Rightarrow> bool \<times> 's" where
  "feed h [] (d, s) = (d, s)"
| "feed h (f # fs) (d, s) = (let (b, s') = h f s in feed h fs (d \<or> b, s'))"

text \<open>
  The \<open>select\<close>: the case \<open>done\<close> needs the closed channel. A call whose handler never completes
  ends by the other two; every call of the client has a deadline.
\<close>

definition select_result :: "call_end \<Rightarrow> bool \<Rightarrow> api_error option" where
  "select_result e d =
     (case e of
        SelDone \<Rightarrow> if d then None else Some TimeoutAwaitingResponse
      | SelLost \<Rightarrow> Some LostAwaitingResponse
      | SelCtx \<Rightarrow> Some TimeoutAwaitingResponse)"

section \<open>The client\<close>

text \<open>
  The callbacks on the connection are the updater dispatch and the handler of a running call.
  \<open>'n\<close> is what the frame processors change: the node collection and, for the application, the
  time of the last contact.
\<close>

datatype client_cb = UpdaterDispatch | CallHandler

record 'n client =
  cl_conn :: "client_cb conn_state"
  cl_sessions :: u32
  cl_nodes :: 'n
  cl_password :: string
  cl_timeout :: int
  cl_nodeUpdaters :: "(frame \<Rightarrow> 'n \<Rightarrow> 'n) list"
  cl_updaterCBID :: nat
  cl_updaterSet :: bool
  cl_script :: "exchange list"

definition DefaultTimeoutSeconds :: int where "DefaultTimeoutSeconds = 10"

text \<open>Durations are in nanoseconds.\<close>

definition time_Second :: int where "time_Second = 1000000000"

definition WithPort :: "int \<Rightarrow> 'n client \<Rightarrow> 'n client" where
  "WithPort port c =
     (if port \<noteq> 0 then c\<lparr> cl_conn := NewConn (cs_host (cl_conn c)) port \<rparr> else c)"

definition WithTimeout :: "int \<Rightarrow> 'n client \<Rightarrow> 'n client" where
  "WithTimeout d c = (if d > 0 then c\<lparr> cl_timeout := d \<rparr> else c)"

definition NewClient :: "string \<Rightarrow> string \<Rightarrow> ('n client \<Rightarrow> 'n client) list \<Rightarrow> 'n \<Rightarrow> 'n client" where
  "NewClient host password opts nodes =
     fold (\<lambda>opt. opt) opts
       \<lparr> cl_conn = NewConn host DefaultPort, cl_sessions = NewSessionIDGenerator, cl_nodes = nodes,
         cl_password = password, cl_timeout = DefaultTimeoutSeconds * time_Second,
         cl_nodeUpdaters = [], cl_updaterCBID = 0, cl_updaterSet = False, cl_script = [] \<rparr>"

definition Client_Connected :: "'n client \<Rightarrow> bool" where
  "Client_Connected c = Connected (cl_conn c)"

definition RegisterNodeUpdater :: "(frame \<Rightarrow> 'n \<Rightarrow> 'n) option \<Rightarrow> 'n client \<Rightarrow> 'n client" where
  "RegisterNodeUpdater p c =
     (case p of None \<Rightarrow> c | Some p \<Rightarrow> c\<lparr> cl_nodeUpdaters := cl_nodeUpdaters c @ [p] \<rparr>)"

definition installUpdaterDispatch :: "'n client \<Rightarrow> 'n client" where
  "installUpdaterDispatch c =
     (if cl_updaterSet c then c
      else let (h, k) = RegisterFrameReceivedCB UpdaterDispatch (cl_conn c)
           in c\<lparr> cl_conn := k, cl_updaterCBID := h, cl_updaterSet := True \<rparr>)"

text \<open>\<open>dial_ok\<close>: the outcome of the dial and the TLS handshake.\<close>

definition Conn_Connect :: "bool \<Rightarrow> client_cb conn_state \<Rightarrow> conn_error option \<times> client_cb conn_state" where
  "Conn_Connect dial_ok k =
     (case Connect_check k of
        Inl e \<Rightarrow> (Some e, k)
      | Inr k \<Rightarrow> if dial_ok then (None, Connect_install k) else (Some DialFailed, Connect_failed k))"

definition Client_Connect :: "bool \<Rightarrow> 'n client \<Rightarrow> conn_error option \<times> 'n client" where
  "Client_Connect dial_ok c =
     (let (e, k) = Conn_Connect dial_ok (cl_conn c); c = c\<lparr> cl_conn := k \<rparr>
      in case e of Some e \<Rightarrow> (Some e, c) | None \<Rightarrow> (None, installUpdaterDispatch c))"

definition Conn_Disconnect :: "client_cb conn_state \<Rightarrow> client_cb conn_state" where
  "Conn_Disconnect k =
     (case cs_tlsConn k of
        None \<Rightarrow> Disconnect_begin k
      | Some conn \<Rightarrow> Disconnect_end (conn, cs_life k) (Disconnect_begin k))"

definition Client_Disconnect :: "'n client \<Rightarrow> 'n client" where
  "Client_Disconnect c =
     (let c = (if cl_updaterSet c
               then c\<lparr> cl_conn := UnregisterFrameReceivedCB (cl_updaterCBID c) (cl_conn c),
                       cl_updaterSet := False \<rparr>
               else c)
      in c\<lparr> cl_conn := Conn_Disconnect (cl_conn c) \<rparr>)"

text \<open>
  The callback installed by \<open>installUpdaterDispatch\<close> fans a frame out to the processors. The
  handler of a call has its own variables and leaves the client alone.
\<close>

definition run_callback :: "'n client \<Rightarrow> frame \<Rightarrow> client_cb \<Rightarrow> 'n \<Rightarrow> 'n" where
  "run_callback c f cb =
     (case cb of
        UpdaterDispatch \<Rightarrow> fold (\<lambda>p. p f) (cl_nodeUpdaters c)
      | CallHandler \<Rightarrow> (\<lambda>n. n))"

definition receive :: "frame \<Rightarrow> 'n client \<Rightarrow> 'n client" where
  "receive f c =
     c\<lparr> cl_conn := dispatch f (cl_conn c),
        cl_nodes := fold (run_callback c f) (map snd (cs_callbacks (cl_conn c))) (cl_nodes c) \<rparr>"

text \<open>\<open>SelLost\<close>: the read loop of the active socket has ended.\<close>

definition lose_connection :: "client_cb conn_state \<Rightarrow> client_cb conn_state" where
  "lose_connection k = (case cs_tlsConn k of None \<Rightarrow> k | Some n \<Rightarrow> readLoop_exit n k)"

definition ApiEvent_DoAPICall ::
    "exchange \<Rightarrow> frame \<Rightarrow> (frame \<Rightarrow> 's \<Rightarrow> bool \<times> 's) \<Rightarrow> 's \<Rightarrow> 'n client \<Rightarrow>
     api_error option \<times> 's \<times> 'n client" where
  "ApiEvent_DoAPICall x request h s c =
     (let (hd, k) = RegisterFrameReceivedCB CallHandler (cl_conn c);
          (we, k) = Conn_Write (ex_write x) (Some request) k;
          c = c\<lparr> cl_conn := k \<rparr>
      in case we of
           Some e \<Rightarrow>
             (Some (SendRequest e), s,
              c\<lparr> cl_conn := UnregisterFrameReceivedCB hd (cl_conn c) \<rparr>)
         | None \<Rightarrow>
             let c = fold receive (ex_frames x) c;
                 (d, s) = feed h (ex_frames x) (False, s);
                 k = (if ex_end x = SelLost then lose_connection (cl_conn c) else cl_conn c)
             in (select_result (ex_end x) d, s, c\<lparr> cl_conn := UnregisterFrameReceivedCB hd k \<rparr>))"

text \<open>A script that has run out is a gateway that stays silent.\<close>

definition silent :: exchange where
  "silent = \<lparr> ex_write = True, ex_frames = [], ex_end = SelCtx \<rparr>"

definition next_exchange :: "'n client \<Rightarrow> exchange" where
  "next_exchange c = (case cl_script c of [] \<Rightarrow> silent | x # xs \<Rightarrow> x)"

definition APICall ::
    "frame \<Rightarrow> (frame \<Rightarrow> 's \<Rightarrow> bool \<times> 's) \<Rightarrow> 's \<Rightarrow> 'n client \<Rightarrow> api_error option \<times> 's \<times> 'n client" where
  "APICall request h s c =
     ApiEvent_DoAPICall (next_exchange c) request h s (c\<lparr> cl_script := drop 1 (cl_script c) \<rparr>)"

section \<open>Lemmas\<close>

subsection \<open>Handlers\<close>

lemma fst_feed_mono: "d \<Longrightarrow> fst (feed h fs (d, s))"
  by (induction h fs "(d, s)" arbitrary: d s rule: feed.induct) (auto split: prod.splits)

text \<open>A handler without variables that completes on the frames in \<open>P\<close>.\<close>

lemma feed_stateless: "feed (\<lambda>f s. (P f, s)) fs (d, s) = (d \<or> (\<exists>f\<in>set fs. P f), s)"
  by (induction fs arbitrary: d) auto

text \<open>The handler of a type assertion: it keeps the frame and completes.\<close>

definition await :: "(frame \<Rightarrow> 'a option) \<Rightarrow> frame \<Rightarrow> 'a option \<Rightarrow> bool \<times> 'a option" where
  "await sel f s = (case sel f of None \<Rightarrow> (False, s) | Some a \<Rightarrow> (True, Some a))"

lemma fst_feed_await: "fst (feed (await sel) fs (d, s)) \<longleftrightarrow> d \<or> (\<exists>f\<in>set fs. sel f \<noteq> None)"
  by (induction fs arbitrary: d s) (auto simp: await_def split: option.split)

text \<open>The value kept is that of the last frame that matched.\<close>

lemma snd_feed_await:
  "snd (feed (await sel) fs (d, s)) =
     (if \<exists>f\<in>set fs. sel f \<noteq> None then Some (last (List.map_filter sel fs)) else s)"
proof (induction fs arbitrary: d s)
  case (Cons f fs)
  have "(\<exists>g\<in>set fs. sel g \<noteq> None) \<longleftrightarrow> List.map_filter sel fs \<noteq> []"
    by (auto simp: List.map_filter_def filter_empty_conv)
  with Cons show ?case by (auto simp: await_def List.map_filter_simps split: option.split)
qed simp

lemma feed_await_done:
  assumes "fst (feed (await sel) fs (False, None))"
  shows "snd (feed (await sel) fs (False, None)) \<noteq> None"
  using assms by (simp add: fst_feed_await snd_feed_await)

subsection \<open>Exchanges\<close>

text \<open>The request goes out: it can be serialised, the client is connected, the socket takes it.\<close>

definition sendable :: "frame \<Rightarrow> 'n client \<Rightarrow> bool" where
  "sendable request c \<longleftrightarrow> (\<exists>raw. MarshalFrame request = Inr raw) \<and>
     cs_connected (cl_conn c) \<and> cs_tlsConn (cl_conn c) \<noteq> None \<and> ex_write (next_exchange c)"

lemma Conn_Write_ok:
  "fst (Conn_Write ok (Some f) k) = None \<longleftrightarrow>
   (\<exists>raw. MarshalFrame f = Inr raw) \<and> cs_connected k \<and> cs_tlsConn k \<noteq> None \<and> ok"
  by (auto simp: Conn_Write_def split: sum.split option.split bool.split)

lemma Conn_Write_state:
  "cs_callbacks (snd (Conn_Write ok f k)) = cs_callbacks k"
  "cs_nextCBID (snd (Conn_Write ok f k)) = cs_nextCBID k"
  "cs_connected (snd (Conn_Write ok f k)) = cs_connected k"
  "cs_tlsConn (snd (Conn_Write ok f k)) = cs_tlsConn k"
  by (simp_all add: Conn_Write_def split: option.split sum.split bool.split)

text \<open>The connection with the callback of the call registered and the request written.\<close>

definition registered :: "'n client \<Rightarrow> client_cb conn_state \<Rightarrow> bool" where
  "registered c k \<longleftrightarrow>
     cs_callbacks k = cs_callbacks (cl_conn c) @ [(Suc (cs_nextCBID (cl_conn c)), CallHandler)] \<and>
     cs_nextCBID k = Suc (cs_nextCBID (cl_conn c)) \<and>
     cs_connected k = cs_connected (cl_conn c) \<and> cs_tlsConn k = cs_tlsConn (cl_conn c)"

text \<open>The two ways a call can go: the request cannot be sent, or the frames are awaited.\<close>

lemma APICall_cases:
  obtains (unsent) e k where "\<not> sendable request c" "registered c k"
      "APICall request h s c =
         (Some (SendRequest e), s,
          c\<lparr> cl_script := drop 1 (cl_script c),
             cl_conn := UnregisterFrameReceivedCB (Suc (cs_nextCBID (cl_conn c))) k \<rparr>)"
  | (sent) k d c' where "sendable request c" "registered c k"
      "d = feed h (ex_frames (next_exchange c)) (False, s)"
      "c' = fold receive (ex_frames (next_exchange c))
         (c\<lparr> cl_script := drop 1 (cl_script c), cl_conn := k \<rparr>)"
      "APICall request h s c =
         (select_result (ex_end (next_exchange c)) (fst d), snd d,
          c'\<lparr> cl_conn := UnregisterFrameReceivedCB (Suc (cs_nextCBID (cl_conn c)))
               (if ex_end (next_exchange c) = SelLost then lose_connection (cl_conn c')
                else cl_conn c') \<rparr>)"
proof -
  define x where "x = next_exchange c"
  define k0 where "k0 = (cl_conn c)\<lparr> cs_nextCBID := Suc (cs_nextCBID (cl_conn c)),
    cs_callbacks := cs_callbacks (cl_conn c) @ [(Suc (cs_nextCBID (cl_conn c)), CallHandler)] \<rparr>"
  have r: "RegisterFrameReceivedCB CallHandler (cl_conn c) = (Suc (cs_nextCBID (cl_conn c)), k0)"
    by (simp add: RegisterFrameReceivedCB_def k0_def)
  obtain we k where w: "Conn_Write (ex_write x) (Some request) k0 = (we, k)" by fastforce
  have k: "registered c k"
    using Conn_Write_state [of "ex_write x" "Some request" k0] unfolding w
    by (simp add: registered_def k0_def)
  have send: "we = None \<longleftrightarrow> sendable request c"
    using Conn_Write_ok [of "ex_write x" request k0] unfolding w
    by (simp add: sendable_def x_def k0_def)
  have call: "APICall request h s c = (case we of
      Some e \<Rightarrow> (Some (SendRequest e), s, c\<lparr> cl_script := drop 1 (cl_script c),
         cl_conn := UnregisterFrameReceivedCB (Suc (cs_nextCBID (cl_conn c))) k \<rparr>)
    | None \<Rightarrow> (let d = feed h (ex_frames x) (False, s);
           c' = fold receive (ex_frames x) (c\<lparr> cl_script := drop 1 (cl_script c), cl_conn := k \<rparr>)
         in (select_result (ex_end x) (fst d), snd d,
           c'\<lparr> cl_conn := UnregisterFrameReceivedCB (Suc (cs_nextCBID (cl_conn c)))
             (if ex_end x = SelLost then lose_connection (cl_conn c') else cl_conn c') \<rparr>)))"
    by (simp add: APICall_def ApiEvent_DoAPICall_def r w x_def [symmetric] Let_def
        split: option.split prod.split)
  show thesis
  proof (cases we)
    case None
    with send call k show thesis by (auto simp: Let_def x_def intro: sent)
  next
    case (Some e)
    with send call k show thesis by (auto intro: unsent)
  qed
qed

lemma APICall_result:
  "fst (APICall request h s c) = None \<longleftrightarrow>
     sendable request c \<and> ex_end (next_exchange c) = SelDone \<and>
     fst (feed h (ex_frames (next_exchange c)) (False, s))"
  by (cases rule: APICall_cases [of request c h s])
    (auto simp: select_result_def split: call_end.split)

lemma APICall_state:
  assumes "fst (APICall request h s c) = None"
  shows "fst (snd (APICall request h s c)) = snd (feed h (ex_frames (next_exchange c)) (False, s))"
  using assms by (cases rule: APICall_cases [of request c h s]) auto

text \<open>A call never ends without the frame its type assertion waits for.\<close>

lemma APICall_await:
  assumes "APICall request (await sel) None c = (None, s, d)"
  shows "s \<noteq> None"
  using assms APICall_result [of request "await sel" None c] APICall_state [of request "await sel" None c]
    feed_await_done [of sel] by auto

lemma fold_receive_conn: "cl_conn (fold receive fs c) = fold dispatch fs (cl_conn c)"
  by (induction fs arbitrary: c) (simp_all add: receive_def)

lemma fold_dispatch_callbacks [simp]:
  "cs_callbacks (fold dispatch fs k) = cs_callbacks k"
  "cs_nextCBID (fold dispatch fs k) = cs_nextCBID k"
  by (simp_all add: fold_dispatch)

lemma lose_connection_callbacks [simp]:
  "cs_callbacks (lose_connection k) = cs_callbacks k"
  "cs_nextCBID (lose_connection k) = cs_nextCBID k"
  by (simp_all add: lose_connection_def readLoop_exit_def Let_def split: option.split prod.split)

lemma receive_client [simp]:
  "cl_sessions (fold receive fs c) = cl_sessions c"
  "cl_script (fold receive fs c) = cl_script c"
  "cl_password (fold receive fs c) = cl_password c"
  "cl_timeout (fold receive fs c) = cl_timeout c"
  "cl_nodeUpdaters (fold receive fs c) = cl_nodeUpdaters c"
  "cl_updaterCBID (fold receive fs c) = cl_updaterCBID c"
  "cl_updaterSet (fold receive fs c) = cl_updaterSet c"
  by (induction fs arbitrary: c) (simp_all add: receive_def)

lemma APICall_client [simp]:
  "cl_sessions (snd (snd (APICall request h s c))) = cl_sessions c"
  "cl_script (snd (snd (APICall request h s c))) = drop 1 (cl_script c)"
  "cl_nodeUpdaters (snd (snd (APICall request h s c))) = cl_nodeUpdaters c"
  "cl_updaterCBID (snd (snd (APICall request h s c))) = cl_updaterCBID c"
  "cl_updaterSet (snd (snd (APICall request h s c))) = cl_updaterSet c"
  by (cases rule: APICall_cases [of request c h s]; simp)+

lemma remove_new_handle:
  assumes "handles_inv k"
  shows "remove_handle (Suc (cs_nextCBID k)) (cs_callbacks k @ [(Suc (cs_nextCBID k), cb)]) = cs_callbacks k"
proof -
  have "Suc (cs_nextCBID k) \<notin> fst ` set (cs_callbacks k)" using assms by (auto simp: handles_inv_def)
  then have "remove_handle (Suc (cs_nextCBID k)) (cbs @ [(Suc (cs_nextCBID k), cb)]) = cbs"
    if "set cbs \<subseteq> set (cs_callbacks k)" for cbs
    using that by (induction cbs) force+
  then show ?thesis by blast
qed

lemma APICall_callbacks:
  assumes "handles_inv (cl_conn c)"
  shows "cs_callbacks (cl_conn (snd (snd (APICall request h s c)))) = cs_callbacks (cl_conn c)"
  using remove_new_handle [OF assms]
  by (cases rule: APICall_cases [of request c h s])
    (simp_all add: registered_def UnregisterFrameReceivedCB_def fold_receive_conn)

lemma APICall_nextCBID:
  "cs_nextCBID (cl_conn (snd (snd (APICall request h s c)))) = Suc (cs_nextCBID (cl_conn c))"
  by (cases rule: APICall_cases [of request c h s])
    (simp_all add: registered_def UnregisterFrameReceivedCB_def fold_receive_conn)

subsection \<open>The dispatch of the client\<close>

text \<open>Between calls the only callback is the dispatch, exactly while it is marked as installed.\<close>

definition client_inv :: "'n client \<Rightarrow> bool" where
  "client_inv c \<longleftrightarrow>
     cs_callbacks (cl_conn c) =
       (if cl_updaterSet c then [(cl_updaterCBID c, UpdaterDispatch)] else []) \<and>
     (cl_updaterSet c \<longrightarrow> 0 < cl_updaterCBID c \<and> cl_updaterCBID c \<le> cs_nextCBID (cl_conn c))"

lemma client_inv_handles: "client_inv c \<Longrightarrow> handles_inv (cl_conn c)"
  by (auto simp: client_inv_def handles_inv_def split: if_splits)

lemma client_inv_NewClient:
  assumes "\<forall>opt\<in>set opts. opt \<in> range WithPort \<union> range WithTimeout"
  shows "client_inv (NewClient host password opts n)"
proof -
  have "client_inv (opt c) \<and> \<not> cl_updaterSet (opt c)"
    if "opt \<in> range WithPort \<union> range WithTimeout" "client_inv c \<and> \<not> cl_updaterSet c" for opt c
  proof -
    from that(1) obtain x where "opt = WithPort x \<or> opt = WithTimeout x" by auto
    with that(2) show ?thesis
      by (cases "x = 0"; cases "x > 0") (auto simp: client_inv_def WithPort_def WithTimeout_def NewConn_def)
  qed
  then have "client_inv c \<and> \<not> cl_updaterSet c \<Longrightarrow> client_inv (fold (\<lambda>opt. opt) opts c)" for c
    using assms by (induction opts arbitrary: c) auto
  then show ?thesis by (simp add: NewClient_def client_inv_def NewConn_def)
qed

lemma client_inv_APICall: "client_inv c \<Longrightarrow> client_inv (snd (snd (APICall request h s c)))"
  using APICall_callbacks [OF client_inv_handles, of c request h s] APICall_nextCBID [of request h s c]
  by (auto simp: client_inv_def intro: le_SucI)

lemma Conn_Connect_callbacks [simp]:
  "cs_callbacks (snd (Conn_Connect ok k)) = cs_callbacks k"
  "cs_nextCBID (snd (Conn_Connect ok k)) = cs_nextCBID k"
  by (auto simp: Conn_Connect_def Connect_check_def Connect_install_def Connect_failed_def Let_def)

lemma client_inv_Connect:
  assumes "client_inv c"
  shows "client_inv (snd (Client_Connect ok c))"
proof -
  obtain e k where k: "Conn_Connect ok (cl_conn c) = (e, k)" by fastforce
  have "cs_callbacks k = cs_callbacks (cl_conn c)" "cs_nextCBID k = cs_nextCBID (cl_conn c)"
    using Conn_Connect_callbacks [of ok "cl_conn c"] unfolding k by simp_all
  with assms show ?thesis
    by (auto simp: client_inv_def Client_Connect_def installUpdaterDispatch_def Let_def k
        RegisterFrameReceivedCB_def split: option.split)
qed

lemma Conn_Disconnect_callbacks [simp]:
  "cs_callbacks (Conn_Disconnect k) = cs_callbacks k"
  "cs_nextCBID (Conn_Disconnect k) = cs_nextCBID k"
  by (simp_all add: Conn_Disconnect_def Disconnect_begin_def Disconnect_end_def Let_def
      split: option.split)

lemma client_inv_Disconnect: "client_inv c \<Longrightarrow> client_inv (Client_Disconnect c)"
  by (simp add: client_inv_def Client_Disconnect_def Let_def UnregisterFrameReceivedCB_def)

text \<open>The steps of the client: its operations, an inbound frame, and the loss of the connection.\<close>

inductive client_step :: "'n client \<Rightarrow> 'n client \<Rightarrow> bool" where
  connect: "client_step c (snd (Client_Connect ok c))"
| disconnect: "client_step c (Client_Disconnect c)"
| call: "client_step c (snd (snd (APICall request (h :: frame \<Rightarrow> frame list \<Rightarrow> bool \<times> frame list) s c)))"
| inbound: "client_step c (receive f c)"
| lost: "client_step c (c\<lparr> cl_conn := lose_connection (cl_conn c) \<rparr>)"
| updater: "client_step c (RegisterNodeUpdater p c)"
| session: "client_step c (c\<lparr> cl_sessions := fst (NewSessionID (cl_sessions c)) \<rparr>)"

lemma client_inv_step: "client_step c d \<Longrightarrow> client_inv c \<Longrightarrow> client_inv d"
proof (induction rule: client_step.induct)
  case (inbound c f)
  then show ?case by (simp add: client_inv_def receive_def dispatch_def)
next
  case (lost c)
  then show ?case by (simp add: client_inv_def)
next
  case (updater c p)
  then show ?case by (simp add: client_inv_def RegisterNodeUpdater_def split: option.split)
next
  case (session c)
  then show ?case by (simp add: client_inv_def)
qed (simp_all add: client_inv_Connect client_inv_Disconnect client_inv_APICall)

lemma client_inv_reachable: "client_step\<^sup>*\<^sup>* c d \<Longrightarrow> client_inv c \<Longrightarrow> client_inv d"
  by (induction rule: rtranclp_induct) (auto intro: client_inv_step)

section \<open>Properties\<close>



text \<open>
  C28: Across any sequence of connects, disconnects, lost connections, calls and inbound frames,
  the updater dispatch is registered exactly once while it is installed and not at all otherwise,
  so every frame processor sees an inbound frame exactly once.
\<close>

theorem updater_dispatch_once:
  assumes "\<forall>opt\<in>set opts. opt \<in> range WithPort \<union> range WithTimeout"
    "client_step\<^sup>*\<^sup>* (NewClient host password opts n) c"
  shows "map snd (cs_callbacks (cl_conn c)) = (if cl_updaterSet c then [UpdaterDispatch] else []) \<and>
    cl_nodes (receive f c) =
      (if cl_updaterSet c then fold (\<lambda>p. p f) (cl_nodeUpdaters c) (cl_nodes c) else cl_nodes c)"
proof -
  have "client_inv c"
    by (rule client_inv_reachable [OF assms(2) client_inv_NewClient [OF assms(1)]])
  then show ?thesis by (simp add: client_inv_def receive_def run_callback_def)
qed

theorem updater_dispatch_once_witness:
  "let c = snd (Client_Connect True (RegisterNodeUpdater (Some (\<lambda>f n. Suc n)) (NewClient ''klf'' ''pw'' [WithPort 1] 0)))
   in cl_nodes (receive (AuthFrame (FrGetVersionRequest ())) c) = Suc 0"
proof -
  let ?a = "NewClient ''klf'' ''pw'' [WithPort 1] (0::nat)"
  let ?b = "RegisterNodeUpdater (Some (\<lambda>f n. Suc n)) ?a"
  have "client_step\<^sup>*\<^sup>* ?a (snd (Client_Connect True ?b))"
    using client_step.updater [of ?a] client_step.connect [of ?b True]
    by (meson rtranclp.rtrancl_into_rtrancl rtranclp.rtrancl_refl)
  from updater_dispatch_once [OF _ this, of "AuthFrame (FrGetVersionRequest ())"]
  show ?thesis
    by (simp add: Let_def Client_Connect_def Conn_Connect_def Connect_check_def NewClient_def NewConn_def
        WithPort_def RegisterNodeUpdater_def installUpdaterDispatch_def RegisterFrameReceivedCB_def
        Connect_install_def)
qed

end
