(* ===== verification/Api.thy ===== *)
theory Api
  imports Client
begin

text \<open>
  The request/response operations of the client: \<^verbatim>\<open>src/app/klf200/auth_system.go\<close>,
  \<^verbatim>\<open>house_monitor.go\<close>, \<^verbatim>\<open>command.go\<close> and \<^verbatim>\<open>limitation.go\<close>. Each operation builds its request
  frame, runs one exchange with a handler that is a function on the variables the Go closure
  captures, and evaluates them. A nil pointer that would be dereferenced is the error
  \<open>NilDereference\<close>.
\<close>

datatype client_error =
    Api api_error
  | AuthenticationFailed byte
  | LeaveLearnStateFailed byte
  | RenameRejected byte
  | UnableToSendCommand
  | UnableToSetLimitations
  | SceneRejected byte
  | SceneCount int nat
  | NoNotification byte
  | Position_error perror
  | NilDereference

text \<open>\<open>err != nil\<close> ends the operation; else the rest runs on what the handler captured.\<close>

definition finish ::
    "api_error option \<times> 's \<times> 'n client \<Rightarrow> ('s \<Rightarrow> client_error + 'a) \<Rightarrow> (client_error + 'a) \<times> 'n client" where
  "finish r k =
     (case r of (e, s, c) \<Rightarrow> (case e of Some e \<Rightarrow> Inl (Api e) | None \<Rightarrow> k s, c))"

text \<open>Access through a pointer that may be nil.\<close>

definition deref :: "'a option \<Rightarrow> ('a \<Rightarrow> client_error + 'b) \<Rightarrow> client_error + 'b" where
  "deref p k = (case p of None \<Rightarrow> Inl NilDereference | Some x \<Rightarrow> k x)"

section \<open>Authentication and system\<close>

definition Client_PasswordEnter :: "string \<Rightarrow> 'n client \<Rightarrow> (client_error + unit) \<times> 'n client" where
  "Client_PasswordEnter password c =
     finish
       (APICall (AuthFrame (FrPasswordEnterRequest \<lparr> per_Password = password \<rparr>))
         (await (\<lambda>f. case f of AuthFrame (FrPasswordEnterConfirmation g) \<Rightarrow> Some g | _ \<Rightarrow> None)) None c)
       (\<lambda>cfm. deref cfm (\<lambda>f.
          if pec_Status f \<noteq> 0 then Inl (AuthenticationFailed (pec_Status f)) else Inr ()))"

record GatewayVersion =
  gv_SoftwareVersion :: "byte list"
  gv_HardwareVersion :: byte
  gv_ProductGroup :: byte
  gv_ProductType :: byte

definition GatewayVersion_SoftwareVersionString :: "GatewayVersion \<Rightarrow> string" where
  "GatewayVersion_SoftwareVersionString v = strings_Join (map byte_dec (gv_SoftwareVersion v)) ''.''"

definition Client_GetVersion :: "'n client \<Rightarrow> (client_error + GatewayVersion) \<times> 'n client" where
  "Client_GetVersion c =
     finish
       (APICall (AuthFrame (FrGetVersionRequest ()))
         (await (\<lambda>f. case f of AuthFrame (FrGetVersionConfirmation g) \<Rightarrow> Some g | _ \<Rightarrow> None)) None c)
       (\<lambda>cfm. deref cfm (\<lambda>f. Inr
          \<lparr> gv_SoftwareVersion = gvc_SoftwareVersion f, gv_HardwareVersion = gvc_HardwareVersion f,
            gv_ProductGroup = gvc_ProductGroup f, gv_ProductType = gvc_ProductType f \<rparr>))"

record ProtocolVersion =
  pv_MajorVersion :: u16
  pv_MinorVersion :: u16

definition ProtocolVersion_String :: "ProtocolVersion \<Rightarrow> string" where
  "ProtocolVersion_String v =
     Itoa (uint (pv_MajorVersion v)) @ ''.'' @ Itoa (uint (pv_MinorVersion v))"

definition Client_GetProtocolVersion :: "'n client \<Rightarrow> (client_error + ProtocolVersion) \<times> 'n client" where
  "Client_GetProtocolVersion c =
     finish
       (APICall (AuthFrame (FrGetProtocolVersionRequest ()))
         (await (\<lambda>f. case f of AuthFrame (FrGetProtocolVersionConfirmation g) \<Rightarrow> Some g | _ \<Rightarrow> None)) None c)
       (\<lambda>cfm. deref cfm (\<lambda>f. Inr
          \<lparr> pv_MajorVersion = gpc_MajorVersion f, pv_MinorVersion = gpc_MinorVersion f \<rparr>))"

record NetworkSetup =
  ns_IPAddress :: "byte list"
  ns_Netmask :: "byte list"
  ns_Gateway :: "byte list"
  ns_DHCP :: DHCPParameter

definition NetworkSetup_IPAddressString :: "NetworkSetup \<Rightarrow> string" where
  "NetworkSetup_IPAddressString ns = strings_Join (map byte_dec (ns_IPAddress ns)) ''.''"

definition NetworkSetup_NetmaskString :: "NetworkSetup \<Rightarrow> string" where
  "NetworkSetup_NetmaskString ns = strings_Join (map byte_dec (ns_Netmask ns)) ''.''"

definition NetworkSetup_GatewayString :: "NetworkSetup \<Rightarrow> string" where
  "NetworkSetup_GatewayString ns = strings_Join (map byte_dec (ns_Gateway ns)) ''.''"

definition Client_GetNetworkSetup :: "'n client \<Rightarrow> (client_error + NetworkSetup) \<times> 'n client" where
  "Client_GetNetworkSetup c =
     finish
       (APICall (StateFrame (FrGetNetworkSetupRequest ()))
         (await (\<lambda>f. case f of StateFrame (FrGetNetworkSetupConfirmation g) \<Rightarrow> Some g | _ \<Rightarrow> None)) None c)
       (\<lambda>cfm. deref cfm (\<lambda>f. Inr
          \<lparr> ns_IPAddress = nsc_IPAddress f, ns_Netmask = nsc_Netmask f,
            ns_Gateway = nsc_Gateway f, ns_DHCP = nsc_DHCP f \<rparr>))"

definition Client_GetLocalTime :: "'n client \<Rightarrow> (client_error + LocalTime) \<times> 'n client" where
  "Client_GetLocalTime c =
     finish
       (APICall (AuthFrame (FrGetLocalTimeRequest ()))
         (await (\<lambda>f. case f of AuthFrame (FrGetLocalTimeConfirmation g) \<Rightarrow> Some g | _ \<Rightarrow> None)) None c)
       (\<lambda>cfm. deref cfm (\<lambda>f. Inr (glc_Time f)))"

text \<open>The Unix time of the zero value of \<open>time.Time\<close> (the start of the year 1).\<close>

definition zeroTimeUnix :: int where "zeroTimeUnix = -62135596800"

definition Client_SetUTC :: "int \<Rightarrow> int \<Rightarrow> 'n client \<Rightarrow> (client_error + unit) \<times> 'n client" where
  "Client_SetUTC now t c =
     (let t = (if t = zeroTimeUnix then now else t)
      in finish
        (APICall (AuthFrame (FrSetUTCRequest \<lparr> sur_Timestamp = word_of_int t \<rparr>))
          (\<lambda>f s. (case f of AuthFrame (FrSetUTCConfirmation g) \<Rightarrow> True | _ \<Rightarrow> False, s)) () c)
        (\<lambda>s. Inr ()))"

record GatewayStateInfo =
  gs_State :: GatewayState
  gs_SubState :: GatewaySubState

definition Client_GetState :: "'n client \<Rightarrow> (client_error + GatewayStateInfo) \<times> 'n client" where
  "Client_GetState c =
     finish
       (APICall (StateFrame (FrGetStateRequest ()))
         (await (\<lambda>f. case f of StateFrame (FrGetStateConfirmation g) \<Rightarrow> Some g | _ \<Rightarrow> None)) None c)
       (\<lambda>cfm. deref cfm (\<lambda>f. Inr
          \<lparr> gs_State = gsc_GatewayState f, gs_SubState = gsc_GatewaySubState f \<rparr>))"

definition Client_LeaveLearnState :: "'n client \<Rightarrow> (client_error + unit) \<times> 'n client" where
  "Client_LeaveLearnState c =
     finish
       (APICall (AuthFrame (FrLeaveLearnStateRequest ()))
         (await (\<lambda>f. case f of AuthFrame (FrLeaveLearnStateConfirmation g) \<Rightarrow> Some g | _ \<Rightarrow> None)) None c)
       (\<lambda>cfm. deref cfm (\<lambda>f.
          if llc_Status f \<noteq> LeaveLearnStateConfirmationStatusSuccessful
          then Inl (LeaveLearnStateFailed (llc_Status f)) else Inr ()))"

definition Client_Reboot :: "'n client \<Rightarrow> (client_error + unit) \<times> 'n client" where
  "Client_Reboot c =
     finish
       (APICall (AuthFrame (FrGatewayRebootRequest ()))
         (\<lambda>f s. (case f of AuthFrame (FrGatewayRebootConfirmation g) \<Rightarrow> True | _ \<Rightarrow> False, s)) () c)
       (\<lambda>s. Inr ())"

definition Client_FactoryDefault :: "'n client \<Rightarrow> (client_error + unit) \<times> 'n client" where
  "Client_FactoryDefault c =
     finish
       (APICall (AuthFrame (FrGatewayFactoryDefaultRequest ()))
         (\<lambda>f s. (case f of AuthFrame (FrGatewayFactoryDefaultConfirmation g) \<Rightarrow> True | _ \<Rightarrow> False, s)) () c)
       (\<lambda>s. Inr ())"

definition Client_SetNodeName :: "byte \<Rightarrow> string \<Rightarrow> 'n client \<Rightarrow> (client_error + unit) \<times> 'n client" where
  "Client_SetNodeName nodeID nm c =
     finish
       (APICall (NodesFrame (FrSetNodeNameRequest \<lparr> snr_NodeID = nodeID, snr_Name = nm \<rparr>))
         (await (\<lambda>f. case f of NodesFrame (FrSetNodeNameConfirmation g) \<Rightarrow> Some g | _ \<Rightarrow> None)) None c)
       (\<lambda>cfm. deref cfm (\<lambda>f.
          if snc_Status f \<noteq> SetNodeNameConfirmationStatusOK
          then Inl (RenameRejected (snc_Status f)) else Inr ()))"

section \<open>House status monitor\<close>

definition HouseStatusMonitorEnable :: "'n client \<Rightarrow> (client_error + unit) \<times> 'n client" where
  "HouseStatusMonitorEnable c =
     finish
       (APICall (LimitationFrame (FrHouseStatusMonitorEnableRequest ()))
         (\<lambda>f s. (case f of LimitationFrame (FrHouseStatusMonitorEnableConfirmation g) \<Rightarrow> True | _ \<Rightarrow> False, s)) () c)
       (\<lambda>s. Inr ())"

definition HouseStatusMonitorDisable :: "'n client \<Rightarrow> (client_error + unit) \<times> 'n client" where
  "HouseStatusMonitorDisable c =
     finish
       (APICall (LimitationFrame (FrHouseStatusMonitorDisableRequest ()))
         (\<lambda>f s. (case f of LimitationFrame (FrHouseStatusMonitorDisableConfirmation g) \<Rightarrow> True | _ \<Rightarrow> False, s)) () c)
       (\<lambda>s. Inr ())"

section \<open>Commands\<close>

definition new_session :: "'n client \<Rightarrow> u16 \<times> 'n client" where
  "new_session c = (let (g, sid) = NewSessionID (cl_sessions c) in (sid, c\<lparr> cl_sessions := g \<rparr>))"

text \<open>The loop over \<open>fp1\<close> to \<open>fp16\<close>; \<open>functionalParameters\<close> is a map.\<close>

definition add_functional_parameter ::
    "(nat \<rightharpoonup> Parameter) \<Rightarrow> nat \<Rightarrow> FrameCommandSendRequest \<Rightarrow> FrameCommandSendRequest" where
  "add_functional_parameter fps i req =
     (case fps i of
        None \<Rightarrow> req
      | Some fp \<Rightarrow>
          let req = req\<lparr> csr_FunctionalParameter := (csr_FunctionalParameter req)[i - 1 := Raw fp] \<rparr>
          in if i < 9 then req\<lparr> csr_FPI1 := csr_FPI1 req + push_bit (8 - i) 1 \<rparr>
             else req\<lparr> csr_FPI2 := csr_FPI2 req + push_bit (16 - i) 1 \<rparr>)"

definition command_request ::
    "u16 \<Rightarrow> byte \<Rightarrow> Parameter \<Rightarrow> (nat \<rightharpoonup> Parameter) \<Rightarrow> FrameCommandSendRequest" where
  "command_request sid nodeID parameter fps =
     (let req = \<lparr> csr_SessionID = sid, csr_Originator = OriginatorUser,
            csr_Priority = PriorityUserLevel2, csr_ActiveParameter = 0, csr_FPI1 = 0, csr_FPI2 = 0,
            csr_Parameter = parameter, csr_FunctionalParameter = replicate 16 (0, 0),
            csr_NodeIDs = [] \<rparr>;
          req = fold (add_functional_parameter fps) [1..<17] req
      in req\<lparr> csr_NodeIDs := [nodeID] \<rparr>)"

text \<open>The handler captures \<open>success\<close>.\<close>

definition command_handler :: "u16 \<Rightarrow> bool \<Rightarrow> frame \<Rightarrow> bool \<Rightarrow> bool \<times> bool" where
  "command_handler sid waitForCompletion frame success =
     (case frame of
        CommandsFrame (FrCommandSendConfirmation f) \<Rightarrow>
          if csc_SessionID f \<noteq> sid then (False, success)
          else (\<not> waitForCompletion,
                if csc_Status f = CommandSendConfirmationStatusAccepted then True else success)
      | CommandsFrame (FrCommandRemainingTimeNotification f) \<Rightarrow> (False, success)
      | CommandsFrame (FrCommandRunStatusNotification f) \<Rightarrow> (False, success)
      | CommandsFrame (FrSessionFinishedNotification f) \<Rightarrow>
          if sfn_SessionID f \<noteq> sid then (False, success) else (True, success)
      | _ \<Rightarrow> (False, success))"

definition Client_CommandSend ::
    "byte \<Rightarrow> Parameter \<Rightarrow> (nat \<rightharpoonup> Parameter) \<Rightarrow> bool \<Rightarrow> 'n client \<Rightarrow> (client_error + unit) \<times> 'n client" where
  "Client_CommandSend nodeID parameter functionalParameters waitForCompletion c =
     (let (sid, c) = new_session c;
          req = command_request sid nodeID parameter functionalParameters
      in finish
        (APICall (CommandsFrame (FrCommandSendRequest req)) (command_handler sid waitForCompletion) False c)
        (\<lambda>success. if \<not> success then Inl UnableToSendCommand else Inr ()))"

record StatusResult =
  sr_NodeID :: byte
  sr_TargetPosition :: Parameter
  sr_CurrentPosition :: Parameter
  sr_Notification :: FrameStatusRequestNotification

definition status_request :: "u16 \<Rightarrow> byte \<Rightarrow> FrameStatusRequestRequest" where
  "status_request sid nodeID =
     \<lparr> srr_SessionID = sid, srr_NodeIDs = [nodeID], srr_StatusType = StatusTypeRequestCurrentPosition,
       srr_FPI1 = 254, srr_FPI2 = 0 \<rparr>"

definition status_handler :: "u16 \<Rightarrow> frame \<Rightarrow> StatusResult option \<Rightarrow> bool \<times> StatusResult option" where
  "status_handler sid frame result =
     (case frame of
        CommandsFrame (FrStatusRequestConfirmation f) \<Rightarrow> (False, result)
      | CommandsFrame (FrStatusRequestNotification f) \<Rightarrow>
          if srn_SessionID f \<noteq> sid then (False, result)
          else (True, Some \<lparr> sr_NodeID = srn_NodeID f, sr_TargetPosition = srn_TargetPosition f,
                 sr_CurrentPosition = srn_CurrentPosition f, sr_Notification = f \<rparr>)
      | _ \<Rightarrow> (False, result))"

definition Client_StatusRequest :: "byte \<Rightarrow> 'n client \<Rightarrow> (client_error + StatusResult) \<times> 'n client" where
  "Client_StatusRequest nodeID c =
     (let (sid, c) = new_session c
      in finish
        (APICall (CommandsFrame (FrStatusRequestRequest (status_request sid nodeID)))
          (status_handler sid) None c)
        (\<lambda>result. case result of None \<Rightarrow> Inl UnableToSendCommand | Some r \<Rightarrow> Inr r))"

section \<open>Limitations\<close>

record LimitationResult =
  lr_MinValueRaw :: u16
  lr_MaxValueRaw :: u16
  lr_Originator :: Originator
  lr_LimitTime :: byte

text \<open>\<open>int(float64(high)/2 + 0.5)\<close>, exact as in \<^const>\<open>positionToPercent\<close>.\<close>

definition rawToPercent :: "u16 \<Rightarrow> int" where
  "rawToPercent raw = (let high = hi_byte raw in \<lfloor>(of_int (uint high) / 2 + 1 / 2 :: rat)\<rfloor>)"

definition MinValuePercent :: "LimitationResult \<Rightarrow> int" where
  "MinValuePercent r = rawToPercent (lr_MinValueRaw r)"

definition MaxValuePercent :: "LimitationResult \<Rightarrow> int" where
  "MaxValuePercent r = rawToPercent (lr_MaxValueRaw r)"

definition limitation_request :: "u16 \<Rightarrow> byte \<Rightarrow> LimitationType \<Rightarrow> FrameGetLimitationStatusRequest" where
  "limitation_request sid nodeID limitationType =
     \<lparr> glr_SessionID = sid, glr_NodeIDs = [nodeID], glr_ParameterID = 0,
       glr_LimitationsType = limitationType \<rparr>"

definition limitation_handler ::
    "u16 \<Rightarrow> frame \<Rightarrow> LimitationResult option \<Rightarrow> bool \<times> LimitationResult option" where
  "limitation_handler sid frame result =
     (case frame of
        LimitationFrame (FrGetLimitationStatusConfirmation f) \<Rightarrow> (False, result)
      | LimitationFrame (FrLimitationStatusNotification f) \<Rightarrow>
          if lsn_SessionID f \<noteq> sid then (False, result)
          else (True, Some \<lparr> lr_MinValueRaw = lsn_MinValue f, lr_MaxValueRaw = lsn_MaxValue f,
                 lr_Originator = lsn_LimitOriginator f, lr_LimitTime = lsn_LimitTime f \<rparr>)
      | _ \<Rightarrow> (False, result))"

definition Client_GetLimitation ::
    "byte \<Rightarrow> LimitationType \<Rightarrow> 'n client \<Rightarrow> (client_error + LimitationResult) \<times> 'n client" where
  "Client_GetLimitation nodeID limitationType c =
     (let (sid, c) = new_session c
      in finish
        (APICall (LimitationFrame (FrGetLimitationStatusRequest (limitation_request sid nodeID limitationType)))
          (limitation_handler sid) None c)
        (\<lambda>result. case result of None \<Rightarrow> Inl UnableToSendCommand | Some r \<Rightarrow> Inr r))"

definition set_limitation_request ::
    "u16 \<Rightarrow> byte \<Rightarrow> Position \<Rightarrow> Position \<Rightarrow> LimitationTime \<Rightarrow> FrameSetLimitationRequest" where
  "set_limitation_request sid nodeID limitationValueMin limitationValueMax limitationTime =
     \<lparr> slr_SessionID = sid, slr_Originator = OriginatorUser, slr_Priority = PriorityUserLevel2,
       slr_NodeIDs = [nodeID], slr_ParameterID = 0,
       slr_LimitationValueMin = Raw (pos_Parameter limitationValueMin),
       slr_LimitationValueMax = Raw (pos_Parameter limitationValueMax),
       slr_LimitationTime = limitationTime \<rparr>"

definition set_limitation_handler :: "frame \<Rightarrow> bool \<Rightarrow> bool \<times> bool" where
  "set_limitation_handler frame success =
     (case frame of
        LimitationFrame (FrSetLimitationConfirmation cfm) \<Rightarrow>
          (True, if slm_Status cfm \<noteq> SetLimitationRequestStatusRejected then True else success)
      | _ \<Rightarrow> (False, success))"

definition Client_SetLimitation ::
    "byte \<Rightarrow> Position \<Rightarrow> Position \<Rightarrow> LimitationTime \<Rightarrow> 'n client \<Rightarrow> (client_error + unit) \<times> 'n client" where
  "Client_SetLimitation nodeID limitationValueMin limitationValueMax limitationTime c =
     (let (sid, c) = new_session c;
          req = set_limitation_request sid nodeID limitationValueMin limitationValueMax limitationTime
      in finish
        (APICall (LimitationFrame (FrSetLimitationRequest req)) set_limitation_handler False c)
        (\<lambda>success. if \<not> success then Inl UnableToSetLimitations else Inr ()))"

section \<open>Lemmas\<close>

lemma finish_Inr:
  "fst (finish r k) = Inr y \<longleftrightarrow> fst r = None \<and> k (fst (snd r)) = Inr y"
  by (auto simp: finish_def split: prod.split option.split)

lemma snd_finish [simp]: "snd (finish r k) = snd (snd r)"
  by (simp add: finish_def split: prod.split)

lemma APICall_ok:
  "fst (APICall request h s c) = None \<and> P (fst (snd (APICall request h s c))) \<longleftrightarrow>
     sendable request c \<and> ex_end (next_exchange c) = SelDone \<and>
     fst (feed h (ex_frames (next_exchange c)) (False, s)) \<and>
     P (snd (feed h (ex_frames (next_exchange c)) (False, s)))"
  using APICall_state [of request h s c] by (auto simp: APICall_result)

lemma finish_APICall_Inr:
  "fst (finish (APICall request h s c) k) = Inr y \<longleftrightarrow>
     sendable request c \<and> ex_end (next_exchange c) = SelDone \<and>
     fst (feed h (ex_frames (next_exchange c)) (False, s)) \<and>
     k (snd (feed h (ex_frames (next_exchange c)) (False, s))) = Inr y"
  unfolding finish_Inr APICall_ok [where P = "\<lambda>s. k s = Inr y"] ..

lemma finish_deref_nil:
  assumes "\<And>x. k x \<noteq> Inl NilDereference"
  shows "fst (finish (APICall request (await sel) None c) (\<lambda>p. deref p k)) \<noteq> Inl NilDereference"
proof (cases "APICall request (await sel) None c")
  case (fields e s d)
  show ?thesis
  proof (cases e)
    case None
    with fields APICall_await [of request sel c] obtain x where "s = Some x" by auto
    with fields None assms show ?thesis by (simp add: finish_def deref_def)
  qed (simp add: finish_def fields)
qed

lemma new_session_simps [simp]:
  "new_session c = (snd (NewSessionID (cl_sessions c)), c\<lparr> cl_sessions := fst (NewSessionID (cl_sessions c)) \<rparr>)"
  by (simp add: new_session_def split: prod.split)

lemma sendable_session [simp]: "sendable request (c\<lparr> cl_sessions := g \<rparr>) = sendable request c"
  "next_exchange (c\<lparr> cl_sessions := g \<rparr>) = next_exchange c"
  by (simp_all add: sendable_def next_exchange_def)

subsection \<open>Commands\<close>

text \<open>The two frames the command handler looks at, for the session \<open>sid\<close>.\<close>

definition accepts :: "u16 \<Rightarrow> frame \<Rightarrow> bool" where
  "accepts sid frame \<longleftrightarrow> frame = CommandsFrame (FrCommandSendConfirmation
     \<lparr> csc_SessionID = sid, csc_Status = CommandSendConfirmationStatusAccepted \<rparr>)"

definition completes :: "u16 \<Rightarrow> frame \<Rightarrow> bool" where
  "completes sid frame \<longleftrightarrow> frame = CommandsFrame (FrSessionFinishedNotification \<lparr> sfn_SessionID = sid \<rparr>)"

definition confirms :: "u16 \<Rightarrow> frame \<Rightarrow> bool" where
  "confirms sid frame \<longleftrightarrow>
     (\<exists>st. frame = CommandsFrame (FrCommandSendConfirmation \<lparr> csc_SessionID = sid, csc_Status = st \<rparr>))"

lemma command_handler_eq:
  "command_handler sid w f s = (completes sid f \<or> \<not> w \<and> confirms sid f, s \<or> accepts sid f)"
proof -
  have "command_handler sid w (CommandsFrame g) s =
      (completes sid (CommandsFrame g) \<or> \<not> w \<and> confirms sid (CommandsFrame g), s \<or> accepts sid (CommandsFrame g))" for g
    by (cases g; clarsimp simp: command_handler_def completes_def confirms_def accepts_def)
      (metis FrameCommandSendConfirmation.surjective FrameCommandSendConfirmation.select_convs(1,2)
        FrameSessionFinishedNotification.surjective FrameSessionFinishedNotification.select_convs(1) old.unit.exhaust)+
  then show ?thesis
    by (cases f) (simp_all add: command_handler_def completes_def confirms_def accepts_def)
qed

lemma feed_command:
  "feed (command_handler sid w) fs (d, s) =
     (d \<or> (\<exists>f\<in>set fs. completes sid f \<or> \<not> w \<and> confirms sid f), s \<or> (\<exists>f\<in>set fs. accepts sid f))"
  by (induction fs arbitrary: d s) (auto simp: command_handler_eq)

text \<open>The client can send: it is connected and the socket takes the next write.\<close>

definition online :: "'n client \<Rightarrow> bool" where
  "online c \<longleftrightarrow> cs_connected (cl_conn c) \<and> cs_tlsConn (cl_conn c) \<noteq> None \<and> ex_write (next_exchange c)"

lemma sendable_online:
  "sendable request c \<longleftrightarrow> online c \<and> (\<exists>payload. frame_MarshalPayload request = Inr payload)"
proof -
  have "(\<exists>raw. MarshalFrame request = Inr raw) \<longleftrightarrow> (\<exists>payload. frame_MarshalPayload request = Inr payload)"
    by (cases "frame_MarshalPayload request") (simp_all add: MarshalFrame_def marshal_frame_def)
  then show ?thesis by (auto simp: sendable_def online_def)
qed

lemma add_functional_parameter_simps [simp]:
  "csr_SessionID (add_functional_parameter fps i req) = csr_SessionID req"
  "csr_NodeIDs (add_functional_parameter fps i req) = csr_NodeIDs req"
  "csr_Parameter (add_functional_parameter fps i req) = csr_Parameter req"
  "length (csr_FunctionalParameter (add_functional_parameter fps i req)) = length (csr_FunctionalParameter req)"
  by (simp_all add: add_functional_parameter_def Let_def split: option.split)

lemma sendable_command:
  "sendable (CommandsFrame (FrCommandSendRequest (command_request sid nodeID p fps))) c = online c"
  by (simp add: sendable_online FrameCommandSendRequest_MarshalPayload_def command_request_def Let_def)

text \<open>A connected client with a script of exchanges.\<close>

definition connected_client :: "exchange list \<Rightarrow> 'n \<Rightarrow> 'n client" where
  "connected_client xs n =
     (snd (Client_Connect True (NewClient ''klf'' ''velux123'' [] n)))\<lparr> cl_script := xs \<rparr>"

lemma connected_client_simps [simp]:
  "online (connected_client (x # xs) n) = ex_write x"
  "next_exchange (connected_client (x # xs) n) = x"
  "cl_nodes (connected_client xs n) = n"
  "cl_script (connected_client xs n) = xs"
  "cl_sessions (connected_client xs n) = 0"
  "cl_nodeUpdaters (connected_client xs n) = []"
  by (simp_all add: connected_client_def online_def next_exchange_def Client_Connect_def Conn_Connect_def
      Connect_check_def NewClient_def NewConn_def Connect_install_def installUpdaterDispatch_def
      RegisterFrameReceivedCB_def NewSessionIDGenerator_def Let_def)

text \<open>The indicator bits after the parameters below \<open>k\<close>: bit \<open>8 - i\<close> (or \<open>16 - i\<close>) for each one.\<close>

lemma byte_add_bit:
  fixes w :: byte
  assumes "\<not> bit w j" "j < 8"
  shows "bit (w + push_bit j 1) n \<longleftrightarrow> bit w n \<or> n = j"
proof -
  have "w AND push_bit j 1 = 0"
    using assms by (auto intro!: bit_eqI simp: bit_simps)
  then show ?thesis
    using assms by (auto simp: disjunctive_add_eq_or bit_simps)
qed

definition indicators :: "(nat \<rightharpoonup> Parameter) \<Rightarrow> nat \<Rightarrow> FrameCommandSendRequest \<Rightarrow> bool" where
  "indicators fps k req \<longleftrightarrow>
     (\<forall>n. bit (csr_FPI1 req) n \<longleftrightarrow> n < 8 \<and> 8 - n < k \<and> fps (8 - n) \<noteq> None) \<and>
     (\<forall>n. bit (csr_FPI2 req) n \<longleftrightarrow> n < 8 \<and> 16 - n < k \<and> fps (16 - n) \<noteq> None) \<and>
     csr_FunctionalParameter req =
       map (\<lambda>i. if i < k then case fps i of None \<Rightarrow> (0, 0) | Some p \<Rightarrow> Raw p else (0, 0)) [1..<17]"

lemma indicators_step:
  assumes "indicators fps i req" "1 \<le> i" "i \<le> 16"
  shows "indicators fps (Suc i) (add_functional_parameter fps i req)"
proof (cases "fps i")
  case None
  then have "(n < Suc i \<and> fps n \<noteq> None) \<longleftrightarrow> (n < i \<and> fps n \<noteq> None)" for n
    by (auto simp: less_Suc_eq)
  moreover have "(if n < Suc i then case fps n of None \<Rightarrow> (0, 0) | Some p \<Rightarrow> Raw p else (0, 0)) =
      (if n < i then case fps n of None \<Rightarrow> (0, 0) | Some p \<Rightarrow> Raw p else (0, 0))" for n
    using None by (auto simp: less_Suc_eq)
  ultimately show ?thesis
    using assms(1) None by (simp add: indicators_def add_functional_parameter_def)
next
  case (Some p)
  let ?v = "\<lambda>k n. if n < k then case fps n of None \<Rightarrow> (0, 0) | Some p \<Rightarrow> Raw p else (0, 0)"
  have slots: "(map (?v i) [Suc 0..<17])[i - Suc 0 := Raw p] = map (?v (Suc i)) [Suc 0..<17]"
    using assms(2,3) Some
    by (intro nth_equalityI) (auto simp: nth_list_update less_Suc_eq)
  have req: "bit (csr_FPI1 req) n \<longleftrightarrow> n < 8 \<and> 8 - n < i \<and> fps (8 - n) \<noteq> None"
    "bit (csr_FPI2 req) n \<longleftrightarrow> n < 8 \<and> 16 - n < i \<and> fps (16 - n) \<noteq> None"
    "csr_FunctionalParameter req = map (?v i) [1..<17]" for n
    using assms(1) unfolding indicators_def by blast+
  show ?thesis
  proof (cases "i < 9")
    case True
    have "\<not> bit (csr_FPI1 req) (8 - i)" using True assms(2) by (simp add: req(1))
    then have "bit (csr_FPI1 req + push_bit (8 - i) 1) n \<longleftrightarrow> n < 8 \<and> 8 - n < Suc i \<and> fps (8 - n) \<noteq> None" for n
      using True assms(2) Some by (subst byte_add_bit) (auto simp: req(1) less_Suc_eq)
    moreover have "(n < 8 \<and> 16 - n < Suc i \<and> fps (16 - n) \<noteq> None) \<longleftrightarrow> (n < 8 \<and> 16 - n < i \<and> fps (16 - n) \<noteq> None)" for n
      using True by auto
    ultimately show ?thesis
      using True Some by (simp add: indicators_def add_functional_parameter_def Let_def req slots)
  next
    case False
    have "\<not> bit (csr_FPI2 req) (16 - i)" using False assms(3) by (simp add: req(2))
    then have "bit (csr_FPI2 req + push_bit (16 - i) 1) n \<longleftrightarrow> n < 8 \<and> 16 - n < Suc i \<and> fps (16 - n) \<noteq> None" for n
      using False assms(3) Some by (subst byte_add_bit) (auto simp: req(2) less_Suc_eq)
    moreover have "(n < 8 \<and> 8 - n < Suc i \<and> fps (8 - n) \<noteq> None) \<longleftrightarrow> (n < 8 \<and> 8 - n < i \<and> fps (8 - n) \<noteq> None)" for n
      using False by auto
    ultimately show ?thesis
      using False Some by (simp add: indicators_def add_functional_parameter_def Let_def req slots)
  qed
qed

lemma indicators_fold:
  assumes "indicators fps 1 req" "k \<le> 16"
  shows "indicators fps (Suc k) (fold (add_functional_parameter fps) [1..<Suc k] req)"
  using assms(2)
proof (induction k)
  case (Suc k)
  then show ?case using indicators_step [of fps "Suc k"] by (simp add: upt_rec [of 1 "Suc (Suc k)"])
qed (use assms(1) in simp)

lemma command_request_indicators: "indicators fps 17 (command_request sid nodeID p fps)"
proof -
  let ?req = "\<lparr> csr_SessionID = sid, csr_Originator = OriginatorUser,
            csr_Priority = PriorityUserLevel2, csr_ActiveParameter = 0, csr_FPI1 = 0, csr_FPI2 = 0,
            csr_Parameter = p, csr_FunctionalParameter = replicate 16 (0, 0), csr_NodeIDs = [] \<rparr>"
  have "indicators fps 1 ?req"
    by (auto simp: indicators_def intro!: nth_equalityI)
  from indicators_fold [OF this, of 16] have "indicators fps 17 (fold (add_functional_parameter fps) [1..<17] ?req)"
    by simp
  then show ?thesis by (simp add: command_request_def Let_def indicators_def)
qed

lemma fold_functional_parameter_SessionID:
  "csr_SessionID (fold (add_functional_parameter fps) is req) = csr_SessionID req"
  by (induction "is" arbitrary: req) simp_all

lemma command_request_SessionID [simp]:
  "csr_SessionID (command_request sid nodeID p fps) = sid"
  "csr_NodeIDs (command_request sid nodeID p fps) = [nodeID]"
  by (simp_all add: command_request_def Let_def fold_functional_parameter_SessionID)

lemma command_request_wire:
  assumes "dom fps = dom fps'" "fps 1 = fps' 1" "fps 2 = fps' 2" "fps 3 = fps' 3"
  shows "MarshalFrame (CommandsFrame (FrCommandSendRequest (command_request sid nodeID p fps))) =
    MarshalFrame (CommandsFrame (FrCommandSendRequest (command_request sid nodeID p fps')))"
proof -
  let ?r = "command_request sid nodeID p"
  note i = command_request_indicators [of _ sid nodeID p, unfolded indicators_def]
  have d: "fps n \<noteq> None \<longleftrightarrow> fps' n \<noteq> None" for n using assms(1) by (auto simp: set_eq_iff dom_def)
  have f: "csr_FunctionalParameter (?r fps) ! j = csr_FunctionalParameter (?r fps') ! j" if "j < 3" for j
  proof -
    from that have "j = 0 \<or> j = 1 \<or> j = 2" by auto
    then show ?thesis using i assms(2-4) by (auto simp: upt_rec numeral_eq_Suc)
  qed
  have "csr_FPI1 (?r fps) = csr_FPI1 (?r fps')" "csr_FPI2 (?r fps) = csr_FPI2 (?r fps')"
    using i d by (auto intro!: bit_eqI)
  moreover have "csr_Originator (?r fps) = csr_Originator (?r fps')"
    "csr_Priority (?r fps) = csr_Priority (?r fps')"
    "csr_ActiveParameter (?r fps) = csr_ActiveParameter (?r fps')"
    "csr_Parameter (?r fps) = csr_Parameter (?r fps')"
  proof -
    have keep: "csr_Originator (fold (add_functional_parameter g) is req) = csr_Originator req \<and>
      csr_Priority (fold (add_functional_parameter g) is req) = csr_Priority req \<and>
      csr_ActiveParameter (fold (add_functional_parameter g) is req) = csr_ActiveParameter req \<and>
      csr_Parameter (fold (add_functional_parameter g) is req) = csr_Parameter req" for g "is" req
      by (induction "is" arbitrary: req) (simp_all add: add_functional_parameter_def Let_def split: option.split)
    show "csr_Originator (?r fps) = csr_Originator (?r fps')"
      "csr_Priority (?r fps) = csr_Priority (?r fps')"
      "csr_ActiveParameter (?r fps) = csr_ActiveParameter (?r fps')"
      "csr_Parameter (?r fps) = csr_Parameter (?r fps')"
      by (simp_all add: command_request_def Let_def keep)
  qed
  ultimately show ?thesis
    using f [of 0] f [of 1] f [of 2]
    by (simp add: MarshalFrame_def marshal_frame_def FrameCommandSendRequest_MarshalPayload_def)
qed

subsection \<open>Status and limitation\<close>

definition status_of :: "u16 \<Rightarrow> frame \<Rightarrow> StatusResult option" where
  "status_of sid frame =
     (case frame of
        CommandsFrame (FrStatusRequestNotification f) \<Rightarrow>
          if srn_SessionID f = sid
          then Some \<lparr> sr_NodeID = srn_NodeID f, sr_TargetPosition = srn_TargetPosition f,
                 sr_CurrentPosition = srn_CurrentPosition f, sr_Notification = f \<rparr>
          else None
      | _ \<Rightarrow> None)"

lemma status_handler_await: "status_handler sid = await (status_of sid)"
  by (intro ext) (simp add: status_handler_def await_def status_of_def split: frame.split commands_frame.split)

definition limitation_of :: "u16 \<Rightarrow> frame \<Rightarrow> LimitationResult option" where
  "limitation_of sid frame =
     (case frame of
        LimitationFrame (FrLimitationStatusNotification f) \<Rightarrow>
          if lsn_SessionID f = sid
          then Some \<lparr> lr_MinValueRaw = lsn_MinValue f, lr_MaxValueRaw = lsn_MaxValue f,
                 lr_Originator = lsn_LimitOriginator f, lr_LimitTime = lsn_LimitTime f \<rparr>
          else None
      | _ \<Rightarrow> None)"

lemma limitation_handler_await: "limitation_handler sid = await (limitation_of sid)"
  by (intro ext) (simp add: limitation_handler_def await_def limitation_of_def split: frame.split limitation_frame.split)

text \<open>A call with a type assertion gives the value of the last matching frame.\<close>

lemma APICall_await_result:
  "fst (APICall request (await sel) None c) = None \<and> fst (snd (APICall request (await sel) None c)) = Some x \<longleftrightarrow>
     sendable request c \<and> ex_end (next_exchange c) = SelDone \<and>
     List.map_filter sel (ex_frames (next_exchange c)) \<noteq> [] \<and>
     x = last (List.map_filter sel (ex_frames (next_exchange c)))"
proof -
  have "List.map_filter sel fs \<noteq> [] \<longleftrightarrow> (\<exists>f\<in>set fs. sel f \<noteq> None)" for fs
    by (auto simp: List.map_filter_def filter_empty_conv)
  then show ?thesis
    unfolding APICall_ok [where P = "\<lambda>s. s = Some x"] by (auto simp: fst_feed_await snd_feed_await)
qed

definition set_limitation_accepts :: "frame \<Rightarrow> bool" where
  "set_limitation_accepts frame \<longleftrightarrow>
     (case frame of
        LimitationFrame (FrSetLimitationConfirmation cfm) \<Rightarrow> slm_Status cfm \<noteq> SetLimitationRequestStatusRejected
      | _ \<Rightarrow> False)"

lemma set_limitation_accepts_iff:
  "set_limitation_accepts f \<longleftrightarrow>
     (\<exists>sid st. st \<noteq> SetLimitationRequestStatusRejected \<and>
        f = LimitationFrame (FrSetLimitationConfirmation \<lparr> slm_SessionID = sid, slm_Status = st \<rparr>))"
proof -
  have "set_limitation_accepts (LimitationFrame g) \<longleftrightarrow>
      (\<exists>sid st. st \<noteq> SetLimitationRequestStatusRejected \<and>
        g = FrSetLimitationConfirmation \<lparr> slm_SessionID = sid, slm_Status = st \<rparr>)" for g
  proof (cases g)
    case (FrSetLimitationConfirmation x)
    then show ?thesis by (cases x) (simp add: set_limitation_accepts_def)
  qed (simp_all add: set_limitation_accepts_def)
  then show ?thesis by (cases f) (simp_all add: set_limitation_accepts_def)
qed

lemma feed_set_limitation:
  "feed set_limitation_handler fs (d, s) =
     (d \<or> (\<exists>f\<in>set fs. \<exists>g. f = LimitationFrame (FrSetLimitationConfirmation g)),
      s \<or> (\<exists>f\<in>set fs. set_limitation_accepts f))"
proof (induction fs arbitrary: d s)
  case (Cons f fs)
  have "set_limitation_handler f s =
      (\<exists>g. f = LimitationFrame (FrSetLimitationConfirmation g), s \<or> set_limitation_accepts f)"
    by (simp add: set_limitation_handler_def set_limitation_accepts_def split: frame.split limitation_frame.split)
  with Cons show ?case by auto
qed simp

subsection \<open>The bytes written\<close>

lemma fold_receive_sent: "cs_sent (cl_conn (fold receive fs c)) = cs_sent (cl_conn c)"
  by (simp add: fold_receive_conn fold_dispatch)

lemma lose_connection_sent: "cs_sent (lose_connection k) = cs_sent k"
  by (simp add: lose_connection_def readLoop_exit_def Let_def split: option.split prod.split)

text \<open>A call of a client that can send writes exactly the packet of its request.\<close>

lemma APICall_sent:
  assumes "online c" "MarshalFrame request = Inr raw"
  shows "cs_sent (cl_conn (snd (snd (APICall request h s c)))) =
    cs_sent (cl_conn c) @ [(the (cs_tlsConn (cl_conn c)), SlipPack raw)]"
proof -
  obtain n where n: "cs_connected (cl_conn c)" "cs_tlsConn (cl_conn c) = Some n" "ex_write (next_exchange c)"
    using assms(1) by (auto simp: online_def)
  then show ?thesis
    using assms(2)
    by (simp add: APICall_def ApiEvent_DoAPICall_def RegisterFrameReceivedCB_def Conn_Write_def Let_def
        UnregisterFrameReceivedCB_def fold_receive_sent lose_connection_sent split: prod.split)
qed

lemma CommandSend_sent:
  assumes "online c"
    "MarshalFrame (CommandsFrame (FrCommandSendRequest
       (command_request (snd (NewSessionID (cl_sessions c))) nodeID p fps))) = Inr raw"
  shows "cs_sent (cl_conn (snd (Client_CommandSend nodeID p fps w c))) =
    cs_sent (cl_conn c) @ [(the (cs_tlsConn (cl_conn c)), SlipPack raw)]"
proof -
  have "online (c\<lparr> cl_sessions := g \<rparr>)" for g using assms(1) by (simp add: online_def)
  from APICall_sent [OF this assms(2)] show ?thesis by (simp add: Client_CommandSend_def Let_def)
qed

section \<open>Properties\<close>

text \<open>
  C6: A command succeeds exactly if it was sent, the wait ended by the handler, and the gateway
  accepted it: a confirmation with status accepted and the session id of this very command was
  received and, when the caller waits for completion, also the session-finished notification of
  this session. Frames of other sessions, remaining times and run states do not count.
\<close>

theorem CommandSend_succeeds_iff:
  "fst (Client_CommandSend nodeID p fps w c) = Inr () \<longleftrightarrow>
     online c \<and> ex_end (next_exchange c) = SelDone \<and>
     (let sid = snd (NewSessionID (cl_sessions c)); fs = ex_frames (next_exchange c)
      in (\<exists>f\<in>set fs. accepts sid f) \<and> (\<exists>f\<in>set fs. if w then completes sid f else confirms sid f))"
proof -
  have [simp]: "online (c\<lparr> cl_sessions := g \<rparr>) = online c" for g by (simp add: online_def)
  have a: "confirms sid f" if "accepts sid f" for sid f
    using that by (auto simp: accepts_def confirms_def)
  show ?thesis
    by (cases w) (auto simp: Client_CommandSend_def finish_APICall_Inr sendable_command
        feed_command Let_def dest: a)
qed

text \<open>
  The indicator bytes of a command have bit \<open>8 - i\<close> set exactly for the functional parameters
  1 to 8 that are given, and bit \<open>16 - i\<close> for 9 to 16; the slots hold their raw values and zero
  for the others.
\<close>

theorem command_request_parameters:
  "{i\<in>{1..8}. bit (csr_FPI1 (command_request sid nodeID p fps)) (8 - i)} = dom fps \<inter> {1..8} \<and>
   {i\<in>{9..16}. bit (csr_FPI2 (command_request sid nodeID p fps)) (16 - i)} = dom fps \<inter> {9..16} \<and>
   csr_FunctionalParameter (command_request sid nodeID p fps) =
     map (\<lambda>i. case fps i of None \<Rightarrow> (0, 0) | Some q \<Rightarrow> Raw q) [1..<17]"
  using command_request_indicators [of fps sid nodeID p] unfolding indicators_def by auto

text \<open>
  Only the functional parameters 1 to 3 reach the gateway: whatever value is given for one of
  4 to 16, the bytes of the frame are the same, with the indicator bit set and the value zero.
\<close>

theorem command_parameters_lost:
  assumes "3 < i"
  shows "MarshalFrame (CommandsFrame (FrCommandSendRequest (command_request sid nodeID p (fps(i \<mapsto> a))))) =
    MarshalFrame (CommandsFrame (FrCommandSendRequest (command_request sid nodeID p (fps(i \<mapsto> b)))))"
  by (rule command_request_wire) (use assms in auto)

theorem command_parameters_lost_witness:
  "MarshalFrame (CommandsFrame (FrCommandSendRequest
     (command_request 1 2 (pos_Parameter NewTargetPosition) [4 \<mapsto> pos_Parameter NewCurrentPosition]))) =
   MarshalFrame (CommandsFrame (FrCommandSendRequest
     (command_request 1 2 (pos_Parameter NewTargetPosition) [4 \<mapsto> pos_Parameter NewTargetPosition])))"
  by (rule command_parameters_lost) simp

text \<open>
  A status request returns the last notification of its own session that was received before
  the call ended, and fails if there was none.
\<close>

theorem StatusRequest_result:
  "fst (Client_StatusRequest nodeID c) = Inr r \<longleftrightarrow>
     online c \<and> ex_end (next_exchange c) = SelDone \<and>
     (let rs = List.map_filter (status_of (snd (NewSessionID (cl_sessions c)))) (ex_frames (next_exchange c))
      in rs \<noteq> [] \<and> r = last rs)"
proof -
  let ?sid = "snd (NewSessionID (cl_sessions c))"
  let ?c = "c\<lparr> cl_sessions := fst (NewSessionID (cl_sessions c)) \<rparr>"
  let ?req = "CommandsFrame (FrStatusRequestRequest (status_request ?sid nodeID))"
  have "sendable ?req ?c = online c"
    by (simp add: sendable_online FrameStatusRequestRequest_MarshalPayload_def status_request_def online_def next_exchange_def)
  moreover have "fst (Client_StatusRequest nodeID c) = Inr r \<longleftrightarrow>
      fst (APICall ?req (await (status_of ?sid)) None ?c) = None \<and>
      fst (snd (APICall ?req (await (status_of ?sid)) None ?c)) = Some r"
    by (auto simp: Client_StatusRequest_def status_handler_await finish_Inr split: option.splits)
  ultimately show ?thesis by (simp add: APICall_await_result Let_def)
qed

text \<open>
  C36: Setting a limitation succeeds exactly if the request was sent, the wait ended by the handler
  and some confirmation that is not a rejection was received, whatever session it belongs to.
\<close>

theorem SetLimitation_succeeds_iff:
  "fst (Client_SetLimitation nodeID mn mx t c) = Inr () \<longleftrightarrow>
     online c \<and> ex_end (next_exchange c) = SelDone \<and>
     (\<exists>sid st. st \<noteq> SetLimitationRequestStatusRejected \<and>
        LimitationFrame (FrSetLimitationConfirmation \<lparr> slm_SessionID = sid, slm_Status = st \<rparr>) \<in>
          set (ex_frames (next_exchange c)))"
proof -
  have acc: "(\<exists>f\<in>set fs. set_limitation_accepts f) \<longleftrightarrow>
      (\<exists>sid st. st \<noteq> SetLimitationRequestStatusRejected \<and>
        LimitationFrame (FrSetLimitationConfirmation \<lparr> slm_SessionID = sid, slm_Status = st \<rparr>) \<in> set fs)" for fs
    unfolding set_limitation_accepts_iff by blast
  have fin: "(\<exists>f\<in>set fs. \<exists>g. f = LimitationFrame (FrSetLimitationConfirmation g))"
    if "\<exists>f\<in>set fs. set_limitation_accepts f" for fs
    using that unfolding set_limitation_accepts_iff by blast
  have "sendable (LimitationFrame (FrSetLimitationRequest
      (set_limitation_request (snd (NewSessionID (cl_sessions c))) nodeID mn mx t))) c = online c"
    by (simp add: sendable_online FrameSetLimitationRequest_MarshalPayload_def set_limitation_request_def)
  with fin [of "ex_frames (next_exchange c)"] show ?thesis
    unfolding acc [symmetric]
    by (auto simp: Client_SetLimitation_def finish_APICall_Inr feed_set_limitation Let_def)
qed

text \<open>
  No operation dereferences a nil confirmation: when the wait ends without an error, the
  handler has stored the frame that ended it.
\<close>

theorem no_nil_confirmation:
  "fst (Client_PasswordEnter password c) \<noteq> Inl NilDereference \<and>
   fst (Client_GetVersion c) \<noteq> Inl NilDereference \<and>
   fst (Client_GetProtocolVersion c) \<noteq> Inl NilDereference \<and>
   fst (Client_GetNetworkSetup c) \<noteq> Inl NilDereference \<and>
   fst (Client_GetLocalTime c) \<noteq> Inl NilDereference \<and>
   fst (Client_GetState c) \<noteq> Inl NilDereference \<and>
   fst (Client_LeaveLearnState c) \<noteq> Inl NilDereference \<and>
   fst (Client_SetNodeName nodeID nm c) \<noteq> Inl NilDereference"
  unfolding Client_PasswordEnter_def Client_GetVersion_def Client_GetProtocolVersion_def
    Client_GetNetworkSetup_def Client_GetLocalTime_def Client_GetState_def
    Client_LeaveLearnState_def Client_SetNodeName_def
  by (intro conjI finish_deref_nil) simp_all

text \<open>
  The gateway is entered exactly if the password has between 1 and 32 bytes, could be sent,
  and the last password confirmation received before the call ended has status 0.
\<close>

theorem PasswordEnter_succeeds_iff:
  "fst (Client_PasswordEnter password c) = Inr () \<longleftrightarrow>
     password \<noteq> '''' \<and> length password \<le> 32 \<and> online c \<and> ex_end (next_exchange c) = SelDone \<and>
     (let sts = List.map_filter
           (\<lambda>f. case f of AuthFrame (FrPasswordEnterConfirmation g) \<Rightarrow> Some (pec_Status g) | _ \<Rightarrow> None)
           (ex_frames (next_exchange c))
      in sts \<noteq> [] \<and> last sts = 0)"
proof -
  let ?sel = "\<lambda>f. case f of AuthFrame (FrPasswordEnterConfirmation g) \<Rightarrow> Some g | _ \<Rightarrow> None"
  let ?req = "AuthFrame (FrPasswordEnterRequest \<lparr> per_Password = password \<rparr>)"
  have "(\<lambda>f. case f of AuthFrame (FrPasswordEnterConfirmation g) \<Rightarrow> Some (pec_Status g) | _ \<Rightarrow> None) =
      (\<lambda>f. map_option pec_Status (?sel f))"
    by (intro ext) (simp split: frame.split auth_frame.split)
  then have mf: "List.map_filter
      (\<lambda>f. case f of AuthFrame (FrPasswordEnterConfirmation g) \<Rightarrow> Some (pec_Status g) | _ \<Rightarrow> None) fs =
      map pec_Status (List.map_filter ?sel fs)" for fs
    by (simp add: List.map_filter_def comp_def option.map_sel cong: filter_cong map_cong)
  have "sendable ?req c \<longleftrightarrow> password \<noteq> '''' \<and> length password \<le> 32 \<and> online c"
    by (auto simp: sendable_online FramePasswordEnterRequest_MarshalPayload_def stringToBytes_def Let_def)
  moreover have "fst (Client_PasswordEnter password c) = Inr () \<longleftrightarrow>
      (\<exists>g. (fst (APICall ?req (await ?sel) None c) = None \<and>
         fst (snd (APICall ?req (await ?sel) None c)) = Some g) \<and> pec_Status g = 0)"
    by (auto simp: Client_PasswordEnter_def finish_Inr deref_def split: option.splits if_splits)
  ultimately show ?thesis
    by (auto simp: APICall_await_result mf Let_def last_map)
qed

end
