(* ===== verification/Nodes.thy ===== *)
theory Nodes
  imports Api Store
begin

text \<open>
  The device model of \<^verbatim>\<open>src/app/klf200\<close>: \<^verbatim>\<open>node.go\<close>, \<^verbatim>\<open>nodes.go\<close>, \<^verbatim>\<open>node_registry.go\<close>,
  \<^verbatim>\<open>node_helper.go\<close>, the state of the devices of \<^verbatim>\<open>opening_device.go\<close> and \<^verbatim>\<open>other_devices.go\<close>, and
  the live updates of \<^verbatim>\<open>node_updater.go\<close>.

  Nodes are shared through pointers: the collection, the covers of the bridge and the callers hold
  the same object. So there is an explicit store of nodes, a pointer is a number, and a setter
  changes the store. A registered callback is a number; \<open>nw_events\<close> records every call of one with
  the node it was given, at that moment.
\<close>

section \<open>Devices\<close>

record BaseNode =
  bn_nodeID :: u16
  bn_name :: string
  bn_serialNumber :: "byte list"
  bn_deviceUpdatedCBs :: "nat list"

definition NewBaseNode :: "u16 \<Rightarrow> string \<Rightarrow> byte list \<Rightarrow> BaseNode" where
  "NewBaseNode nodeID nm serialNumber =
     \<lparr> bn_nodeID = nodeID, bn_name = nm, bn_serialNumber = serialNumber, bn_deviceUpdatedCBs = [] \<rparr>"

record OpeningDevice =
  od_BaseNode :: BaseNode
  od_position :: Position
  od_targetPosition :: Position
  od_limitationMin :: Position
  od_limitationMax :: Position
  od_limitationTime :: byte
  od_limitationOriginator :: Originator

definition newOpeningDevice :: "BaseNode \<Rightarrow> Parameter \<Rightarrow> Parameter \<Rightarrow> OpeningDevice" where
  "newOpeningDevice base positionParameter targetParameter =
     \<lparr> od_BaseNode = base,
       od_position = ignore_err zeroPosition (NewPosition (Some positionParameter) None None),
       od_targetPosition = ignore_err zeroPosition (NewPosition (Some targetParameter) None None),
       od_limitationMin = NewIgnorePosition, od_limitationMax = NewIgnorePosition,
       od_limitationTime = 255, od_limitationOriginator = OriginatorUser \<rparr>"

definition SetPositionState :: "Position \<Rightarrow> OpeningDevice \<Rightarrow> OpeningDevice" where
  "SetPositionState pos d = d\<lparr> od_position := pos \<rparr>"

definition SetTargetState :: "Position \<Rightarrow> OpeningDevice \<Rightarrow> OpeningDevice" where
  "SetTargetState target d = d\<lparr> od_targetPosition := target \<rparr>"

definition SetLimitationState ::
    "Position \<Rightarrow> Position \<Rightarrow> Originator \<Rightarrow> byte \<Rightarrow> OpeningDevice \<Rightarrow> OpeningDevice" where
  "SetLimitationState mn mx originator limitTime d =
     d\<lparr> od_limitationMin := mn, od_limitationMax := mx,
        od_limitationOriginator := originator, od_limitationTime := limitTime \<rparr>"

text \<open>The fields that \<open>Blind\<close> adds to the opening device it embeds.\<close>

record Blind =
  bl_OpeningDevice :: OpeningDevice
  bl_orientation :: Position
  bl_targetOrientation :: Position
  bl_openOrientationTarget :: int
  bl_closeOrientationTarget :: int

definition SetOrientationState :: "Position \<Rightarrow> Blind \<Rightarrow> Blind" where
  "SetOrientationState orient b = b\<lparr> bl_orientation := orient \<rparr>"

text \<open>
  The concrete types behind the interface \<open>Node\<close>. \<open>LighteningDevice\<close> itself is never built.
\<close>

datatype Node =
    Window OpeningDevice bool
  | RollerShutter OpeningDevice
  | Awning OpeningDevice
  | GarageDoor OpeningDevice
  | Gate OpeningDevice
  | Blade OpeningDevice
  | BlindN Blind
  | OnOffSwitch BaseNode SwitchParameter
  | Light BaseNode Intensity
  | genericNode BaseNode

text \<open>Field access through the embedded structs.\<close>

fun node_opening :: "Node \<Rightarrow> OpeningDevice option" where
  "node_opening (Window d r) = Some d"
| "node_opening (RollerShutter d) = Some d"
| "node_opening (Awning d) = Some d"
| "node_opening (GarageDoor d) = Some d"
| "node_opening (Gate d) = Some d"
| "node_opening (Blade d) = Some d"
| "node_opening (BlindN b) = Some (bl_OpeningDevice b)"
| "node_opening (OnOffSwitch b p) = None"
| "node_opening (Light b i) = None"
| "node_opening (genericNode b) = None"

fun on_opening :: "(OpeningDevice \<Rightarrow> OpeningDevice) \<Rightarrow> Node \<Rightarrow> Node" where
  "on_opening g (Window d r) = Window (g d) r"
| "on_opening g (RollerShutter d) = RollerShutter (g d)"
| "on_opening g (Awning d) = Awning (g d)"
| "on_opening g (GarageDoor d) = GarageDoor (g d)"
| "on_opening g (Gate d) = Gate (g d)"
| "on_opening g (Blade d) = Blade (g d)"
| "on_opening g (BlindN b) = BlindN (b\<lparr> bl_OpeningDevice := g (bl_OpeningDevice b) \<rparr>)"
| "on_opening g (OnOffSwitch b p) = OnOffSwitch b p"
| "on_opening g (Light b i) = Light b i"
| "on_opening g (genericNode b) = genericNode b"

fun on_blind :: "(Blind \<Rightarrow> Blind) \<Rightarrow> Node \<Rightarrow> Node" where
  "on_blind g (BlindN b) = BlindN (g b)"
| "on_blind g n = n"

fun node_base :: "Node \<Rightarrow> BaseNode" where
  "node_base (Window d r) = od_BaseNode d"
| "node_base (RollerShutter d) = od_BaseNode d"
| "node_base (Awning d) = od_BaseNode d"
| "node_base (GarageDoor d) = od_BaseNode d"
| "node_base (Gate d) = od_BaseNode d"
| "node_base (Blade d) = od_BaseNode d"
| "node_base (BlindN b) = od_BaseNode (bl_OpeningDevice b)"
| "node_base (OnOffSwitch b p) = b"
| "node_base (Light b i) = b"
| "node_base (genericNode b) = b"

fun on_base :: "(BaseNode \<Rightarrow> BaseNode) \<Rightarrow> Node \<Rightarrow> Node" where
  "on_base g (OnOffSwitch b p) = OnOffSwitch (g b) p"
| "on_base g (Light b i) = Light (g b) i"
| "on_base g (genericNode b) = genericNode (g b)"
| "on_base g n = on_opening (\<lambda>d. d\<lparr> od_BaseNode := g (od_BaseNode d) \<rparr>) n"

definition Node_NodeID :: "Node \<Rightarrow> u16" where "Node_NodeID n = bn_nodeID (node_base n)"
definition Node_Name :: "Node \<Rightarrow> string" where "Node_Name n = bn_name (node_base n)"
definition Node_SerialNumber :: "Node \<Rightarrow> byte list" where
  "Node_SerialNumber n = bn_serialNumber (node_base n)"

text \<open>\<open>SetIntensityState\<close> of a light.\<close>

fun SetIntensityState :: "Position \<Rightarrow> Node \<Rightarrow> Node" where
  "SetIntensityState intensity (Light b i) = Light b \<lparr> int_Parameter = pos_Parameter intensity \<rparr>"
| "SetIntensityState intensity n = n"

section \<open>Construction\<close>

record NodeInfo =
  nf_NodeType :: NodeTypeWithSubtype
  nf_CurrentPosition :: Parameter
  nf_Target :: Parameter

type_synonym NodeConstructor = "BaseNode \<Rightarrow> NodeInfo \<Rightarrow> Node"

type_synonym node_registry = "NodeTypeWithSubtype \<rightharpoonup> NodeConstructor"

definition RegisterNodeType ::
    "NodeTypeWithSubtype \<Rightarrow> NodeConstructor \<Rightarrow> node_registry \<Rightarrow> perror + node_registry" where
  "RegisterNodeType typeCode constructor nodeTypeRegistry =
     (if nodeTypeRegistry typeCode \<noteq> None then Inl (DuplicateRegistration typeCode)
      else Inr (nodeTypeRegistry(typeCode \<mapsto> constructor)))"

fun RegisterNodeTypes ::
    "(NodeTypeWithSubtype \<times> NodeConstructor) list \<Rightarrow> node_registry \<Rightarrow> perror + node_registry" where
  "RegisterNodeTypes [] r = Inr r"
| "RegisterNodeTypes ((t, k) # rest) r = res_bind (RegisterNodeType t k r) (RegisterNodeTypes rest)"

definition opening_of :: "BaseNode \<Rightarrow> NodeInfo \<Rightarrow> OpeningDevice" where
  "opening_of base info = newOpeningDevice base (nf_CurrentPosition info) (nf_Target info)"

definition windowCtor :: "bool \<Rightarrow> NodeConstructor" where
  "windowCtor rainSensor base info = Window (opening_of base info) rainSensor"

definition rollerCtor :: NodeConstructor where
  "rollerCtor base info = RollerShutter (opening_of base info)"

text \<open>\<open>protocol.Parameter{}\<close>: the raw bytes are zero.\<close>

definition interiorCtor :: NodeConstructor where
  "interiorCtor base info = RollerShutter (newOpeningDevice base zeroParameter zeroParameter)"

definition awningCtor :: NodeConstructor where
  "awningCtor base info = Awning (opening_of base info)"

definition garageCtor :: NodeConstructor where
  "garageCtor base info = GarageDoor (opening_of base info)"

definition gateCtor :: NodeConstructor where
  "gateCtor base info = Gate (opening_of base info)"

definition bladeCtor :: NodeConstructor where
  "bladeCtor base info = Blade (opening_of base info)"

text \<open>\<open>Inl\<close> is the panic; the only caller passes 0, for which there is none.\<close>

definition mustPositionPercent :: "int \<Rightarrow> perror + Position" where
  "mustPositionPercent percent = NewPosition None None (Some percent)"

lemma mustPositionPercent_0 [simp]: "mustPositionPercent 0 = Inr \<lparr> pos_Parameter = \<lparr> Raw = (0, 0) \<rparr> \<rparr>"
  by (simp add: mustPositionPercent_def NewPosition_def Position_SetPositionPercent_def positionFromPercent_def)

definition blindCtor :: NodeConstructor where
  "blindCtor base info =
     (let b = \<lparr> bl_OpeningDevice = opening_of base info,
                bl_orientation = projr (mustPositionPercent 0),
                bl_targetOrientation = NewTargetPosition,
                bl_openOrientationTarget = 50,
                bl_closeOrientationTarget = 100 \<rparr>
      in BlindN (b\<lparr> bl_OpeningDevice := (bl_OpeningDevice b)\<lparr> od_targetPosition := NewTargetPosition \<rparr> \<rparr>))"

definition switchCtor :: NodeConstructor where
  "switchCtor base info = OnOffSwitch base (NewSwitchParameter None)"

definition lightCtor :: NodeConstructor where
  "lightCtor base info = Light base (ignore_err zeroIntensity (NewIntensity None None None))"

text \<open>The registrations of the \<open>init\<close> functions of the two device files.\<close>

definition opening_registrations :: "(NodeTypeWithSubtype \<times> NodeConstructor) list" where
  "opening_registrations =
     [(NodeTypeWithSubtypeWindowOpener, windowCtor False),
      (NodeTypeWithSubtypeWindowOpenerWithRainSensor, windowCtor True),
      (NodeTypeWithSubtypeRollerShutter, rollerCtor),
      (NodeTypeWithSubtypeDualRollerShutter, rollerCtor),
      (NodeTypeWithSubtypeSwingingShutters, rollerCtor),
      (NodeTypeWithSubtypeInteriorVenetianBlind, interiorCtor),
      (NodeTypeWithSubtypeVerticalInteriorBlinds, interiorCtor),
      (NodeTypeWithSubtypeVerticalExteriorAwning, awningCtor),
      (NodeTypeWithSubtypeHorizontalAwning, awningCtor),
      (NodeTypeWithSubtypeGarageDoorOpener, garageCtor),
      (NodeTypeWithSubtypeLinarAngularPositionOfGarageDoor, garageCtor),
      (NodeTypeWithSubtypeGateOpener, gateCtor),
      (NodeTypeWithSubtypeGateOpenerAngularPosition, gateCtor),
      (NodeTypeWithSubtypeBladeOpener, bladeCtor),
      (NodeTypeWithSubtypeExteriorVenetianBlind, blindCtor),
      (NodeTypeWithSubtypeAdjustableSlutsRollingShutter, blindCtor),
      (NodeTypeWithSubtypeLouverBlind, blindCtor)]"

definition other_registrations :: "(NodeTypeWithSubtype \<times> NodeConstructor) list" where
  "other_registrations =
     [(NodeTypeWithSubtypeOnOffSwitch, switchCtor),
      (NodeTypeWithSubtypeLight, lightCtor),
      (NodeTypeWithSubtypeLightOnOff, switchCtor)]"

definition nodeTypeRegistry :: node_registry where
  "nodeTypeRegistry =
     (case RegisterNodeTypes (opening_registrations @ other_registrations) Map.empty of
        Inl e \<Rightarrow> Map.empty | Inr r \<Rightarrow> r)"

definition lookupNodeType :: "NodeTypeWithSubtype \<Rightarrow> NodeConstructor option" where
  "lookupNodeType typeCode = nodeTypeRegistry typeCode"

definition NodeFromInfo :: "u16 \<Rightarrow> string \<Rightarrow> byte list \<Rightarrow> NodeInfo \<Rightarrow> Node" where
  "NodeFromInfo nodeID nm serial info =
     (let base = NewBaseNode nodeID nm serial
      in case lookupNodeType (nf_NodeType info) of
           Some constructor \<Rightarrow> constructor base info
         | None \<Rightarrow> genericNode base)"

definition convert_info :: "nodeInfo \<Rightarrow> Node" where
  "convert_info n =
     NodeFromInfo (ucast (ni_NodeID n)) (ni_Name n) (ni_SerialNumber n)
       \<lparr> nf_NodeType = ni_NodeType n, nf_CurrentPosition = ni_CurrentPosition n, nf_Target = ni_Target n \<rparr>"

definition ConvertAllNodesFrame :: "FrameGetAllNodesInformationNotification \<Rightarrow> Node" where
  "ConvertAllNodesFrame frame = convert_info (gan_nodeInfo frame)"

definition ConvertNodeFrame :: "FrameGetNodeInformationNotification \<Rightarrow> Node" where
  "ConvertNodeFrame frame = convert_info (gnn_nodeInfo frame)"

section \<open>The collection\<close>

record node_world =
  nw_heap :: "nat \<Rightarrow> Node"
  nw_next :: nat
  nw_nodes :: "nat list"
  nw_events :: "(nat \<times> Node) list"

text \<open>\<open>h\<close> is the store the pointers refer to.\<close>

fun Nodes_Add :: "(nat \<Rightarrow> Node) \<Rightarrow> nat \<Rightarrow> nat list \<Rightarrow> nat list" where
  "Nodes_Add h node [] = [node]"
| "Nodes_Add h node (existing # ns) =
     (if Node_NodeID (h existing) = Node_NodeID (h node) then node # ns
      else existing # Nodes_Add h node ns)"

fun Nodes_ByID :: "(nat \<Rightarrow> Node) \<Rightarrow> u16 \<Rightarrow> nat list \<Rightarrow> nat option" where
  "Nodes_ByID h nodeID [] = None"
| "Nodes_ByID h nodeID (node # ns) =
     (if Node_NodeID (h node) = nodeID then Some node else Nodes_ByID h nodeID ns)"

fun Nodes_ByName :: "(nat \<Rightarrow> Node) \<Rightarrow> string \<Rightarrow> nat list \<Rightarrow> nat option" where
  "Nodes_ByName h nm [] = None"
| "Nodes_ByName h nm (node # ns) =
     (if Node_Name (h node) = nm then Some node else Nodes_ByName h nm ns)"

definition Nodes_Contains :: "(nat \<Rightarrow> Node) \<Rightarrow> u16 \<Rightarrow> nat list \<Rightarrow> bool" where
  "Nodes_Contains h nodeID ns = (Nodes_ByID h nodeID ns \<noteq> None)"

definition Nodes_Clear :: "nat list \<Rightarrow> nat list" where "Nodes_Clear ns = []"
definition Nodes_Len :: "nat list \<Rightarrow> nat" where "Nodes_Len ns = length ns"
definition Nodes_All :: "nat list \<Rightarrow> nat list" where "Nodes_All ns = ns"

definition NewNodes :: node_world where
  "NewNodes = \<lparr> nw_heap = (\<lambda>_. genericNode (NewBaseNode 0 '''' [])), nw_next = 0, nw_nodes = [], nw_events = [] \<rparr>"

text \<open>Allocation, assignment through a pointer, and the two observer operations.\<close>

definition new_node :: "Node \<Rightarrow> 'z node_world_scheme \<Rightarrow> nat \<times> 'z node_world_scheme" where
  "new_node n w = (nw_next w, w\<lparr> nw_heap := (nw_heap w)(nw_next w := n), nw_next := nw_next w + 1 \<rparr>)"

definition assign :: "nat \<Rightarrow> (Node \<Rightarrow> Node) \<Rightarrow> 'z node_world_scheme \<Rightarrow> 'z node_world_scheme" where
  "assign node g w = w\<lparr> nw_heap := (nw_heap w)(node := g (nw_heap w node)) \<rparr>"

definition RegisterDeviceUpdatedCB :: "nat \<Rightarrow> nat \<Rightarrow> 'z node_world_scheme \<Rightarrow> 'z node_world_scheme" where
  "RegisterDeviceUpdatedCB node cb w =
     assign node (on_base (\<lambda>b. b\<lparr> bn_deviceUpdatedCBs := bn_deviceUpdatedCBs b @ [cb] \<rparr>)) w"

definition AfterUpdate :: "nat \<Rightarrow> 'z node_world_scheme \<Rightarrow> 'z node_world_scheme" where
  "AfterUpdate node w =
     (let n = nw_heap w node
      in w\<lparr> nw_events := nw_events w @ map (\<lambda>cb. (cb, n)) (bn_deviceUpdatedCBs (node_base n)) \<rparr>)"

section \<open>Live updates\<close>

definition reported :: "Parameter \<Rightarrow> Position" where
  "reported p = ignore_err zeroPosition (NewPosition (Some p) None None)"

text \<open>\<open>position.Known() && position.Position() <= protocol.ParameterMax\<close>\<close>

definition in_range :: "Position \<Rightarrow> bool" where
  "in_range p \<longleftrightarrow> Position_Known p \<and> Position_Position p \<le> ParameterMax"

text \<open>
  \<open>NewPosition\<close> of a parameter has no error, so the early return after it is not reached. The
  type assertions are tried in the order blind, opening device, lightening device.
\<close>

definition processPositionFrame ::
    "u16 \<Rightarrow> Parameter \<Rightarrow> Parameter \<Rightarrow> 'z node_world_scheme \<Rightarrow> 'z node_world_scheme" where
  "processPositionFrame nodeID currentPosition target w =
     (case Nodes_ByID (nw_heap w) nodeID (nw_nodes w) of
        None \<Rightarrow> w
      | Some node \<Rightarrow>
          let position = reported currentPosition in
          (case nw_heap w node of
             BlindN b \<Rightarrow>
               AfterUpdate node
                 (if in_range position then assign node (on_opening (SetPositionState position)) w else w)
           | Light b i \<Rightarrow>
               AfterUpdate node
                 (if in_range position then assign node (SetIntensityState position) w else w)
           | OnOffSwitch b p \<Rightarrow> w
           | genericNode b \<Rightarrow> w
           | _ \<Rightarrow>
               let w = (if in_range position then assign node (on_opening (SetPositionState position)) w else w);
                   targetPos = reported target;
                   w = (if in_range targetPos then assign node (on_opening (SetTargetState targetPos)) w else w)
               in AfterUpdate node w))"

definition processStatusRequestNotification ::
    "FrameStatusRequestNotification \<Rightarrow> 'z node_world_scheme \<Rightarrow> 'z node_world_scheme" where
  "processStatusRequestNotification f w =
     (case Nodes_ByID (nw_heap w) (ucast (srn_NodeID f)) (nw_nodes w) of
        None \<Rightarrow> w
      | Some node \<Rightarrow>
          (case nw_heap w node of
             BlindN b \<Rightarrow>
               (case (map_of (srn_ParameterData f) NodeParameterMP, map_of (srn_ParameterData f) NodeParameterFP3) of
                  (Some mpRaw, Some fp3Raw) \<Rightarrow>
                    let position = reported mpRaw;
                        w = (if in_range position then assign node (on_opening (SetPositionState position)) w else w);
                        orientation = reported fp3Raw;
                        w = (if in_range orientation then assign node (on_blind (SetOrientationState orientation)) w else w)
                    in AfterUpdate node w
                | _ \<Rightarrow> w)
           | _ \<Rightarrow> w))"

text \<open>Every opening device has the method of \<open>LimitedOpeningDeviceNode\<close>.\<close>

definition processLimitationStatusNotification ::
    "FrameLimitationStatusNotification \<Rightarrow> 'z node_world_scheme \<Rightarrow> 'z node_world_scheme" where
  "processLimitationStatusNotification f w =
     (case Nodes_ByID (nw_heap w) (ucast (lsn_NodeID f)) (nw_nodes w) of
        None \<Rightarrow> w
      | Some node \<Rightarrow>
          if node_opening (nw_heap w node) = None then w
          else
            let minPos = reported \<lparr> Raw = (hi_byte (lsn_MinValue f), lo_byte (lsn_MinValue f)) \<rparr>;
                maxPos = reported \<lparr> Raw = (hi_byte (lsn_MaxValue f), lo_byte (lsn_MaxValue f)) \<rparr>
            in AfterUpdate node
                 (assign node (on_opening
                    (SetLimitationState minPos maxPos (lsn_LimitOriginator f) (lsn_LimitTime f))) w))"

definition processNodeStateFrame ::
    "FrameNodeStatePositionChangedNotification \<Rightarrow> 'z node_world_scheme \<Rightarrow> 'z node_world_scheme" where
  "processNodeStateFrame f w =
     processPositionFrame (ucast (psc_NodeID f)) (psc_CurrentPosition f) (psc_Target f) w"

definition processFrame :: "frame \<Rightarrow> 'z node_world_scheme \<Rightarrow> 'z node_world_scheme" where
  "processFrame frame w =
     (case frame of
        NodesFrame (FrGetAllNodesInformationNotification f) \<Rightarrow>
          processPositionFrame (ucast (ni_NodeID (gan_nodeInfo f)))
            (ni_CurrentPosition (gan_nodeInfo f)) (ni_Target (gan_nodeInfo f)) w
      | CommandsFrame (FrNodeStatePositionChangedNotification f) \<Rightarrow> processNodeStateFrame f w
      | CommandsFrame (FrStatusRequestNotification f) \<Rightarrow> processStatusRequestNotification f w
      | LimitationFrame (FrLimitationStatusNotification f) \<Rightarrow> processLimitationStatusNotification f w
      | _ \<Rightarrow> w)"

section \<open>Lemmas\<close>

interpretation node_types: init_registry RegisterNodeType RegisterNodeTypes
  by unfold_locales (auto simp: RegisterNodeType_def res_bind_def split: sum.split)

lemma registrations_distinct: "distinct (map fst (opening_registrations @ other_registrations))"
  by (simp add: opening_registrations_def other_registrations_def go_consts)

lemma nodeTypeRegistry_map_of: "nodeTypeRegistry = map_of (opening_registrations @ other_registrations)"
  unfolding nodeTypeRegistry_def node_types.registers_distinct [OF registrations_distinct] by simp

lemma Nodes_ByID_Some:
  "Nodes_ByID h k ns = Some r \<Longrightarrow> r \<in> set ns \<and> Node_NodeID (h r) = k"
  by (induction ns) (auto split: if_splits)

interpretation node_store: keyed_store "\<lambda>r. Node_NodeID (h r)" "Nodes_Add h" "Nodes_ByID h" for h
proof unfold_locales
  show "Nodes_ByID h k (Nodes_Add h a xs) =
      (if Node_NodeID (h a) = k then Some a else Nodes_ByID h k xs)" for k a xs
    by (induction xs) auto
  show "map (\<lambda>r. Node_NodeID (h r)) (Nodes_Add h a xs) =
      (if Node_NodeID (h a) \<in> (\<lambda>r. Node_NodeID (h r)) ` set xs then map (\<lambda>r. Node_NodeID (h r)) xs
       else map (\<lambda>r. Node_NodeID (h r)) xs @ [Node_NodeID (h a)])" for a xs
    by (induction xs) auto
qed simp

text \<open>The collection only depends on the nodes it holds.\<close>

lemma Nodes_Add_cong:
  "(\<And>r. r \<in> insert a (set ns) \<Longrightarrow> Node_NodeID (h r) = Node_NodeID (h' r)) \<Longrightarrow>
   Nodes_Add h a ns = Nodes_Add h' a ns"
  by (induction ns) auto

lemma set_Nodes_Add: "set (Nodes_Add h a ns) \<subseteq> insert a (set ns)"
  by (induction ns) auto

subsection \<open>Access to the embedded structs\<close>

lemma node_opening_on_opening [simp]: "node_opening (on_opening g n) = map_option g (node_opening n)"
  by (cases n) simp_all

lemma node_base_on_opening [simp]:
  "(\<And>d. od_BaseNode (g d) = od_BaseNode d) \<Longrightarrow> node_base (on_opening g n) = node_base n"
  by (cases n) simp_all

lemma node_base_on_base [simp]: "node_base (on_base g n) = g (node_base n)"
  by (cases n) simp_all

lemma node_base_on_blind [simp]:
  "node_base (on_blind (SetOrientationState q) n) = node_base n"
  by (cases n) (simp_all add: SetOrientationState_def)

lemma node_opening_on_blind [simp]:
  "node_opening (on_blind (SetOrientationState q) n) = node_opening n"
  by (cases n) (simp_all add: SetOrientationState_def)

lemma node_SetIntensityState [simp]:
  "node_base (SetIntensityState p n) = node_base n"
  "node_opening (SetIntensityState p n) = node_opening n"
  by (cases n; simp)+

lemma setters_base [simp]:
  "od_BaseNode (SetPositionState p d) = od_BaseNode d"
  "od_BaseNode (SetTargetState p d) = od_BaseNode d"
  "od_BaseNode (SetLimitationState mn mx r t d) = od_BaseNode d"
  by (simp_all add: SetPositionState_def SetTargetState_def SetLimitationState_def)

lemma setters_fields [simp]:
  "od_position (SetPositionState p d) = p"
  "od_targetPosition (SetPositionState p d) = od_targetPosition d"
  "od_position (SetTargetState p d) = od_position d"
  "od_targetPosition (SetTargetState p d) = p"
  "od_position (SetLimitationState mn mx r t d) = od_position d"
  "od_targetPosition (SetLimitationState mn mx r t d) = od_targetPosition d"
  "od_limitationMin (SetLimitationState mn mx r t d) = mn"
  "od_limitationMax (SetLimitationState mn mx r t d) = mx"
  by (simp_all add: SetPositionState_def SetTargetState_def SetLimitationState_def)

lemma AfterUpdate_simps [simp]:
  "nw_heap (AfterUpdate r w) = nw_heap w"
  "nw_nodes (AfterUpdate r w) = nw_nodes w"
  "nw_next (AfterUpdate r w) = nw_next w"
  by (simp_all add: AfterUpdate_def Let_def)

lemma assign_simps [simp]:
  "nw_heap (assign r g w) = (nw_heap w)(r := g (nw_heap w r))"
  "nw_nodes (assign r g w) = nw_nodes w"
  "nw_next (assign r g w) = nw_next w"
  "nw_events (assign r g w) = nw_events w"
  by (simp_all add: assign_def)

subsection \<open>Positions in range\<close>

lemma reported_simps [simp]: "Raw (pos_Parameter (reported p)) = Raw p"
  by (simp add: reported_def NewPosition_def ignore_err_def Parameter_FromParameter_def)

text \<open>A position that passes the guard of the updater is a percentage.\<close>

lemma in_range_percent:
  assumes "in_range p"
  shows "Position_PositionPercent p \<in> {0..100}"
proof -
  have "uint (fst (Raw (pos_Parameter p))) * 256 + uint (snd (Raw (pos_Parameter p))) \<le> 0xC800"
    using assms by (simp add: in_range_def Position_Position_def parameterToInt_def ParameterMax_def)
  moreover have "0 \<le> uint (snd (Raw (pos_Parameter p)))" by simp
  moreover define u where "u = uint (fst (Raw (pos_Parameter p)))"
  ultimately have u: "u \<le> 200" "0 \<le> u"
    unfolding u_def by (linarith, simp)
  have "(of_int u :: rat) \<le> of_int 200" "(of_int 0 :: rat) \<le> of_int u"
    by (simp_all only: of_int_le_iff u)
  then have "\<lfloor>of_int u / 2 + 1 / 2 :: rat\<rfloor> < 101" "0 \<le> \<lfloor>of_int u / 2 + 1 / 2 :: rat\<rfloor>"
    unfolding floor_less_iff zero_le_floor by simp_all
  then show ?thesis by (simp add: Position_PositionPercent_def positionToPercent_def u_def)
qed

subsection \<open>What an update may change\<close>

definition device_update :: "OpeningDevice \<Rightarrow> OpeningDevice \<Rightarrow> bool" where
  "device_update d d' \<longleftrightarrow>
     (od_position d' = od_position d \<or> Position_PositionPercent (od_position d') \<in> {0..100}) \<and>
     (od_targetPosition d' = od_targetPosition d \<or> Position_PositionPercent (od_targetPosition d') \<in> {0..100})"

definition node_update :: "Node \<Rightarrow> Node \<Rightarrow> bool" where
  "node_update n n' \<longleftrightarrow> node_base n' = node_base n \<and>
     rel_option device_update (node_opening n) (node_opening n')"

definition world_update :: "'z node_world_scheme \<Rightarrow> 'z node_world_scheme \<Rightarrow> bool" where
  "world_update w w' \<longleftrightarrow> nw_nodes w' = nw_nodes w \<and> nw_next w' = nw_next w \<and>
     (\<forall>r. node_update (nw_heap w r) (nw_heap w' r))"

lemma device_update_refl: "device_update d d"
  by (simp add: device_update_def)

lemma node_update_refl: "node_update n n"
  by (simp add: node_update_def option.rel_refl device_update_refl)

lemma node_update_on_opening:
  "(\<And>d. device_update d (g d)) \<Longrightarrow> (\<And>d. od_BaseNode (g d) = od_BaseNode d) \<Longrightarrow>
   node_update n (on_opening g n)"
  by (cases "node_opening n") (simp_all add: node_update_def)

lemma device_update_trans:
  "device_update d e \<Longrightarrow> device_update e f \<Longrightarrow> device_update d f"
  by (auto simp: device_update_def)

lemma node_update_trans: "node_update n m \<Longrightarrow> node_update m k \<Longrightarrow> node_update n k"
  by (auto simp: node_update_def intro: option.rel_mono_strong device_update_trans
      elim!: option.rel_cases)

lemma world_update_refl: "world_update w w"
  by (simp add: world_update_def node_update_refl)

lemma world_update_trans: "world_update w v \<Longrightarrow> world_update v u \<Longrightarrow> world_update w u"
  unfolding world_update_def using node_update_trans by metis

lemma world_update_AfterUpdate: "world_update w v \<Longrightarrow> world_update w (AfterUpdate r v)"
  by (simp add: world_update_def)

lemma world_update_assign:
  "(\<And>n. node_update n (g n)) \<Longrightarrow> world_update w (assign r g w)"
  by (simp add: world_update_def node_update_refl)

lemma device_update_setters:
  "in_range p \<Longrightarrow> device_update d (SetPositionState p d)"
  "in_range p \<Longrightarrow> device_update d (SetTargetState p d)"
  "device_update d (SetLimitationState mn mx r t d)"
  using in_range_percent [of p] by (simp_all add: device_update_def)

lemma world_update_setters:
  "in_range p \<Longrightarrow> world_update w (assign r (on_opening (SetPositionState p)) w)"
  "in_range p \<Longrightarrow> world_update w (assign r (on_opening (SetTargetState p)) w)"
  "world_update w (assign r (on_opening (SetLimitationState mn mx og t)) w)"
  "world_update w (assign r (on_blind (SetOrientationState p)) w)"
  "world_update w (assign r (SetIntensityState p) w)"
  by (intro world_update_assign node_update_on_opening device_update_setters setters_base
      | assumption | simp add: node_update_def option.rel_refl device_update_refl)+

lemma world_update_if:
  "(c \<Longrightarrow> world_update w v) \<Longrightarrow> world_update w (if c then v else w)"
  by (simp add: world_update_refl)

lemma world_update_position: "world_update w (processPositionFrame nodeID p t w)"
proof (cases "Nodes_ByID (nw_heap w) nodeID (nw_nodes w)")
  case (Some r)
  have t: "world_update w (AfterUpdate r
      (if in_range (reported t) then assign r (on_opening (SetTargetState (reported t))) v else v))"
    if "world_update w v" for v
    by (intro world_update_AfterUpdate world_update_trans [OF that] world_update_if world_update_setters)
  have o: "world_update w (AfterUpdate r
      (if in_range (reported t) then assign r (on_opening (SetTargetState (reported t)))
         (if in_range (reported p) then assign r (on_opening (SetPositionState (reported p))) w else w)
       else (if in_range (reported p) then assign r (on_opening (SetPositionState (reported p))) w else w)))"
    by (rule t, rule world_update_if, rule world_update_setters, assumption)
  show ?thesis
    unfolding processPositionFrame_def Some option.case Let_def
    by (cases "nw_heap w r"; simp only: Node.case)
      (rule o world_update_refl world_update_AfterUpdate world_update_if world_update_setters | assumption)+
qed (simp add: processPositionFrame_def world_update_refl)

lemma world_update_status: "world_update w (processStatusRequestNotification f w)"
proof -
  have "world_update w
      (let w = (if in_range (reported p) then assign r (on_opening (SetPositionState (reported p))) w else w);
           w = (if in_range (reported t) then assign r (on_blind (SetOrientationState (reported t))) w else w)
       in AfterUpdate r w)" for r p t
    unfolding Let_def
    by (rule world_update_AfterUpdate, rule world_update_trans [where v = "if in_range (reported p)
          then assign r (on_opening (SetPositionState (reported p))) w else w"])
      (intro world_update_if world_update_setters; assumption)+
  then show ?thesis
    by (simp add: processStatusRequestNotification_def Let_def world_update_refl
        split: option.split Node.split)
qed

lemma world_update_limitation: "world_update w (processLimitationStatusNotification f w)"
  by (simp add: processLimitationStatusNotification_def Let_def world_update_refl
      world_update_AfterUpdate world_update_setters split: option.split)

lemma world_update_processFrame: "world_update w (processFrame f w)"
  unfolding processFrame_def processNodeStateFrame_def
  by (simp add: world_update_refl world_update_position world_update_status world_update_limitation
      split: frame.split nodes_frame.split commands_frame.split limitation_frame.split)

section \<open>Properties\<close>

text \<open>
  The node-type registrations run through without a duplicate panic; a node is built by the
  constructor registered for its type, and a type without one gives a generic node.
\<close>

theorem NodeFromInfo_registry:
  "(\<exists>r. RegisterNodeTypes (opening_registrations @ other_registrations) Map.empty = Inr r \<and>
     r = nodeTypeRegistry \<and> card (dom r) = 20) \<and>
   NodeFromInfo nodeID nm serial info =
     (case map_of (opening_registrations @ other_registrations) (nf_NodeType info) of
        None \<Rightarrow> genericNode (NewBaseNode nodeID nm serial)
      | Some constructor \<Rightarrow> constructor (NewBaseNode nodeID nm serial) info)"
proof -
  have "card (dom nodeTypeRegistry) = 20"
    unfolding nodeTypeRegistry_map_of dom_map_of_conv_image_fst
    using distinct_card [OF registrations_distinct]
    by (simp add: opening_registrations_def other_registrations_def)
  then show ?thesis
    using node_types.registers_distinct [OF registrations_distinct]
    by (simp add: nodeTypeRegistry_map_of NodeFromInfo_def lookupNodeType_def Let_def split: option.split)
qed


text \<open>
  The interior blinds start with a known position of 0 percent (open), although the gateway's
  report is not used for them: their parameter is the zero value and not the unknown sentinel.
\<close>

theorem interior_blind_starts_open:
  "\<exists>d. node_opening (interiorCtor base info) = Some d \<and>
     Position_Known (od_position d) \<and> Position_Open (od_position d) \<and> Position_Known (od_targetPosition d)"
  by (auto simp: interiorCtor_def newOpeningDevice_def zeroParameter_def NewPosition_def ignore_err_def
      Parameter_FromParameter_def Position_Known_def Position_Open_def)

end
