(* ===== verification/NodeLoading.thy ===== *)
theory NodeLoading
  imports Nodes
begin

text \<open>
  \<^verbatim>\<open>src/app/klf200/node_loading.go\<close> and \<open>LoadNodes\<close> of \<^verbatim>\<open>client.go\<close>: reading the system table of
  the gateway, all of it or a single node, into the collection of the client.
\<close>

section \<open>The code\<close>

text \<open>
  The handler captures \<open>numberOfNodes\<close> (minus one before the confirmation) and \<open>collected\<close>. The
  warning about a count that does not match is only logged.
\<close>

definition load_all_handler ::
    "frame \<Rightarrow> int \<times> FrameGetAllNodesInformationNotification list \<Rightarrow>
     bool \<times> int \<times> FrameGetAllNodesInformationNotification list" where
  "load_all_handler frame s =
     (case frame of
        NodesFrame (FrGetAllNodesInformationConfirmation f) \<Rightarrow> (False, uint (gac_NumberOfNodes f), snd s)
      | NodesFrame (FrGetAllNodesInformationNotification f) \<Rightarrow> (False, fst s, snd s @ [f])
      | NodesFrame (FrGetAllNodesInformationFinishedNotification f) \<Rightarrow> (True, s)
      | _ \<Rightarrow> (False, s))"

definition LoadAllNodes ::
    "'n client \<Rightarrow> (client_error + FrameGetAllNodesInformationNotification list) \<times> 'n client" where
  "LoadAllNodes c =
     finish (APICall (NodesFrame (FrGetAllNodesInformationRequest ())) load_all_handler (-1, []) c)
       (\<lambda>s. Inr (snd s))"

definition add_node :: "Node \<Rightarrow> 'z node_world_scheme \<Rightarrow> 'z node_world_scheme" where
  "add_node node w =
     (let (r, w) = new_node node w in w\<lparr> nw_nodes := Nodes_Add (nw_heap w) r (nw_nodes w) \<rparr>)"

definition Client_LoadNodes ::
    "'z node_world_scheme client \<Rightarrow> (client_error + unit) \<times> 'z node_world_scheme client" where
  "Client_LoadNodes c =
     (let (r, c) = LoadAllNodes c
      in case r of
           Inl e \<Rightarrow> (Inl e, c)
         | Inr collected \<Rightarrow>
             let w = (cl_nodes c)\<lparr> nw_nodes := Nodes_Clear (nw_nodes (cl_nodes c)) \<rparr>
             in (Inr (), c\<lparr> cl_nodes := fold (\<lambda>ntf. add_node (ConvertAllNodesFrame ntf)) collected w \<rparr>))"

definition load_node_handler ::
    "byte \<Rightarrow> frame \<Rightarrow> FrameGetNodeInformationNotification option \<Rightarrow>
     bool \<times> FrameGetNodeInformationNotification option" where
  "load_node_handler nodeID frame ntf =
     (case frame of
        NodesFrame (FrGetNodeInformationConfirmation f) \<Rightarrow> (False, ntf)
      | NodesFrame (FrGetNodeInformationNotification f) \<Rightarrow>
          if ni_NodeID (gnn_nodeInfo f) \<noteq> nodeID then (False, ntf) else (True, Some f)
      | _ \<Rightarrow> (False, ntf))"

definition Client_LoadNode ::
    "byte \<Rightarrow> 'z node_world_scheme client \<Rightarrow> (client_error + unit) \<times> 'z node_world_scheme client" where
  "Client_LoadNode nodeID c =
     (let (e, ntf, c) = APICall (NodesFrame (FrGetNodeInformationRequest \<lparr> gnr_NodeID = nodeID \<rparr>))
            (load_node_handler nodeID) None c
      in case e of
           Some e \<Rightarrow> (Inl (Api e), c)
         | None \<Rightarrow>
             (case ntf of
                None \<Rightarrow> (Inl (NoNotification nodeID), c)
              | Some ntf \<Rightarrow> (Inr (), c\<lparr> cl_nodes := add_node (ConvertNodeFrame ntf) (cl_nodes c) \<rparr>)))"

section \<open>Lemmas\<close>

definition all_nodes_ntf :: "frame \<Rightarrow> FrameGetAllNodesInformationNotification option" where
  "all_nodes_ntf frame =
     (case frame of NodesFrame (FrGetAllNodesInformationNotification f) \<Rightarrow> Some f | _ \<Rightarrow> None)"

definition all_nodes_finished :: "frame \<Rightarrow> bool" where
  "all_nodes_finished frame \<longleftrightarrow>
     (case frame of NodesFrame (FrGetAllNodesInformationFinishedNotification f) \<Rightarrow> True | _ \<Rightarrow> False)"

lemma load_all_handler_eq:
  "fst (load_all_handler f s) = all_nodes_finished f"
  "snd (snd (load_all_handler f s)) =
     snd s @ (case all_nodes_ntf f of None \<Rightarrow> [] | Some g \<Rightarrow> [g])"
  by (simp_all add: load_all_handler_def all_nodes_finished_def all_nodes_ntf_def
      split: frame.split nodes_frame.split)

lemma feed_load_all:
  "fst (feed load_all_handler fs (d, s)) = (d \<or> (\<exists>f\<in>set fs. all_nodes_finished f))"
  "snd (snd (feed load_all_handler fs (d, s))) = snd s @ List.map_filter all_nodes_ntf fs"
proof -
  have "fst (feed load_all_handler fs (d, s)) = (d \<or> (\<exists>f\<in>set fs. all_nodes_finished f)) \<and>
    snd (snd (feed load_all_handler fs (d, s))) = snd s @ List.map_filter all_nodes_ntf fs"
  proof (induction fs arbitrary: d s)
    case (Cons f fs)
    obtain b t where h: "load_all_handler f s = (b, t)" by (rule prod.exhaust)
    show ?case
      using load_all_handler_eq [of f s] Cons [of "d \<or> b" t]
      by (auto simp: h List.map_filter_simps split: option.split)
  qed (simp add: List.map_filter_simps)
  then show "fst (feed load_all_handler fs (d, s)) = (d \<or> (\<exists>f\<in>set fs. all_nodes_finished f))"
    "snd (snd (feed load_all_handler fs (d, s))) = snd s @ List.map_filter all_nodes_ntf fs" by blast+
qed

lemma add_node_eq:
  assumes "\<forall>r\<in>set (nw_nodes w). r < nw_next w"
  shows "add_node n w = w\<lparr> nw_heap := (nw_heap w)(nw_next w := n), nw_next := nw_next w + 1,
    nw_nodes := Nodes_Add ((nw_heap w)(nw_next w := n)) (nw_next w) (nw_nodes w) \<rparr>"
  by (simp add: add_node_def new_node_def)

text \<open>Adding nodes one by one is adding their pointers with the final store.\<close>

lemma fold_add_node:
  assumes "\<forall>r\<in>set (nw_nodes w). r < nw_next w"
  defines "h \<equiv> \<lambda>ns r. if nw_next w \<le> r \<and> r < nw_next w + length ns then ns ! (r - nw_next w) else nw_heap w r"
  shows "fold add_node ns w =
    w\<lparr> nw_heap := h ns, nw_next := nw_next w + length ns,
       nw_nodes := fold (Nodes_Add (h ns)) [nw_next w..<nw_next w + length ns] (nw_nodes w) \<rparr> \<and>
    (\<forall>r\<in>set (fold (Nodes_Add (h ns)) [nw_next w..<nw_next w + length ns] (nw_nodes w)).
       r < nw_next w + length ns)"
proof (induction ns rule: rev_induct)
  case Nil
  have "h [] = nw_heap w" by (rule ext) (auto simp: h_def)
  then show ?case using assms(1) by simp
next
  case (snoc n ns)
  let ?m = "nw_next w + length ns"
  have h': "h (ns @ [n]) = (h ns)(?m := n)"
    by (auto simp: h_def fun_eq_iff nth_append less_Suc_eq)
  have cong: "fold (Nodes_Add (h (ns @ [n]))) rs xs = fold (Nodes_Add (h ns)) rs xs"
    if "\<forall>r\<in>set rs \<union> set xs. r < ?m" for rs xs
    using that
  proof (induction rs arbitrary: xs)
    case (Cons r rs)
    have "Nodes_Add (h (ns @ [n])) r xs = Nodes_Add (h ns) r xs"
      using Cons.prems by (intro Nodes_Add_cong) (auto simp: h')
    moreover have "\<forall>x\<in>set rs \<union> set (Nodes_Add (h ns) r xs). x < ?m"
      using Cons.prems set_Nodes_Add [of "h ns" r xs] by auto
    ultimately show ?case using Cons.IH by simp
  qed simp
  have c: "fold (Nodes_Add (h (ns @ [n]))) [nw_next w..<?m] (nw_nodes w) =
      fold (Nodes_Add (h ns)) [nw_next w..<?m] (nw_nodes w)"
    using assms(1) by (intro cong) auto
  let ?xs = "fold (Nodes_Add (h ns)) [nw_next w..<?m] (nw_nodes w)"
  from snoc have s: "fold add_node ns w = w\<lparr> nw_heap := h ns, nw_next := ?m, nw_nodes := ?xs \<rparr>"
    and b: "\<forall>r\<in>set ?xs. r < ?m" by auto
  have "fold add_node (ns @ [n]) w = w\<lparr> nw_heap := h (ns @ [n]), nw_next := Suc ?m,
      nw_nodes := Nodes_Add (h (ns @ [n])) ?m ?xs \<rparr>"
    using b by (simp add: s add_node_eq h')
  moreover have "\<forall>r\<in>set (Nodes_Add (h (ns @ [n])) ?m ?xs). r < Suc ?m"
    using b set_Nodes_Add [of "h (ns @ [n])" ?m ?xs] by fastforce
  ultimately show ?case by (simp add: c)
qed

lemma map_add_nodes:
  "map (\<lambda>r. if k \<le> r \<and> r < k + length ns then ns ! (r - k) else g r) [k..<k + length ns] = ns"
  by (intro nth_equalityI) auto

lemma find_map: "map_option f (List.find (\<lambda>x. P (f x)) xs) = List.find P (map f xs)"
  by (induction xs) auto

lemma LoadNodes_world:
  assumes "fst (Client_LoadNodes c) = Inr ()"
  obtains w where "nw_nodes w = []"
    "cl_nodes (snd (Client_LoadNodes c)) =
       fold add_node (map ConvertAllNodesFrame (List.map_filter all_nodes_ntf (ex_frames (next_exchange c)))) w"
proof -
  let ?r = "APICall (NodesFrame (FrGetAllNodesInformationRequest ())) load_all_handler (-1, []) c"
  obtain e s d where r: "?r = (e, s, d)" by (cases ?r)
  have "e = None"
    using assms by (auto simp: Client_LoadNodes_def LoadAllNodes_def finish_def r split: option.splits)
  then have "snd s = List.map_filter all_nodes_ntf (ex_frames (next_exchange c))"
    using APICall_state [of "NodesFrame (FrGetAllNodesInformationRequest ())" load_all_handler "(-1, [])" c]
    by (simp add: r feed_load_all)
  with \<open>e = None\<close> show thesis
    by (intro that [of "(cl_nodes d)\<lparr> nw_nodes := [] \<rparr>"])
      (simp_all add: Client_LoadNodes_def LoadAllNodes_def finish_def r Nodes_Clear_def fold_map comp_def)
qed

lemma LoadNodes_succeeds_iff:
  "fst (Client_LoadNodes c) = Inr () \<longleftrightarrow>
     online c \<and> ex_end (next_exchange c) = SelDone \<and>
     (\<exists>f\<in>set (ex_frames (next_exchange c)). all_nodes_finished f)"
proof -
  have "fst (Client_LoadNodes c) = Inr () \<longleftrightarrow> (\<exists>ns. fst (LoadAllNodes c) = Inr ns)"
    by (auto simp: Client_LoadNodes_def Let_def split: prod.split sum.split)
  also have "\<dots> \<longleftrightarrow> sendable (NodesFrame (FrGetAllNodesInformationRequest ())) c \<and>
      ex_end (next_exchange c) = SelDone \<and>
      (\<exists>f\<in>set (ex_frames (next_exchange c)). all_nodes_finished f)"
    by (auto simp: LoadAllNodes_def finish_APICall_Inr feed_load_all)
  also have "sendable (NodesFrame (FrGetAllNodesInformationRequest ())) c = online c"
    by (simp add: sendable_online FrameGetAllNodesInformationRequest_MarshalPayload_def)
  finally show ?thesis .
qed

section \<open>Properties\<close>

text \<open>
  C30: When the request goes out and the wait ends by the handler after the finished notification,
  the nodes are loaded, whatever number was announced. After a successful load the collection holds exactly the nodes of this load: a node id has
  the node built from the last notification about it, ids are unique, and nothing of an
  earlier load is left.
\<close>

theorem LoadNodes_rebuilds:
  assumes "online c" "ex_end (next_exchange c) = SelDone" "Bex (set (ex_frames (next_exchange c))) all_nodes_finished"
  shows "fst (Client_LoadNodes c) = Inr () \<and> (let w = cl_nodes (snd (Client_LoadNodes c)); h = nw_heap w;
      built = map ConvertAllNodesFrame (List.map_filter all_nodes_ntf (ex_frames (next_exchange c)))
    in (\<forall>k. map_option h (Nodes_ByID h k (nw_nodes w)) = List.find (\<lambda>n. Node_NodeID n = k) (rev built)) \<and>
       distinct (map (\<lambda>r. Node_NodeID (h r)) (nw_nodes w)) \<and>
       (\<lambda>r. Node_NodeID (h r)) ` set (nw_nodes w) = Node_NodeID ` set built)"
proof -
  have ok: "fst (Client_LoadNodes c) = Inr ()" unfolding LoadNodes_succeeds_iff using assms by blast
  let ?built = "map ConvertAllNodesFrame (List.map_filter all_nodes_ntf (ex_frames (next_exchange c)))"
  from LoadNodes_world [OF ok] obtain w where w: "nw_nodes w = []"
    "cl_nodes (snd (Client_LoadNodes c)) = fold add_node ?built w" .
  define h where "h = nw_heap (fold add_node ?built w)"
  define rs where "rs = [nw_next w..<nw_next w + length ?built]"
  have f: "h = (\<lambda>r. if nw_next w \<le> r \<and> r < nw_next w + length ?built then ?built ! (r - nw_next w) else nw_heap w r)"
    "nw_nodes (fold add_node ?built w) = fold (Nodes_Add h) rs []"
    using fold_add_node [of w ?built] w(1) by (simp_all add: h_def rs_def)
  have hrs: "map h rs = ?built" unfolding rs_def f(1) by (rule map_add_nodes)
  have "map_option h (Nodes_ByID h k (fold (Nodes_Add h) rs [])) = List.find (\<lambda>n. Node_NodeID n = k) (rev ?built)" for k
    unfolding node_store.rebuild_lookup find_map [where f = h and P = "\<lambda>n. Node_NodeID n = k"]
    by (simp add: rev_map [symmetric] hrs)
  moreover have "(\<lambda>r. Node_NodeID (h r)) ` set (fold (Nodes_Add h) rs []) = Node_NodeID ` set ?built"
    unfolding node_store.keys_fold by (simp add: hrs [symmetric] image_image)
  ultimately show ?thesis
    using node_store.distinct_keys_fold [of h "[]" rs]
    by (simp add: ok Let_def w(2) h_def [symmetric] f(2))
qed

theorem LoadNodes_rebuilds_witness:
  "let ntf = \<lambda>nm. NodesFrame (FrGetAllNodesInformationNotification \<lparr> gan_nodeInfo = nodeInfo_zero\<lparr> ni_NodeID := 5, ni_Name := nm \<rparr> \<rparr>);
       c = connected_client [\<lparr> ex_write = True, ex_frames = [ntf ''old'', ntf ''new'',
         NodesFrame (FrGetAllNodesInformationFinishedNotification ())], ex_end = SelDone \<rparr>] NewNodes;
       w = cl_nodes (snd (Client_LoadNodes c))
   in map_option (Node_Name \<circ> nw_heap w) (Nodes_ByID (nw_heap w) 5 (nw_nodes w)) = Some ''new''"
proof -
  define ntf where "ntf nm = NodesFrame (FrGetAllNodesInformationNotification
    \<lparr> gan_nodeInfo = nodeInfo_zero\<lparr> ni_NodeID := 5, ni_Name := nm \<rparr> \<rparr>)" for nm
  define c where "c = connected_client [\<lparr> ex_write = True, ex_frames = [ntf ''old'', ntf ''new'',
    NodesFrame (FrGetAllNodesInformationFinishedNotification ())], ex_end = SelDone \<rparr>] NewNodes"
  have i: "ConvertAllNodesFrame \<lparr> gan_nodeInfo = nodeInfo_zero\<lparr> ni_NodeID := 5, ni_Name := nm \<rparr> \<rparr> =
      genericNode (NewBaseNode 5 nm (replicate 8 0))" for nm
    by (simp add: ConvertAllNodesFrame_def convert_info_def NodeFromInfo_def lookupNodeType_def
        nodeTypeRegistry_map_of opening_registrations_def other_registrations_def go_consts nodeInfo_zero_def)
  have "\<forall>k. map_option (nw_heap (cl_nodes (snd (Client_LoadNodes c))))
       (Nodes_ByID (nw_heap (cl_nodes (snd (Client_LoadNodes c)))) k (nw_nodes (cl_nodes (snd (Client_LoadNodes c))))) =
     List.find (\<lambda>n. Node_NodeID n = k) (rev (map ConvertAllNodesFrame (List.map_filter all_nodes_ntf [ntf ''old'', ntf ''new'',
       NodesFrame (FrGetAllNodesInformationFinishedNotification ())])))"
    using LoadNodes_rebuilds [of c]
    by (simp add: c_def all_nodes_finished_def Let_def)
  from spec [OF this, of 5] show ?thesis
    by (simp add: c_def [symmetric] ntf_def [symmetric] Let_def)
      (auto simp: ntf_def all_nodes_ntf_def List.map_filter_simps i Node_NodeID_def Node_Name_def NewBaseNode_def)
qed

end
