(* ===== verification/Devices.thy ===== *)
theory Devices
  imports NodeLoading
begin

text \<open>
  The commands of the devices of \<^verbatim>\<open>src/app/klf200/opening_device.go\<close>: positions and limitations
  of an opening device, and the interplay of position and slat orientation of a blind. A method
  takes the pointer of its receiver. The methods of the concrete types that only pass on to the
  embedded \<open>OpeningDevice\<close> are covered by the dispatch at the end.
\<close>

section \<open>Opening devices\<close>

type_synonym 'z gateway = "'z node_world_scheme client"

definition positionPercent :: "int \<Rightarrow> perror + Position" where
  "positionPercent percent = NewPosition None None (Some percent)"

text \<open>\<open>uint8(d.NodeID())\<close> of the receiver.\<close>

definition command_id :: "nat \<Rightarrow> 'z gateway \<Rightarrow> byte" where
  "command_id node c = ucast (Node_NodeID (nw_heap (cl_nodes c) node))"

definition change_nodes ::
    "('z node_world_scheme \<Rightarrow> 'z node_world_scheme) \<Rightarrow> 'z gateway \<Rightarrow> 'z gateway" where
  "change_nodes g c = c\<lparr> cl_nodes := g (cl_nodes c) \<rparr>"

definition with_percent ::
    "int \<Rightarrow> (Position \<Rightarrow> 'z gateway \<Rightarrow> (client_error + 'a) \<times> 'z gateway) \<Rightarrow>
     'z gateway \<Rightarrow> (client_error + 'a) \<times> 'z gateway" where
  "with_percent percent k c =
     (case positionPercent percent of Inl e \<Rightarrow> (Inl (Position_error e), c) | Inr pos \<Rightarrow> k pos c)"

text \<open>\<open>err\<close> is returned; after success the rest runs.\<close>

definition and_then ::
    "(client_error + 'a) \<times> 'z gateway \<Rightarrow> ('z gateway \<Rightarrow> 'z gateway) \<Rightarrow> (client_error + unit) \<times> 'z gateway" where
  "and_then r k = (case r of (Inl e, c) \<Rightarrow> (Inl e, c) | (Inr x, c) \<Rightarrow> (Inr (), k c))"

definition OpeningDevice_setPosition ::
    "nat \<Rightarrow> Position \<Rightarrow> bool \<Rightarrow> 'z gateway \<Rightarrow> (client_error + unit) \<times> 'z gateway" where
  "OpeningDevice_setPosition node position waitForCompletion c =
     and_then (Client_CommandSend (command_id node c) (pos_Parameter position) Map.empty waitForCompletion c)
       (change_nodes (AfterUpdate node))"

definition OpeningDevice_open :: "nat \<Rightarrow> bool \<Rightarrow> 'z gateway \<Rightarrow> (client_error + unit) \<times> 'z gateway" where
  "OpeningDevice_open node waitForCompletion =
     with_percent 0 (\<lambda>pos. OpeningDevice_setPosition node pos waitForCompletion)"

definition OpeningDevice_close :: "nat \<Rightarrow> bool \<Rightarrow> 'z gateway \<Rightarrow> (client_error + unit) \<times> 'z gateway" where
  "OpeningDevice_close node waitForCompletion =
     with_percent 100 (\<lambda>pos. OpeningDevice_setPosition node pos waitForCompletion)"

definition OpeningDevice_stop :: "nat \<Rightarrow> bool \<Rightarrow> 'z gateway \<Rightarrow> (client_error + unit) \<times> 'z gateway" where
  "OpeningDevice_stop node waitForCompletion =
     OpeningDevice_setPosition node NewCurrentPosition waitForCompletion"

definition set_limits :: "Position \<Rightarrow> Position \<Rightarrow> OpeningDevice \<Rightarrow> OpeningDevice" where
  "set_limits mn mx d = d\<lparr> od_limitationMin := mn, od_limitationMax := mx \<rparr>"

definition OpeningDevice_setPositionLimitations ::
    "nat \<Rightarrow> Position \<Rightarrow> Position \<Rightarrow> 'z gateway \<Rightarrow> (client_error + unit) \<times> 'z gateway" where
  "OpeningDevice_setPositionLimitations node positionMin positionMax c =
     and_then (Client_SetLimitation (command_id node c) positionMin positionMax NewLimitationTimeUnlimited c)
       (\<lambda>c. change_nodes (AfterUpdate node)
          (change_nodes (assign node (on_opening (set_limits positionMin positionMax))) c))"

definition OpeningDevice_clearPositionLimitations ::
    "nat \<Rightarrow> 'z gateway \<Rightarrow> (client_error + unit) \<times> 'z gateway" where
  "OpeningDevice_clearPositionLimitations node c =
     and_then (Client_SetLimitation (command_id node c) NewIgnorePosition NewIgnorePosition NewLimitationTimeClearAll c)
       (\<lambda>c. change_nodes (AfterUpdate node)
          (change_nodes (assign node (on_opening (set_limits NewIgnorePosition NewIgnorePosition))) c))"

definition OpeningDevice_getLimitation ::
    "nat \<Rightarrow> 'z gateway \<Rightarrow> (client_error + LimitationResult) \<times> 'z gateway" where
  "OpeningDevice_getLimitation node c =
     Client_GetLimitation (command_id node c) LimitationTypeMinLimitation c"

definition OpeningDevice_getLimitationMax ::
    "nat \<Rightarrow> 'z gateway \<Rightarrow> (client_error + LimitationResult) \<times> 'z gateway" where
  "OpeningDevice_getLimitationMax node c =
     Client_GetLimitation (command_id node c) LimitationTypeMaxLimitation c"

section \<open>Blinds\<close>

text \<open>The fields of the receiver, which is a blind.\<close>

fun blind_of :: "Node \<Rightarrow> Blind" where
  "blind_of (BlindN b) = b"
| "blind_of n = undefined"

definition blind_at :: "nat \<Rightarrow> 'z gateway \<Rightarrow> Blind" where
  "blind_at node c = blind_of (nw_heap (cl_nodes c) node)"

definition set_position_fields :: "Position \<Rightarrow> Blind \<Rightarrow> Blind" where
  "set_position_fields position b =
     b\<lparr> bl_OpeningDevice := (bl_OpeningDevice b)\<lparr> od_targetPosition := position, od_position := position \<rparr> \<rparr>"

definition set_orientation_fields :: "Position \<Rightarrow> Blind \<Rightarrow> Blind" where
  "set_orientation_fields orientation b =
     b\<lparr> bl_targetOrientation := orientation, bl_orientation := orientation \<rparr>"

definition Blind_SetPositionAndOrientation ::
    "nat \<Rightarrow> Position \<Rightarrow> bool \<Rightarrow> Position option \<Rightarrow> 'z gateway \<Rightarrow> (client_error + unit) \<times> 'z gateway" where
  "Blind_SetPositionAndOrientation node position waitForCompletion orientation c =
     (let c = change_nodes (assign node (on_blind (set_position_fields position))) c
      in with_percent 0 (\<lambda>zero c.
           let fp3 = (case orientation of
                        Some q \<Rightarrow> q
                      | None \<Rightarrow>
                          if Raw (pos_Parameter (od_targetPosition (bl_OpeningDevice (blind_at node c)))) =
                             Raw (pos_Parameter zero)
                          then zero else NewIgnorePosition)
           in and_then
                (Client_CommandSend (command_id node c) (pos_Parameter position) [3 \<mapsto> pos_Parameter fp3]
                  waitForCompletion c)
                (change_nodes (AfterUpdate node))) c)"

definition Blind_SetPosition ::
    "nat \<Rightarrow> Position \<Rightarrow> bool \<Rightarrow> 'z gateway \<Rightarrow> (client_error + unit) \<times> 'z gateway" where
  "Blind_SetPosition node position waitForCompletion =
     Blind_SetPositionAndOrientation node position waitForCompletion None"

definition Blind_Open :: "nat \<Rightarrow> bool \<Rightarrow> 'z gateway \<Rightarrow> (client_error + unit) \<times> 'z gateway" where
  "Blind_Open node waitForCompletion = with_percent 0 (\<lambda>pos. Blind_SetPosition node pos waitForCompletion)"

definition Blind_Close :: "nat \<Rightarrow> bool \<Rightarrow> 'z gateway \<Rightarrow> (client_error + unit) \<times> 'z gateway" where
  "Blind_Close node waitForCompletion = with_percent 100 (\<lambda>pos. Blind_SetPosition node pos waitForCompletion)"

definition Blind_Stop :: "nat \<Rightarrow> bool \<Rightarrow> 'z gateway \<Rightarrow> (client_error + unit) \<times> 'z gateway" where
  "Blind_Stop node waitForCompletion c =
     (let orientation = bl_targetOrientation (blind_at node c)
      in Blind_SetPositionAndOrientation node NewCurrentPosition waitForCompletion (Some orientation) c)"

definition Blind_SetOrientation ::
    "nat \<Rightarrow> Position \<Rightarrow> bool \<Rightarrow> 'z gateway \<Rightarrow> (client_error + unit) \<times> 'z gateway" where
  "Blind_SetOrientation node orientation waitForCompletion c =
     (let c = change_nodes (assign node (on_blind (set_orientation_fields orientation))) c
      in with_percent 0 (\<lambda>zero c.
           let b = blind_at node c;
               fp3 = (if Raw (pos_Parameter (od_targetPosition (bl_OpeningDevice b))) = Raw (pos_Parameter zero)
                      then zero else bl_targetOrientation b)
           in and_then
                (Client_CommandSend (command_id node c) (pos_Parameter NewIgnorePosition)
                  [3 \<mapsto> pos_Parameter fp3] waitForCompletion c)
                (change_nodes (AfterUpdate node))) c)"

definition Blind_OpenOrientation :: "nat \<Rightarrow> bool \<Rightarrow> 'z gateway \<Rightarrow> (client_error + unit) \<times> 'z gateway" where
  "Blind_OpenOrientation node waitForCompletion c =
     with_percent (bl_openOrientationTarget (blind_at node c))
       (\<lambda>pos. Blind_SetOrientation node pos waitForCompletion) c"

definition Blind_CloseOrientation :: "nat \<Rightarrow> bool \<Rightarrow> 'z gateway \<Rightarrow> (client_error + unit) \<times> 'z gateway" where
  "Blind_CloseOrientation node waitForCompletion c =
     with_percent (bl_closeOrientationTarget (blind_at node c))
       (\<lambda>pos. Blind_SetOrientation node pos waitForCompletion) c"

definition Blind_StopOrientation :: "nat \<Rightarrow> bool \<Rightarrow> 'z gateway \<Rightarrow> (client_error + unit) \<times> 'z gateway" where
  "Blind_StopOrientation node waitForCompletion =
     Blind_SetOrientation node NewCurrentPosition waitForCompletion"

section \<open>Method dispatch\<close>

fun is_blind :: "Node \<Rightarrow> bool" where
  "is_blind (BlindN b) = True"
| "is_blind n = False"

text \<open>
  The methods through an interface value: a blind has its own ones, every other opening device
  those of \<open>OpeningDevice\<close>.
\<close>

definition Device_Open :: "nat \<Rightarrow> bool \<Rightarrow> 'z gateway \<Rightarrow> (client_error + unit) \<times> 'z gateway" where
  "Device_Open node w c =
     (if is_blind (nw_heap (cl_nodes c) node) then Blind_Open node w c else OpeningDevice_open node w c)"

definition Device_Close :: "nat \<Rightarrow> bool \<Rightarrow> 'z gateway \<Rightarrow> (client_error + unit) \<times> 'z gateway" where
  "Device_Close node w c =
     (if is_blind (nw_heap (cl_nodes c) node) then Blind_Close node w c else OpeningDevice_close node w c)"

definition Device_Stop :: "nat \<Rightarrow> bool \<Rightarrow> 'z gateway \<Rightarrow> (client_error + unit) \<times> 'z gateway" where
  "Device_Stop node w c =
     (if is_blind (nw_heap (cl_nodes c) node) then Blind_Stop node w c else OpeningDevice_stop node w c)"

definition Device_SetPosition ::
    "nat \<Rightarrow> Position \<Rightarrow> bool \<Rightarrow> 'z gateway \<Rightarrow> (client_error + unit) \<times> 'z gateway" where
  "Device_SetPosition node p w c =
     (if is_blind (nw_heap (cl_nodes c) node) then Blind_SetPosition node p w c
      else OpeningDevice_setPosition node p w c)"

section \<open>Lemmas\<close>

lemma positionPercent_0 [simp]: "positionPercent 0 = Inr \<lparr> pos_Parameter = \<lparr> Raw = (0, 0) \<rparr> \<rparr>"
  and positionPercent_100 [simp]: "positionPercent 100 = Inr \<lparr> pos_Parameter = \<lparr> Raw = (200, 0) \<rparr> \<rparr>"
  by (simp_all add: positionPercent_def NewPosition_def Position_SetPositionPercent_def positionFromPercent_def)

lemma with_percent_simps [simp]:
  "with_percent 0 k = k \<lparr> pos_Parameter = \<lparr> Raw = (0, 0) \<rparr> \<rparr>"
  "with_percent 100 k = k \<lparr> pos_Parameter = \<lparr> Raw = (200, 0) \<rparr> \<rparr>"
  by (simp_all add: with_percent_def fun_eq_iff)

lemma change_nodes_simps [simp]:
  "cl_conn (change_nodes g c) = cl_conn c" "cl_sessions (change_nodes g c) = cl_sessions c"
  "cl_script (change_nodes g c) = cl_script c" "cl_nodes (change_nodes g c) = g (cl_nodes c)"
  "next_exchange (change_nodes g c) = next_exchange c" "online (change_nodes g c) = online c"
  by (simp_all add: change_nodes_def next_exchange_def online_def)

lemma conn_and_then [simp]:
  "(\<And>c. cl_conn (k c) = cl_conn c) \<Longrightarrow> cl_conn (snd (and_then r k)) = cl_conn (snd r)"
  by (auto simp: and_then_def split: prod.split sum.split)

lemma fst_and_then [simp]: "fst (and_then r k) = (case fst r of Inl e \<Rightarrow> Inl e | Inr x \<Rightarrow> Inr ())"
  by (auto simp: and_then_def split: prod.split sum.split)

text \<open>The frame \<open>f\<close> is what a step wrote, and nothing else.\<close>

definition writes :: "'z gateway \<Rightarrow> 'z gateway \<Rightarrow> frame \<Rightarrow> bool" where
  "writes c c' f \<longleftrightarrow> (\<exists>raw. MarshalFrame f = Inr raw \<and>
     cs_sent (cl_conn c') = cs_sent (cl_conn c) @ [(the (cs_tlsConn (cl_conn c)), SlipPack raw)])"

definition command_frame :: "nat \<Rightarrow> Parameter \<Rightarrow> (nat \<rightharpoonup> Parameter) \<Rightarrow> 'z gateway \<Rightarrow> frame" where
  "command_frame node p fps c =
     CommandsFrame (FrCommandSendRequest
       (command_request (snd (NewSessionID (cl_sessions c))) (command_id node c) p fps))"

lemma writes_CommandSend:
  assumes "online c"
  shows "writes c (snd (Client_CommandSend (command_id node c) p fps w c)) (command_frame node p fps c)"
proof -
  have "sendable (command_frame node p fps c) c"
    unfolding command_frame_def sendable_command by (rule assms)
  then obtain raw where "MarshalFrame (command_frame node p fps c) = Inr raw" by (auto simp: sendable_def)
  with CommandSend_sent [OF assms, of "command_id node c" p fps raw] show ?thesis
    by (auto simp: writes_def command_frame_def)
qed

lemma writes_setPosition:
  "online c \<Longrightarrow> writes c (snd (OpeningDevice_setPosition node p w c)) (command_frame node (pos_Parameter p) Map.empty c)"
  using writes_CommandSend [of c node "pos_Parameter p" Map.empty w]
  by (simp add: OpeningDevice_setPosition_def writes_def)

lemma blind_at_set_position:
  assumes "is_blind (nw_heap (cl_nodes c) node)"
  shows "blind_at node (change_nodes (assign node (on_blind (set_position_fields p))) c) =
    set_position_fields p (blind_at node c)"
  using assms by (cases "nw_heap (cl_nodes c) node") (simp_all add: blind_at_def)

lemma command_id_blind:
  assumes "\<And>b. od_BaseNode (bl_OpeningDevice (g b)) = od_BaseNode (bl_OpeningDevice b)"
  shows "command_id node (change_nodes (assign node (on_blind g)) c) = command_id node c"
  using assms by (cases "nw_heap (cl_nodes c) node") (simp_all add: command_id_def Node_NodeID_def)

lemma command_frame_blind:
  assumes "\<And>b. od_BaseNode (bl_OpeningDevice (g b)) = od_BaseNode (bl_OpeningDevice b)"
  shows "command_frame node p fps (change_nodes (assign node (on_blind g)) c) = command_frame node p fps c"
  by (simp add: command_frame_def command_id_blind [OF assms])

text \<open>The functional parameter 3 of a position command to a blind.\<close>

definition blind_fp3 :: "Position \<Rightarrow> Position option \<Rightarrow> Parameter" where
  "blind_fp3 position orientation =
     pos_Parameter (case orientation of
       Some q \<Rightarrow> q
     | None \<Rightarrow> if Raw (pos_Parameter position) = (0, 0) then \<lparr> pos_Parameter = \<lparr> Raw = (0, 0) \<rparr> \<rparr>
               else NewIgnorePosition)"

lemma SetPositionAndOrientation_eq:
  assumes "is_blind (nw_heap (cl_nodes c) node)"
  shows "Blind_SetPositionAndOrientation node p w o' c =
    (let c = change_nodes (assign node (on_blind (set_position_fields p))) c
     in and_then (Client_CommandSend (command_id node c) (pos_Parameter p) [3 \<mapsto> blind_fp3 p o'] w c)
          (change_nodes (AfterUpdate node)))"
  by (simp add: Blind_SetPositionAndOrientation_def Let_def blind_at_set_position [OF assms] blind_fp3_def
      set_position_fields_def split: option.split)

lemma writes_blind:
  assumes "online c" "is_blind (nw_heap (cl_nodes c) node)"
  shows "writes c (snd (Blind_SetPositionAndOrientation node p w o' c))
    (command_frame node (pos_Parameter p) [3 \<mapsto> blind_fp3 p o'] c)"
proof -
  let ?c = "change_nodes (assign node (on_blind (set_position_fields p))) c"
  have "online ?c" using assms(1) by simp
  from writes_CommandSend [OF this, of node "pos_Parameter p" "[3 \<mapsto> blind_fp3 p o']" w]
  show ?thesis
    unfolding SetPositionAndOrientation_eq [OF assms(2)] Let_def writes_def
    by (simp add: command_frame_blind set_position_fields_def)
qed

text \<open>What the methods write: main parameter and functional parameters.\<close>

definition percent_0 :: Parameter where "percent_0 = \<lparr> Raw = (0, 0) \<rparr>"
definition percent_100 :: Parameter where "percent_100 = \<lparr> Raw = (200, 0) \<rparr>"

lemma writes_Device_Open:
  assumes "online c"
  shows "writes c (snd (Device_Open node w c)) (command_frame node percent_0
    (if is_blind (nw_heap (cl_nodes c) node) then [3 \<mapsto> percent_0] else Map.empty) c)"
  using writes_blind [OF assms, of node "\<lparr> pos_Parameter = percent_0 \<rparr>" w None]
    writes_setPosition [OF assms, of node "\<lparr> pos_Parameter = percent_0 \<rparr>" w]
  by (auto simp: Device_Open_def Blind_Open_def Blind_SetPosition_def OpeningDevice_open_def percent_0_def blind_fp3_def)

lemma writes_Device_Close:
  assumes "online c"
  shows "writes c (snd (Device_Close node w c)) (command_frame node percent_100
    (if is_blind (nw_heap (cl_nodes c) node) then [3 \<mapsto> pos_Parameter NewIgnorePosition] else Map.empty) c)"
  using writes_blind [OF assms, of node "\<lparr> pos_Parameter = percent_100 \<rparr>" w None]
    writes_setPosition [OF assms, of node "\<lparr> pos_Parameter = percent_100 \<rparr>" w]
  by (auto simp: Device_Close_def Blind_Close_def Blind_SetPosition_def OpeningDevice_close_def percent_100_def blind_fp3_def)

lemma writes_Device_Stop:
  assumes "online c"
  shows "writes c (snd (Device_Stop node w c)) (command_frame node (pos_Parameter NewCurrentPosition)
    (if is_blind (nw_heap (cl_nodes c) node)
     then [3 \<mapsto> pos_Parameter (bl_targetOrientation (blind_at node c))] else Map.empty) c)"
  using writes_blind [OF assms, of node NewCurrentPosition w "Some (bl_targetOrientation (blind_at node c))"]
    writes_setPosition [OF assms, of node NewCurrentPosition w]
  by (auto simp: Device_Stop_def Blind_Stop_def OpeningDevice_stop_def blind_fp3_def)

lemma writes_Device_SetPosition:
  assumes "online c"
  shows "writes c (snd (Device_SetPosition node p w c)) (command_frame node (pos_Parameter p)
    (if is_blind (nw_heap (cl_nodes c) node) then [3 \<mapsto> blind_fp3 p None] else Map.empty) c)"
  using writes_blind [OF assms, of node p w None] writes_setPosition [OF assms, of node p w]
  by (auto simp: Device_SetPosition_def Blind_SetPosition_def)

section \<open>Properties\<close>

text \<open>
  C32: With a connected client each device command writes exactly one frame: open 0 percent, close
  100 percent, stop the current-position sentinel, set-position the given value, for the node id
  of the device; a blind adds functional parameter 3: 0 percent when it opens (or is set to 0
  percent), its target orientation on stop, otherwise the ignore sentinel.
\<close>

theorem device_commands_wire:
  assumes "online c"
  shows "let blind = is_blind (nw_heap (cl_nodes c) node);
      ignored = pos_Parameter NewIgnorePosition
    in writes c (snd (Device_Open node w c))
         (command_frame node percent_0 (if blind then [3 \<mapsto> percent_0] else Map.empty) c) \<and>
       writes c (snd (Device_Close node w c))
         (command_frame node percent_100 (if blind then [3 \<mapsto> ignored] else Map.empty) c) \<and>
       writes c (snd (Device_Stop node w c))
         (command_frame node (pos_Parameter NewCurrentPosition)
           (if blind then [3 \<mapsto> pos_Parameter (bl_targetOrientation (blind_at node c))] else Map.empty) c) \<and>
       writes c (snd (Device_SetPosition node p w c))
         (command_frame node (pos_Parameter p)
           (if blind then [3 \<mapsto> (if Raw (pos_Parameter p) = (0, 0) then percent_0 else ignored)]
            else Map.empty) c)"
  using writes_Device_Open [OF assms] writes_Device_Close [OF assms] writes_Device_Stop [OF assms]
    writes_Device_SetPosition [OF assms, of node p w]
  by (simp add: Let_def blind_fp3_def percent_0_def split: if_splits)

theorem device_commands_wire_witness:
  "writes (connected_client [\<lparr> ex_write = True, ex_frames = [], ex_end = SelLost \<rparr>] NewNodes)
     (snd (Device_Open 0 False (connected_client [\<lparr> ex_write = True, ex_frames = [], ex_end = SelLost \<rparr>] NewNodes)))
     (command_frame 0 percent_0 Map.empty (connected_client [\<lparr> ex_write = True, ex_frames = [], ex_end = SelLost \<rparr>] NewNodes))"
  using device_commands_wire [of "connected_client [\<lparr> ex_write = True, ex_frames = [], ex_end = SelLost \<rparr>] NewNodes" 0 False]
  by (simp add: Let_def NewNodes_def)

end
