(* ===== verification/Scenes.thy ===== *)
theory Scenes
  imports Api Store
begin

text \<open>
  \<^verbatim>\<open>src/app/klf200/scenes.go\<close>: a scene and its activation, the collection of scenes, and its
  loading from the gateway. A scene is never changed after it is built, so it is a value.
\<close>

section \<open>The code\<close>

record Scene =
  sc_SceneID :: byte
  sc_name :: string

definition activate_request :: "u16 \<Rightarrow> Scene \<Rightarrow> FrameActivateSceneRequest" where
  "activate_request sid s =
     \<lparr> asr_SceneID = sc_SceneID s, asr_SessionID = sid, asr_Originator = OriginatorUser,
       asr_Priority = PriorityUserLevel2, asr_Velocity = VelocityDefault \<rparr>"

definition activate_handler :: "u16 \<Rightarrow> bool \<Rightarrow> frame \<Rightarrow> bool \<Rightarrow> bool \<times> bool" where
  "activate_handler sid waitForCompletion frame accepted =
     (case frame of
        ScenesFrame (FrActivateSceneConfirmation f) \<Rightarrow>
          if asc_SessionID f \<noteq> sid then (False, accepted)
          else (\<not> waitForCompletion,
                if asc_Status f = ActivateSceneConfirmationStatusAccepted then True else accepted)
      | CommandsFrame (FrCommandRemainingTimeNotification f) \<Rightarrow> (False, accepted)
      | CommandsFrame (FrCommandRunStatusNotification f) \<Rightarrow> (False, accepted)
      | CommandsFrame (FrSessionFinishedNotification f) \<Rightarrow>
          if sfn_SessionID f \<noteq> sid then (False, accepted) else (True, accepted)
      | _ \<Rightarrow> (False, accepted))"

definition Scene_Run :: "Scene \<Rightarrow> bool \<Rightarrow> 'n client \<Rightarrow> (client_error + unit) \<times> 'n client" where
  "Scene_Run s waitForCompletion c =
     (let (sid, c) = new_session c
      in finish
        (APICall (ScenesFrame (FrActivateSceneRequest (activate_request sid s)))
          (activate_handler sid waitForCompletion) False c)
        (\<lambda>accepted. if \<not> accepted then Inl (SceneRejected (sc_SceneID s)) else Inr ()))"

fun Scenes_add :: "Scene \<Rightarrow> Scene list \<Rightarrow> Scene list" where
  "Scenes_add scene [] = [scene]"
| "Scenes_add scene (s # ss) =
     (if sc_SceneID s = sc_SceneID scene then scene # ss else s # Scenes_add scene ss)"

definition Scenes_Add :: "Scene option \<Rightarrow> Scene list \<Rightarrow> Scene list" where
  "Scenes_Add scene ss = (case scene of None \<Rightarrow> ss | Some scene \<Rightarrow> Scenes_add scene ss)"

definition Scenes_Clear :: "Scene list \<Rightarrow> Scene list" where "Scenes_Clear ss = []"
definition Scenes_Len :: "Scene list \<Rightarrow> nat" where "Scenes_Len ss = length ss"
definition Scenes_All :: "Scene list \<Rightarrow> Scene list" where "Scenes_All ss = ss"

fun Scenes_ByID :: "byte \<Rightarrow> Scene list \<Rightarrow> Scene option" where
  "Scenes_ByID i [] = None"
| "Scenes_ByID i (s # ss) = (if sc_SceneID s = i then Some s else Scenes_ByID i ss)"

fun Scenes_ByName :: "string \<Rightarrow> Scene list \<Rightarrow> Scene option" where
  "Scenes_ByName nm [] = None"
| "Scenes_ByName nm (s # ss) = (if sc_name s = nm then Some s else Scenes_ByName nm ss)"

text \<open>The handler captures \<open>expectedCount\<close> and \<open>collected\<close>.\<close>

definition scene_list_handler :: "frame \<Rightarrow> int \<times> SceneEntry list \<Rightarrow> bool \<times> int \<times> SceneEntry list" where
  "scene_list_handler frame s =
     (case frame of
        ScenesFrame (FrGetSceneListConfirmation f) \<Rightarrow>
          let expectedCount = uint (slc_CountScenes f) in (expectedCount = 0, expectedCount, snd s)
      | ScenesFrame (FrGetSceneListNotification f) \<Rightarrow>
          (sln_RemainingScenes f = 0, fst s, snd s @ sln_Scenes f)
      | _ \<Rightarrow> (False, s))"

text \<open>The discrepancy error is returned after the collection has been filled.\<close>

definition Scenes_Load ::
    "Scene list \<Rightarrow> 'n client \<Rightarrow> (client_error option \<times> Scene list) \<times> 'n client" where
  "Scenes_Load ss c =
     (let (e, s, c) = APICall (ScenesFrame (FrGetSceneListRequest ())) scene_list_handler (-1, []) c
      in case e of
           Some e \<Rightarrow> ((Some (Api e), ss), c)
         | None \<Rightarrow>
             let (expectedCount, collected) = s;
                 err = (if expectedCount \<ge> 0 \<and> int (length collected) \<noteq> expectedCount
                        then Some (SceneCount expectedCount (length collected)) else None);
                 ss = fold (\<lambda>entry ss. Scenes_Add (Some \<lparr> sc_SceneID = se_Number entry, sc_name = se_Name entry \<rparr>) ss)
                        collected (Scenes_Clear ss)
             in ((err, ss), c))"

section \<open>Lemmas\<close>

interpretation scene_store: keyed_store sc_SceneID Scenes_add Scenes_ByID
proof unfold_locales
  show "Scenes_ByID k (Scenes_add a xs) = (if sc_SceneID a = k then Some a else Scenes_ByID k xs)" for k a xs
    by (induction xs) auto
  show "map sc_SceneID (Scenes_add a xs) =
      (if sc_SceneID a \<in> sc_SceneID ` set xs then map sc_SceneID xs else map sc_SceneID xs @ [sc_SceneID a])" for a xs
    by (induction xs) auto
qed simp

definition scene_of :: "SceneEntry \<Rightarrow> Scene" where
  "scene_of entry = \<lparr> sc_SceneID = se_Number entry, sc_name = se_Name entry \<rparr>"

definition scene_entries :: "frame \<Rightarrow> SceneEntry list" where
  "scene_entries frame =
     (case frame of ScenesFrame (FrGetSceneListNotification f) \<Rightarrow> sln_Scenes f | _ \<Rightarrow> [])"

lemma snd_scene_list_handler: "snd (snd (scene_list_handler f s)) = snd s @ scene_entries f"
  by (simp add: scene_list_handler_def scene_entries_def Let_def split: frame.split scenes_frame.split)

lemma feed_scene_list:
  "snd (snd (feed scene_list_handler fs (d, s))) = snd s @ concat (map scene_entries fs)"
proof (induction fs arbitrary: d s)
  case (Cons f fs)
  obtain b t where h: "scene_list_handler f s = (b, t)" by (rule prod.exhaust)
  show ?case using snd_scene_list_handler [of f s] by (simp add: h Cons)
qed simp

lemma activate_handler_cases:
  "activate_handler sid w f s =
     (f = CommandsFrame (FrSessionFinishedNotification \<lparr> sfn_SessionID = sid \<rparr>) \<or>
        \<not> w \<and> (\<exists>st. f = ScenesFrame (FrActivateSceneConfirmation \<lparr> asc_SessionID = sid, asc_Status = st \<rparr>)),
      s \<or> f = ScenesFrame (FrActivateSceneConfirmation
             \<lparr> asc_SessionID = sid, asc_Status = ActivateSceneConfirmationStatusAccepted \<rparr>))"
proof (cases f)
  case (CommandsFrame g)
  show ?thesis
  proof (cases g)
    case (FrSessionFinishedNotification x)
    then show ?thesis by (cases x) (simp add: CommandsFrame activate_handler_def)
  qed (simp_all add: CommandsFrame activate_handler_def)
next
  case (ScenesFrame g)
  show ?thesis
  proof (cases g)
    case (FrActivateSceneConfirmation x)
    then show ?thesis by (cases x) (auto simp add: ScenesFrame activate_handler_def)
  qed (simp_all add: ScenesFrame activate_handler_def)
qed (simp_all add: activate_handler_def)

lemma feed_activate:
  "feed (activate_handler sid w) fs (d, s) =
     (d \<or> (\<exists>f\<in>set fs. fst (activate_handler sid w f False)),
      s \<or> ScenesFrame (FrActivateSceneConfirmation
             \<lparr> asc_SessionID = sid, asc_Status = ActivateSceneConfirmationStatusAccepted \<rparr>) \<in> set fs)"
  by (induction fs arbitrary: d s) (auto simp: activate_handler_cases)

section \<open>Properties\<close>

text \<open>
  When the exchange of a load succeeds, the collection holds exactly the scenes of the received
  lists: a scene id has the last name reported for it, ids are unique, and no scene of an earlier
  load is left; an exchange that fails leaves the collection alone.
\<close>

theorem Scenes_Load_rebuilds:
  "let ((err, ss'), c') = Scenes_Load ss c;
       (e, s, d) = APICall (ScenesFrame (FrGetSceneListRequest ())) scene_list_handler (-1, []) c;
       scenes = map scene_of (concat (map scene_entries (ex_frames (next_exchange c))))
   in (case e of
         Some e \<Rightarrow> err = Some (Api e) \<and> ss' = ss
       | None \<Rightarrow> (\<forall>k. Scenes_ByID k ss' = List.find (\<lambda>s. sc_SceneID s = k) (rev scenes)) \<and>
           distinct (map sc_SceneID ss'))"
proof -
  obtain e s d where r: "APICall (ScenesFrame (FrGetSceneListRequest ())) scene_list_handler (-1, []) c = (e, s, d)"
    by (rule prod_cases3)
  have add: "fold (\<lambda>entry. Scenes_Add (Some \<lparr> sc_SceneID = se_Number entry, sc_name = se_Name entry \<rparr>)) xs ss =
      fold Scenes_add (map scene_of xs) ss" for xs ss
    by (induction xs arbitrary: ss) (simp_all add: Scenes_Add_def scene_of_def)
  show ?thesis
  proof (cases e)
    case None
    then have s: "snd s = concat (map scene_entries (ex_frames (next_exchange c)))"
      using APICall_state [of "ScenesFrame (FrGetSceneListRequest ())" scene_list_handler "(-1, [])" c] r
      by (simp add: feed_scene_list)
    show ?thesis
      using scene_store.distinct_keys_fold [of "[]"]
      by (simp add: Scenes_Load_def r None Let_def s [symmetric] add Scenes_Clear_def
          scene_store.rebuild_lookup split: prod.split)
  qed (simp add: Scenes_Load_def r Let_def)
qed

text \<open>
  A scene runs successfully exactly if the request was sent, the wait ended by the handler, and
  a confirmation of this session accepted it; waiting for completion needs also the
  session-finished notification of this session.
\<close>

theorem Scene_Run_succeeds_iff:
  "fst (Scene_Run s w c) = Inr () \<longleftrightarrow>
     online c \<and> ex_end (next_exchange c) = SelDone \<and>
     (let sid = snd (NewSessionID (cl_sessions c)); fs = set (ex_frames (next_exchange c));
          acc = ScenesFrame (FrActivateSceneConfirmation
            \<lparr> asc_SessionID = sid, asc_Status = ActivateSceneConfirmationStatusAccepted \<rparr>)
      in acc \<in> fs \<and> (if w then CommandsFrame (FrSessionFinishedNotification \<lparr> sfn_SessionID = sid \<rparr>) \<in> fs else True))"
proof -
  have o: "online (c\<lparr> cl_sessions := g \<rparr>) = online c" for g by (simp add: online_def)
  have "sendable (ScenesFrame (FrActivateSceneRequest (activate_request sid s))) c = online c" for sid
    by (simp add: sendable_online FrameActivateSceneRequest_MarshalPayload_def)
  then show ?thesis
    by (cases w) (auto simp: Scene_Run_def finish_APICall_Inr feed_activate activate_handler_cases Let_def)
qed

end
