(* ===== verification/Heartbeat.thy ===== *)
theory Heartbeat
  imports Devices
begin

text \<open>
  \<^verbatim>\<open>src/app/klf200/heartbeat.go\<close>: the pulse that keeps the session alive and refreshes the slat
  orientation of the blinds, the buffered channel for its failures, and the start and stop of the
  goroutine as a step relation.
\<close>

section \<open>The pulse\<close>

text \<open>60 seconds in nanoseconds.\<close>

definition DefaultHeartbeatInterval :: int where "DefaultHeartbeatInterval = 60 * time_Second"

definition WithHeartbeatInterval :: "int \<Rightarrow> int \<Rightarrow> int" where
  "WithHeartbeatInterval d interval = (if d > 0 then d else interval)"

definition NewHeartbeat_interval :: "(int \<Rightarrow> int) list \<Rightarrow> int" where
  "NewHeartbeat_interval opts = fold (\<lambda>opt. opt) opts DefaultHeartbeatInterval"

definition heartbeat_handler :: "u16 \<Rightarrow> frame \<Rightarrow> unit \<Rightarrow> bool \<times> unit" where
  "heartbeat_handler sid frame s =
     (case frame of
        CommandsFrame (FrStatusRequestNotification f) \<Rightarrow> (srn_SessionID f = sid, s)
      | _ \<Rightarrow> (False, s))"

definition Heartbeat_statusRequest :: "u16 \<Rightarrow> 'n client \<Rightarrow> (client_error + unit) \<times> 'n client" where
  "Heartbeat_statusRequest nodeID c =
     (let (sid, c) = new_session c
      in finish
        (APICall (CommandsFrame (FrStatusRequestRequest
            \<lparr> srr_SessionID = sid, srr_NodeIDs = [ucast nodeID],
              srr_StatusType = StatusTypeRequestCurrentPosition, srr_FPI1 = 0xFE, srr_FPI2 = 0 \<rparr>))
          (heartbeat_handler sid) () c)
        (\<lambda>s. Inr ()))"

text \<open>The loop over the snapshot of the nodes; the error of a status request is dropped.\<close>

definition pulse_node :: "nat \<Rightarrow> 'z gateway \<Rightarrow> 'z gateway" where
  "pulse_node node c =
     (if \<not> is_blind (nw_heap (cl_nodes c) node) then c
      else snd (Heartbeat_statusRequest (Node_NodeID (nw_heap (cl_nodes c) node)) c))"

definition Heartbeat_pulse :: "'z gateway \<Rightarrow> client_error option \<times> 'z gateway" where
  "Heartbeat_pulse c =
     (case Client_GetState c of
        (Inl e, c) \<Rightarrow> (Some e, c)
      | (Inr st, c) \<Rightarrow> (None, fold pulse_node (Nodes_All (nw_nodes (cl_nodes c))) c))"

text \<open>One turn of the loop: a failure goes into the channel of capacity one unless it is full.\<close>

definition Heartbeat_tick ::
    "client_error option \<times> 'z gateway \<Rightarrow> client_error option \<times> 'z gateway" where
  "Heartbeat_tick s =
     (let (failureCh, c) = s; (err, c) = Heartbeat_pulse c
      in (case err of
            None \<Rightarrow> failureCh
          | Some e \<Rightarrow> (case failureCh of None \<Rightarrow> Some e | Some old \<Rightarrow> Some old), c))"

section \<open>The goroutine\<close>

text \<open>
  The channels made by the \<open>n\<close>-th start are the number \<open>n\<close>. \<open>hb_loops\<close> holds the loops that run,
  by their start. Closing a closed channel panics.
\<close>

record heartbeat =
  hb_running :: bool
  hb_current :: nat
  hb_stopClosed :: "nat set"
  hb_doneClosed :: "nat set"
  hb_loops :: "nat set"
  hb_panicked :: bool

definition heartbeat_init :: heartbeat where
  "heartbeat_init = \<lparr> hb_running = False, hb_current = 0, hb_stopClosed = {}, hb_doneClosed = {},
     hb_loops = {}, hb_panicked = False \<rparr>"

definition Heartbeat_Start :: "heartbeat \<Rightarrow> heartbeat" where
  "Heartbeat_Start h =
     (if hb_running h then h
      else let n = hb_current h + 1
           in h\<lparr> hb_current := n, hb_running := True, hb_loops := insert n (hb_loops h) \<rparr>)"

text \<open>The locked part of \<open>Stop\<close>; then it waits for the done channel it has read.\<close>

definition Heartbeat_Stop :: "heartbeat \<Rightarrow> nat option \<times> heartbeat" where
  "Heartbeat_Stop h =
     (if \<not> hb_running h then (None, h)
      else if hb_current h \<in> hb_stopClosed h then (None, h\<lparr> hb_panicked := True \<rparr>)
      else (Some (hb_current h), h\<lparr> hb_stopClosed := insert (hb_current h) (hb_stopClosed h) \<rparr>))"

text \<open>The deferred function of \<open>loop\<close>.\<close>

definition Heartbeat_exit :: "nat \<Rightarrow> heartbeat \<Rightarrow> heartbeat" where
  "Heartbeat_exit n h =
     h\<lparr> hb_running := False, hb_loops := hb_loops h - {n},
        hb_doneClosed := insert (hb_current h) (hb_doneClosed h) \<rparr>"

inductive heartbeat_step :: "heartbeat \<Rightarrow> heartbeat \<Rightarrow> bool" where
  start: "heartbeat_step h (Heartbeat_Start h)"
| stop: "heartbeat_step h (snd (Heartbeat_Stop h))"
| loop_exit: "n \<in> hb_loops h \<Longrightarrow> n \<in> hb_stopClosed h \<Longrightarrow> heartbeat_step h (Heartbeat_exit n h)"

section \<open>Lemmas\<close>

definition heartbeat_inv :: "heartbeat \<Rightarrow> bool" where
  "heartbeat_inv h \<longleftrightarrow> hb_loops h = (if hb_running h then {hb_current h} else {}) \<and>
     hb_doneClosed h \<subseteq> hb_stopClosed h \<and> hb_stopClosed h \<subseteq> {..hb_current h} \<and>
     hb_doneClosed h \<inter> hb_loops h = {}"

lemma heartbeat_inv_step: "heartbeat_step h k \<Longrightarrow> heartbeat_inv h \<Longrightarrow> heartbeat_inv k"
proof (induction rule: heartbeat_step.induct)
  case (start h)
  then show ?case by (auto simp: heartbeat_inv_def Heartbeat_Start_def Let_def)
next
  case (stop h)
  then show ?case by (auto simp: heartbeat_inv_def Heartbeat_Stop_def split: if_splits)
next
  case (loop_exit n h)
  then have "hb_running h" "n = hb_current h" by (auto simp: heartbeat_inv_def split: if_splits)
  with loop_exit show ?case by (auto simp: heartbeat_inv_def Heartbeat_exit_def)
qed

lemma heartbeat_inv_reachable: "heartbeat_step\<^sup>*\<^sup>* heartbeat_init h \<Longrightarrow> heartbeat_inv h"
proof (induction rule: rtranclp_induct)
  case base
  show ?case by (simp add: heartbeat_inv_def heartbeat_init_def)
qed (rule heartbeat_inv_step)

section \<open>Properties\<close>

text \<open>
  C29: At most one heartbeat loop runs, and exactly while the heartbeat counts as running; when a
  stop returns, because its done channel is closed, the loop it stopped has ended.
\<close>

theorem heartbeat_single_loop:
  assumes "heartbeat_step\<^sup>*\<^sup>* heartbeat_init h"
  shows "hb_loops h = (if hb_running h then {hb_current h} else {}) \<and> hb_doneClosed h \<inter> hb_loops h = {}"
  using heartbeat_inv_reachable [OF assms] unfolding heartbeat_inv_def by blast

theorem heartbeat_single_loop_witness:
  "hb_loops (Heartbeat_Start heartbeat_init) = {1}"
  using heartbeat_single_loop [of "Heartbeat_Start heartbeat_init"] heartbeat_step.start [of heartbeat_init]
  by (simp add: r_into_rtranclp Heartbeat_Start_def heartbeat_init_def)

end
