(* ===== verification/GoStrings.thy ===== *)
theory GoStrings
  imports Prelude
begin

text \<open>
  The part of Go's packages \<^verbatim>\<open>unicode/utf8\<close>, \<^verbatim>\<open>strings\<close> and \<^verbatim>\<open>strconv\<close> that the bridge and the
  configuration use. A Go string is a sequence of bytes; the functions that look at characters
  decode UTF-8, where an invalid byte counts as the replacement character U+FFFD of width 1.
\<close>

section \<open>UTF-8\<close>

definition byte_at :: "string \<Rightarrow> nat \<Rightarrow> nat" where
  "byte_at s i = (if i < length s then of_char (s ! i) else 0)"

definition RuneError :: nat where "RuneError = 0xFFFD"

definition cont :: "nat \<Rightarrow> bool" where "cont b \<longleftrightarrow> 0x80 \<le> b \<and> b \<le> 0xBF"

text \<open>\<open>utf8.DecodeRuneInString\<close> of a string that is not empty: the rune and its width.\<close>

definition DecodeRune :: "string \<Rightarrow> nat \<times> nat" where
  "DecodeRune s =
     (let b0 = byte_at s 0; b1 = byte_at s 1; b2 = byte_at s 2; b3 = byte_at s 3 in
      if b0 < 0x80 then (b0, 1)
      else if 0xC2 \<le> b0 \<and> b0 \<le> 0xDF \<and> cont b1
      then ((b0 - 0xC0) * 64 + (b1 - 0x80), 2)
      else if 0xE0 \<le> b0 \<and> b0 \<le> 0xEF \<and> cont b1 \<and> cont b2 \<and>
        (b0 = 0xE0 \<longrightarrow> 0xA0 \<le> b1) \<and> (b0 = 0xED \<longrightarrow> b1 \<le> 0x9F)
      then ((b0 - 0xE0) * 4096 + (b1 - 0x80) * 64 + (b2 - 0x80), 3)
      else if 0xF0 \<le> b0 \<and> b0 \<le> 0xF4 \<and> cont b1 \<and> cont b2 \<and> cont b3 \<and>
        (b0 = 0xF0 \<longrightarrow> 0x90 \<le> b1) \<and> (b0 = 0xF4 \<longrightarrow> b1 \<le> 0x8F)
      then ((b0 - 0xF0) * 262144 + (b1 - 0x80) * 4096 + (b2 - 0x80) * 64 + (b3 - 0x80), 4)
      else (RuneError, 1))"

lemma DecodeRune_width: "0 < snd (DecodeRune s)"
  by (simp add: DecodeRune_def Let_def)

lemma DecodeRune_decreases:
  assumes "(r, w) = DecodeRune s" "s \<noteq> []"
  shows "length s - w < length s"
proof -
  from assms(1) have "w = snd (DecodeRune s)" by (metis snd_conv)
  with DecodeRune_width [of s] assms(2) show ?thesis by simp
qed

text \<open>The runes of a string with the bytes each one came from.\<close>

function runes :: "string \<Rightarrow> (nat \<times> string) list" where
  "runes s =
     (if s = [] then []
      else case DecodeRune s of (r, w) \<Rightarrow> (r, take w s) # runes (drop w s))"
  by pat_completeness auto
termination
  by (relation "measure length") (auto dest: DecodeRune_decreases)

declare runes.simps [simp del]

text \<open>\<open>utf8.AppendRune\<close>: a value that is not a character is written as U+FFFD.\<close>

definition EncodeRune :: "nat \<Rightarrow> string" where
  "EncodeRune r =
     (let c = (\<lambda>n. char_of (n :: nat) :: char) in
      if r < 0x80 then [c r]
      else if r < 0x800 then [c (0xC0 + r div 64), c (0x80 + r mod 64)]
      else if 0x10FFFF < r \<or> (0xD800 \<le> r \<and> r \<le> 0xDFFF) then [c 0xEF, c 0xBF, c 0xBD]
      else if r < 0x10000
      then [c (0xE0 + r div 4096), c (0x80 + r div 64 mod 64), c (0x80 + r mod 64)]
      else [c (0xF0 + r div 262144), c (0x80 + r div 4096 mod 64), c (0x80 + r div 64 mod 64),
            c (0x80 + r mod 64)])"

section \<open>\<^verbatim>\<open>strings\<close>\<close>

text \<open>
  \<open>unicode.ToLower\<close>: exact up to U+00FF; above it the case table of the Unicode version is the
  parameter \<open>upper_table\<close>. \<open>strings.Map\<close> decodes, maps and encodes.
\<close>

definition unicode_ToLower :: "(nat \<Rightarrow> nat) \<Rightarrow> nat \<Rightarrow> nat" where
  "unicode_ToLower upper_table r =
     (if r < 0x80 then (if 65 \<le> r \<and> r \<le> 90 then r + 32 else r)
      else if r \<le> 0xFF then (if 0xC0 \<le> r \<and> r \<le> 0xDE \<and> r \<noteq> 0xD7 then r + 32 else r)
      else upper_table r)"

definition strings_ToLower :: "(nat \<Rightarrow> nat) \<Rightarrow> string \<Rightarrow> string" where
  "strings_ToLower upper_table s =
     concat (map (\<lambda>(r, w). EncodeRune (unicode_ToLower upper_table r)) (runes s))"

text \<open>\<open>strings.ReplaceAll(s, " ", "-")\<close>\<close>

definition replace_spaces :: "string \<Rightarrow> string" where
  "replace_spaces s = map (\<lambda>c. if c = CHR '' '' then CHR ''-'' else c) s"

text \<open>\<open>unicode.IsSpace\<close> and \<open>strings.TrimSpace\<close>.\<close>

definition unicode_IsSpace :: "nat \<Rightarrow> bool" where
  "unicode_IsSpace r \<longleftrightarrow> (9 \<le> r \<and> r \<le> 13) \<or> r = 32 \<or> r = 0x85 \<or> r = 0xA0 \<or> r = 0x1680 \<or>
     (0x2000 \<le> r \<and> r \<le> 0x200A) \<or> r = 0x2028 \<or> r = 0x2029 \<or> r = 0x202F \<or> r = 0x205F \<or> r = 0x3000"

definition strings_TrimSpace :: "string \<Rightarrow> string" where
  "strings_TrimSpace s =
     (let sp = (\<lambda>(r, w). unicode_IsSpace r)
      in concat (map snd (rev (dropWhile sp (rev (dropWhile sp (runes s)))))))"

section \<open>\<^verbatim>\<open>strconv\<close>\<close>

definition is_digit :: "char \<Rightarrow> bool" where
  "is_digit c \<longleftrightarrow> 48 \<le> (of_char c :: nat) \<and> (of_char c :: nat) \<le> 57"

text \<open>\<open>strconv.Atoi\<close> on a 64-bit machine; \<open>None\<close> is the error.\<close>

definition Atoi :: "string \<Rightarrow> int option" where
  "Atoi s =
     (let neg = (s \<noteq> [] \<and> hd s = CHR ''-'');
          ds = (if s \<noteq> [] \<and> (hd s = CHR ''-'' \<or> hd s = CHR ''+'') then tl s else s);
          v = (if neg then - int (dec_value ds) else int (dec_value ds))
      in if ds \<noteq> [] \<and> list_all is_digit ds \<and> - (2 ^ 63) \<le> v \<and> v < 2 ^ 63 then Some v else None)"

section \<open>Lemmas\<close>

subsection \<open>ASCII\<close>

definition ascii :: "string \<Rightarrow> bool" where
  "ascii s \<longleftrightarrow> list_all (\<lambda>c. (of_char c :: nat) < 0x80) s"

lemma ascii_simps [simp]:
  "ascii []" "ascii (c # s) \<longleftrightarrow> (of_char c :: nat) < 0x80 \<and> ascii s"
  "ascii (s @ t) \<longleftrightarrow> ascii s \<and> ascii t"
  by (simp_all add: ascii_def)

lemma DecodeRune_ascii: "(of_char c :: nat) < 0x80 \<Longrightarrow> DecodeRune (c # s) = (of_char c, 1)"
  by (simp add: DecodeRune_def byte_at_def)

lemma runes_ascii: "ascii s \<Longrightarrow> runes s = map (\<lambda>c. (of_char c, [c])) s"
proof (induction s)
  case (Cons c s)
  then show ?case by (subst runes.simps) (simp add: DecodeRune_ascii)
qed (simp add: runes.simps)

lemma EncodeRune_ascii: "(of_char c :: nat) < 0x80 \<Longrightarrow> EncodeRune (of_char c) = [c]"
  by (simp add: EncodeRune_def)

text \<open>An ASCII string is trimmed of the ASCII white space at its two ends.\<close>

definition ascii_space :: "char \<Rightarrow> bool" where
  "ascii_space c \<longleftrightarrow> unicode_IsSpace (of_char c)"

lemma TrimSpace_ascii:
  assumes "ascii s"
  shows "strings_TrimSpace s = rev (dropWhile ascii_space (rev (dropWhile ascii_space s)))"
proof -
  have sp: "(\<lambda>(r, w). unicode_IsSpace r) \<circ> (\<lambda>c. (of_char c, [c])) = ascii_space"
    by (simp add: fun_eq_iff ascii_space_def)
  have flat: "concat (map snd (map (\<lambda>c. (of_char c :: nat, [c])) xs)) = xs" for xs
    by (induction xs) simp_all
  show ?thesis
    unfolding strings_TrimSpace_def Let_def runes_ascii [OF assms] dropWhile_map rev_map sp
    by (rule flat)
qed

lemma TrimSpace_trimmed:
  assumes "ascii s" "s \<noteq> []" "\<not> ascii_space (hd s)" "\<not> ascii_space (last s)"
  shows "strings_TrimSpace s = s"
proof -
  have "dropWhile ascii_space s = s" using assms(2,3) by (cases s) auto
  moreover have "dropWhile ascii_space (rev s) = rev s"
    using assms(2,4) by (cases s rule: rev_cases) auto
  ultimately show ?thesis by (simp add: TrimSpace_ascii [OF assms(1)])
qed

subsection \<open>Decimals\<close>

lemma dec_digit_char: "d < 10 \<Longrightarrow> (of_char (dec_digit d) :: nat) = 48 + d"
proof -
  assume "d < 10"
  then have "d \<in> {0, 1, 2, 3, 4, 5, 6, 7, 8, 9}" by auto
  then show ?thesis by (auto simp: dec_digit_def)
qed

lemma dec_nat_digits: "list_all is_digit (dec_nat n)"
proof (induction n rule: dec_nat.induct)
  case (1 n)
  have d: "is_digit (dec_digit k)" if "k < 10" for k
    using that by (simp add: is_digit_def dec_digit_char)
  show ?case using 1 by (subst dec_nat.simps) (simp add: d)
qed

lemma dec_nat_ne [simp]: "dec_nat n \<noteq> []"
  by (subst dec_nat.simps) simp

lemma hd_dec_nat: "is_digit (hd (dec_nat n))" and last_dec_nat: "is_digit (last (dec_nat n))"
  using dec_nat_digits [of n] by (cases "dec_nat n"; force simp: list_all_iff)+

lemma digit_not_sign: "is_digit c \<Longrightarrow> c \<noteq> CHR ''-'' \<and> c \<noteq> CHR ''+''"
  by (auto simp: is_digit_def)

lemma digit_not_space: "is_digit c \<Longrightarrow> \<not> ascii_space c"
  by (auto simp: is_digit_def ascii_space_def unicode_IsSpace_def)

lemma Atoi_dec_nat: "n < 2 ^ 63 \<Longrightarrow> Atoi (dec_nat n) = Some (int n)"
  using digit_not_sign [OF hd_dec_nat, of n] dec_nat_digits [of n]
  by (simp add: Atoi_def)

lemma Atoi_Itoa:
  assumes "- (2 ^ 63) \<le> i" "i < 2 ^ 63"
  shows "Atoi (Itoa i) = Some i"
proof (cases "i < 0")
  case True
  with assms dec_nat_digits [of "nat (- i)"] show ?thesis by (simp add: Itoa_def Atoi_def)
next
  case False
  with assms Atoi_dec_nat [of "nat i"] show ?thesis by (simp add: Itoa_def nat_less_iff)
qed

lemma ascii_digits: "list_all is_digit s \<Longrightarrow> ascii s"
  by (auto simp: ascii_def list_all_iff is_digit_def)

lemma TrimSpace_dec_nat [simp]: "strings_TrimSpace (dec_nat n) = dec_nat n"
  by (rule TrimSpace_trimmed)
    (simp_all add: ascii_digits dec_nat_digits digit_not_space hd_dec_nat last_dec_nat)

end
