(* ===== verification/CoverState.thy ===== *)
theory CoverState
  imports GoStrings
begin

text \<open>
  The pure parts of the bridge: \<^verbatim>\<open>src/app/bridge/cover_state.go\<close> (what a cover publishes for a
  position and a target) and \<^verbatim>\<open>src/app/bridge/ids.go\<close> (the id of a cover and its topics).
\<close>

section \<open>Cover states\<close>

definition StateOpen :: string where "StateOpen = ''open''"
definition StateClosed :: string where "StateClosed = ''closed''"
definition StateOpening :: string where "StateOpening = ''opening''"
definition StateClosing :: string where "StateClosing = ''closing''"

definition positionFullyOpen :: int where "positionFullyOpen = 0"
definition positionFullyClosed :: int where "positionFullyClosed = 100"

definition ValidatePosition :: "int \<Rightarrow> int" where
  "ValidatePosition position = (if position < 0 \<or> position > 100 then 0 else position)"

definition ValidateTarget :: "int \<Rightarrow> int \<Rightarrow> int \<times> bool" where
  "ValidateTarget target validPosition =
     (if target < 0 \<or> target > 100 then (validPosition, True) else (target, False))"

definition deriveStateNormal :: "int \<Rightarrow> int \<Rightarrow> string" where
  "deriveStateNormal position target =
     (if position = target then (if position = positionFullyClosed then StateClosed else StateOpen)
      else if target < position then StateOpening
      else if target > position then StateClosing
      else StateOpen)"

definition deriveStateInverted :: "int \<Rightarrow> int \<Rightarrow> string" where
  "deriveStateInverted position target =
     (if position = target then (if position = positionFullyOpen then StateClosed else StateOpen)
      else if target < position then StateClosing
      else if target > position then StateOpening
      else StateOpen)"

definition DeriveState :: "int \<Rightarrow> int \<Rightarrow> bool \<Rightarrow> string" where
  "DeriveState position target inverted =
     (if inverted then deriveStateInverted position target else deriveStateNormal position target)"

definition CoverState :: "int \<Rightarrow> int \<Rightarrow> bool \<Rightarrow> int \<times> string" where
  "CoverState rawPosition rawTarget inverted =
     (let position = ValidatePosition rawPosition;
          (target, _) = ValidateTarget rawTarget position;
          state = DeriveState position target inverted
      in (position, state))"

text \<open>
  The contract of Home Assistant speaks of openness, 0 for closed and 100 for open. It is the
  abstraction of a position, and the state is a function of the openness now and at the target.
\<close>

definition openness :: "bool \<Rightarrow> int \<Rightarrow> int" where
  "openness inverted position = (if inverted then position else 100 - position)"

definition ha_state :: "int \<Rightarrow> int \<Rightarrow> string" where
  "ha_state now target =
     (if target = now then (if now = 0 then ''closed'' else ''open'')
      else if target > now then ''opening'' else ''closing'')"

section \<open>Ids and topics\<close>

fun umlautReplacer :: "string \<Rightarrow> string" where
  "umlautReplacer [] = []"
| "umlautReplacer [c] = [c]"
| "umlautReplacer (c # d # s) =
     (if c = CHR 0xC3 \<and> d = CHR 0xA4 then ''ae'' @ umlautReplacer s
      else if c = CHR 0xC3 \<and> d = CHR 0xB6 then ''oe'' @ umlautReplacer s
      else if c = CHR 0xC3 \<and> d = CHR 0xBC then ''ue'' @ umlautReplacer s
      else if c = CHR 0xC3 \<and> d = CHR 0x9F then ''ss'' @ umlautReplacer s
      else c # umlautReplacer (d # s))"

definition GenerateID :: "(nat \<Rightarrow> nat) \<Rightarrow> string \<Rightarrow> string" where
  "GenerateID upper_table nm =
     (let s = replace_spaces nm;
          s = strings_ToLower upper_table s;
          s = umlautReplacer s
      in ''vlx-'' @ s)"

record Topics =
  tp_Base :: string
  tp_KeepOpenBase :: string
  tp_State :: string
  tp_Position :: string
  tp_Available :: string
  tp_Set :: string
  tp_KeepOpenState :: string
  tp_KeepOpenAvailable :: string
  tp_KeepOpenSet :: string

definition NewTopics :: "string \<Rightarrow> string \<Rightarrow> Topics" where
  "NewTopics prefix i =
     (let base = prefix @ i; keepOpenBase = prefix @ i @ ''-keepopen'' in
      \<lparr> tp_Base = base, tp_KeepOpenBase = keepOpenBase,
        tp_State = base @ ''/state'', tp_Position = base @ ''/position'',
        tp_Available = base @ ''/available'', tp_Set = base @ ''/set'',
        tp_KeepOpenState = keepOpenBase @ ''/state'',
        tp_KeepOpenAvailable = keepOpenBase @ ''/available'',
        tp_KeepOpenSet = keepOpenBase @ ''/set'' \<rparr>)"

section \<open>Lemmas\<close>

lemma ValidatePosition_range: "0 \<le> ValidatePosition p" "ValidatePosition p \<le> 100"
  by (simp_all add: ValidatePosition_def)

lemma ValidateTarget_range:
  "0 \<le> p \<Longrightarrow> p \<le> 100 \<Longrightarrow> 0 \<le> fst (ValidateTarget t p) \<and> fst (ValidateTarget t p) \<le> 100"
  by (simp add: ValidateTarget_def)

lemma DeriveState_ha: "DeriveState p t inverted = ha_state (openness inverted p) (openness inverted t)"
  by (simp add: DeriveState_def deriveStateNormal_def deriveStateInverted_def ha_state_def openness_def
      positionFullyClosed_def positionFullyOpen_def StateOpen_def StateClosed_def StateOpening_def
      StateClosing_def)

text \<open>Lower case and hyphens, for ASCII names.\<close>

definition id_char :: "char \<Rightarrow> char" where
  "id_char c =
     (if c = CHR '' '' then CHR ''-''
      else if 65 \<le> (of_char c :: nat) \<and> (of_char c :: nat) \<le> 90 then char_of (of_char c + 32 :: nat)
      else c)"

lemma ascii_replace_spaces: "ascii s \<Longrightarrow> ascii (replace_spaces s)"
  by (auto simp: ascii_def replace_spaces_def list_all_iff)

lemma char_of_values [simp]:
  "char_of (45 :: nat) = CHR ''-''" "char_of (114 :: nat) = CHR ''r''" "char_of (108 :: nat) = CHR ''l''"
  by code_simp+

lemma EncodeRune_below: "n < 0x80 \<Longrightarrow> EncodeRune n = [char_of n]"
  by (simp add: EncodeRune_def)

lemma lower_ascii:
  assumes "ascii s"
  shows "strings_ToLower u s = map (\<lambda>c. char_of (unicode_ToLower u (of_char c))) s"
proof -
  have "EncodeRune (unicode_ToLower u (of_char c)) = [char_of (unicode_ToLower u (of_char c))]"
    if "(of_char c :: nat) < 0x80" for c
    using that by (intro EncodeRune_below) (simp add: unicode_ToLower_def)
  with assms show ?thesis
    unfolding strings_ToLower_def runes_ascii [OF assms]
    by (induction s) (simp_all add: comp_def)
qed

lemma umlaut_ascii: "ascii s \<Longrightarrow> umlautReplacer s = s"
proof (induction s rule: umlautReplacer.induct)
  case (3 c d s)
  then have "c \<noteq> CHR 0xC3" by auto
  with 3 show ?case by simp
qed auto

lemma GenerateID_ascii:
  assumes "ascii s"
  shows "GenerateID u s = ''vlx-'' @ map id_char s"
proof -
  have c: "char_of (unicode_ToLower u (of_char (if c = CHR '' '' then CHR ''-'' else c))) = id_char c"
    if "(of_char c :: nat) < 0x80" for c
    using that by (simp add: id_char_def unicode_ToLower_def)
  have low: "strings_ToLower u (replace_spaces s) = map id_char s"
    using assms unfolding lower_ascii [OF ascii_replace_spaces [OF assms]]
    by (auto simp: replace_spaces_def ascii_def list_all_iff c)
  have "(of_char (id_char c) :: nat) < 0x80" if "(of_char c :: nat) < 0x80" for c
    using that by (simp add: id_char_def)
  then have "ascii (map id_char s)" using assms by (simp add: ascii_def list_all_iff)
  then show ?thesis by (simp add: GenerateID_def low umlaut_ascii)
qed

text \<open>The topics that a cover publishes to or subscribes to.\<close>

definition topic_list :: "Topics \<Rightarrow> string list" where
  "topic_list t = [tp_State t, tp_Position t, tp_Available t, tp_Set t,
     tp_KeepOpenState t, tp_KeepOpenAvailable t, tp_KeepOpenSet t]"

lemma append_suffix_eq: "xs @ us = ys @ vs \<longleftrightarrow> rev us @ rev xs = rev vs @ rev ys"
  by (metis rev_append rev_is_rev_conv)

section \<open>Properties\<close>

text \<open>
  C26: What is published for a cover refines the openness contract of Home Assistant: the position
  is a percentage, and the state is that of the openness of the published position and of the
  target, where a target that is no percentage counts as having arrived. It is always one of the
  four states, and a cover moves only towards a target that is a percentage.
\<close>

theorem CoverState_refines_openness:
  "case CoverState rawPosition rawTarget inverted of (position, state) \<Rightarrow>
     position = (if rawPosition \<in> {0..100} then rawPosition else 0) \<and>
     state = (if rawTarget \<in> {0..100}
              then ha_state (openness inverted position) (openness inverted rawTarget)
              else ha_state (openness inverted position) (openness inverted position)) \<and>
     openness inverted position \<in> {0..100} \<and>
     state \<in> {''open'', ''closed'', ''opening'', ''closing''}"
  by (auto simp: CoverState_def ValidatePosition_def ValidateTarget_def DeriveState_ha ha_state_def
      openness_def)

text \<open>
  For ASCII names the id is the name in lower case with hyphens for spaces behind
  \<^verbatim>\<open>vlx-\<close>, and nothing else is changed: two names get the same id exactly if they differ in case
  or in spaces against hyphens only, and characters that have a meaning in topics are kept.
\<close>

theorem GenerateID_collides_iff:
  assumes "ascii m" "ascii n"
  shows "GenerateID u m = ''vlx-'' @ map id_char m \<and>
    (GenerateID u m = GenerateID u n \<longleftrightarrow> map id_char m = map id_char n)"
  by (simp add: GenerateID_ascii assms)

theorem GenerateID_collides_iff_witness:
  "GenerateID id ''Roof Left'' = GenerateID id ''roof-left'' \<and> ''Roof Left'' \<noteq> ''roof-left''"
  using GenerateID_collides_iff [of "''Roof Left''" "''roof-left''" id]
  by (force simp: id_char_def)

text \<open>
  The topics of two covers with different ids overlap exactly if one id is the other one with
  \<^verbatim>\<open>-keepopen\<close> behind it: a cover of that name shares its state, availability and command topic
  with the keep-open switch of the other cover.
\<close>

theorem topics_overlap_iff:
  assumes "i \<noteq> j"
  shows "set (topic_list (NewTopics prefix i)) \<inter> set (topic_list (NewTopics prefix j)) \<noteq> {} \<longleftrightarrow>
    j = i @ ''-keepopen'' \<or> i = j @ ''-keepopen''"
proof
  have rev_append: "rev us @ rev ys = rev xs \<longleftrightarrow> xs = ys @ us" for us xs ys :: string
    by (metis rev_append rev_is_rev_conv)
  assume "set (topic_list (NewTopics prefix i)) \<inter> set (topic_list (NewTopics prefix j)) \<noteq> {}"
  then show "j = i @ ''-keepopen'' \<or> i = j @ ''-keepopen''"
    using assms rev_append [of "''-keepopen''" i j] rev_append [of "''-keepopen''" j i]
    by (auto simp: topic_list_def NewTopics_def append_suffix_eq)
next
  assume "j = i @ ''-keepopen'' \<or> i = j @ ''-keepopen''"
  then show "set (topic_list (NewTopics prefix i)) \<inter> set (topic_list (NewTopics prefix j)) \<noteq> {}"
    by (auto simp: topic_list_def NewTopics_def)
qed

theorem topics_overlap_iff_witness:
  "set (topic_list (NewTopics '''' ''vlx-a'')) \<inter> set (topic_list (NewTopics '''' ''vlx-a-keepopen'')) \<noteq> {}"
  using topics_overlap_iff [of "''vlx-a''" "''vlx-a-keepopen''" "''''"] by simp

end
