(* ===== verification/Discovery.thy ===== *)
theory Discovery
  imports CoverState Nodes
begin

text \<open>
  \<^verbatim>\<open>src/app/bridge/discovery.go\<close>: the discovery messages for Home Assistant, down to the text that
  \<^verbatim>\<open>encoding/json\<close> makes of them, and the device class of a node.
\<close>

section \<open>\<^verbatim>\<open>encoding/json\<close>\<close>

datatype json = JString string | JInt int | JArray "json list" | JObject "(string \<times> json) list"

definition hex_char :: "nat \<Rightarrow> char" where
  "hex_char d = ''0123456789abcdef'' ! d"

definition json_escape_ascii :: "char \<Rightarrow> string" where
  "json_escape_ascii c =
     (let b = (of_char c :: nat) in
      if b = 34 then [CHR 0x5C, CHR 0x22]
      else if b = 92 then [CHR 0x5C, CHR 0x5C]
      else if b = 8 then CHR 0x5C # ''b''
      else if b = 12 then CHR 0x5C # ''f''
      else if b = 10 then CHR 0x5C # ''n''
      else if b = 13 then CHR 0x5C # ''r''
      else if b = 9 then CHR 0x5C # ''t''
      else if b < 32 \<or> b = 60 \<or> b = 62 \<or> b = 38
      then CHR 0x5C # ''u00'' @ [hex_char (b div 16), hex_char (b mod 16)]
      else [c])"

text \<open>An invalid byte is the replacement rune with width 1.\<close>

definition json_escape_rune :: "nat \<times> string \<Rightarrow> string" where
  "json_escape_rune rw =
     (case rw of (r, w) \<Rightarrow>
        if r < 0x80 then concat (map json_escape_ascii w)
        else if r = RuneError \<and> length w = 1 then CHR 0x5C # ''ufffd''
        else if r = 0x2028 \<or> r = 0x2029 then CHR 0x5C # ''u202'' @ [hex_char (r mod 16)]
        else w)"

definition json_string :: "string \<Rightarrow> string" where
  "json_string s = [CHR 0x22] @ concat (map json_escape_rune (runes s)) @ [CHR 0x22]"

fun json_Marshal :: "json \<Rightarrow> string" where
  "json_Marshal (JString s) = json_string s"
| "json_Marshal (JInt i) = Itoa i"
| "json_Marshal (JArray xs) = ''['' @ strings_Join (map json_Marshal xs) '','' @ '']''"
| "json_Marshal (JObject kvs) =
     ''{'' @ strings_Join (map (\<lambda>kv. json_string (fst kv) @ '':'' @ json_Marshal (snd kv)) kvs) '','' @ ''}''"

section \<open>The payloads\<close>

record discoveryAvailability =
  da_Topic :: string
  da_PayloadAvailable :: string
  da_PayloadNotAvailable :: string

record discoveryDevice =
  dd_Identifiers :: "string list"
  dd_Name :: string

record coverDiscoveryPayload =
  cdp_Name :: string
  cdp_UniqueID :: string
  cdp_StateTopic :: string
  cdp_PositionTopic :: string
  cdp_CommandTopic :: string
  cdp_SetPositionTopic :: string
  cdp_Availability :: "discoveryAvailability list"
  cdp_PayloadAvailable :: string
  cdp_PayloadNotAvailable :: string
  cdp_PositionOpen :: int
  cdp_PositionClosed :: int
  cdp_DeviceClass :: string
  cdp_Device :: discoveryDevice

record switchDiscoveryPayload =
  sdp_Name :: string
  sdp_UniqueID :: string
  sdp_StateTopic :: string
  sdp_CommandTopic :: string
  sdp_Icon :: string
  sdp_Availability :: "discoveryAvailability list"
  sdp_Device :: discoveryDevice

text \<open>The struct tags.\<close>

definition discoveryAvailability_json :: "discoveryAvailability \<Rightarrow> json" where
  "discoveryAvailability_json a =
     JObject [(''topic'', JString (da_Topic a)), (''payload_available'', JString (da_PayloadAvailable a)),
       (''payload_not_available'', JString (da_PayloadNotAvailable a))]"

definition discoveryDevice_json :: "discoveryDevice \<Rightarrow> json" where
  "discoveryDevice_json d =
     JObject [(''identifiers'', JArray (map JString (dd_Identifiers d))), (''name'', JString (dd_Name d))]"

definition coverDiscoveryPayload_json :: "coverDiscoveryPayload \<Rightarrow> json" where
  "coverDiscoveryPayload_json p =
     JObject ([(''name'', JString (cdp_Name p)), (''unique_id'', JString (cdp_UniqueID p)),
       (''state_topic'', JString (cdp_StateTopic p)), (''position_topic'', JString (cdp_PositionTopic p)),
       (''command_topic'', JString (cdp_CommandTopic p)), (''set_position_topic'', JString (cdp_SetPositionTopic p)),
       (''availability'', JArray (map discoveryAvailability_json (cdp_Availability p))),
       (''payload_available'', JString (cdp_PayloadAvailable p)),
       (''payload_not_available'', JString (cdp_PayloadNotAvailable p)),
       (''position_open'', JInt (cdp_PositionOpen p)), (''position_closed'', JInt (cdp_PositionClosed p))] @
       (if cdp_DeviceClass p = '''' then [] else [(''device_class'', JString (cdp_DeviceClass p))]) @
       [(''device'', discoveryDevice_json (cdp_Device p))])"

definition switchDiscoveryPayload_json :: "switchDiscoveryPayload \<Rightarrow> json" where
  "switchDiscoveryPayload_json p =
     JObject [(''name'', JString (sdp_Name p)), (''unique_id'', JString (sdp_UniqueID p)),
       (''state_topic'', JString (sdp_StateTopic p)), (''command_topic'', JString (sdp_CommandTopic p)),
       (''icon'', JString (sdp_Icon p)),
       (''availability'', JArray (map discoveryAvailability_json (sdp_Availability p))),
       (''device'', discoveryDevice_json (sdp_Device p))]"

section \<open>The cover\<close>

text \<open>
  \<open>Cover\<close> of \<^verbatim>\<open>cover.go\<close>: the node is a pointer, the MQTT wrapper is part of the state of the
  bridge. \<open>DeviceClassFor\<close> is applied to the node at construction.
\<close>

record Cover =
  cv_node :: nat
  cv_topics :: Topics
  cv_id :: string
  cv_inverted :: bool
  cv_deviceClass :: string
  cv_prefix :: string
  cv_lastState :: string

definition DeviceClassWindow :: string where "DeviceClassWindow = ''window''"
definition DeviceClassBlind :: string where "DeviceClassBlind = ''blind''"
definition DeviceClassAwning :: string where "DeviceClassAwning = ''awning''"
definition DeviceClassShutter :: string where "DeviceClassShutter = ''shutter''"
definition DeviceClassGarage :: string where "DeviceClassGarage = ''garage''"
definition DeviceClassGate :: string where "DeviceClassGate = ''gate''"
definition DeviceClassShade :: string where "DeviceClassShade = ''shade''"
definition DeviceClassNone :: string where "DeviceClassNone = ''''"

definition DeviceClassFor :: "Node \<Rightarrow> string" where
  "DeviceClassFor node =
     (case node of
        Window d r \<Rightarrow> DeviceClassWindow
      | BlindN b \<Rightarrow> DeviceClassBlind
      | Awning d \<Rightarrow> DeviceClassAwning
      | RollerShutter d \<Rightarrow> DeviceClassShutter
      | GarageDoor d \<Rightarrow> DeviceClassGarage
      | Gate d \<Rightarrow> DeviceClassGate
      | Blade d \<Rightarrow> DeviceClassShade
      | _ \<Rightarrow> DeviceClassNone)"

text \<open>The messages; \<open>nm\<close> is the name of the node. Marshalling these types has no error.\<close>

definition sharedDevice :: "Cover \<Rightarrow> string \<Rightarrow> discoveryDevice" where
  "sharedDevice c nm = \<lparr> dd_Identifiers = [tp_Base (cv_topics c)], dd_Name = nm \<rparr>"

definition cover_payload :: "Cover \<Rightarrow> string \<Rightarrow> coverDiscoveryPayload" where
  "cover_payload c nm =
     (let t = cv_topics c;
          (posOpen, posClosed) = (if cv_inverted c then (100, 0) else (0, 100));
          avail = [\<lparr> da_Topic = tp_Available t, da_PayloadAvailable = ''online'',
                     da_PayloadNotAvailable = ''offline'' \<rparr>];
          dev = sharedDevice c nm
      in \<lparr> cdp_Name = nm, cdp_UniqueID = cv_id c, cdp_StateTopic = tp_State t,
           cdp_PositionTopic = tp_Position t, cdp_CommandTopic = tp_Set t, cdp_SetPositionTopic = tp_Set t,
           cdp_Availability = avail, cdp_PayloadAvailable = ''online'',
           cdp_PayloadNotAvailable = ''offline'', cdp_PositionOpen = posOpen,
           cdp_PositionClosed = posClosed, cdp_DeviceClass = cv_deviceClass c, cdp_Device = dev \<rparr>)"

definition buildCoverDiscovery :: "Cover \<Rightarrow> string \<Rightarrow> string \<times> string" where
  "buildCoverDiscovery c nm =
     (''homeassistant/cover/'' @ tp_Base (cv_topics c) @ ''/config'',
      json_Marshal (coverDiscoveryPayload_json (cover_payload c nm)))"

definition switch_payload :: "Cover \<Rightarrow> string \<Rightarrow> switchDiscoveryPayload" where
  "switch_payload c nm =
     (let t = cv_topics c;
          avail = [\<lparr> da_Topic = tp_KeepOpenAvailable t, da_PayloadAvailable = ''online'',
                     da_PayloadNotAvailable = ''offline'' \<rparr>];
          dev = sharedDevice c nm;
          keepOpenID = cv_id c @ ''-keepopen''
      in \<lparr> sdp_Name = nm @ '' Keep open'', sdp_UniqueID = keepOpenID, sdp_StateTopic = tp_KeepOpenState t,
           sdp_CommandTopic = tp_KeepOpenSet t, sdp_Icon = ''mdi:lock-outline'',
           sdp_Availability = avail, sdp_Device = dev \<rparr>)"

definition buildSwitchDiscovery :: "Cover \<Rightarrow> string \<Rightarrow> string \<times> string" where
  "buildSwitchDiscovery c nm =
     (''homeassistant/switch/'' @ tp_KeepOpenBase (cv_topics c) @ ''/config'',
      json_Marshal (switchDiscoveryPayload_json (switch_payload c nm)))"

end
