(* ===== verification/Config.thy ===== *)
theory Config
  imports GoStrings
begin

text \<open>
  \<^verbatim>\<open>src/app/config/config.go\<close>: the configuration with its defaults and its validation. Reading
  the file is the environment; the substitution of environment variables is third-party code and
  the decoding of the JSON text into the pre-seeded configuration is \<^verbatim>\<open>encoding/json\<close>: both are
  parameters of \<open>LoadConfig\<close>. The copy kept for \<open>Get\<close> is a result.
\<close>

section \<open>The code\<close>

record MQTTConfig =
  mc_URL :: string
  mc_Username :: string
  mc_Password :: string
  mc_Retain :: bool
  mc_ClientID :: string
  mc_QoS :: byte
  mc_Topic :: string

text \<open>The fields of the configuration of \<^verbatim>\<open>mqtt-gateway\<close> that are filled in.\<close>

record gwMQTTConfig =
  gw_URL :: string
  gw_Retain :: bool
  gw_Topic :: string
  gw_QoS :: byte
  gw_Username :: string
  gw_Password :: string

definition ToGatewayConfig :: "MQTTConfig \<Rightarrow> gwMQTTConfig" where
  "ToGatewayConfig m =
     \<lparr> gw_URL = mc_URL m, gw_Retain = mc_Retain m, gw_Topic = mc_Topic m, gw_QoS = mc_QoS m,
       gw_Username = mc_Username m, gw_Password = mc_Password m \<rparr>"

record VeluxConfig =
  vc_Host :: string
  vc_Password :: string
  vc_ConnectTimeoutSeconds :: int

record HomeAssistantConfig =
  hc_Prefix :: string
  hc_InvertAwning :: bool

record RestartConfig =
  rc_RestartInterval :: int
  rc_HealthCheckInterval :: int
  rc_RestartOnError :: bool
  rc_PowerCycleTopic :: string
  rc_PowerCycleOffPayload :: string
  rc_PowerCycleOnPayload :: string
  rc_PowerCycleOffSeconds :: int
  rc_RestartAt :: string
  rc_PeriodicPowerCycle :: bool

definition PowerCycleEnabled :: "RestartConfig \<Rightarrow> bool" where
  "PowerCycleEnabled r = (rc_PowerCycleTopic r \<noteq> '''')"

definition PeriodicPowerCycleEnabled :: "RestartConfig \<Rightarrow> bool" where
  "PeriodicPowerCycleEnabled r = (rc_PeriodicPowerCycle r \<and> PowerCycleEnabled r)"

record Config =
  cf_MQTT :: MQTTConfig
  cf_Velux :: VeluxConfig
  cf_HomeAssistant :: HomeAssistantConfig
  cf_Restart :: RestartConfig
  cf_LogLevel :: string

definition ApplyDefaults_mqtt :: "MQTTConfig \<Rightarrow> MQTTConfig" where
  "ApplyDefaults_mqtt m = (if mc_QoS m = 0 then m\<lparr> mc_QoS := 1 \<rparr> else m)"

definition ApplyDefaults_velux :: "VeluxConfig \<Rightarrow> VeluxConfig" where
  "ApplyDefaults_velux v =
     (if vc_ConnectTimeoutSeconds v = 0 then v\<lparr> vc_ConnectTimeoutSeconds := 45 \<rparr> else v)"

definition ApplyDefaults_restart :: "RestartConfig \<Rightarrow> RestartConfig" where
  "ApplyDefaults_restart r =
     (let r = (if rc_RestartInterval r = 0 then r\<lparr> rc_RestartInterval := 24 \<rparr> else r);
          r = (if rc_HealthCheckInterval r = 0 then r\<lparr> rc_HealthCheckInterval := 300 \<rparr> else r);
          r = (if rc_PowerCycleOffPayload r = '''' then r\<lparr> rc_PowerCycleOffPayload := ''OFF'' \<rparr> else r);
          r = (if rc_PowerCycleOnPayload r = '''' then r\<lparr> rc_PowerCycleOnPayload := ''ON'' \<rparr> else r);
          r = (if rc_PowerCycleOffSeconds r = 0 then r\<lparr> rc_PowerCycleOffSeconds := 10 \<rparr> else r)
      in r)"

definition ApplyDefaults :: "Config \<Rightarrow> Config" where
  "ApplyDefaults c =
     c\<lparr> cf_MQTT := ApplyDefaults_mqtt (cf_MQTT c),
        cf_Velux := ApplyDefaults_velux (cf_Velux c),
        cf_Restart := ApplyDefaults_restart (cf_Restart c),
        cf_LogLevel := (if cf_LogLevel c = '''' then ''info'' else cf_LogLevel c) \<rparr>"

text \<open>
  \<open>time.Parse("15:04", s)\<close>: one or two digits for the hour, two for the minute, nothing behind.
  \<open>None\<close> is the error.
\<close>

definition digit_value :: "char \<Rightarrow> int" where
  "digit_value c = int (of_char c - 48)"

definition getnum :: "bool \<Rightarrow> string \<Rightarrow> (int \<times> string) option" where
  "getnum fixed s =
     (case s of
        [] \<Rightarrow> None
      | a # s1 \<Rightarrow>
          if \<not> is_digit a then None
          else (case s1 of
                  [] \<Rightarrow> if fixed then None else Some (digit_value a, s1)
                | b # s2 \<Rightarrow>
                    if is_digit b then Some (digit_value a * 10 + digit_value b, s2)
                    else if fixed then None else Some (digit_value a, s1)))"

definition time_Parse_15_04 :: "string \<Rightarrow> (int \<times> int) option" where
  "time_Parse_15_04 s =
     (case getnum False s of
        None \<Rightarrow> None
      | Some (hour, s) \<Rightarrow>
          if hour < 0 \<or> 24 \<le> hour then None
          else if s = [] \<or> hd s \<noteq> CHR '':'' then None
          else (case getnum True (tl s) of
                  None \<Rightarrow> None
                | Some (mins, s) \<Rightarrow>
                    if mins < 0 \<or> 60 \<le> mins then None
                    else if s \<noteq> [] then None else Some (hour, mins)))"

datatype config_error =
    PathEmpty
  | ReadFailed
  | ParseFailed
  | MissingURL
  | MissingHost
  | MissingPassword
  | BadRestartAt string

definition RestartTimeOfDay :: "RestartConfig \<Rightarrow> config_error + int \<times> int" where
  "RestartTimeOfDay r =
     (if rc_RestartAt r = '''' then Inr (0, 0)
      else case time_Parse_15_04 (rc_RestartAt r) of
             None \<Rightarrow> Inl (BadRestartAt (rc_RestartAt r))
           | Some t \<Rightarrow> Inr t)"

definition RestartScheduled :: "RestartConfig \<Rightarrow> bool" where
  "RestartScheduled r =
     (if rc_RestartAt r = '''' then False
      else case RestartTimeOfDay r of Inl _ \<Rightarrow> False | Inr _ \<Rightarrow> True)"

definition validate :: "Config \<Rightarrow> config_error option" where
  "validate c =
     (if mc_URL (cf_MQTT c) = '''' then Some MissingURL
      else if vc_Host (cf_Velux c) = '''' then Some MissingHost
      else if vc_Password (cf_Velux c) = '''' then Some MissingPassword
      else case RestartTimeOfDay (cf_Restart c) of Inl e \<Rightarrow> Some e | Inr _ \<Rightarrow> None)"

definition Config_seed :: Config where
  "Config_seed =
     \<lparr> cf_MQTT = \<lparr> mc_URL = '''', mc_Username = '''', mc_Password = '''', mc_Retain = True,
         mc_ClientID = '''', mc_QoS = 0, mc_Topic = '''' \<rparr>,
       cf_Velux = \<lparr> vc_Host = '''', vc_Password = '''', vc_ConnectTimeoutSeconds = 0 \<rparr>,
       cf_HomeAssistant = \<lparr> hc_Prefix = '''', hc_InvertAwning = False \<rparr>,
       cf_Restart = \<lparr> rc_RestartInterval = 0, rc_HealthCheckInterval = 0, rc_RestartOnError = True,
         rc_PowerCycleTopic = '''', rc_PowerCycleOffPayload = '''', rc_PowerCycleOnPayload = '''',
         rc_PowerCycleOffSeconds = 0, rc_RestartAt = '''', rc_PeriodicPowerCycle = False \<rparr>,
       cf_LogLevel = '''' \<rparr>"

definition LoadConfig ::
    "(string \<Rightarrow> byte list option) \<Rightarrow> (byte list \<Rightarrow> byte list) \<Rightarrow> (byte list \<Rightarrow> Config \<Rightarrow> Config option) \<Rightarrow>
     string \<Rightarrow> config_error + Config" where
  "LoadConfig os_ReadFile ReplaceEnvVariables json_Unmarshal path =
     (if path = '''' then Inl PathEmpty
      else case os_ReadFile path of
             None \<Rightarrow> Inl ReadFailed
           | Some data \<Rightarrow>
               (case json_Unmarshal (ReplaceEnvVariables data) Config_seed of
                  None \<Rightarrow> Inl ParseFailed
                | Some c \<Rightarrow>
                    let c = ApplyDefaults c
                    in (case validate c of Some e \<Rightarrow> Inl e | None \<Rightarrow> Inr c)))"

section \<open>Lemmas\<close>

lemma ApplyDefaults_restart_simps [simp]:
  "rc_RestartInterval (ApplyDefaults_restart r) = (if rc_RestartInterval r = 0 then 24 else rc_RestartInterval r)"
  "rc_HealthCheckInterval (ApplyDefaults_restart r) =
     (if rc_HealthCheckInterval r = 0 then 300 else rc_HealthCheckInterval r)"
  "rc_RestartOnError (ApplyDefaults_restart r) = rc_RestartOnError r"
  "rc_PowerCycleTopic (ApplyDefaults_restart r) = rc_PowerCycleTopic r"
  "rc_PowerCycleOffPayload (ApplyDefaults_restart r) =
     (if rc_PowerCycleOffPayload r = '''' then ''OFF'' else rc_PowerCycleOffPayload r)"
  "rc_PowerCycleOnPayload (ApplyDefaults_restart r) =
     (if rc_PowerCycleOnPayload r = '''' then ''ON'' else rc_PowerCycleOnPayload r)"
  "rc_PowerCycleOffSeconds (ApplyDefaults_restart r) =
     (if rc_PowerCycleOffSeconds r = 0 then 10 else rc_PowerCycleOffSeconds r)"
  "rc_RestartAt (ApplyDefaults_restart r) = rc_RestartAt r"
  "rc_PeriodicPowerCycle (ApplyDefaults_restart r) = rc_PeriodicPowerCycle r"
  by (simp_all add: ApplyDefaults_restart_def Let_def)

lemma ApplyDefaults_simps [simp]:
  "cf_MQTT (ApplyDefaults c) = ApplyDefaults_mqtt (cf_MQTT c)"
  "cf_Velux (ApplyDefaults c) = ApplyDefaults_velux (cf_Velux c)"
  "cf_Restart (ApplyDefaults c) = ApplyDefaults_restart (cf_Restart c)"
  "cf_HomeAssistant (ApplyDefaults c) = cf_HomeAssistant c"
  by (simp_all add: ApplyDefaults_def)

lemma ApplyDefaults_parts [simp]:
  "mc_URL (ApplyDefaults_mqtt m) = mc_URL m" "mc_QoS (ApplyDefaults_mqtt m) \<noteq> 0"
  "vc_Host (ApplyDefaults_velux v) = vc_Host v" "vc_Password (ApplyDefaults_velux v) = vc_Password v"
  "vc_ConnectTimeoutSeconds (ApplyDefaults_velux v) \<noteq> 0"
  by (simp_all add: ApplyDefaults_mqtt_def ApplyDefaults_velux_def)

lemma digit_value_range: "is_digit c \<Longrightarrow> 0 \<le> digit_value c \<and> digit_value c \<le> 9"
  by (auto simp: is_digit_def digit_value_def)

lemma time_Parse_range:
  "time_Parse_15_04 s = Some (h, m) \<Longrightarrow> 0 \<le> h \<and> h < 24 \<and> 0 \<le> m \<and> m < 60"
  by (auto simp: time_Parse_15_04_def split: option.splits if_splits prod.splits)

text \<open>A number below 100 with two digits.\<close>

definition two_digits :: "nat \<Rightarrow> string" where
  "two_digits n = [dec_digit (n div 10), dec_digit (n mod 10)]"

lemma is_digit_dec_digit: "d < 10 \<Longrightarrow> is_digit (dec_digit d)"
  and digit_value_dec_digit: "d < 10 \<Longrightarrow> digit_value (dec_digit d) = int d"
  by (simp_all add: is_digit_def digit_value_def dec_digit_char)

lemma getnum_two_digits: "n < 100 \<Longrightarrow> getnum fixed (two_digits n @ s) = Some (int n, s)"
proof -
  assume "n < 100"
  moreover have "int (n div 10) * 10 + int (n mod 10) = int n"
    by (metis div_mult_mod_eq of_nat_add of_nat_mult of_nat_numeral)
  ultimately show ?thesis
    by (simp add: getnum_def two_digits_def is_digit_dec_digit digit_value_dec_digit del: of_nat_div of_nat_mod)
qed

definition HHMM :: "nat \<Rightarrow> nat \<Rightarrow> string" where
  "HHMM h m = two_digits h @ '':'' @ two_digits m"

lemma time_Parse_HHMM: "h < 24 \<Longrightarrow> m < 60 \<Longrightarrow> time_Parse_15_04 (HHMM h m) = Some (int h, int m)"
  using getnum_two_digits [of m True "[]"]
  by (simp add: time_Parse_15_04_def getnum_two_digits HHMM_def)

lemma HHMM_ne [simp]: "HHMM h m \<noteq> ''''"
  by (simp add: HHMM_def)

lemma RestartTimeOfDay_cases:
  "case RestartTimeOfDay r of
     Inr (hour, mins) \<Rightarrow> 0 \<le> hour \<and> hour < 24 \<and> 0 \<le> mins \<and> mins < 60 \<and>
       RestartScheduled r = (rc_RestartAt r \<noteq> '''')
   | Inl e \<Rightarrow> e = BadRestartAt (rc_RestartAt r) \<and> rc_RestartAt r \<noteq> '''' \<and> \<not> RestartScheduled r"
  by (auto simp: RestartTimeOfDay_def RestartScheduled_def dest: time_Parse_range split: option.split)

section \<open>Properties\<close>

text \<open>
  A configuration is loaded exactly if the file can be read and decoded, has a broker URL, a
  host and a password, and the time of the restart, if any, is well formed. What is loaded has its
  defaults filled in: no interval, timeout, dwell or quality of service is zero and no payload is
  empty, so the zeros by which the documentation switches the periodic reboot, the health check
  and the connect timeout off never reach the program.
\<close>

theorem LoadConfig_result:
  "case LoadConfig readFile replaceEnv unmarshal path of
     Inr c \<Rightarrow> (\<exists>data c0. readFile path = Some data \<and> unmarshal (replaceEnv data) Config_seed = Some c0 \<and>
         c = ApplyDefaults c0) \<and> path \<noteq> '''' \<and>
       mc_URL (cf_MQTT c) \<noteq> '''' \<and> vc_Host (cf_Velux c) \<noteq> '''' \<and> vc_Password (cf_Velux c) \<noteq> '''' \<and>
       (\<exists>t. RestartTimeOfDay (cf_Restart c) = Inr t) \<and>
       mc_QoS (cf_MQTT c) \<noteq> 0 \<and> rc_RestartInterval (cf_Restart c) \<noteq> 0 \<and>
       rc_HealthCheckInterval (cf_Restart c) \<noteq> 0 \<and> vc_ConnectTimeoutSeconds (cf_Velux c) \<noteq> 0 \<and>
       rc_PowerCycleOffSeconds (cf_Restart c) \<noteq> 0 \<and> rc_PowerCycleOffPayload (cf_Restart c) \<noteq> '''' \<and>
       rc_PowerCycleOnPayload (cf_Restart c) \<noteq> ''''
   | Inl e \<Rightarrow> path = '''' \<or> readFile path = None \<or>
       (\<exists>data. readFile path = Some data \<and>
         (case unmarshal (replaceEnv data) Config_seed of
            None \<Rightarrow> True
          | Some c0 \<Rightarrow> mc_URL (cf_MQTT c0) = '''' \<or> vc_Host (cf_Velux c0) = '''' \<or>
              vc_Password (cf_Velux c0) = '''' \<or>
              RestartTimeOfDay (cf_Restart c0) = Inl (BadRestartAt (rc_RestartAt (cf_Restart c0)))))"
  by (auto simp: LoadConfig_def Let_def validate_def RestartTimeOfDay_def
      split: option.split sum.split)

text \<open>
  The restart time is read back as it was written in the form \<^verbatim>\<open>HH:MM\<close>; whatever else is
  accepted is a time of day as well, and a configured time that cannot be read is an error.
\<close>

theorem RestartTimeOfDay_roundtrip:
  assumes "h < 24" "m < 60"
  shows "RestartTimeOfDay (r\<lparr> rc_RestartAt := HHMM h m \<rparr>) = Inr (int h, int m) \<and>
    RestartScheduled (r\<lparr> rc_RestartAt := HHMM h m \<rparr>) \<and>
    (case RestartTimeOfDay r of
       Inr (hour, mins) \<Rightarrow> 0 \<le> hour \<and> hour < 24 \<and> 0 \<le> mins \<and> mins < 60 \<and>
         RestartScheduled r = (rc_RestartAt r \<noteq> '''')
     | Inl e \<Rightarrow> e = BadRestartAt (rc_RestartAt r) \<and> rc_RestartAt r \<noteq> '''' \<and> \<not> RestartScheduled r)"
  using RestartTimeOfDay_cases [of r] time_Parse_HHMM [OF assms]
  by (simp add: RestartTimeOfDay_def [of "r\<lparr> rc_RestartAt := HHMM h m \<rparr>"]
      RestartScheduled_def [of "r\<lparr> rc_RestartAt := HHMM h m \<rparr>"])

theorem RestartTimeOfDay_roundtrip_witness:
  "HHMM 2 5 = ''02:05'' \<and>
   RestartTimeOfDay ((cf_Restart Config_seed)\<lparr> rc_RestartAt := ''02:05'' \<rparr>) = Inr (2, 5)"
  using RestartTimeOfDay_roundtrip [of 2 5 "cf_Restart Config_seed"]
  by (simp add: HHMM_def two_digits_def dec_digit_def)

section \<open>The loaded configuration\<close>

text \<open>The variable \<open>cfg\<close> after a call of \<open>LoadConfig\<close>: only a successful one changes it.\<close>

definition LoadConfig_cfg ::
    "(string \<Rightarrow> byte list option) \<Rightarrow> (byte list \<Rightarrow> byte list) \<Rightarrow> (byte list \<Rightarrow> Config \<Rightarrow> Config option) \<Rightarrow>
     string \<Rightarrow> Config \<Rightarrow> Config" where
  "LoadConfig_cfg os_ReadFile ReplaceEnvVariables json_Unmarshal path cfg =
     (case LoadConfig os_ReadFile ReplaceEnvVariables json_Unmarshal path of
        Inl e \<Rightarrow> cfg
      | Inr c \<Rightarrow> c)"

definition Config_Get :: "Config \<Rightarrow> Config" where
  "Config_Get cfg = cfg"

text \<open>What \<open>Get\<close> returns after a sequence of loads is the result of the last successful one.\<close>

theorem Get_last_loaded:
  "Config_Get (fold (\<lambda>path. LoadConfig_cfg readFile replaceEnv unmarshal path) paths cfg) =
     (let rs = filter (\<lambda>r. \<not> isl r) (map (LoadConfig readFile replaceEnv unmarshal) paths)
      in if rs = [] then cfg else projr (last rs))"
proof (induction paths rule: rev_induct)
  case (snoc p ps)
  then show ?case
    by (cases "LoadConfig readFile replaceEnv unmarshal p")
      (simp_all add: Config_Get_def LoadConfig_cfg_def Let_def)
qed (simp add: Config_Get_def)

end
