(* ===== verification/Mqtt.thy ===== *)
theory Mqtt
  imports Config
begin

text \<open>
  \<^verbatim>\<open>src/app/bridge/mqtt.go\<close>: the MQTT wrapper. The library below it is third-party code: what it
  is handed is recorded, the messages published with their retain flag and the subscriptions with
  their handler. The time a publish takes is a number of nanoseconds, \<open>None\<close> when it never ends.
\<close>

record 'h mqtt =
  mq_retain :: bool
  mq_publishTimeout :: int
  mq_started :: "(gwMQTTConfig \<times> string) option"
  mq_published :: "(string \<times> string \<times> bool) list"
  mq_subscribed :: "(string \<times> 'h) list"

text \<open>5 seconds.\<close>

definition DefaultPublishTimeout :: int where "DefaultPublishTimeout = 5 * 1000000000"

definition NewMQTT :: "Config \<Rightarrow> 'h mqtt" where
  "NewMQTT cfg =
     \<lparr> mq_retain = mc_Retain (cf_MQTT cfg), mq_publishTimeout = DefaultPublishTimeout,
       mq_started = None, mq_published = [], mq_subscribed = [] \<rparr>"

text \<open>The choke point: the message is handed over in any case, and this is how long the caller waits.\<close>

definition mqtt_publish :: "string \<Rightarrow> string \<Rightarrow> bool \<Rightarrow> 'h mqtt \<Rightarrow> 'h mqtt" where
  "mqtt_publish topic payload retained m =
     m\<lparr> mq_published := mq_published m @ [(topic, payload, retained)] \<rparr>"

definition publish_wait :: "int \<Rightarrow> int option \<Rightarrow> int option" where
  "publish_wait publishTimeout latency =
     (if publishTimeout \<le> 0 then latency
      else case latency of
             None \<Rightarrow> Some publishTimeout
           | Some l \<Rightarrow> Some (if l \<le> publishTimeout then l else publishTimeout))"

definition MQTT_Connect :: "Config \<Rightarrow> string \<Rightarrow> 'h mqtt \<Rightarrow> 'h mqtt" where
  "MQTT_Connect cfg clientIDPrefix m =
     (let clientIDPrefix = (if mc_ClientID (cf_MQTT cfg) \<noteq> '''' then mc_ClientID (cf_MQTT cfg) else clientIDPrefix)
      in m\<lparr> mq_started := Some (ToGatewayConfig (cf_MQTT cfg), clientIDPrefix) \<rparr>)"

definition MQTT_PublishRetained :: "string \<Rightarrow> string \<Rightarrow> 'h mqtt \<Rightarrow> 'h mqtt" where
  "MQTT_PublishRetained topic payload m = mqtt_publish topic payload (mq_retain m) m"

definition MQTT_Publish :: "string \<Rightarrow> string \<Rightarrow> bool \<Rightarrow> 'h mqtt \<Rightarrow> 'h mqtt" where
  "MQTT_Publish topic payload retained m = mqtt_publish topic payload retained m"

definition MQTT_Subscribe :: "string \<Rightarrow> 'h \<Rightarrow> 'h mqtt \<Rightarrow> 'h mqtt" where
  "MQTT_Subscribe topic handler m = m\<lparr> mq_subscribed := mq_subscribed m @ [(topic, handler)] \<rparr>"

section \<open>Lemmas\<close>

lemma publish_simps [simp]:
  "mq_retain (mqtt_publish t p r m) = mq_retain m"
  "mq_publishTimeout (mqtt_publish t p r m) = mq_publishTimeout m"
  "mq_subscribed (mqtt_publish t p r m) = mq_subscribed m"
  "mq_published (mqtt_publish t p r m) = mq_published m @ [(t, p, r)]"
  by (simp_all add: mqtt_publish_def)

lemma publish_ops [simp]:
  "MQTT_PublishRetained t p m = mqtt_publish t p (mq_retain m) m"
  "MQTT_Publish t p r m = mqtt_publish t p r m"
  by (simp_all add: MQTT_PublishRetained_def MQTT_Publish_def)

text \<open>A sequence of publishes with the latencies \<open>ls\<close> of the broker; \<open>None\<close> is a caller that hangs.\<close>

fun wait_total :: "int \<Rightarrow> int option list \<Rightarrow> int option" where
  "wait_total timeout [] = Some 0"
| "wait_total timeout (l # ls) =
     (case publish_wait timeout l of
        None \<Rightarrow> None
      | Some a \<Rightarrow> map_option (\<lambda>b. a + b) (wait_total timeout ls))"

lemma publish_wait_bounded:
  "0 < timeout \<Longrightarrow> (\<exists>a. publish_wait timeout l = Some a \<and> a \<le> timeout)"
  by (cases l) (auto simp: publish_wait_def)

lemma wait_total_bounded:
  assumes "0 < timeout"
  shows "\<exists>a. wait_total timeout ls = Some a \<and> a \<le> timeout * int (length ls)"
proof (induction ls)
  case (Cons l ls)
  obtain a where "publish_wait timeout l = Some a" "a \<le> timeout"
    using publish_wait_bounded [OF assms] by blast
  moreover obtain b where "wait_total timeout ls = Some b" "b \<le> timeout * int (length ls)"
    using Cons by blast
  ultimately show ?case by (simp add: algebra_simps)
qed simp

section \<open>Properties\<close>

text \<open>
  However slow the broker is, and even when it never answers, a run of publishes with the
  timeout the wrapper is built with holds its caller up for at most five seconds each; without a
  timeout one unanswered publish blocks for ever.
\<close>

theorem publishes_bounded:
  "(\<exists>total. wait_total (mq_publishTimeout (NewMQTT cfg :: 'h mqtt)) latencies = Some total \<and>
      total \<le> 5000000000 * int (length latencies)) \<and>
   wait_total 0 [None] = None"
  using wait_total_bounded [of DefaultPublishTimeout latencies]
  by (simp add: NewMQTT_def DefaultPublishTimeout_def publish_wait_def)

end
