(* ===== verification/Bridge.thy ===== *)
theory Bridge
  imports Discovery Mqtt Devices "HOL-Library.AList"
begin

text \<open>
  \<^verbatim>\<open>src/app/bridge/cover.go\<close> and \<^verbatim>\<open>manager.go\<close>: the covers, what they publish, the commands they
  take, and the manager that registers them.

  The state extends the store of nodes: covers are objects in a store of their own, and the number
  of a cover is also the number of the callback it registers on its node. A device-updated
  callback runs \<open>UpdateNode\<close>: \<open>deliver\<close> runs the callbacks recorded by an operation, in order, with
  the node as it was at the call. Nothing else is published by the operations of the client, so
  the order of the messages is that of the program.
\<close>

section \<open>State\<close>

datatype mqtt_handler = CoverCommand nat | KeepOpenCommand nat

record bridge = node_world +
  br_cfg :: Config
  br_mqtt :: "mqtt_handler mqtt"
  br_heap :: "nat \<Rightarrow> Cover"
  br_next :: nat
  br_covers :: "(string \<times> nat) list"
  br_discoveredTopics :: "string list"

type_synonym system = "bridge client"

definition nil_Cover :: Cover where
  "nil_Cover = \<lparr> cv_node = 0, cv_topics = NewTopics '''' '''', cv_id = '''', cv_inverted = False,
     cv_deviceClass = '''', cv_prefix = '''', cv_lastState = '''' \<rparr>"

text \<open>The manager on an empty collection of nodes. A Go map is a list in its iteration order.\<close>

definition NewManager :: "Config \<Rightarrow> mqtt_handler mqtt \<Rightarrow> bridge" where
  "NewManager cfg m =
     node_world.extend NewNodes
       \<lparr> br_cfg = cfg, br_mqtt = m, br_heap = (\<lambda>_. nil_Cover), br_next = 0, br_covers = [],
         br_discoveredTopics = [] \<rparr>"

definition on_mqtt :: "(mqtt_handler mqtt \<Rightarrow> mqtt_handler mqtt) \<Rightarrow> bridge \<Rightarrow> bridge" where
  "on_mqtt g b = b\<lparr> br_mqtt := g (br_mqtt b) \<rparr>"

section \<open>Covers\<close>

definition NewCover :: "(nat \<Rightarrow> nat) \<Rightarrow> nat \<Rightarrow> Node \<Rightarrow> string \<Rightarrow> bool \<Rightarrow> Cover" where
  "NewCover upper_table ptr node pfx inverted =
     (let i = GenerateID upper_table (Node_Name node)
      in \<lparr> cv_node = ptr, cv_topics = NewTopics pfx i, cv_id = i, cv_inverted = inverted,
           cv_deviceClass = DeviceClassFor node, cv_prefix = pfx, cv_lastState = '''' \<rparr>)"

definition keepOpenOn :: string where "keepOpenOn = ''on''"
definition keepOpenOff :: string where "keepOpenOff = ''off''"
definition availableOnline :: string where "availableOnline = ''online''"
definition availableOffline :: string where "availableOffline = ''offline''"

definition updateCover :: "nat \<Rightarrow> OpeningDevice \<Rightarrow> bridge \<Rightarrow> bridge" where
  "updateCover a d b =
     (let c = br_heap b a;
          rawPosition = Position_PositionPercent (od_position d);
          rawTarget = Position_PositionPercent (od_targetPosition d);
          (position, state) = CoverState rawPosition rawTarget (cv_inverted c);
          b = on_mqtt (MQTT_PublishRetained (tp_Position (cv_topics c)) (Itoa position)) b;
          b = on_mqtt (MQTT_PublishRetained (tp_State (cv_topics c)) state) b
      in if state \<noteq> cv_lastState c
         then b\<lparr> br_heap := (br_heap b)(a := c\<lparr> cv_lastState := state \<rparr>) \<rparr> else b)"

definition updateLimitSwitch :: "nat \<Rightarrow> OpeningDevice \<Rightarrow> bridge \<Rightarrow> bridge" where
  "updateLimitSwitch a d b =
     (let maxPos = od_limitationMax d;
          state = (if Position_Known maxPos \<and> Position_PositionPercent maxPos < 100
                   then keepOpenOn else keepOpenOff)
      in on_mqtt (MQTT_PublishRetained (tp_KeepOpenState (cv_topics (br_heap b a))) state) b)"

definition PublishAvailability :: "nat \<Rightarrow> bool \<Rightarrow> bridge \<Rightarrow> bridge" where
  "PublishAvailability a up b =
     (let payload = (if up then availableOnline else availableOffline);
          t = cv_topics (br_heap b a)
      in on_mqtt (\<lambda>m. MQTT_PublishRetained (tp_KeepOpenAvailable t) payload
           (MQTT_PublishRetained (tp_Available t) payload m)) b)"

text \<open>\<open>n\<close> is the node of the cover, an opening device.\<close>

definition UpdateNode :: "nat \<Rightarrow> Node \<Rightarrow> bridge \<Rightarrow> bridge" where
  "UpdateNode a n b =
     (case node_opening n of
        None \<Rightarrow> b
      | Some d \<Rightarrow> PublishAvailability a True (updateLimitSwitch a d (updateCover a d b)))"

definition deliver :: "bridge \<Rightarrow> bridge" where
  "deliver b = fold (\<lambda>(a, n). UpdateNode a n) (nw_events b) (b\<lparr> nw_events := [] \<rparr>)"

definition recordDiscoveryTopic :: "string \<Rightarrow> bridge \<Rightarrow> bridge" where
  "recordDiscoveryTopic topic b =
     (if topic \<in> set (br_discoveredTopics b) then b
      else b\<lparr> br_discoveredTopics := br_discoveredTopics b @ [topic] \<rparr>)"

definition PublishDiscovery :: "nat \<Rightarrow> bridge \<Rightarrow> bridge" where
  "PublishDiscovery a b =
     (let c = br_heap b a;
          nm = Node_Name (nw_heap b (cv_node c));
          (coverTopic, coverJSON) = buildCoverDiscovery c nm;
          (switchTopic, switchJSON) = buildSwitchDiscovery c nm;
          b = on_mqtt (MQTT_Publish coverTopic coverJSON True) b;
          b = on_mqtt (MQTT_Publish switchTopic switchJSON True) b
      in recordDiscoveryTopic switchTopic (recordDiscoveryTopic coverTopic b))"

definition Cover_Start :: "nat \<Rightarrow> bridge \<Rightarrow> bridge" where
  "Cover_Start a b =
     (let c = br_heap b a; t = cv_topics c;
          b = PublishDiscovery a b;
          b = RegisterDeviceUpdatedCB (cv_node c) a b;
          b = on_mqtt (MQTT_Subscribe (tp_Set t) (CoverCommand a)) b;
          b = on_mqtt (MQTT_Subscribe (tp_KeepOpenSet t) (KeepOpenCommand a)) b;
          b = PublishAvailability a True b
      in UpdateNode a (nw_heap b (cv_node c)) b)"

section \<open>Commands\<close>

text \<open>\<open>runCommand\<close> logs the error of a command and drops it.\<close>

definition runCommand :: "(client_error + unit) \<times> system \<Rightarrow> system" where
  "runCommand r = change_nodes deliver (snd r)"

definition openFunc :: "Cover \<Rightarrow> system \<Rightarrow> (client_error + unit) \<times> system" where
  "openFunc cv = (if cv_inverted cv then Device_Close (cv_node cv) False else Device_Open (cv_node cv) False)"

definition closeFunc :: "Cover \<Rightarrow> system \<Rightarrow> (client_error + unit) \<times> system" where
  "closeFunc cv = (if cv_inverted cv then Device_Open (cv_node cv) False else Device_Close (cv_node cv) False)"

definition handleCoverCommand :: "nat \<Rightarrow> string \<Rightarrow> system \<Rightarrow> system" where
  "handleCoverCommand a payload c =
     (let cv = br_heap (cl_nodes c) a; cmd = strings_TrimSpace payload in
      if cmd = ''OPEN'' then runCommand (openFunc cv c)
      else if cmd = ''CLOSE'' then runCommand (closeFunc cv c)
      else if cmd = ''STOP'' then runCommand (Device_Stop (cv_node cv) False c)
      else case Atoi cmd of
             None \<Rightarrow> c
           | Some pos \<Rightarrow>
               if pos < 0 \<or> pos > 100 then c
               else (case NewPosition None None (Some pos) of
                       Inl e \<Rightarrow> c
                     | Inr position \<Rightarrow> runCommand (Device_SetPosition (cv_node cv) position False c)))"

definition handleKeepOpenCommand :: "nat \<Rightarrow> string \<Rightarrow> system \<Rightarrow> system" where
  "handleKeepOpenCommand a payload c =
     (let cv = br_heap (cl_nodes c) a; cmd = strings_TrimSpace payload in
      if cmd = ''ON'' then
        (case NewPosition None None (Some 0) of
           Inl e \<Rightarrow> c
         | Inr zero \<Rightarrow> runCommand (OpeningDevice_setPositionLimitations (cv_node cv) zero zero c))
      else if cmd = ''OFF'' then runCommand (OpeningDevice_clearPositionLimitations (cv_node cv) c)
      else c)"

text \<open>A message on a subscribed topic runs its handler.\<close>

definition handle_message :: "mqtt_handler \<Rightarrow> string \<Rightarrow> system \<Rightarrow> system" where
  "handle_message h payload =
     (case h of CoverCommand a \<Rightarrow> handleCoverCommand a payload
              | KeepOpenCommand a \<Rightarrow> handleKeepOpenCommand a payload)"

section \<open>The manager\<close>

text \<open>One turn of the loop of \<open>Register\<close>; \<open>Start\<close> has no error (see \<open>buildCoverDiscovery\<close>).\<close>

definition register_node :: "(nat \<Rightarrow> nat) \<Rightarrow> nat \<Rightarrow> bridge \<Rightarrow> bridge" where
  "register_node upper_table ptr b =
     (let node = nw_heap b ptr in
      case node_opening node of
        None \<Rightarrow> b
      | Some d \<Rightarrow>
          let inverted = (case node of Awning d \<Rightarrow> hc_InvertAwning (cf_HomeAssistant (br_cfg b)) | _ \<Rightarrow> False);
              cover = NewCover upper_table ptr node (hc_Prefix (cf_HomeAssistant (br_cfg b))) inverted;
              a = br_next b;
              b = b\<lparr> br_heap := (br_heap b)(a := cover), br_next := a + 1 \<rparr>;
              b = Cover_Start a b
          in b\<lparr> br_covers := AList.update (cv_id cover) a (br_covers b) \<rparr>)"

definition Manager_Register :: "(nat \<Rightarrow> nat) \<Rightarrow> bridge \<Rightarrow> bridge" where
  "Manager_Register upper_table b = fold (register_node upper_table) (Nodes_All (nw_nodes b)) b"

definition CleanupDiscovery :: "bridge \<Rightarrow> bridge" where
  "CleanupDiscovery b =
     (let topics = br_discoveredTopics b
      in fold (\<lambda>t. on_mqtt (MQTT_Publish t '''' True)) topics (b\<lparr> br_discoveredTopics := [] \<rparr>))"

definition publish_all :: "bool \<Rightarrow> bridge \<Rightarrow> bridge" where
  "publish_all up b = fold (\<lambda>(i, a). PublishAvailability a up) (br_covers b) b"

definition CloseAll :: "bridge \<Rightarrow> bridge" where
  "CloseAll b = CleanupDiscovery (publish_all False b)"

definition MarkAllUnavailable :: "bridge \<Rightarrow> bridge" where
  "MarkAllUnavailable b = publish_all False b"

definition MarkAllAvailable :: "bridge \<Rightarrow> bridge" where
  "MarkAllAvailable b = publish_all True b"

end
