(* ===== verification/Covers.thy ===== *)
theory Covers
  imports Bridge
begin

text \<open>
  Facts about the bridge: what a cover publishes, which frame a command on its topics becomes,
  what is left registered, and what a shutdown clears.
\<close>

section \<open>Publishing\<close>

named_theorems bridge_simps \<open>the fields an operation of the bridge leaves alone\<close>

text \<open>The messages of \<open>UpdateNode\<close>, in order.\<close>

definition cover_messages :: "Cover \<Rightarrow> OpeningDevice \<Rightarrow> bool \<Rightarrow> (string \<times> string \<times> bool) list" where
  "cover_messages c d retain =
     (let t = cv_topics c;
          (position, state) = CoverState (Position_PositionPercent (od_position d))
             (Position_PositionPercent (od_targetPosition d)) (cv_inverted c)
      in [(tp_Position t, Itoa position, retain), (tp_State t, state, retain),
          (tp_KeepOpenState t,
             if Position_Known (od_limitationMax d) \<and> Position_PositionPercent (od_limitationMax d) < 100
             then ''on'' else ''off'', retain),
          (tp_Available t, ''online'', retain), (tp_KeepOpenAvailable t, ''online'', retain)])"

lemma on_mqtt_simps [bridge_simps]:
  "br_mqtt (on_mqtt g b) = g (br_mqtt b)" "br_heap (on_mqtt g b) = br_heap b"
  "br_next (on_mqtt g b) = br_next b" "br_covers (on_mqtt g b) = br_covers b"
  "br_cfg (on_mqtt g b) = br_cfg b" "br_discoveredTopics (on_mqtt g b) = br_discoveredTopics b"
  "nw_heap (on_mqtt g b) = nw_heap b" "nw_nodes (on_mqtt g b) = nw_nodes b"
  "nw_next (on_mqtt g b) = nw_next b" "nw_events (on_mqtt g b) = nw_events b"
  by (simp_all add: on_mqtt_def)

lemma PublishAvailability_fields [bridge_simps]:
  "br_heap (PublishAvailability a up b) = br_heap b" "br_next (PublishAvailability a up b) = br_next b"
  "br_covers (PublishAvailability a up b) = br_covers b" "br_cfg (PublishAvailability a up b) = br_cfg b"
  "br_discoveredTopics (PublishAvailability a up b) = br_discoveredTopics b"
  "nw_heap (PublishAvailability a up b) = nw_heap b" "nw_nodes (PublishAvailability a up b) = nw_nodes b"
  "nw_next (PublishAvailability a up b) = nw_next b" "nw_events (PublishAvailability a up b) = nw_events b"
  "mq_retain (br_mqtt (PublishAvailability a up b)) = mq_retain (br_mqtt b)"
  "mq_subscribed (br_mqtt (PublishAvailability a up b)) = mq_subscribed (br_mqtt b)"
  by (simp_all add: PublishAvailability_def Let_def bridge_simps)

definition availability :: "bool \<Rightarrow> string" where
  "availability up = (if up then ''online'' else ''offline'')"

lemma PublishAvailability_published [bridge_simps]:
  "mq_published (br_mqtt (PublishAvailability a up b)) = mq_published (br_mqtt b) @
     [(tp_Available (cv_topics (br_heap b a)), availability up, mq_retain (br_mqtt b)),
      (tp_KeepOpenAvailable (cv_topics (br_heap b a)), availability up, mq_retain (br_mqtt b))]"
  by (simp add: PublishAvailability_def Let_def bridge_simps availableOnline_def availableOffline_def
      availability_def)

lemma updateCover_fields [bridge_simps]:
  "br_next (updateCover a d b) = br_next b" "br_covers (updateCover a d b) = br_covers b"
  "br_cfg (updateCover a d b) = br_cfg b" "br_discoveredTopics (updateCover a d b) = br_discoveredTopics b"
  "nw_heap (updateCover a d b) = nw_heap b" "nw_nodes (updateCover a d b) = nw_nodes b"
  "nw_next (updateCover a d b) = nw_next b" "nw_events (updateCover a d b) = nw_events b"
  "mq_retain (br_mqtt (updateCover a d b)) = mq_retain (br_mqtt b)"
  "mq_subscribed (br_mqtt (updateCover a d b)) = mq_subscribed (br_mqtt b)"
  "cv_topics (br_heap (updateCover a d b) k) = cv_topics (br_heap b k)"
  "cv_id (br_heap (updateCover a d b) k) = cv_id (br_heap b k)"
  "cv_node (br_heap (updateCover a d b) k) = cv_node (br_heap b k)"
  "cv_inverted (br_heap (updateCover a d b) k) = cv_inverted (br_heap b k)"
  by (simp_all add: updateCover_def Let_def bridge_simps split: prod.split)

lemma updateCover_published [bridge_simps]:
  "mq_published (br_mqtt (updateCover a d b)) = mq_published (br_mqtt b) @
     (let (position, state) = CoverState (Position_PositionPercent (od_position d))
             (Position_PositionPercent (od_targetPosition d)) (cv_inverted (br_heap b a))
      in [(tp_Position (cv_topics (br_heap b a)), Itoa position, mq_retain (br_mqtt b)),
          (tp_State (cv_topics (br_heap b a)), state, mq_retain (br_mqtt b))])"
  by (simp add: updateCover_def Let_def bridge_simps split: prod.split)

lemma updateLimitSwitch_fields [bridge_simps]:
  "br_heap (updateLimitSwitch a d b) = br_heap b" "br_next (updateLimitSwitch a d b) = br_next b"
  "br_covers (updateLimitSwitch a d b) = br_covers b" "br_cfg (updateLimitSwitch a d b) = br_cfg b"
  "br_discoveredTopics (updateLimitSwitch a d b) = br_discoveredTopics b"
  "nw_heap (updateLimitSwitch a d b) = nw_heap b" "nw_nodes (updateLimitSwitch a d b) = nw_nodes b"
  "nw_next (updateLimitSwitch a d b) = nw_next b" "nw_events (updateLimitSwitch a d b) = nw_events b"
  "mq_retain (br_mqtt (updateLimitSwitch a d b)) = mq_retain (br_mqtt b)"
  "mq_subscribed (br_mqtt (updateLimitSwitch a d b)) = mq_subscribed (br_mqtt b)"
  "mq_published (br_mqtt (updateLimitSwitch a d b)) = mq_published (br_mqtt b) @
     [(tp_KeepOpenState (cv_topics (br_heap b a)),
       if Position_Known (od_limitationMax d) \<and> Position_PositionPercent (od_limitationMax d) < 100
       then ''on'' else ''off'', mq_retain (br_mqtt b))]"
  by (simp_all add: updateLimitSwitch_def Let_def bridge_simps keepOpenOn_def keepOpenOff_def)

lemma UpdateNode_fields [bridge_simps]:
  "br_next (UpdateNode a n b) = br_next b" "br_covers (UpdateNode a n b) = br_covers b"
  "br_cfg (UpdateNode a n b) = br_cfg b" "br_discoveredTopics (UpdateNode a n b) = br_discoveredTopics b"
  "nw_heap (UpdateNode a n b) = nw_heap b" "nw_nodes (UpdateNode a n b) = nw_nodes b"
  "nw_next (UpdateNode a n b) = nw_next b" "nw_events (UpdateNode a n b) = nw_events b"
  "mq_retain (br_mqtt (UpdateNode a n b)) = mq_retain (br_mqtt b)"
  "mq_subscribed (br_mqtt (UpdateNode a n b)) = mq_subscribed (br_mqtt b)"
  "cv_topics (br_heap (UpdateNode a n b) k) = cv_topics (br_heap b k)"
  "cv_id (br_heap (UpdateNode a n b) k) = cv_id (br_heap b k)"
  "cv_node (br_heap (UpdateNode a n b) k) = cv_node (br_heap b k)"
  "cv_inverted (br_heap (UpdateNode a n b) k) = cv_inverted (br_heap b k)"
  by (simp_all add: UpdateNode_def bridge_simps split: option.split)

lemma UpdateNode_published [bridge_simps]:
  "mq_published (br_mqtt (UpdateNode a n b)) = mq_published (br_mqtt b) @
     (case node_opening n of
        None \<Rightarrow> []
      | Some d \<Rightarrow> cover_messages (br_heap b a) d (mq_retain (br_mqtt b)))"
  by (simp add: UpdateNode_def bridge_simps cover_messages_def Let_def availability_def
      split: option.split prod.split)

lemma cover_messages_cong:
  "cv_topics c = cv_topics c' \<Longrightarrow> cv_inverted c = cv_inverted c' \<Longrightarrow>
   cover_messages c d r = cover_messages c' d r"
  by (simp add: cover_messages_def)

text \<open>Delivering the callbacks of an operation.\<close>

definition event_messages :: "bridge \<Rightarrow> nat \<times> Node \<Rightarrow> (string \<times> string \<times> bool) list" where
  "event_messages b e =
     (case node_opening (snd e) of
        None \<Rightarrow> []
      | Some d \<Rightarrow> cover_messages (br_heap b (fst e)) d (mq_retain (br_mqtt b)))"

lemma event_messages_UpdateNode: "event_messages (UpdateNode a n b) = event_messages b"
  by (auto simp: event_messages_def fun_eq_iff bridge_simps intro!: cover_messages_cong
      split: option.split)

lemma fold_UpdateNode_published:
  "mq_published (br_mqtt (fold (\<lambda>(a, n). UpdateNode a n) es b)) =
     mq_published (br_mqtt b) @ concat (map (event_messages b) es)"
  by (induction es arbitrary: b)
    (auto simp: event_messages_UpdateNode UpdateNode_published, simp_all add: event_messages_def split: option.split)

lemma deliver_published:
  "mq_published (br_mqtt (deliver b)) =
     mq_published (br_mqtt b) @ concat (map (event_messages b) (nw_events b))"
proof -
  have "event_messages (b\<lparr> nw_events := [] \<rparr>) = event_messages b"
    by (simp add: event_messages_def fun_eq_iff split: option.split)
  then show ?thesis by (simp add: deliver_def fold_UpdateNode_published)
qed

section \<open>Commands\<close>

lemma change_nodes_conn: "cl_conn (runCommand r) = cl_conn (snd r)"
  by (simp add: runCommand_def)

lemma writes_runCommand: "writes c (snd r) f \<Longrightarrow> writes c (runCommand r) f"
  by (simp add: writes_def change_nodes_conn)

text \<open>The frames that arrive during the next exchange leave the nodes alone.\<close>

definition quiet :: "'n client \<Rightarrow> bool" where
  "quiet c \<longleftrightarrow> (\<forall>f\<in>set (ex_frames (next_exchange c)). \<forall>p\<in>set (cl_nodeUpdaters c). \<forall>n. p f n = n)"

lemma fold_ident: "(\<And>p. p \<in> set ps \<Longrightarrow> g p n = n) \<Longrightarrow> fold g ps n = n"
  by (induction ps) auto

lemma receive_quiet:
  "\<forall>f\<in>set fs. \<forall>p\<in>set (cl_nodeUpdaters c). \<forall>n. p f n = n \<Longrightarrow> cl_nodes (fold receive fs c) = cl_nodes c"
proof (induction fs arbitrary: c)
  case (Cons f fs)
  have "run_callback c f cb n = n" for cb n
    using Cons.prems by (auto simp: run_callback_def split: client_cb.split intro: fold_ident)
  then have "cl_nodes (receive f c) = cl_nodes c"
    by (auto simp: receive_def intro: fold_ident)
  moreover have "cl_nodeUpdaters (receive f c) = cl_nodeUpdaters c" by (simp add: receive_def)
  ultimately show ?case using Cons by simp
qed simp

lemma APICall_quiet:
  assumes "quiet c"
  shows "cl_nodes (snd (snd (APICall request h s c))) = cl_nodes c"
  using assms
  by (cases rule: APICall_cases [of request c h s]) (simp_all add: receive_quiet quiet_def)

lemma new_session_quiet:
  "quiet (snd (new_session c)) = quiet c" "cl_nodes (snd (new_session c)) = cl_nodes c"
  by (simp_all add: new_session_def quiet_def next_exchange_def Let_def split: prod.split)

lemma CommandSend_quiet:
  "quiet c \<Longrightarrow> cl_nodes (snd (Client_CommandSend nodeID p fps w c)) = cl_nodes c"
  using APICall_quiet [of "snd (new_session c)"] new_session_quiet [of c]
  by (simp add: Client_CommandSend_def Let_def)

lemma SetLimitation_quiet:
  "quiet c \<Longrightarrow> cl_nodes (snd (Client_SetLimitation nodeID mn mx t c)) = cl_nodes c"
  using APICall_quiet [of "snd (new_session c)"] new_session_quiet [of c]
  by (simp add: Client_SetLimitation_def Let_def)

lemma snd_and_then: "fst r = Inr x \<Longrightarrow> snd (and_then r k) = k (snd r)"
  by (cases r) (simp add: and_then_def)

lemma and_then_ok: "fst (and_then r k) = Inr () \<Longrightarrow> \<exists>x. fst r = Inr x"
  by (cases r) (auto simp: and_then_def split: sum.splits)

lemma nodes_runCommand: "cl_nodes (runCommand r) = deliver (cl_nodes (snd r))"
  by (simp add: runCommand_def)

text \<open>What the observers of a node publish after an operation that ends in \<open>AfterUpdate\<close>.\<close>

lemma deliver_AfterUpdate:
  assumes "nw_events b = []" "bn_deviceUpdatedCBs (node_base (nw_heap b r)) = cbs"
    "node_opening (nw_heap b r) = Some d"
  shows "mq_published (br_mqtt (deliver (AfterUpdate r b))) = mq_published (br_mqtt b) @
    concat (map (\<lambda>a. cover_messages (br_heap b a) d (mq_retain (br_mqtt b))) cbs)"
proof -
  have "event_messages (AfterUpdate r b) = event_messages b"
    by (simp add: event_messages_def fun_eq_iff AfterUpdate_def Let_def split: option.split)
  moreover have "br_mqtt (AfterUpdate r b) = br_mqtt b"
    "nw_events (AfterUpdate r b) = map (\<lambda>cb. (cb, nw_heap b r)) cbs"
    using assms by (simp_all add: AfterUpdate_def Let_def)
  ultimately show ?thesis
    using assms(3) by (simp add: deliver_published event_messages_def comp_def)
qed

lemma assign_bridge [bridge_simps]:
  "br_mqtt (assign r g b) = br_mqtt b" "br_heap (assign r g b) = br_heap b"
  "nw_events (assign r g b) = nw_events b" "nw_heap (assign r g b) r = g (nw_heap b r)"
  "nw_nodes (assign r g b) = nw_nodes b"
  by (simp_all add: assign_def)

lemma on_opening_parts:
  "node_opening n = Some d \<Longrightarrow> od_BaseNode (g d) = od_BaseNode d \<Longrightarrow>
   node_opening (on_opening g n) = Some (g d) \<and> node_base (on_opening g n) = node_base n"
  by (cases n) auto

lemma on_blind_position_parts:
  "is_blind n \<Longrightarrow> node_opening n = Some d \<Longrightarrow>
   node_opening (on_blind (set_position_fields p) n) =
     Some (d\<lparr> od_position := p, od_targetPosition := p \<rparr>) \<and>
   node_base (on_blind (set_position_fields p) n) = node_base n"
  by (cases n) (auto simp: set_position_fields_def)

section \<open>Registration\<close>

interpretation cover_map: keyed_store fst "\<lambda>(i, a). AList.update i a" "\<lambda>i. List.find (\<lambda>e. fst e = i)"
proof (unfold_locales, goal_cases)
  case (2 k e es)
  show ?case by (induction es) (cases e; auto)+
next
  case (3 e es)
  show ?case by (induction es) (cases e; auto)+
qed simp

text \<open>What the loop of \<open>Register\<close> enters into the map, from the number \<open>n\<close> on.\<close>

fun cover_entries :: "(nat \<Rightarrow> nat) \<Rightarrow> (nat \<Rightarrow> Node) \<Rightarrow> nat \<Rightarrow> nat list \<Rightarrow> (string \<times> nat) list" where
  "cover_entries u h n [] = []"
| "cover_entries u h n (r # rs) =
     (if node_opening (h r) = None then cover_entries u h n rs
      else (GenerateID u (Node_Name (h r)), n) # cover_entries u h (Suc n) rs)"

text \<open>Registering an observer changes neither the name of a node nor whether it is an opening device.\<close>

definition same_nodes :: "(nat \<Rightarrow> Node) \<Rightarrow> (nat \<Rightarrow> Node) \<Rightarrow> bool" where
  "same_nodes h h' \<longleftrightarrow> (\<forall>r. Node_Name (h r) = Node_Name (h' r) \<and>
     (node_opening (h r) = None) = (node_opening (h' r) = None))"

lemma cover_entries_same: "same_nodes h h' \<Longrightarrow> cover_entries u h n rs = cover_entries u h' n rs"
  by (induction rs arbitrary: n) (simp_all add: same_nodes_def)

lemma RegisterDeviceUpdatedCB_same:
  "same_nodes (nw_heap (RegisterDeviceUpdatedCB r a b)) (nw_heap b)"
proof -
  have "bn_name (node_base (on_base (\<lambda>b. b\<lparr> bn_deviceUpdatedCBs := bn_deviceUpdatedCBs b @ [a] \<rparr>) n)) =
      bn_name (node_base n) \<and>
    (node_opening (on_base (\<lambda>b. b\<lparr> bn_deviceUpdatedCBs := bn_deviceUpdatedCBs b @ [a] \<rparr>) n) = None) =
      (node_opening n = None)" for n
    by (cases n) simp_all
  then show ?thesis
    by (simp add: same_nodes_def RegisterDeviceUpdatedCB_def assign_def Node_Name_def)
qed

lemma RegisterDeviceUpdatedCB_bridge [bridge_simps]:
  "br_mqtt (RegisterDeviceUpdatedCB r a b) = br_mqtt b" "br_heap (RegisterDeviceUpdatedCB r a b) = br_heap b"
  "br_next (RegisterDeviceUpdatedCB r a b) = br_next b" "br_covers (RegisterDeviceUpdatedCB r a b) = br_covers b"
  "br_cfg (RegisterDeviceUpdatedCB r a b) = br_cfg b"
  "br_discoveredTopics (RegisterDeviceUpdatedCB r a b) = br_discoveredTopics b"
  "nw_nodes (RegisterDeviceUpdatedCB r a b) = nw_nodes b" "nw_events (RegisterDeviceUpdatedCB r a b) = nw_events b"
  by (simp_all add: RegisterDeviceUpdatedCB_def assign_def)

lemma recordDiscoveryTopic_fields [bridge_simps]:
  "br_mqtt (recordDiscoveryTopic t b) = br_mqtt b" "br_heap (recordDiscoveryTopic t b) = br_heap b"
  "br_next (recordDiscoveryTopic t b) = br_next b" "br_covers (recordDiscoveryTopic t b) = br_covers b"
  "br_cfg (recordDiscoveryTopic t b) = br_cfg b" "nw_heap (recordDiscoveryTopic t b) = nw_heap b"
  "nw_nodes (recordDiscoveryTopic t b) = nw_nodes b" "nw_events (recordDiscoveryTopic t b) = nw_events b"
  "set (br_discoveredTopics (recordDiscoveryTopic t b)) = insert t (set (br_discoveredTopics b))"
  by (auto simp: recordDiscoveryTopic_def)

lemma PublishDiscovery_fields [bridge_simps]:
  "br_heap (PublishDiscovery a b) = br_heap b" "br_next (PublishDiscovery a b) = br_next b"
  "br_covers (PublishDiscovery a b) = br_covers b" "br_cfg (PublishDiscovery a b) = br_cfg b"
  "nw_heap (PublishDiscovery a b) = nw_heap b" "nw_nodes (PublishDiscovery a b) = nw_nodes b"
  "nw_events (PublishDiscovery a b) = nw_events b"
  by (simp_all add: PublishDiscovery_def Let_def bridge_simps split: prod.split)

text \<open>The two topics of the discovery of a cover.\<close>

definition discovery_topics :: "Topics \<Rightarrow> string list" where
  "discovery_topics t = [''homeassistant/cover/'' @ tp_Base t @ ''/config'',
     ''homeassistant/switch/'' @ tp_KeepOpenBase t @ ''/config'']"

lemma Cover_Start_fields:
  "br_next (Cover_Start a b) = br_next b" "br_covers (Cover_Start a b) = br_covers b"
  "br_cfg (Cover_Start a b) = br_cfg b" "nw_nodes (Cover_Start a b) = nw_nodes b"
  "cv_topics (br_heap (Cover_Start a b) k) = cv_topics (br_heap b k)"
  "cv_id (br_heap (Cover_Start a b) k) = cv_id (br_heap b k)"
  "cv_node (br_heap (Cover_Start a b) k) = cv_node (br_heap b k)"
  "cv_inverted (br_heap (Cover_Start a b) k) = cv_inverted (br_heap b k)"
  "nw_events (Cover_Start a b) = nw_events b"
  by (simp_all add: Cover_Start_def Let_def bridge_simps)

lemma Cover_Start_same: "same_nodes (nw_heap (Cover_Start a b)) (nw_heap b)"
  using RegisterDeviceUpdatedCB_same [of "cv_node (br_heap b a)" a "PublishDiscovery a b"]
  by (simp add: Cover_Start_def Let_def bridge_simps)

lemma Cover_Start_discovered:
  "set (br_discoveredTopics (Cover_Start a b)) =
     set (discovery_topics (cv_topics (br_heap b a))) \<union> set (br_discoveredTopics b)"
  by (auto simp: Cover_Start_def Let_def bridge_simps PublishDiscovery_def buildCoverDiscovery_def
      buildSwitchDiscovery_def discovery_topics_def)

text \<open>The state before \<open>Start\<close> in a turn of the loop: the new cover is in the store.\<close>

definition allocated :: "(nat \<Rightarrow> nat) \<Rightarrow> nat \<Rightarrow> bridge \<Rightarrow> bridge" where
  "allocated u r b =
     (let inverted = (case nw_heap b r of Awning d \<Rightarrow> hc_InvertAwning (cf_HomeAssistant (br_cfg b)) | _ \<Rightarrow> False)
      in b\<lparr> br_heap := (br_heap b)(br_next b :=
              NewCover u r (nw_heap b r) (hc_Prefix (cf_HomeAssistant (br_cfg b))) inverted),
            br_next := Suc (br_next b) \<rparr>)"

lemma register_node_eq:
  "register_node u r b =
     (if node_opening (nw_heap b r) = None then b
      else let b' = Cover_Start (br_next b) (allocated u r b)
           in b'\<lparr> br_covers := AList.update (GenerateID u (Node_Name (nw_heap b r))) (br_next b) (br_covers b') \<rparr>)"
  by (auto simp: register_node_def allocated_def Let_def NewCover_def split: option.split)

lemma allocated_fields [bridge_simps]:
  "nw_heap (allocated u r b) = nw_heap b" "nw_nodes (allocated u r b) = nw_nodes b"
  "br_covers (allocated u r b) = br_covers b" "br_next (allocated u r b) = Suc (br_next b)"
  "br_cfg (allocated u r b) = br_cfg b" "br_discoveredTopics (allocated u r b) = br_discoveredTopics b"
  "nw_events (allocated u r b) = nw_events b"
  "cv_id (br_heap (allocated u r b) (br_next b)) = GenerateID u (Node_Name (nw_heap b r))"
  "cv_node (br_heap (allocated u r b) (br_next b)) = r"
  "cv_topics (br_heap (allocated u r b) (br_next b)) =
     NewTopics (hc_Prefix (cf_HomeAssistant (br_cfg b))) (GenerateID u (Node_Name (nw_heap b r)))"
  by (simp_all add: allocated_def Let_def NewCover_def)

lemma register_node_fields:
  "br_next (register_node u r b) = (if node_opening (nw_heap b r) = None then br_next b else Suc (br_next b))"
  "br_covers (register_node u r b) =
     (if node_opening (nw_heap b r) = None then br_covers b
      else AList.update (GenerateID u (Node_Name (nw_heap b r))) (br_next b) (br_covers b))"
  "br_cfg (register_node u r b) = br_cfg b"
  "nw_events (register_node u r b) = nw_events b"
  "same_nodes (nw_heap (register_node u r b)) (nw_heap b)"
  "set (br_discoveredTopics (register_node u r b)) =
     (if node_opening (nw_heap b r) = None then {}
      else set (discovery_topics (NewTopics (hc_Prefix (cf_HomeAssistant (br_cfg b)))
        (GenerateID u (Node_Name (nw_heap b r)))))) \<union> set (br_discoveredTopics b)"
  using Cover_Start_same [of "br_next b" "allocated u r b"]
  by (simp_all add: register_node_eq Let_def Cover_Start_fields Cover_Start_discovered bridge_simps same_nodes_def)

lemma fold_register:
  "br_covers (fold (register_node u) rs b) =
     fold (\<lambda>(i, a). AList.update i a) (cover_entries u (nw_heap b) (br_next b) rs) (br_covers b)"
  by (induction rs arbitrary: b)
    (auto simp: register_node_fields cover_entries_same [OF register_node_fields(5)])

lemma fold_register_discovered:
  "set (br_discoveredTopics (fold (register_node u) rs b)) = set (br_discoveredTopics b) \<union>
     (\<Union>e\<in>set (cover_entries u (nw_heap b) (br_next b) rs).
        set (discovery_topics (NewTopics (hc_Prefix (cf_HomeAssistant (br_cfg b))) (fst e))))"
  by (induction rs arbitrary: b)
    (auto simp: register_node_fields cover_entries_same [OF register_node_fields(5)] split: if_splits)

text \<open>The subscriptions of a registration: two for each cover, with the handlers of that cover.\<close>

definition command_subscriptions :: "string \<Rightarrow> (string \<times> nat) list \<Rightarrow> (string \<times> mqtt_handler) list" where
  "command_subscriptions pfx es =
     concat (map (\<lambda>(i, a). [(tp_Set (NewTopics pfx i), CoverCommand a),
       (tp_KeepOpenSet (NewTopics pfx i), KeepOpenCommand a)]) es)"

lemma Cover_Start_subscribes:
  "mq_subscribed (br_mqtt (Cover_Start a b)) = mq_subscribed (br_mqtt b) @
     [(tp_Set (cv_topics (br_heap b a)), CoverCommand a), (tp_KeepOpenSet (cv_topics (br_heap b a)), KeepOpenCommand a)]"
  by (simp add: Cover_Start_def Let_def bridge_simps MQTT_Subscribe_def PublishDiscovery_def on_mqtt_def
      recordDiscoveryTopic_def split: prod.split)

lemma register_node_subscribes:
  "mq_subscribed (br_mqtt (register_node u r b)) = mq_subscribed (br_mqtt b) @
     (if node_opening (nw_heap b r) = None then []
      else command_subscriptions (hc_Prefix (cf_HomeAssistant (br_cfg b)))
        [(GenerateID u (Node_Name (nw_heap b r)), br_next b)])"
  by (simp add: register_node_eq Let_def Cover_Start_subscribes bridge_simps command_subscriptions_def)
    (simp add: allocated_def Let_def)

lemma fold_register_subscribes:
  "mq_subscribed (br_mqtt (fold (register_node u) rs b)) = mq_subscribed (br_mqtt b) @
     command_subscriptions (hc_Prefix (cf_HomeAssistant (br_cfg b))) (cover_entries u (nw_heap b) (br_next b) rs)"
  by (induction rs arbitrary: b)
    (auto simp: register_node_fields register_node_subscribes command_subscriptions_def
      cover_entries_same [OF register_node_fields(5)])

section \<open>Shutdown\<close>

lemma fold_clear_published:
  "mq_published (br_mqtt (fold (\<lambda>t. on_mqtt (MQTT_Publish t '''' True)) ts b)) =
     mq_published (br_mqtt b) @ map (\<lambda>t. (t, '''', True)) ts"
  "br_discoveredTopics (fold (\<lambda>t. on_mqtt (MQTT_Publish t '''' True)) ts b) = br_discoveredTopics b"
  by (induction ts arbitrary: b) (simp_all add: bridge_simps)

definition availability_messages :: "bool \<Rightarrow> bridge \<Rightarrow> (string \<times> string \<times> bool) list" where
  "availability_messages up b = concat (map (\<lambda>(i, a).
     [(tp_Available (cv_topics (br_heap b a)), availability up, mq_retain (br_mqtt b)),
      (tp_KeepOpenAvailable (cv_topics (br_heap b a)), availability up, mq_retain (br_mqtt b))]) (br_covers b))"

lemma publish_all_published:
  "mq_published (br_mqtt (publish_all up b)) = mq_published (br_mqtt b) @ availability_messages up b"
  "br_discoveredTopics (publish_all up b) = br_discoveredTopics b"
proof -
  have run: "mq_published (br_mqtt (fold (\<lambda>(i, a). PublishAvailability a up) es b)) =
      mq_published (br_mqtt b) @ concat (map (\<lambda>(i, a).
        [(tp_Available (cv_topics (br_heap b a)), availability up, mq_retain (br_mqtt b)),
         (tp_KeepOpenAvailable (cv_topics (br_heap b a)), availability up, mq_retain (br_mqtt b))]) es) \<and>
    br_discoveredTopics (fold (\<lambda>(i, a). PublishAvailability a up) es b) = br_discoveredTopics b" for es
    by (induction es arbitrary: b) (simp_all add: bridge_simps split: prod.split)
  from run [of "br_covers b"] show "mq_published (br_mqtt (publish_all up b)) = mq_published (br_mqtt b) @ availability_messages up b"
    "br_discoveredTopics (publish_all up b) = br_discoveredTopics b"
    by (simp_all add: publish_all_def availability_messages_def)
qed

lemma CloseAll_published:
  "mq_published (br_mqtt (CloseAll b)) = mq_published (br_mqtt b) @ availability_messages False b @
     map (\<lambda>t. (t, '''', True)) (br_discoveredTopics b)"
  "br_discoveredTopics (CloseAll b) = []"
  by (simp_all add: CloseAll_def CleanupDiscovery_def Let_def fold_clear_published publish_all_published)

section \<open>Examples\<close>

text \<open>A bridge with one registered device, and the two devices the examples use.\<close>

definition example_bridge :: "Node \<Rightarrow> bridge" where
  "example_bridge n = Manager_Register id (add_node n (NewManager Config_seed (NewMQTT Config_seed)))"

definition example_device :: OpeningDevice where
  "example_device = newOpeningDevice (NewBaseNode 5 ''Roof'' []) \<lparr> Raw = (100, 0) \<rparr> \<lparr> Raw = (100, 0) \<rparr>"

definition example_blind :: Blind where
  "example_blind = \<lparr> bl_OpeningDevice = example_device, bl_orientation = NewTargetPosition,
     bl_targetOrientation = NewTargetPosition, bl_openOrientationTarget = 50, bl_closeOrientationTarget = 100 \<rparr>"

lemma Cover_Start_heap:
  "nw_heap (Cover_Start a b) = nw_heap (RegisterDeviceUpdatedCB (cv_node (br_heap b a)) a (PublishDiscovery a b))"
  by (simp add: Cover_Start_def Let_def bridge_simps)

lemma example_added:
  "nw_heap (add_node n (NewManager cfg m)) 0 = n" "nw_nodes (add_node n (NewManager cfg m)) = [0]"
  "nw_events (add_node n (NewManager cfg m)) = []" "br_next (add_node n (NewManager cfg m)) = 0"
  "br_cfg (add_node n (NewManager cfg m)) = cfg"
  by (simp_all add: add_node_def new_node_def NewManager_def NewNodes_def Let_def node_world.extend_def)

lemma example_registered:
  assumes "node_opening n = Some d"
  shows "example_bridge n = (let b = Cover_Start 0 (allocated id 0 (add_node n (NewManager Config_seed (NewMQTT Config_seed))))
    in b\<lparr> br_covers := AList.update (GenerateID id (Node_Name n)) 0 (br_covers b) \<rparr>)"
  using assms by (simp add: example_bridge_def Manager_Register_def Nodes_All_def example_added register_node_eq)

lemma example_bridge_simps:
  assumes "node_opening n = Some d"
  shows "nw_events (example_bridge n) = []" "cv_node (br_heap (example_bridge n) 0) = 0"
    "nw_nodes (example_bridge n) = [0]"
    "nw_heap (example_bridge n) 0 = on_base (\<lambda>b. b\<lparr> bn_deviceUpdatedCBs := bn_deviceUpdatedCBs b @ [0] \<rparr>) n"
proof -
  let ?b = "add_node n (NewManager Config_seed (NewMQTT Config_seed))"
  have node: "cv_node (br_heap (allocated id 0 ?b) 0) = 0"
    using allocated_fields(9) [of id 0 ?b] by (simp add: example_added)
  then show "nw_events (example_bridge n) = []" "cv_node (br_heap (example_bridge n) 0) = 0"
    "nw_nodes (example_bridge n) = [0]"
    "nw_heap (example_bridge n) 0 = on_base (\<lambda>b. b\<lparr> bn_deviceUpdatedCBs := bn_deviceUpdatedCBs b @ [0] \<rparr>) n"
    by (simp_all add: example_registered [OF assms] Let_def Cover_Start_fields bridge_simps example_added
        Cover_Start_heap RegisterDeviceUpdatedCB_def assign_def)
qed

lemma example_inverted:
  "node_opening n = Some d \<Longrightarrow> cv_inverted (br_heap (example_bridge n) 0) = False"
  by (simp add: example_registered Let_def Cover_Start_fields allocated_def example_added NewCover_def
      Config_seed_def split: Node.split)

text \<open>Exchanges in which the gateway accepts.\<close>

definition accepting :: "u16 \<Rightarrow> exchange" where
  "accepting sid = \<lparr> ex_write = True,
     ex_frames = [CommandsFrame (FrCommandSendConfirmation
       \<lparr> csc_SessionID = sid, csc_Status = CommandSendConfirmationStatusAccepted \<rparr>)], ex_end = SelDone \<rparr>"

definition limiting :: exchange where
  "limiting = \<lparr> ex_write = True,
     ex_frames = [LimitationFrame (FrSetLimitationConfirmation \<lparr> slm_SessionID = 0, slm_Status = 1 \<rparr>)],
     ex_end = SelDone \<rparr>"

lemma accepted_command:
  assumes "online c" "next_exchange c = accepting (snd (NewSessionID (cl_sessions c)))"
  shows "fst (Client_CommandSend nodeID p fps False c) = Inr ()"
proof -
  have [simp]: "online (c\<lparr> cl_sessions := g \<rparr>) = online c" for g by (simp add: online_def)
  show ?thesis
    using assms by (simp add: Client_CommandSend_def finish_APICall_Inr sendable_command accepting_def
        command_handler_eq confirms_def accepts_def Let_def split_def)
qed

lemma accepted_limitation:
  assumes "online c" "next_exchange c = limiting"
  shows "fst (Client_SetLimitation nodeID mn mx t c) = Inr ()"
proof -
  have "sendable (LimitationFrame (FrSetLimitationRequest
      (set_limitation_request (snd (NewSessionID (cl_sessions c))) nodeID mn mx t))) c = online c"
    by (simp add: sendable_online FrameSetLimitationRequest_MarshalPayload_def set_limitation_request_def)
  with assms show ?thesis
    by (simp add: Client_SetLimitation_def finish_APICall_Inr limiting_def Let_def
        set_limitation_handler_def SetLimitationRequestStatusRejected_def)
qed

lemma fst_stop_blind:
  assumes "is_blind (nw_heap (cl_nodes c) node)" "online c"
    "next_exchange c = accepting (snd (NewSessionID (cl_sessions c)))"
  shows "fst (Device_Stop node False c) = Inr ()"
  using assms
  by (simp add: Device_Stop_def Blind_Stop_def Let_def SetPositionAndOrientation_eq accepted_command)

lemma TrimSpace_OPEN: "strings_TrimSpace '' OPEN'' = ''OPEN''"
  and TrimSpace_STOP: "strings_TrimSpace ''STOP'' = ''STOP''"
  and TrimSpace_ON: "strings_TrimSpace ''ON'' = ''ON''"
  by (simp_all add: TrimSpace_ascii ascii_space_def unicode_IsSpace_def)

lemma quiet_example: "quiet (connected_client xs n)"
  by (simp add: quiet_def connected_client_def Client_Connect_def Conn_Connect_def Connect_check_def
      NewClient_def NewConn_def Connect_install_def installUpdaterDispatch_def
      RegisterFrameReceivedCB_def Let_def)

section \<open>Properties\<close>

text \<open>
  C5: A message on the command topic of a cover, with white space around it ignored, becomes
  exactly one command frame for its node: OPEN is 0 percent and CLOSE 100 percent, the other way
  round for an inverted cover, STOP is the current-position sentinel and a decimal number between
  0 and 100 that percentage; any other message changes nothing.
\<close>

theorem cover_command_wire:
  assumes "online c"
  shows "let cv = br_heap (cl_nodes c) a; node = cv_node cv; cmd = strings_TrimSpace payload;
      c' = handleCoverCommand a payload c;
      blind = is_blind (nw_heap (cl_nodes c) node); ignored = pos_Parameter NewIgnorePosition;
      fp3 = (\<lambda>p. if blind then [3 \<mapsto> p] else Map.empty);
      sends = (\<lambda>p q. writes c c' (command_frame node p (fp3 q) c))
    in if cmd = ''OPEN'' \<and> \<not> cv_inverted cv \<or> cmd = ''CLOSE'' \<and> cv_inverted cv then sends percent_0 percent_0
       else if cmd = ''CLOSE'' \<or> cmd = ''OPEN'' then sends percent_100 ignored
       else if cmd = ''STOP''
       then sends (pos_Parameter NewCurrentPosition) (pos_Parameter (bl_targetOrientation (blind_at node c)))
       else case Atoi cmd of
              Some n \<Rightarrow>
                if 0 \<le> n \<and> n \<le> 100
                then \<exists>p. Position_PositionPercent p = n \<and> Position_Known p \<and>
                  sends (pos_Parameter p) (blind_fp3 p None)
                else c' = c
            | None \<Rightarrow> c' = c"
proof -
  have pos: "\<exists>p. NewPosition None None (Some n) = Inr p \<and> Position_PositionPercent p = n \<and> Position_Known p"
    if "0 \<le> n" "n \<le> 100" for n
  proof -
    from that obtain q where "Position_SetPositionPercent \<lparr> pos_Parameter = \<lparr> Raw = (247, 255) \<rparr> \<rparr> n = Inr q"
      by (auto simp: Position_SetPositionPercent_def positionFromPercent_def)
    with SetPositionPercent_roundtrip [OF this] show ?thesis by (simp add: NewPosition_def)
  qed
  note w = writes_Device_Open [OF assms, THEN writes_runCommand]
    writes_Device_Close [OF assms, THEN writes_runCommand]
    writes_Device_Stop [OF assms, THEN writes_runCommand]
    writes_Device_SetPosition [OF assms, THEN writes_runCommand]
  show ?thesis
  proof (cases "strings_TrimSpace payload \<in> {''OPEN'', ''CLOSE'', ''STOP''}")
    case True
    then show ?thesis
      using w by (auto simp: Let_def handleCoverCommand_def openFunc_def closeFunc_def)
  next
    case False
    show ?thesis
    proof (cases "Atoi (strings_TrimSpace payload)")
      case None
      with False show ?thesis by (simp add: Let_def handleCoverCommand_def)
    next
      case (Some n)
      show ?thesis
      proof (cases "0 \<le> n \<and> n \<le> 100")
        case True
        with pos obtain p where p: "NewPosition None None (Some n) = Inr p"
          "Position_PositionPercent p = n" "Position_Known p" by blast
        with False Some True w(4) [of "cv_node (br_heap (cl_nodes c) a)" p False] show ?thesis
          by (auto simp: Let_def handleCoverCommand_def intro!: exI [of _ p])
      next
        case False
        with Some \<open>_ \<notin> _\<close> show ?thesis by (auto simp: Let_def handleCoverCommand_def)
      qed
    qed
  qed
qed

text \<open>
  A position report of the gateway for a known opening device that is no blind reaches the
  broker at once: each observer of the node publishes position, state, keep-open state and
  availability of the device as it is after the report, in which a position or target that is no
  percentage is ignored.
\<close>

theorem position_report_published:
  assumes "Nodes_ByID (nw_heap b) (ucast (psc_NodeID f)) (nw_nodes b) = Some r"
    "node_opening (nw_heap b r) = Some d" "\<not> is_blind (nw_heap b r)" "nw_events b = []"
  shows "let current = reported (psc_CurrentPosition f); target = reported (psc_Target f);
      d' = d\<lparr> od_position := if in_range current then current else od_position d,
              od_targetPosition := if in_range target then target else od_targetPosition d \<rparr>
    in mq_published (br_mqtt (deliver (processFrame (CommandsFrame (FrNodeStatePositionChangedNotification f)) b))) =
       mq_published (br_mqtt b) @
         concat (map (\<lambda>a. cover_messages (br_heap b a) d' (mq_retain (br_mqtt b)))
           (bn_deviceUpdatedCBs (node_base (nw_heap b r))))"
proof -
  define current where "current = reported (psc_CurrentPosition f)"
  define target where "target = reported (psc_Target f)"
  define w1 where "w1 = (if in_range current then assign r (on_opening (SetPositionState current)) b else b)"
  define w2 where "w2 = (if in_range target then assign r (on_opening (SetTargetState target)) w1 else w1)"
  define d1 where "d1 = d\<lparr> od_position := if in_range current then current else od_position d \<rparr>"
  define d2 where "d2 = d1\<lparr> od_targetPosition := if in_range target then target else od_targetPosition d1 \<rparr>"
  have frame: "processFrame (CommandsFrame (FrNodeStatePositionChangedNotification f)) b = AfterUpdate r w2"
    using assms(1-3) by (cases "nw_heap b r")
      (simp_all add: processFrame_def processNodeStateFrame_def processPositionFrame_def Let_def
        w1_def w2_def current_def target_def)
  have w1: "node_opening (nw_heap w1 r) = Some d1" "node_base (nw_heap w1 r) = node_base (nw_heap b r)"
    "br_mqtt w1 = br_mqtt b" "br_heap w1 = br_heap b" "nw_events w1 = []"
    using on_opening_parts [OF assms(2), of "SetPositionState current"] assms(2,4)
    by (simp_all add: w1_def d1_def bridge_simps SetPositionState_def)
  have w2: "node_opening (nw_heap w2 r) = Some d2" "node_base (nw_heap w2 r) = node_base (nw_heap b r)"
    "br_mqtt w2 = br_mqtt b" "br_heap w2 = br_heap b" "nw_events w2 = []"
    using on_opening_parts [OF w1(1), of "SetTargetState target"] w1
    by (simp_all add: w2_def d2_def bridge_simps SetTargetState_def)
  show ?thesis
    using deliver_AfterUpdate [OF w2(5) refl w2(1)] w2
    by (simp add: frame Let_def current_def target_def d2_def d1_def)
qed

text \<open>
  After a successful STOP of a blind the current-position sentinel stands in its position and
  its target, and until the gateway reports again its covers publish position 0 and the state
  open, whatever position the blind has stopped at.
\<close>

theorem blind_stop_publishes_open:
  assumes "quiet c" "is_blind (nw_heap (cl_nodes c) node)" "node_opening (nw_heap (cl_nodes c) node) = Some d"
    "cv_node (br_heap (cl_nodes c) a) = node" "\<not> cv_inverted (br_heap (cl_nodes c) a)"
    "bn_deviceUpdatedCBs (node_base (nw_heap (cl_nodes c) node)) = [a]" "nw_events (cl_nodes c) = []"
    "strings_TrimSpace payload = ''STOP''" "fst (Device_Stop node False c) = Inr ()"
  shows "\<exists>rest. mq_published (br_mqtt (cl_nodes (handleCoverCommand a payload c))) =
    mq_published (br_mqtt (cl_nodes c)) @
      [(tp_Position (cv_topics (br_heap (cl_nodes c) a)), ''0'', mq_retain (br_mqtt (cl_nodes c))),
       (tp_State (cv_topics (br_heap (cl_nodes c) a)), ''open'', mq_retain (br_mqtt (cl_nodes c)))] @ rest"
proof -
  define b where "b = assign node (on_blind (set_position_fields NewCurrentPosition)) (cl_nodes c)"
  define c1 where "c1 = change_nodes (assign node (on_blind (set_position_fields NewCurrentPosition))) c"
  define fp where "fp = blind_fp3 NewCurrentPosition (Some (bl_targetOrientation (blind_at node c)))"
  define send where "send = Client_CommandSend (command_id node c1) (pos_Parameter NewCurrentPosition) [3 \<mapsto> fp] False c1"
  have q: "quiet c1" using assms(1) by (simp add: quiet_def c1_def change_nodes_def next_exchange_def)
  have b: "cl_nodes c1 = b" by (simp add: c1_def b_def)
  have stop: "Device_Stop node False c = and_then send (change_nodes (AfterUpdate node))"
    using assms(2) by (simp add: Device_Stop_def Blind_Stop_def Let_def SetPositionAndOrientation_eq
        send_def c1_def fp_def)
  have "fst (and_then send (change_nodes (AfterUpdate node))) = Inr ()"
    using assms(9) by (simp only: stop)
  then obtain x where "fst send = Inr x" using and_then_ok by blast
  then have nodes: "cl_nodes (snd (Device_Stop node False c)) = AfterUpdate node b"
    using CommandSend_quiet [OF q] by (simp add: stop snd_and_then send_def b)
  have parts: "node_opening (nw_heap b node) =
      Some (d\<lparr> od_position := NewCurrentPosition, od_targetPosition := NewCurrentPosition \<rparr>)"
    "bn_deviceUpdatedCBs (node_base (nw_heap b node)) = [a]"
    using on_blind_position_parts [OF assms(2,3), of NewCurrentPosition] assms(6)
    by (simp_all add: b_def bridge_simps)
  have bb: "br_mqtt b = br_mqtt (cl_nodes c)" "br_heap b = br_heap (cl_nodes c)" "nw_events b = []"
    using assms(7) by (simp_all add: b_def bridge_simps)
  have percent: "Position_PositionPercent NewCurrentPosition = 105"
    by (simp add: Position_PositionPercent_def positionToPercent_eq special_positions)
  have handled: "cl_nodes (handleCoverCommand a payload c) = deliver (AfterUpdate node b)"
    using assms(4,8) nodes by (simp add: handleCoverCommand_def Let_def nodes_runCommand)
  show ?thesis
    using deliver_AfterUpdate [OF bb(3) parts(2,1)] assms(5)
    by (simp add: handled bb cover_messages_def Let_def percent CoverState_def ValidatePosition_def
        ValidateTarget_def DeriveState_ha ha_state_def openness_def Itoa_def dec_nat.simps dec_digit_def)
qed

text \<open>
  The keep-open switch is reported as it was commanded: after a successful ON, which limits
  the position to 0 percent, its state is published as on, and after a successful OFF as off.
\<close>

theorem keep_open_reported:
  assumes "quiet c" "node_opening (nw_heap (cl_nodes c) node) = Some d"
    "cv_node (br_heap (cl_nodes c) a) = node"
    "bn_deviceUpdatedCBs (node_base (nw_heap (cl_nodes c) node)) = [a]" "nw_events (cl_nodes c) = []"
    "strings_TrimSpace payload = (if on then ''ON'' else ''OFF'')"
    "fst (if on then OpeningDevice_setPositionLimitations node \<lparr> pos_Parameter = percent_0 \<rparr> \<lparr> pos_Parameter = percent_0 \<rparr> c
          else OpeningDevice_clearPositionLimitations node c) = Inr ()"
  shows "let t = cv_topics (br_heap (cl_nodes c) a); retain = mq_retain (br_mqtt (cl_nodes c)) in
    \<exists>before after. mq_published (br_mqtt (cl_nodes (handleKeepOpenCommand a payload c))) =
      mq_published (br_mqtt (cl_nodes c)) @ before @
        [(tp_KeepOpenState t, if on then ''on'' else ''off'', retain)] @ after"
proof -
  define lim where "lim = (if on then \<lparr> pos_Parameter = percent_0 \<rparr> else NewIgnorePosition)"
  define send where "send = Client_SetLimitation (command_id node c) lim lim
    (if on then NewLimitationTimeUnlimited else NewLimitationTimeClearAll) c"
  define k :: "system \<Rightarrow> system" where "k = (\<lambda>c. change_nodes (AfterUpdate node)
    (change_nodes (assign node (on_opening (set_limits lim lim))) c))"
  have cmd: "(if on then OpeningDevice_setPositionLimitations node \<lparr> pos_Parameter = percent_0 \<rparr> \<lparr> pos_Parameter = percent_0 \<rparr> c
      else OpeningDevice_clearPositionLimitations node c) = and_then send k"
    by (simp add: OpeningDevice_setPositionLimitations_def OpeningDevice_clearPositionLimitations_def
        lim_def send_def k_def)
  with assms(7) have "fst (and_then send k) = Inr ()" by simp
  then obtain x where "fst send = Inr x" using and_then_ok by blast
  moreover define b where "b = assign node (on_opening (set_limits lim lim)) (cl_nodes c)"
  ultimately have nodes: "cl_nodes (snd (and_then send k)) = AfterUpdate node b"
    using SetLimitation_quiet [OF assms(1)] by (simp add: snd_and_then k_def send_def)
  have zero: "NewPosition None None (Some 0) = Inr \<lparr> pos_Parameter = percent_0 \<rparr>"
    using positionPercent_0 by (simp add: positionPercent_def percent_0_def)
  have handled: "cl_nodes (handleKeepOpenCommand a payload c) = deliver (AfterUpdate node b)"
    using assms(3,6) nodes cmd
    by (auto simp: handleKeepOpenCommand_def Let_def nodes_runCommand zero split: if_splits)
  have parts: "node_opening (nw_heap b node) = Some (set_limits lim lim d)"
    "bn_deviceUpdatedCBs (node_base (nw_heap b node)) = [a]"
    using on_opening_parts [OF assms(2), of "set_limits lim lim"] assms(4)
    by (simp_all add: b_def bridge_simps set_limits_def)
  have bb: "br_mqtt b = br_mqtt (cl_nodes c)" "br_heap b = br_heap (cl_nodes c)" "nw_events b = []"
    using assms(5) by (simp_all add: b_def bridge_simps)
  have keep: "(Position_Known lim \<and> Position_PositionPercent lim < 100) = on"
    by (simp add: lim_def percent_0_def Position_Known_def Position_PositionPercent_def positionToPercent_eq special_positions)
  obtain position state where cs: "CoverState (Position_PositionPercent (od_position d))
      (Position_PositionPercent (od_targetPosition d)) (cv_inverted (br_heap (cl_nodes c) a)) = (position, state)"
    by fastforce
  define t where "t = cv_topics (br_heap (cl_nodes c) a)"
  define retain where "retain = mq_retain (br_mqtt (cl_nodes c))"
  have "mq_published (br_mqtt (cl_nodes (handleKeepOpenCommand a payload c))) =
      mq_published (br_mqtt (cl_nodes c)) @
        [(tp_Position t, Itoa position, retain), (tp_State t, state, retain)] @
        [(tp_KeepOpenState t, if on then ''on'' else ''off'', retain)] @
        [(tp_Available t, ''online'', retain), (tp_KeepOpenAvailable t, ''online'', retain)]"
    using deliver_AfterUpdate [OF bb(3) parts(2,1)]
    by (simp add: handled bb cover_messages_def Let_def set_limits_def keep cs t_def retain_def)
  then show ?thesis unfolding Let_def t_def [symmetric] retain_def [symmetric] by blast
qed

text \<open>
  After a registration an id belongs to the last opening device whose name gives it, and an
  id that no device gives any more keeps the cover it had: devices with colliding names share one
  entry, and a renamed or removed device stays registered.
\<close>

theorem Register_covers:
  "List.find (\<lambda>e. fst e = i) (br_covers (Manager_Register u b)) =
     (case List.find (\<lambda>e. fst e = i) (rev (cover_entries u (nw_heap b) (br_next b) (nw_nodes b))) of
        Some e \<Rightarrow> Some e
      | None \<Rightarrow> List.find (\<lambda>e. fst e = i) (br_covers b))"
  unfolding Manager_Register_def Nodes_All_def fold_register
  by (simp add: cover_map.lookup_fold split: option.split)

text \<open>
  A registration subscribes the two command topics of every opening device with the handlers of its
  new cover and leaves the subscriptions of earlier registrations in place: after a reconnect a
  command topic has the handler of a cover whose node the reload dropped beside the new one.
\<close>

theorem Register_subscribes:
  "mq_subscribed (br_mqtt (Manager_Register u b)) = mq_subscribed (br_mqtt b) @
     command_subscriptions (hc_Prefix (cf_HomeAssistant (br_cfg b)))
       (cover_entries u (nw_heap b) (br_next b) (nw_nodes b))"
  unfolding Manager_Register_def Nodes_All_def by (rule fold_register_subscribes)

text \<open>
  C34: A shutdown after a registration marks every registered cover offline and then clears the
  retained discovery message of every cover that was ever announced, and announces nothing else.
\<close>

theorem CloseAll_clears_discovery:
  "let b' = Manager_Register u b in
     br_discoveredTopics (CloseAll b') = [] \<and>
     (\<exists>topics. mq_published (br_mqtt (CloseAll b')) =
        mq_published (br_mqtt b') @ availability_messages False b' @ map (\<lambda>t. (t, '''', True)) topics \<and>
      set topics = set (br_discoveredTopics b) \<union>
        (\<Union>e\<in>set (cover_entries u (nw_heap b) (br_next b) (nw_nodes b)).
           set (discovery_topics (NewTopics (hc_Prefix (cf_HomeAssistant (br_cfg b))) (fst e)))))"
  using fold_register_discovered [of u "nw_nodes b" b]
  by (auto simp: Let_def CloseAll_published Manager_Register_def Nodes_All_def)

text \<open>
  The discovery message gives Home Assistant the scale on which the published position is read:
  the percentage of the way from \<^verbatim>\<open>position_closed\<close> to \<^verbatim>\<open>position_open\<close> is the openness that
  the published state goes by, for normal and for inverted covers.
\<close>

theorem discovery_scale:
  "(position - cdp_PositionClosed (cover_payload c nm)) * 100 =
     openness (cv_inverted c) position *
       (cdp_PositionOpen (cover_payload c nm) - cdp_PositionClosed (cover_payload c nm))"
  by (simp add: cover_payload_def Let_def openness_def)

theorem cover_command_wire_witness:
  "let c = connected_client [accepting 1] (example_bridge (Awning example_device)) in
     writes c (handleCoverCommand 0 '' OPEN'' c) (command_frame 0 percent_0 Map.empty c)"
  using cover_command_wire [of "connected_client [accepting 1] (example_bridge (Awning example_device))" 0 "'' OPEN''"]
    example_bridge_simps [of "Awning example_device" example_device]
    example_inverted [of "Awning example_device" example_device]
  by (simp add: Let_def TrimSpace_OPEN accepting_def)

theorem position_report_published_witness:
  "let b = example_bridge (Window example_device False);
       f = FrameNodeStatePositionChangedNotification_new\<lparr> psc_NodeID := 5,
             psc_CurrentPosition := \<lparr> Raw = (50, 0) \<rparr>, psc_Target := \<lparr> Raw = (0, 0) \<rparr> \<rparr>
     in \<exists>d. Position_PositionPercent (od_position d) = 25 \<and> Position_PositionPercent (od_targetPosition d) = 0 \<and>
          mq_published (br_mqtt (deliver (processFrame (CommandsFrame (FrNodeStatePositionChangedNotification f)) b))) =
          mq_published (br_mqtt b) @ cover_messages (br_heap b 0) d (mq_retain (br_mqtt b))"
proof -
  let ?n = "Window example_device False"
  let ?b = "example_bridge ?n"
  let ?f = "FrameNodeStatePositionChangedNotification_new\<lparr> psc_NodeID := 5,
             psc_CurrentPosition := \<lparr> Raw = (50, 0) \<rparr>, psc_Target := \<lparr> Raw = (0, 0) \<rparr> \<rparr>"
  note ex = example_bridge_simps [of ?n example_device, simplified]
  have d: "od_BaseNode example_device = NewBaseNode 5 ''Roof'' []"
    by (simp add: example_device_def newOpeningDevice_def)
  have r: "reported \<lparr> Raw = (50, 0) \<rparr> = \<lparr> pos_Parameter = \<lparr> Raw = (50, 0) \<rparr> \<rparr>"
    "reported \<lparr> Raw = (0, 0) \<rparr> = \<lparr> pos_Parameter = \<lparr> Raw = (0, 0) \<rparr> \<rparr>"
    by (simp_all add: reported_def NewPosition_def ignore_err_def Parameter_FromParameter_def)
  have i: "in_range \<lparr> pos_Parameter = \<lparr> Raw = (50, 0) \<rparr> \<rparr>" "in_range \<lparr> pos_Parameter = \<lparr> Raw = (0, 0) \<rparr> \<rparr>"
    by (simp_all add: in_range_def Position_Known_def Position_Position_def ParameterMax_def parameterToInt_def
        ParameterUnknownValue_def parameterFromInt_def)
  have "Nodes_ByID (nw_heap ?b) (ucast (psc_NodeID ?f)) (nw_nodes ?b) = Some 0"
    by (simp add: ex d Node_NodeID_def NewBaseNode_def)
  note report = position_report_published [OF this, simplified ex]
  define d' where "d' = example_device\<lparr> od_BaseNode := (NewBaseNode 5 ''Roof'' [])\<lparr> bn_deviceUpdatedCBs := [0] \<rparr>,
     od_position := \<lparr> pos_Parameter = \<lparr> Raw = (50, 0) \<rparr> \<rparr>,
     od_targetPosition := \<lparr> pos_Parameter = \<lparr> Raw = (0, 0) \<rparr> \<rparr> \<rparr>"
  have "Position_PositionPercent (od_position d') = 25" "Position_PositionPercent (od_targetPosition d') = 0"
    by (simp_all add: d'_def Position_PositionPercent_def positionToPercent_eq)
  moreover have "mq_published (br_mqtt (deliver (processFrame (CommandsFrame (FrNodeStatePositionChangedNotification ?f)) ?b))) =
      mq_published (br_mqtt ?b) @ cover_messages (br_heap ?b 0) d' (mq_retain (br_mqtt ?b))"
    using report
    by (simp add: ex d NewBaseNode_def Let_def FrameNodeStatePositionChangedNotification_new_def r i d'_def)
  ultimately show ?thesis unfolding Let_def by blast
qed

theorem blind_stop_publishes_open_witness:
  "let c = connected_client [accepting 1] (example_bridge (BlindN example_blind)) in
     Position_PositionPercent (od_position example_device) = 50 \<and>
     (\<exists>before rest. mq_published (br_mqtt (cl_nodes (handleCoverCommand 0 ''STOP'' c))) =
       before @ [(tp_State (cv_topics (br_heap (cl_nodes c) 0)), ''open'', mq_retain (br_mqtt (cl_nodes c)))] @ rest)"
proof -
  let ?n = "BlindN example_blind"
  let ?c = "connected_client [accepting 1] (example_bridge ?n)"
  have o': "node_opening ?n = Some example_device" by (simp add: example_blind_def)
  have d: "od_BaseNode example_device = NewBaseNode 5 ''Roof'' []"
    by (simp add: example_device_def newOpeningDevice_def)
  note ex = example_bridge_simps [OF o'] example_inverted [OF o']
  have h: "nw_heap (example_bridge ?n) 0 = BlindN (example_blind\<lparr> bl_OpeningDevice := example_device\<lparr> od_BaseNode :=
      (NewBaseNode 5 ''Roof'' [])\<lparr> bn_deviceUpdatedCBs := [0] \<rparr> \<rparr> \<rparr>)"
    by (simp add: ex) (simp add: example_blind_def d NewBaseNode_def)
  have stop: "fst (Device_Stop 0 False ?c) = Inr ()"
    by (rule fst_stop_blind) (simp_all add: h, simp_all add: accepting_def NewSessionID_def next_id_def)
  have "Position_PositionPercent (od_position example_device) = 50"
    by (simp add: example_device_def newOpeningDevice_def NewPosition_def ignore_err_def
        Parameter_FromParameter_def Position_PositionPercent_def positionToPercent_eq)
  moreover have "\<exists>rest. mq_published (br_mqtt (cl_nodes (handleCoverCommand 0 ''STOP'' ?c))) =
      mq_published (br_mqtt (cl_nodes ?c)) @
        [(tp_Position (cv_topics (br_heap (cl_nodes ?c) 0)), ''0'', mq_retain (br_mqtt (cl_nodes ?c))),
         (tp_State (cv_topics (br_heap (cl_nodes ?c) 0)), ''open'', mq_retain (br_mqtt (cl_nodes ?c)))] @ rest"
    by (rule blind_stop_publishes_open [OF quiet_example _ _ _ _ _ _ TrimSpace_STOP stop])
      (simp add: h, simp add: h, simp_all add: h, simp_all add: ex)
  ultimately show ?thesis unfolding Let_def by (metis append_Cons append_Nil append_assoc)
qed

theorem keep_open_reported_witness:
  "let c = connected_client [limiting] (example_bridge (Window example_device False)) in
     \<exists>before after. mq_published (br_mqtt (cl_nodes (handleKeepOpenCommand 0 ''ON'' c))) =
       mq_published (br_mqtt (cl_nodes c)) @ before @
         [(tp_KeepOpenState (cv_topics (br_heap (cl_nodes c) 0)), ''on'', mq_retain (br_mqtt (cl_nodes c)))] @ after"
proof -
  let ?n = "Window example_device False"
  let ?c = "connected_client [limiting] (example_bridge ?n)"
  have d: "od_BaseNode example_device = NewBaseNode 5 ''Roof'' []"
    by (simp add: example_device_def newOpeningDevice_def)
  note ex = example_bridge_simps [of ?n example_device, simplified]
  have "fst (OpeningDevice_setPositionLimitations 0 \<lparr> pos_Parameter = percent_0 \<rparr> \<lparr> pos_Parameter = percent_0 \<rparr> ?c) = Inr ()"
    using accepted_limitation [of ?c] by (simp add: OpeningDevice_setPositionLimitations_def limiting_def)
  with keep_open_reported [of ?c 0 _ 0 "''ON''" True] show ?thesis
    by (simp add: ex quiet_example d TrimSpace_ON NewBaseNode_def Let_def)
qed

end
