(* ===== verification/Zones.thy ===== *)
theory Zones
  imports GoTime
begin

text \<open>
  Locations of Go's package \<^verbatim>\<open>time\<close>: the lookup of the offset that is in force, and \<^verbatim>\<open>time.Date\<close>
  in a location, as the package computes it. An instant is the number of seconds from 0001-01-01
  00:00:00 UTC, so that the wall clock of an instant is the instant plus the offset. A location is
  the offset before its first transition and the list of its transitions: when, and the offset
  from then on.
\<close>

section \<open>Lookup and \<open>time.Date\<close>\<close>

type_synonym transitions = "(int \<times> int) list"

record Location =
  loc_offset :: int
  loc_tx :: transitions

text \<open>\<open>Location.lookup\<close>: the offset at an instant, and the interval in which it is in force.\<close>

fun lookup_tx :: "int \<Rightarrow> int option \<Rightarrow> transitions \<Rightarrow> int \<Rightarrow> int \<times> int option \<times> int option" where
  "lookup_tx offset start [] sec = (offset, start, None)"
| "lookup_tx offset start ((T, off) # tx) sec =
     (if sec < T then (offset, start, Some T) else lookup_tx off (Some T) tx sec)"

definition loc_lookup :: "Location \<Rightarrow> int \<Rightarrow> int \<times> int option \<times> int option" where
  "loc_lookup loc sec = lookup_tx (loc_offset loc) None (loc_tx loc) sec"

definition offset_at :: "Location \<Rightarrow> int \<Rightarrow> int" where
  "offset_at loc sec = fst (loc_lookup loc sec)"

definition wall_of :: "Location \<Rightarrow> int \<Rightarrow> wall" where
  "wall_of loc sec = sec + offset_at loc sec"

definition in_force :: "int option \<times> int option \<Rightarrow> int \<Rightarrow> bool" where
  "in_force se utc =
     ((case fst se of None \<Rightarrow> True | Some start \<Rightarrow> start \<le> utc) \<and>
      (case snd se of None \<Rightarrow> True | Some end \<Rightarrow> utc < end))"

text \<open>
  The instant for a wall clock: the first guess takes the wall clock for UTC, and the offset found
  there is kept when the instant it gives is in the same interval.
\<close>

definition instant_of :: "Location \<Rightarrow> wall \<Rightarrow> int" where
  "instant_of loc local =
     (case loc_lookup loc local of
        (offset, se) \<Rightarrow>
          if offset \<noteq> 0 then
            let utc = local - offset
            in if in_force se utc then local - offset else local - offset_at loc utc
          else local)"

definition time_Date_in :: "Location \<Rightarrow> int \<Rightarrow> int \<Rightarrow> int \<Rightarrow> int \<Rightarrow> int \<Rightarrow> int \<Rightarrow> int" where
  "time_Date_in loc year month day hour mins sec =
     instant_of loc (time_Date year month day hour mins sec)"

definition fixed_zone :: "int \<Rightarrow> Location" where
  "fixed_zone offset = \<lparr> loc_offset = offset, loc_tx = [] \<rparr>"

section \<open>Locations whose date only goes forward\<close>

abbreviation day_secs :: int where "day_secs \<equiv> 86400"

text \<open>
  A transition at \<open>T\<close> from offset \<open>a\<close> to \<open>b\<close> keeps the date: no wall clock that it skips, moved by
  the size of the change, is on another day; and when the clock goes back, not across midnight.
\<close>

definition keeps_date :: "int \<Rightarrow> int \<Rightarrow> int \<Rightarrow> bool" where
  "keeps_date T a b \<longleftrightarrow>
     (if a \<le> b then (T + 2 * a - b) div day_secs = (T + 2 * b - a) div day_secs
      else (T + b) div day_secs = (T + a) div day_secs)"

fun zone_tx_ok :: "int \<Rightarrow> transitions \<Rightarrow> bool" where
  "zone_tx_ok a [] = (\<bar>a\<bar> < day_secs)"
| "zone_tx_ok a ((T, b) # tx) =
     (\<bar>a\<bar> < day_secs \<and> keeps_date T a b \<and>
      (case tx of [] \<Rightarrow> True | (T', c) # tx' \<Rightarrow> T + 3 * day_secs \<le> T') \<and> zone_tx_ok b tx)"

definition zone_ok :: "Location \<Rightarrow> bool" where
  "zone_ok loc = zone_tx_ok (loc_offset loc) (loc_tx loc)"

lemma zone_ok_fixed [simp]: "zone_ok (fixed_zone offset) \<longleftrightarrow> \<bar>offset\<bar> < day_secs"
  by (simp add: zone_ok_def fixed_zone_def)

lemma wall_of_fixed [simp]: "wall_of (fixed_zone offset) sec = sec + offset"
  by (simp add: wall_of_def offset_at_def loc_lookup_def fixed_zone_def)

lemma instant_of_fixed [simp]: "instant_of (fixed_zone offset) local = local - offset"
  by (simp add: instant_of_def loc_lookup_def fixed_zone_def in_force_def)

subsection \<open>The date of the wall clock never goes back\<close>

lemma zone_tx_offset: "zone_tx_ok a tx \<Longrightarrow> \<bar>a\<bar> < day_secs"
  by (cases tx) auto

lemma lookup_start: "fst (lookup_tx a start tx sec) = fst (lookup_tx a start' tx sec)"
  by (cases tx) auto

lemma keeps_date_step:
  assumes "keeps_date T a b" "t < T"
  shows "(t + a) div day_secs \<le> (T + b) div day_secs"
proof (cases "a \<le> b")
  case True
  then show ?thesis using assms(2) by (intro zdiv_mono1) simp_all
next
  case False
  then have "(t + a) div day_secs \<le> (T + a) div day_secs" using assms(2) by (intro zdiv_mono1) simp_all
  also have "\<dots> = (T + b) div day_secs" using assms(1) False by (simp add: keeps_date_def)
  finally show ?thesis .
qed

lemma tx_date_mono:
  "zone_tx_ok a tx \<Longrightarrow> t \<le> t' \<Longrightarrow>
   (t + fst (lookup_tx a st tx t)) div day_secs \<le> (t' + fst (lookup_tx a st tx t')) div day_secs"
proof (induction tx arbitrary: a st t)
  case Nil
  then show ?case by (simp add: zdiv_mono1)
next
  case (Cons p tx)
  obtain T b where p: "p = (T, b)" by (cases p)
  with Cons.prems have ok: "zone_tx_ok b tx" "keeps_date T a b" by auto
  consider "t' < T" | "t < T" "T \<le> t'" | "T \<le> t" by linarith
  then show ?case
  proof cases
    case 1
    with Cons.prems p show ?thesis by (simp add: zdiv_mono1)
  next
    case 2
    have at: "T + fst (lookup_tx b (Some T) tx T) = T + b"
      using Cons.prems(1) p by (cases tx) auto
    have "(t + a) div day_secs \<le> (T + b) div day_secs" by (rule keeps_date_step [OF ok(2) 2(1)])
    also have "\<dots> \<le> (t' + fst (lookup_tx b (Some T) tx t')) div day_secs"
      using Cons.IH [OF ok(1) 2(2), of "Some T"] at by simp
    finally show ?thesis using 2 p by simp
  next
    case 3
    with Cons.IH [OF ok(1) Cons.prems(2), of "Some T"] Cons.prems p show ?thesis by simp
  qed
qed

lemma wall_date_mono:
  "zone_ok loc \<Longrightarrow> t \<le> t' \<Longrightarrow> wall_of loc t div day_secs \<le> wall_of loc t' div day_secs"
  by (simp add: wall_of_def offset_at_def loc_lookup_def zone_ok_def tx_date_mono)

subsection \<open>Near an instant there is at most one transition\<close>

text \<open>Around \<open>L\<close> the lookup is that of one transition at \<open>T\<close> from \<open>a\<close> to \<open>b\<close>.\<close>

definition one_transition ::
    "(int \<Rightarrow> int \<times> int option \<times> int option) \<Rightarrow> int \<Rightarrow> int \<Rightarrow> int \<Rightarrow> int \<Rightarrow> bool" where
  "one_transition lk L T a b \<longleftrightarrow>
     keeps_date T a b \<and> \<bar>a\<bar> < day_secs \<and> \<bar>b\<bar> < day_secs \<and>
     (\<forall>u. \<bar>u - L\<bar> < day_secs \<longrightarrow> fst (lk u) = (if u < T then a else b)) \<and>
     (\<forall>u v. \<bar>u - L\<bar> < day_secs \<and> \<bar>v - L\<bar> < day_secs \<longrightarrow>
        in_force (snd (lk u)) v = (u < T \<longleftrightarrow> v < T))"

lemma keeps_date_refl: "keeps_date T a a"
  by (simp add: keeps_date_def)

lemma one_transition_none:
  assumes "\<bar>a\<bar> < day_secs" "\<And>u. \<bar>u - L\<bar> < day_secs \<Longrightarrow> fst (lk u) = a"
    "\<And>u v. \<bar>u - L\<bar> < day_secs \<Longrightarrow> \<bar>v - L\<bar> < day_secs \<Longrightarrow> in_force (snd (lk u)) v"
  shows "one_transition lk L (L + day_secs) a a"
  using assms by (auto simp: one_transition_def keeps_date_refl)

lemma tx_window:
  "zone_tx_ok a tx \<Longrightarrow> (case st of None \<Rightarrow> True | Some s \<Rightarrow> s \<le> L - day_secs) \<Longrightarrow>
   \<exists>T a' b'. one_transition (lookup_tx a st tx) L T a' b'"
proof (induction tx arbitrary: a st)
  case Nil
  have "one_transition (lookup_tx a st []) L (L + day_secs) a a"
    using Nil by (intro one_transition_none) (auto simp: in_force_def split: option.splits)
  then show ?case by blast
next
  case (Cons p tx)
  obtain T b where p: "p = (T, b)" by (cases p)
  with Cons.prems have ok: "zone_tx_ok b tx" "keeps_date T a b" "\<bar>a\<bar> < day_secs"
    and gap: "case tx of [] \<Rightarrow> True | (T', c) # tx' \<Rightarrow> T + 3 * day_secs \<le> T'" by auto
  consider "T \<le> L - day_secs" | "L + day_secs \<le> T" | "L - day_secs < T" "T < L + day_secs" by linarith
  then show ?case
  proof cases
    case 1
    then have "\<exists>T' a' b'. one_transition (lookup_tx b (Some T) tx) L T' a' b'"
      by (intro Cons.IH [OF ok(1)]) simp
    then obtain T' a' b' where w: "one_transition (lookup_tx b (Some T) tx) L T' a' b'" by blast
    have "lookup_tx a st (p # tx) u = lookup_tx b (Some T) tx u" if "\<bar>u - L\<bar> < day_secs" for u
      using that 1 p by auto
    with w have "one_transition (lookup_tx a st (p # tx)) L T' a' b'"
      unfolding one_transition_def by metis
    then show ?thesis by blast
  next
    case 2
    have "one_transition (lookup_tx a st (p # tx)) L (L + day_secs) a a"
      using Cons.prems(2) 2 p ok(3)
      by (intro one_transition_none) (auto simp: in_force_def split: option.splits)
    then show ?thesis by blast
  next
    case 3
    have tail: "fst (lookup_tx b (Some T) tx u) = b \<and>
        in_force (snd (lookup_tx b (Some T) tx u)) v = (T \<le> v)"
      if "T \<le> u" "\<bar>u - L\<bar> < day_secs" "\<bar>v - L\<bar> < day_secs" for u v
    proof (cases tx)
      case Nil
      then show ?thesis by (simp add: in_force_def)
    next
      case (Cons q tx')
      obtain T' c where q: "q = (T', c)" by (cases q)
      with Cons gap 3 that have "u < T'" "v < T'" by (auto simp: abs_if split: if_splits)
      with Cons q show ?thesis by (simp add: in_force_def)
    qed
    have "one_transition (lookup_tx a st (p # tx)) L T a b"
      unfolding one_transition_def
      using Cons.prems(2) 3 p ok zone_tx_offset [OF ok(1)] tail
      by (auto simp: in_force_def split: option.splits)
    then show ?thesis by blast
  qed
qed

lemma zone_window:
  "zone_ok loc \<Longrightarrow> \<exists>T a b. one_transition (loc_lookup loc) L T a b"
  using tx_window [where a = "loc_offset loc" and tx = "loc_tx loc" and st = None and L = L]
  by (simp add: zone_ok_def loc_lookup_def [abs_def])

subsection \<open>What \<open>time.Date\<close> gives\<close>

text \<open>Two instants before and after one transition, of which the clock reads \<open>L\<close> at none.\<close>

definition skipped_by :: "int \<Rightarrow> int \<Rightarrow> int \<Rightarrow> wall \<Rightarrow> bool" where
  "skipped_by T a b L \<longleftrightarrow> T + a \<le> L \<and> L < T + b"

lemma instant_of_window:
  assumes w: "one_transition (loc_lookup loc) L T a b" and r: "r = instant_of loc L"
  shows "if skipped_by T a b L then r = (if L < T then L - b else L - a) \<and>
      wall_of loc r = (if L < T then L - b + a else L - a + b)
    else wall_of loc r = L"
proof -
  have ab: "\<bar>a\<bar> < day_secs" "\<bar>b\<bar> < day_secs" using w by (simp_all add: one_transition_def)
  have off: "offset_at loc u = (if u < T then a else b)" if "\<bar>u - L\<bar> < day_secs" for u
    using w that by (simp add: one_transition_def offset_at_def)
  have valid: "in_force (snd (loc_lookup loc L)) u = (L < T \<longleftrightarrow> u < T)" if "\<bar>u - L\<bar> < day_secs" for u
    using w that by (simp add: one_transition_def)
  define o1 where "o1 = (if L < T then a else b)"
  define o2 where "o2 = (if L < T \<longleftrightarrow> L - o1 < T then o1 else if L - o1 < T then a else b)"
  have o1: "\<bar>o1\<bar> < day_secs" "\<bar>o2\<bar> < day_secs" using ab by (simp_all add: o1_def o2_def)
  have lk: "fst (loc_lookup loc L) = o1" using off [of L] by (simp add: offset_at_def o1_def)
  have "instant_of loc L = L - o2"
    using valid [of "L - o1"] off [of "L - o1"] o1(1) lk
    by (auto simp: instant_of_def Let_def o2_def o1_def split: prod.split if_splits)
  then have r': "r = L - o2" by (simp add: r)
  have "wall_of loc r = L - o2 + (if L - o2 < T then a else b)"
    using off [of "L - o2"] o1(2) by (simp add: wall_of_def r')
  with r' show ?thesis by (auto simp: skipped_by_def o2_def o1_def split: if_splits)
qed

text \<open>The clock that \<open>Date\<close> was asked for is read, unless no instant of the location reads it.\<close>

lemma instant_of_exact:
  assumes ok: "zone_ok loc" and read: "wall_of loc t = L"
  shows "wall_of loc (instant_of loc L) = L"
proof -
  obtain T a b where w: "one_transition (loc_lookup loc) L T a b" using zone_window [OF ok] by blast
  have "\<not> skipped_by T a b L"
  proof
    assume s: "skipped_by T a b L"
    have "\<bar>offset_at loc t\<bar> < day_secs"
    proof -
      obtain T' a' b' where "one_transition (loc_lookup loc) t T' a' b'" using zone_window [OF ok] by blast
      then show ?thesis by (auto simp: one_transition_def offset_at_def split: if_splits)
    qed
    with read have "\<bar>t - L\<bar> < day_secs" by (simp add: wall_of_def)
    then have "offset_at loc t = (if t < T then a else b)" using w by (simp add: one_transition_def offset_at_def)
    with read s show False by (auto simp: wall_of_def skipped_by_def split: if_splits)
  qed
  with instant_of_window [OF w refl] show ?thesis by simp
qed

text \<open>And it is read on the day that was asked for.\<close>

lemma instant_of_date:
  assumes ok: "zone_ok loc"
  shows "wall_of loc (instant_of loc L) div day_secs = L div day_secs"
proof -
  obtain T a b where w: "one_transition (loc_lookup loc) L T a b" using zone_window [OF ok] by blast
  show ?thesis
  proof (cases "skipped_by T a b L")
    case True
    then have le: "T + a \<le> L" "L < T + b" by (simp_all add: skipped_by_def)
    then have "(T + 2 * a - b) div day_secs = (T + 2 * b - a) div day_secs"
      using w by (simp add: one_transition_def keeps_date_def)
    moreover have "T + 2 * a - b \<le> x \<and> x \<le> T + 2 * b - a \<longrightarrow>
        (T + 2 * a - b) div day_secs \<le> x div day_secs \<and> x div day_secs \<le> (T + 2 * b - a) div day_secs" for x
      by (simp add: zdiv_mono1)
    ultimately have day: "T + 2 * a - b \<le> x \<Longrightarrow> x \<le> T + 2 * b - a \<Longrightarrow>
        x div day_secs = (T + 2 * b - a) div day_secs" for x by fastforce
    have "T + 2 * a - b \<le> wall_of loc (instant_of loc L)" "wall_of loc (instant_of loc L) \<le> T + 2 * b - a"
      using instant_of_window [OF w refl] True le by (auto split: if_splits)
    with day [of L] day [of "wall_of loc (instant_of loc L)"] le show ?thesis by simp
  next
    case False
    with instant_of_window [OF w refl] show ?thesis by simp
  qed
qed

lemma instant_of_strict:
  assumes "zone_ok loc" "L div day_secs < L' div day_secs"
  shows "instant_of loc L < instant_of loc L'"
proof (rule ccontr)
  assume "\<not> instant_of loc L < instant_of loc L'"
  with wall_date_mono [OF assms(1), of "instant_of loc L'" "instant_of loc L"] assms
  show False by (simp add: instant_of_date)
qed

end
