(* ===== verification/App.thy ===== *)
theory App
  imports Config Zones
begin

text \<open>
  \<^verbatim>\<open>src/app/app.go\<close>: the recovery of the connection to the gateway: bring-up, reconnect, reboot,
  power cycle, health check and the periodic restart.

  As in the code, the client and the cover manager are interface values: a record of functions on
  the state \<open>'s\<close> behind them. An operation with a context is told whether the context ends before
  the operation does. Time is in nanoseconds; the durations of the operations are the
  list \<open>ap_delays\<close>, so they are arbitrary. A context is the time it ends, \<open>None\<close> for never. The
  start of \<open>doReconnect\<close>, \<open>doReboot\<close> and \<open>doPowerCycle\<close> takes the lock \<open>resetMu\<close> and their end
  gives it back, so each of them is one step. Frames that arrive during an operation stamp the
  last contact at its end.
\<close>

section \<open>Interfaces and state\<close>

type_synonym 'e outcome = "'e option"

record ('s, 'e) klfClient =
  kc_Connect :: "bool \<Rightarrow> 's \<Rightarrow> 'e outcome \<times> 's"
  kc_Disconnect :: "'s \<Rightarrow> 's"
  kc_PasswordEnter :: "string \<Rightarrow> bool \<Rightarrow> 's \<Rightarrow> 'e outcome \<times> 's"
  kc_SetUTC :: "int \<Rightarrow> bool \<Rightarrow> 's \<Rightarrow> 'e outcome \<times> 's"
  kc_HouseStatusMonitorEnable :: "bool \<Rightarrow> 's \<Rightarrow> 'e outcome \<times> 's"
  kc_LoadNodes :: "bool \<Rightarrow> 's \<Rightarrow> 'e outcome \<times> 's"
  kc_Reboot :: "bool \<Rightarrow> 's \<Rightarrow> 'e outcome \<times> 's"
  kc_contacts :: "'s \<Rightarrow> nat"

record ('s, 'e) coverManager =
  cm_Register :: "'s \<Rightarrow> 'e outcome \<times> 's"
  cm_MarkAllUnavailable :: "'s \<Rightarrow> 's"
  cm_MarkAllAvailable :: "'s \<Rightarrow> 's"
  cm_CloseAll :: "'s \<Rightarrow> 's"

datatype 'e app_error =
    ClientError 'e
  | PostRebootRegister 'e
  | RebootExhausted "'e option"
  | PostPowerCycleRegister 'e
  | PowerCycleExhausted "'e option"
  | PowerCycleDebounced
  | NoPublishWiring
  | NoTopicConfigured
  | CtxDone
  | BringUpFailed 'e
  | StartupReboot "'e app_error"

text \<open>A message on the plug: topic, payload, retained, and the time of the publish.\<close>

type_synonym plug_message = "string \<times> string \<times> bool \<times> int"

record 's app =
  ap_cfg :: Config
  ap_host :: 's
  ap_now :: int
  ap_delays :: "nat list"
  ap_heartbeat :: bool
  ap_publishFn :: bool
  ap_lastPowerCycle :: int
  ap_lastContact :: int
  ap_wedged :: bool
  ap_plug :: "plug_message list"
  ap_marks :: "bool list"

type_synonym ctx = "int option"

definition second :: int where "second = 1000000000"

definition healthCheckFailureThreshold :: int where "healthCheckFailureThreshold = 2"

definition rebootBackoffSchedule :: "int list" where
  "rebootBackoffSchedule =
     [2 * second, 5 * second, 10 * second, 30 * second, 60 * second, 90 * second, 120 * second]"

definition powerCycleMinGap :: int where "powerCycleMinGap = 15 * 60 * second"

text \<open>\<open>newApp\<close>: \<open>publish\<close> tells whether the MQTT wrapper is there.\<close>

definition newApp :: "Config \<Rightarrow> bool \<Rightarrow> 's \<Rightarrow> int \<Rightarrow> nat list \<Rightarrow> 's app" where
  "newApp cfg publish s now delays =
     \<lparr> ap_cfg = cfg, ap_host = s, ap_now = now, ap_delays = delays, ap_heartbeat = False,
       ap_publishFn = publish, ap_lastPowerCycle = 0, ap_lastContact = 0, ap_wedged = False,
       ap_plug = [], ap_marks = [] \<rparr>"

definition recordContact :: "'s app \<Rightarrow> 's app" where
  "recordContact a = a\<lparr> ap_lastContact := ap_now a \<rparr>"

text \<open>An operation with the context \<open>ctx\<close>: its time passes and frames are a contact.\<close>

definition call ::
    "('s, 'e) klfClient \<Rightarrow> ctx \<Rightarrow> (bool \<Rightarrow> 's \<Rightarrow> 'r \<times> 's) \<Rightarrow> 's app \<Rightarrow> 'r \<times> 's app" where
  "call K ctx op a =
     (let d = (case ap_delays a of [] \<Rightarrow> 0 | d # ds \<Rightarrow> int d);
          expired = (case ctx of None \<Rightarrow> False | Some t \<Rightarrow> t < ap_now a + d);
          elapsed = (case ctx of None \<Rightarrow> d | Some t \<Rightarrow> if expired then max 0 (t - ap_now a) else d);
          (r, s) = op expired (ap_host a);
          b = a\<lparr> ap_host := s, ap_now := ap_now a + elapsed, ap_delays := drop 1 (ap_delays a) \<rparr>
      in (r, if kc_contacts K s \<noteq> kc_contacts K (ap_host a) then recordContact b else b))"

definition on_host :: "('s, 'e) klfClient \<Rightarrow> ('s \<Rightarrow> 's) \<Rightarrow> 's app \<Rightarrow> 's app" where
  "on_host K g a = snd (call K None (\<lambda>_ s. ((), g s)) a)"

definition mark :: "('s, 'e) klfClient \<Rightarrow> ('s, 'e) coverManager \<Rightarrow> bool \<Rightarrow> 's app \<Rightarrow> 's app" where
  "mark K M available a =
     (let b = on_host K (if available then cm_MarkAllAvailable M else cm_MarkAllUnavailable M) a
      in b\<lparr> ap_marks := ap_marks b @ [available] \<rparr>)"

definition publishFn :: "string \<Rightarrow> string \<Rightarrow> bool \<Rightarrow> 's app \<Rightarrow> 's app" where
  "publishFn topic payload retained a =
     a\<lparr> ap_plug := ap_plug a @ [(topic, payload, retained, ap_now a)] \<rparr>"

text \<open>\<open>select\<close> between a timer and the end of the context: \<open>True\<close> is the end of the context.\<close>

definition await_timer :: "ctx \<Rightarrow> int \<Rightarrow> 's app \<Rightarrow> bool \<times> 's app" where
  "await_timer ctx wait a =
     (case ctx of
        None \<Rightarrow> (False, a\<lparr> ap_now := ap_now a + max 0 wait \<rparr>)
      | Some t \<Rightarrow>
          if t \<le> ap_now a + max 0 wait then (True, a\<lparr> ap_now := max (ap_now a) t \<rparr>)
          else (False, a\<lparr> ap_now := ap_now a + max 0 wait \<rparr>))"

definition startHeartbeat :: "'s app \<Rightarrow> 's app" where
  "startHeartbeat a = a\<lparr> ap_heartbeat := True \<rparr>"

definition stopHeartbeat :: "'s app \<Rightarrow> 's app" where
  "stopHeartbeat a = a\<lparr> ap_heartbeat := False \<rparr>"

section \<open>Bring-up\<close>

text \<open>\<open>if err := f(); err != nil { return err }\<close>, and the rest \<open>k\<close>.\<close>

definition if_ok :: "'e option \<times> 's app \<Rightarrow> ('s app \<Rightarrow> 'e option \<times> 's app) \<Rightarrow> 'e option \<times> 's app" where
  "if_ok r k = (case r of (Some e, a) \<Rightarrow> (Some e, a) | (None, a) \<Rightarrow> k a)"

definition connectAndLoad :: "('s, 'e) klfClient \<Rightarrow> ctx \<Rightarrow> 's app \<Rightarrow> 'e outcome \<times> 's app" where
  "connectAndLoad K ctx a =
     (let secs = vc_ConnectTimeoutSeconds (cf_Velux (ap_cfg a));
          deadline = ap_now a + secs * second;
          ctx = (if secs > 0 then Some (case ctx of None \<Rightarrow> deadline | Some t \<Rightarrow> min t deadline) else ctx)
      in if_ok (call K ctx (kc_Connect K) a)
           (\<lambda>a. if_ok (call K ctx (kc_PasswordEnter K (vc_Password (cf_Velux (ap_cfg a)))) a)
             (\<lambda>a. let a = snd (call K ctx (kc_SetUTC K (ap_now a)) a);
                      a = snd (call K ctx (kc_HouseStatusMonitorEnable K) a)
                  in if_ok (call K ctx (kc_LoadNodes K) a)
                       (\<lambda>a. (None, recordContact a)))))"

section \<open>Reset paths\<close>

definition doReconnect ::
    "('s, 'e) klfClient \<Rightarrow> ('s, 'e) coverManager \<Rightarrow> ctx \<Rightarrow> 's app \<Rightarrow> 'e outcome \<times> 's app" where
  "doReconnect K M ctx a =
     (let a = stopHeartbeat a;
          a = on_host K (kc_Disconnect K) a
      in if_ok (connectAndLoad K ctx a)
           (\<lambda>a. if_ok (call K None (\<lambda>_. cm_Register M) a)
             (\<lambda>a. (None, startHeartbeat a))))"

text \<open>The loop over the schedule, the same in \<open>doReboot\<close> and \<open>doPowerCycle\<close>.\<close>

fun reconnect_loop ::
    "('s, 'e) klfClient \<Rightarrow> ('s, 'e) coverManager \<Rightarrow> ctx \<Rightarrow> ('e \<Rightarrow> 'e app_error) \<Rightarrow>
     ('e option \<Rightarrow> 'e app_error) \<Rightarrow> int list \<Rightarrow> 'e option \<Rightarrow> 's app \<Rightarrow> 'e app_error option \<times> 's app" where
  "reconnect_loop K M ctx register_err exhausted [] lastErr a = (Some (exhausted lastErr), a)"
| "reconnect_loop K M ctx register_err exhausted (wait # waits) lastErr a =
     (case await_timer ctx wait a of
        (True, a) \<Rightarrow> (Some CtxDone, a)
      | (False, a) \<Rightarrow>
          (case connectAndLoad K ctx a of
             (Some e, a) \<Rightarrow>
               reconnect_loop K M ctx register_err exhausted waits (Some e) (on_host K (kc_Disconnect K) a)
           | (None, a) \<Rightarrow>
               (case call K None (\<lambda>_. cm_Register M) a of
                  (Some e, a) \<Rightarrow> (Some (register_err e), a)
                | (None, a) \<Rightarrow> (None, startHeartbeat a))))"

definition doReboot ::
    "('s, 'e) klfClient \<Rightarrow> ('s, 'e) coverManager \<Rightarrow> ctx \<Rightarrow> 's app \<Rightarrow> 'e app_error option \<times> 's app" where
  "doReboot K M ctx a =
     (let a = stopHeartbeat a;
          a = snd (call K ctx (kc_Reboot K) a);
          a = on_host K (kc_Disconnect K) a
      in reconnect_loop K M ctx PostRebootRegister RebootExhausted rebootBackoffSchedule None a)"

definition doPowerCycle ::
    "('s, 'e) klfClient \<Rightarrow> ('s, 'e) coverManager \<Rightarrow> ctx \<Rightarrow> 's app \<Rightarrow> 'e app_error option \<times> 's app" where
  "doPowerCycle K M ctx a =
     (if \<not> ap_publishFn a then (Some NoPublishWiring, a)
      else
        let rc = cf_Restart (ap_cfg a) in
        if \<not> PowerCycleEnabled rc then (Some NoTopicConfigured, a)
        else if ap_lastPowerCycle a \<noteq> 0 \<and> ap_now a - ap_lastPowerCycle a < powerCycleMinGap
        then (Some PowerCycleDebounced, a)
        else
          let a = a\<lparr> ap_lastPowerCycle := ap_now a \<rparr>;
              a = stopHeartbeat a;
              a = publishFn (rc_PowerCycleTopic rc) (rc_PowerCycleOffPayload rc) False a;
              a = on_host K (kc_Disconnect K) a
          in case await_timer ctx (rc_PowerCycleOffSeconds rc * second) a of
               (True, a) \<Rightarrow>
                 (Some CtxDone, publishFn (rc_PowerCycleTopic rc) (rc_PowerCycleOnPayload rc) False a)
             | (False, a) \<Rightarrow>
                 reconnect_loop K M ctx PostPowerCycleRegister PowerCycleExhausted rebootBackoffSchedule None
                   (publishFn (rc_PowerCycleTopic rc) (rc_PowerCycleOnPayload rc) False a))"

section \<open>Health check\<close>

text \<open>\<open>wedged.CompareAndSwap(true, false)\<close> with the call that follows it.\<close>

definition restore :: "('s, 'e) klfClient \<Rightarrow> ('s, 'e) coverManager \<Rightarrow> 's app \<Rightarrow> 's app" where
  "restore K M a = (if ap_wedged a then mark K M True (a\<lparr> ap_wedged := False \<rparr>) else a)"

definition escalateToPowerCycle ::
    "('s, 'e) klfClient \<Rightarrow> ('s, 'e) coverManager \<Rightarrow> ctx \<Rightarrow> 's app \<Rightarrow> 's app" where
  "escalateToPowerCycle K M ctx a =
     (if \<not> PowerCycleEnabled (cf_Restart (ap_cfg a)) then a
      else case doPowerCycle K M ctx a of
             (Some e, a) \<Rightarrow> a
           | (None, a) \<Rightarrow> restore K M a)"

text \<open>The threshold is exact for intervals below \<open>2 ^ 53\<close> nanoseconds, the mantissa of \<open>float64\<close>.\<close>

definition health_threshold :: "'s app \<Rightarrow> int" where
  "health_threshold a =
     rc_HealthCheckInterval (cf_Restart (ap_cfg a)) * second * healthCheckFailureThreshold"

definition mark_wedged :: "('s, 'e) klfClient \<Rightarrow> ('s, 'e) coverManager \<Rightarrow> 's app \<Rightarrow> 's app" where
  "mark_wedged K M a = (if \<not> ap_wedged a then mark K M False (a\<lparr> ap_wedged := True \<rparr>) else a)"

definition checkHealth ::
    "('s, 'e) klfClient \<Rightarrow> ('s, 'e) coverManager \<Rightarrow> ctx \<Rightarrow> 's app \<Rightarrow> 's app" where
  "checkHealth K M ctx a =
     (let interval = rc_HealthCheckInterval (cf_Restart (ap_cfg a)) * second in
      if interval \<le> 0 then a
      else if ap_now a - ap_lastContact a \<le> health_threshold a then restore K M a
      else
        let a = mark_wedged K M a in
        if \<not> rc_RestartOnError (cf_Restart (ap_cfg a)) then a
        else case doReconnect K M ctx a of
               (Some e, a) \<Rightarrow> escalateToPowerCycle K M ctx a
             | (None, a) \<Rightarrow>
                 (case doReboot K M ctx a of
                    (Some e, a) \<Rightarrow> escalateToPowerCycle K M ctx a
                  | (None, a) \<Rightarrow> restore K M a))"

section \<open>Periodic restart\<close>

definition runPeriodicRestart ::
    "('s, 'e) klfClient \<Rightarrow> ('s, 'e) coverManager \<Rightarrow> ctx \<Rightarrow> 's app \<Rightarrow> 's app" where
  "runPeriodicRestart K M ctx a =
     (if PeriodicPowerCycleEnabled (cf_Restart (ap_cfg a)) then
        (case doPowerCycle K M ctx a of
           (None, a) \<Rightarrow> a
         | (Some PowerCycleDebounced, a) \<Rightarrow> a
         | (Some e, a) \<Rightarrow> snd (doReboot K M ctx a))
      else snd (doReboot K M ctx a))"

text \<open>
  \<open>now\<close> is an instant in nanoseconds; its location gives the wall clock (see \<open>Zones\<close>). A wait that
  is not positive is over at once.
\<close>

definition nextRestartTime :: "Location \<Rightarrow> int \<Rightarrow> int \<Rightarrow> int \<Rightarrow> int" where
  "nextRestartTime loc now hour minute =
     (let t = wall_of loc (now div second);
          next = time_Date_in loc (wall_Year t) (wall_Month t) (wall_Day t) hour minute 0 * second
      in if \<not> next > now
         then time_Date_in loc (wall_Year t) (wall_Month t) (wall_Day t + 1) hour minute 0 * second
         else next)"

datatype reboot_loop = ScheduledLoop int int | IntervalLoop int | NoLoop

definition startRebootLoop :: "RestartConfig \<Rightarrow> reboot_loop" where
  "startRebootLoop rc =
     (let interval = rc_RestartInterval rc * 3600 * second in
      case RestartTimeOfDay rc of
        Inr (hour, minute) \<Rightarrow>
          if RestartScheduled rc then ScheduledLoop hour minute
          else if interval \<le> 0 then NoLoop else IntervalLoop interval
      | Inl e \<Rightarrow> if interval \<le> 0 then NoLoop else IntervalLoop interval)"

definition startHealthCheck :: "RestartConfig \<Rightarrow> int option" where
  "startHealthCheck rc =
     (let interval = rc_HealthCheckInterval rc * second in if interval \<le> 0 then None else Some interval)"

section \<open>Start and stop\<close>

definition App_Start ::
    "('s, 'e) klfClient \<Rightarrow> ('s, 'e) coverManager \<Rightarrow> ctx \<Rightarrow> 's app \<Rightarrow> 'e app_error option \<times> 's app" where
  "App_Start K M ctx a =
     (let a = recordContact a;
          reboot = (\<lambda>a. case doReboot K M ctx a of
                          (Some e, a) \<Rightarrow> (Some (StartupReboot e), a)
                        | (None, a) \<Rightarrow> (None, a))
      in case connectAndLoad K ctx a of
           (Some err, a) \<Rightarrow>
             if \<not> PowerCycleEnabled (cf_Restart (ap_cfg a)) then (Some (ClientError err), a)
             else (case doPowerCycle K M ctx a of
                     (Some pcErr, a) \<Rightarrow> (Some (BringUpFailed err), a)
                   | (None, a) \<Rightarrow> (None, a))
         | (None, a) \<Rightarrow>
             (case call K None (\<lambda>_. cm_Register M) a of
                (Some e, a) \<Rightarrow> (Some (ClientError e), a)
              | (None, a) \<Rightarrow> reboot (startHeartbeat a)))"

text \<open>\<open>Stop\<close>, once the loops have ended.\<close>

definition App_Stop :: "('s, 'e) klfClient \<Rightarrow> ('s, 'e) coverManager \<Rightarrow> 's app \<Rightarrow> 's app" where
  "App_Stop K M a =
     (let a = stopHeartbeat a;
          a = on_host K (cm_CloseAll M) a
      in on_host K (kc_Disconnect K) a)"

end
