(* ===== verification/AppFacts.thy ===== *)
theory AppFacts
  imports App
begin

text \<open>
  Facts about the recovery: what each path leaves alone, the pattern of the messages on the plug,
  the phases of the health check with the interleaving of the loops, and the contract of the
  client that the paths rely on.
\<close>

section \<open>What the paths leave alone\<close>

definition steady :: "'s app \<Rightarrow> 's app \<Rightarrow> bool" where
  "steady a b \<longleftrightarrow> ap_cfg b = ap_cfg a \<and> ap_plug b = ap_plug a \<and> ap_marks b = ap_marks a \<and>
     ap_wedged b = ap_wedged a \<and> ap_lastPowerCycle b = ap_lastPowerCycle a \<and>
     ap_publishFn b = ap_publishFn a \<and> ap_now a \<le> ap_now b"

lemma steady_refl [simp]: "steady a a"
  by (simp add: steady_def)

lemma steady_trans [trans]: "steady a b \<Longrightarrow> steady b c \<Longrightarrow> steady a c"
  by (simp add: steady_def)

lemma steady_updates [simp]:
  "steady a (startHeartbeat b) = steady a b" "steady a (stopHeartbeat b) = steady a b"
  "steady (stopHeartbeat a) b = steady a b" "steady a (recordContact b) = steady a b"
  by (simp_all add: steady_def startHeartbeat_def stopHeartbeat_def recordContact_def)

lemma steady_call: "steady a (snd (call K ctx op a))"
  by (simp add: call_def Let_def steady_def recordContact_def split: prod.split list.split option.split)

lemma steady_on_host: "steady a (on_host K g a)"
  by (simp add: on_host_def steady_call)

lemma steady_await_timer: "steady a (snd (await_timer ctx wait a))"
  by (simp add: await_timer_def steady_def split: option.split)

lemma steady_if_ok:
  assumes "steady a (snd r)" "\<And>b. steady a b \<Longrightarrow> steady a (snd (k b))"
  shows "steady a (snd (if_ok r k))"
  using assms by (cases r) (auto simp: if_ok_def split: option.split)

text \<open>Steadiness seen from an earlier state.\<close>

lemma steady_after:
  "steady a b \<Longrightarrow> steady a (snd (call K ctx op b))" "steady a b \<Longrightarrow> steady a (on_host K g b)"
  "steady a b \<Longrightarrow> steady a (snd (await_timer ctx wait b))"
  using steady_trans [OF _ steady_call] steady_trans [OF _ steady_on_host]
    steady_trans [OF _ steady_await_timer] by blast+

lemma steady_connectAndLoad: "steady a b \<Longrightarrow> steady a (snd (connectAndLoad K ctx b))"
  unfolding connectAndLoad_def Let_def by (intro steady_if_ok steady_after) simp_all

lemma steady_doReconnect: "steady a b \<Longrightarrow> steady a (snd (doReconnect K M ctx b))"
  unfolding doReconnect_def Let_def
  by (intro steady_if_ok steady_after steady_connectAndLoad) simp_all

lemma steady_reconnect_loop:
  "steady a b \<Longrightarrow> steady a (snd (reconnect_loop K M ctx re ex waits lastErr b))"
proof (induction waits arbitrary: lastErr b)
  case (Cons wait waits)
  obtain c d where w: "await_timer ctx wait b = (c, d)" by fastforce
  then have ad: "steady a d" using steady_after(3) [OF Cons.prems, of ctx wait] by simp
  obtain e f where l: "connectAndLoad K ctx d = (e, f)" by fastforce
  then have af: "steady a f" using steady_connectAndLoad [OF ad, of K ctx] by simp
  obtain e' g where r: "call K None (\<lambda>_. cm_Register M) f = (e', g)" by fastforce
  then have ag: "steady a g" using steady_after(1) [OF af, of K None "\<lambda>_. cm_Register M"] by simp
  show ?case
    using ad ag Cons.IH [OF steady_after(2) [OF af, of K "kc_Disconnect K"]]
    by (simp add: w l r split: bool.split option.split)
qed simp

lemma steady_doReboot: "steady a b \<Longrightarrow> steady a (snd (doReboot K M ctx b))"
  unfolding doReboot_def Let_def by (intro steady_reconnect_loop steady_after) simp

section \<open>The power cycle\<close>

definition plug_cycle :: "RestartConfig \<Rightarrow> int \<times> int \<Rightarrow> plug_message list" where
  "plug_cycle rc c =
     [(rc_PowerCycleTopic rc, rc_PowerCycleOffPayload rc, False, fst c),
      (rc_PowerCycleTopic rc, rc_PowerCycleOnPayload rc, False, snd c)]"

text \<open>Either nothing happens or there is one off message followed by one on message.\<close>

lemma doPowerCycle_cases:
  obtains (refused) e where "doPowerCycle K M ctx a = (Some e, a)"
    "\<not> ap_publishFn a \<and> e = NoPublishWiring \<or>
     ap_publishFn a \<and> \<not> PowerCycleEnabled (cf_Restart (ap_cfg a)) \<and> e = NoTopicConfigured \<or>
     ap_publishFn a \<and> PowerCycleEnabled (cf_Restart (ap_cfg a)) \<and> ap_lastPowerCycle a \<noteq> 0 \<and>
       ap_now a - ap_lastPowerCycle a < powerCycleMinGap \<and> e = PowerCycleDebounced"
  | (cycled) r b t where "doPowerCycle K M ctx a = (r, b)"
    "ap_publishFn a" "PowerCycleEnabled (cf_Restart (ap_cfg a))"
    "ap_lastPowerCycle a = 0 \<or> powerCycleMinGap \<le> ap_now a - ap_lastPowerCycle a"
    "ap_plug b = ap_plug a @ plug_cycle (cf_Restart (ap_cfg a)) (ap_now a, t)"
    "ap_lastPowerCycle b = ap_now a" "ap_now a \<le> t" "t \<le> ap_now b"
    "ap_cfg b = ap_cfg a" "ap_marks b = ap_marks a" "ap_wedged b = ap_wedged a"
    "ap_publishFn b = ap_publishFn a" "r \<noteq> Some PowerCycleDebounced"
proof (cases "ap_publishFn a \<and> PowerCycleEnabled (cf_Restart (ap_cfg a)) \<and>
    \<not> (ap_lastPowerCycle a \<noteq> 0 \<and> ap_now a - ap_lastPowerCycle a < powerCycleMinGap)")
  case False
  then consider "\<not> ap_publishFn a" | "ap_publishFn a" "\<not> PowerCycleEnabled (cf_Restart (ap_cfg a))"
    | "ap_publishFn a" "PowerCycleEnabled (cf_Restart (ap_cfg a))" "ap_lastPowerCycle a \<noteq> 0"
      "ap_now a - ap_lastPowerCycle a < powerCycleMinGap" by blast
  then show ?thesis
    by cases (rule refused, simp add: doPowerCycle_def Let_def, simp)+
next
  case True
  define rc where "rc = cf_Restart (ap_cfg a)"
  define b where "b = publishFn (rc_PowerCycleTopic rc) (rc_PowerCycleOffPayload rc) False
    (stopHeartbeat (a\<lparr> ap_lastPowerCycle := ap_now a \<rparr>))"
  obtain c d where w: "await_timer ctx (rc_PowerCycleOffSeconds rc * second) (on_host K (kc_Disconnect K) b) = (c, d)"
    by fastforce
  have "steady b d"
    using steady_after(3) [OF steady_on_host [of b K "kc_Disconnect K"], of ctx "rc_PowerCycleOffSeconds rc * second"]
    by (simp add: w)
  moreover define f where "f = publishFn (rc_PowerCycleTopic rc) (rc_PowerCycleOnPayload rc) False d"
  ultimately have f: "ap_plug f = ap_plug a @ plug_cycle rc (ap_now a, ap_now d)"
    "ap_lastPowerCycle f = ap_now a" "ap_now a \<le> ap_now d" "ap_now f = ap_now d" "ap_cfg f = ap_cfg a"
    "ap_marks f = ap_marks a" "ap_wedged f = ap_wedged a" "ap_publishFn f = ap_publishFn a"
    by (simp_all add: steady_def b_def publishFn_def stopHeartbeat_def plug_cycle_def)
  define r where "r = (if c then (Some CtxDone, f)
    else reconnect_loop K M ctx PostPowerCycleRegister PowerCycleExhausted rebootBackoffSchedule None f)"
  have pc: "doPowerCycle K M ctx a = r"
    using True by (auto simp: doPowerCycle_def Let_def rc_def [symmetric] b_def [symmetric] w r_def f_def
        split: bool.split)
  have "steady f (snd r)" by (simp add: r_def steady_reconnect_loop)
  moreover have "fst r \<noteq> Some PowerCycleDebounced"
  proof -
    have "fst (reconnect_loop K M ctx PostPowerCycleRegister PowerCycleExhausted ws l x) \<noteq> Some PowerCycleDebounced" for ws l x
      by (induction ws arbitrary: l x) (simp_all split: prod.split bool.split option.split)
    then show ?thesis by (simp add: r_def)
  qed
  moreover obtain x y where "r = (x, y)" by fastforce
  ultimately show ?thesis
    using True f pc by (intro cycled [of x y "ap_now d"]) (auto simp: steady_def rc_def)
qed

section \<open>Phases and interleaving\<close>

text \<open>
  \<open>checkHealth\<close> and \<open>runPeriodicRestart\<close> hold the lock only inside the reset paths, so between
  two of them the other loop may run one. The phases are the points in between.
\<close>

datatype health_pc = HC_Idle | HC_Reconnect | HC_Reboot | HC_Escalate | HC_Restore

fun hc_next ::
    "('s, 'e) klfClient \<Rightarrow> ('s, 'e) coverManager \<Rightarrow> ctx \<Rightarrow> health_pc \<times> 's app \<Rightarrow> health_pc \<times> 's app" where
  "hc_next K M ctx (HC_Idle, a) =
     (if rc_HealthCheckInterval (cf_Restart (ap_cfg a)) * second \<le> 0 then (HC_Idle, a)
      else if ap_now a - ap_lastContact a \<le> health_threshold a then (HC_Restore, a)
      else if \<not> rc_RestartOnError (cf_Restart (ap_cfg a)) then (HC_Idle, mark_wedged K M a)
      else (HC_Reconnect, mark_wedged K M a))"
| "hc_next K M ctx (HC_Reconnect, a) =
     (case doReconnect K M ctx a of (Some e, a) \<Rightarrow> (HC_Escalate, a) | (None, a) \<Rightarrow> (HC_Reboot, a))"
| "hc_next K M ctx (HC_Reboot, a) =
     (case doReboot K M ctx a of (Some e, a) \<Rightarrow> (HC_Escalate, a) | (None, a) \<Rightarrow> (HC_Restore, a))"
| "hc_next K M ctx (HC_Escalate, a) =
     (if \<not> PowerCycleEnabled (cf_Restart (ap_cfg a)) then (HC_Idle, a)
      else case doPowerCycle K M ctx a of (Some e, a) \<Rightarrow> (HC_Idle, a) | (None, a) \<Rightarrow> (HC_Restore, a))"
| "hc_next K M ctx (HC_Restore, a) = (HC_Idle, restore K M a)"

datatype periodic_pc = PR_Idle | PR_Soft

fun pr_next ::
    "('s, 'e) klfClient \<Rightarrow> ('s, 'e) coverManager \<Rightarrow> ctx \<Rightarrow> periodic_pc \<times> 's app \<Rightarrow> periodic_pc \<times> 's app" where
  "pr_next K M ctx (PR_Idle, a) =
     (if PeriodicPowerCycleEnabled (cf_Restart (ap_cfg a)) then
        (case doPowerCycle K M ctx a of
           (None, a) \<Rightarrow> (PR_Idle, a)
         | (Some PowerCycleDebounced, a) \<Rightarrow> (PR_Idle, a)
         | (Some e, a) \<Rightarrow> (PR_Soft, a))
      else (PR_Idle, snd (doReboot K M ctx a)))"
| "pr_next K M ctx (PR_Soft, a) = (PR_Idle, snd (doReboot K M ctx a))"

text \<open>The loops run with a context that never ends. Frames, commands and time come in between.\<close>

inductive app_step ::
    "('s, 'e) klfClient \<Rightarrow> ('s, 'e) coverManager \<Rightarrow> health_pc \<times> periodic_pc \<times> 's app \<Rightarrow>
     health_pc \<times> periodic_pc \<times> 's app \<Rightarrow> bool"
  for K M where
  health: "hc_next K M None (h, a) = (h', b) \<Longrightarrow> app_step K M (h, p, a) (h', p, b)"
| periodic: "pr_next K M None (p, a) = (p', b) \<Longrightarrow> app_step K M (h, p, a) (h, p', b)"
| contact: "app_step K M (h, p, a) (h, p, recordContact a)"
| time_passes: "app_step K M (h, p, a) (h, p, a\<lparr> ap_now := ap_now a + int d \<rparr>)"
| host: "app_step K M (h, p, a) (h, p, a\<lparr> ap_host := s \<rparr>)"

inductive_cases app_stepE: "app_step K M s t"

text \<open>Without interference the phases are the function.\<close>

lemma hc_escalate:
  "\<exists>n\<le>2. 0 < n \<and> (hc_next K M ctx ^^ n) (HC_Escalate, a) = (HC_Idle, escalateToPowerCycle K M ctx a)"
proof (cases "PowerCycleEnabled (cf_Restart (ap_cfg a))")
  case True
  obtain e b where "doPowerCycle K M ctx a = (e, b)" by fastforce
  with True show ?thesis
    by (cases e) (auto simp: escalateToPowerCycle_def eval_nat_numeral intro: exI [of _ 1] exI [of _ 2])
next
  case False
  then show ?thesis by (auto simp: escalateToPowerCycle_def intro: exI [of _ 1])
qed

lemma hc_reboot:
  "\<exists>n\<le>3. 0 < n \<and> (hc_next K M ctx ^^ n) (HC_Reboot, a) = (HC_Idle,
     case doReboot K M ctx a of (Some e, a) \<Rightarrow> escalateToPowerCycle K M ctx a | (None, a) \<Rightarrow> restore K M a)"
proof -
  obtain e b where r: "doReboot K M ctx a = (e, b)" by fastforce
  show ?thesis
  proof (cases e)
    case None
    with r show ?thesis by (intro exI [of _ 2]) (simp add: eval_nat_numeral)
  next
    case (Some x)
    obtain n where "n \<le> 2" "(hc_next K M ctx ^^ n) (HC_Escalate, b) = (HC_Idle, escalateToPowerCycle K M ctx b)"
      using hc_escalate by blast
    with r Some show ?thesis by (intro exI [of _ "Suc n"]) (simp add: funpow_Suc_right del: funpow.simps)
  qed
qed

lemma hc_reconnect:
  "\<exists>n\<le>4. 0 < n \<and> (hc_next K M ctx ^^ n) (HC_Reconnect, a) = (HC_Idle,
     case doReconnect K M ctx a of
       (Some e, a) \<Rightarrow> escalateToPowerCycle K M ctx a
     | (None, a) \<Rightarrow>
         (case doReboot K M ctx a of (Some e, a) \<Rightarrow> escalateToPowerCycle K M ctx a | (None, a) \<Rightarrow> restore K M a))"
proof -
  obtain e b where r: "doReconnect K M ctx a = (e, b)" by fastforce
  show ?thesis
  proof (cases e)
    case None
    obtain n where "n \<le> 3" "(hc_next K M ctx ^^ n) (HC_Reboot, b) = (HC_Idle,
        case doReboot K M ctx b of (Some e, a) \<Rightarrow> escalateToPowerCycle K M ctx a | (None, a) \<Rightarrow> restore K M a)"
      using hc_reboot by blast
    with r None show ?thesis by (intro exI [of _ "Suc n"]) (simp add: funpow_Suc_right del: funpow.simps)
  next
    case (Some x)
    obtain n where "n \<le> 2" "(hc_next K M ctx ^^ n) (HC_Escalate, b) = (HC_Idle, escalateToPowerCycle K M ctx b)"
      using hc_escalate by blast
    with r Some show ?thesis by (intro exI [of _ "Suc n"]) (simp add: funpow_Suc_right del: funpow.simps)
  qed
qed

section \<open>Invariants\<close>

lemma mark_fields:
  "ap_cfg (mark K M x a) = ap_cfg a" "ap_plug (mark K M x a) = ap_plug a"
  "ap_marks (mark K M x a) = ap_marks a @ [x]" "ap_wedged (mark K M x a) = ap_wedged a"
  "ap_lastPowerCycle (mark K M x a) = ap_lastPowerCycle a" "ap_publishFn (mark K M x a) = ap_publishFn a"
  "ap_now a \<le> ap_now (mark K M x a)"
  using steady_on_host [of a K "if x then cm_MarkAllAvailable M else cm_MarkAllUnavailable M"]
  by (simp_all add: mark_def Let_def steady_def)

definition plug_inv :: "'s app \<Rightarrow> bool" where
  "plug_inv a \<longleftrightarrow> 0 < ap_now a \<and> (\<exists>cs.
     ap_plug a = concat (map (plug_cycle (cf_Restart (ap_cfg a))) cs) \<and>
     successively (\<lambda>c d. fst c + powerCycleMinGap \<le> fst d \<and> snd c \<le> fst d) cs \<and>
     (\<forall>c\<in>set cs. 0 < fst c \<and> fst c \<le> snd c \<and> snd c \<le> ap_now a) \<and>
     ap_lastPowerCycle a = (if cs = [] then 0 else fst (last cs)))"

definition marks_inv :: "'s app \<Rightarrow> bool" where
  "marks_inv a \<longleftrightarrow> ap_marks a = map odd [0..<length (ap_marks a)] \<and> ap_wedged a = odd (length (ap_marks a))"

lemma plug_inv_mono:
  assumes "plug_inv a" "ap_plug b = ap_plug a" "ap_cfg b = ap_cfg a"
    "ap_lastPowerCycle b = ap_lastPowerCycle a" "ap_now a \<le> ap_now b"
  shows "plug_inv b"
proof -
  from assms(1) obtain cs where cs: "0 < ap_now a"
    "ap_plug a = concat (map (plug_cycle (cf_Restart (ap_cfg a))) cs)"
    "successively (\<lambda>c d. fst c + powerCycleMinGap \<le> fst d \<and> snd c \<le> fst d) cs"
    "\<forall>c\<in>set cs. 0 < fst c \<and> fst c \<le> snd c \<and> snd c \<le> ap_now a"
    "ap_lastPowerCycle a = (if cs = [] then 0 else fst (last cs))"
    unfolding plug_inv_def by blast
  from cs(4) assms(5) have "\<forall>c\<in>set cs. 0 < fst c \<and> fst c \<le> snd c \<and> snd c \<le> ap_now b"
    by (meson order_trans)
  with cs assms(2-5) show ?thesis
    unfolding plug_inv_def by (intro conjI exI [of _ cs]) simp_all
qed

lemma steady_invs: "steady a b \<Longrightarrow> plug_inv a \<Longrightarrow> plug_inv b" "steady a b \<Longrightarrow> marks_inv a \<Longrightarrow> marks_inv b"
  by (auto simp: steady_def marks_inv_def intro: plug_inv_mono)

lemma map_odd_snoc: "xs = map odd [0..<length xs] \<Longrightarrow> xs @ [odd (length xs)] = map odd [0..<Suc (length xs)]"
  by simp

lemma mark_wedged_invs:
  "plug_inv a \<Longrightarrow> plug_inv (mark_wedged K M a)" "marks_inv a \<Longrightarrow> marks_inv (mark_wedged K M a)"
  "plug_inv a \<Longrightarrow> plug_inv (restore K M a)" "marks_inv a \<Longrightarrow> marks_inv (restore K M a)"
  using mark_fields [where K = K and M = M and x = False and a = "a\<lparr> ap_wedged := True \<rparr>"]
    mark_fields [where K = K and M = M and x = True and a = "a\<lparr> ap_wedged := False \<rparr>"]
    map_odd_snoc [of "ap_marks a"]
  by (auto simp: mark_wedged_def restore_def marks_inv_def intro: plug_inv_mono)

lemma plug_cycle_inv:
  assumes "plug_inv a" "ap_lastPowerCycle a = 0 \<or> powerCycleMinGap \<le> ap_now a - ap_lastPowerCycle a"
    "ap_plug b = ap_plug a @ plug_cycle (cf_Restart (ap_cfg a)) (ap_now a, t)"
    "ap_lastPowerCycle b = ap_now a" "ap_now a \<le> t" "t \<le> ap_now b" "ap_cfg b = ap_cfg a"
  shows "plug_inv b"
proof -
  from assms(1) obtain cs where cs: "0 < ap_now a"
    "ap_plug a = concat (map (plug_cycle (cf_Restart (ap_cfg a))) cs)"
    "successively (\<lambda>c d. fst c + powerCycleMinGap \<le> fst d \<and> snd c \<le> fst d) cs"
    "\<forall>c\<in>set cs. 0 < fst c \<and> fst c \<le> snd c \<and> snd c \<le> ap_now a"
    "ap_lastPowerCycle a = (if cs = [] then 0 else fst (last cs))"
    unfolding plug_inv_def by blast
  have gap: "cs \<noteq> [] \<Longrightarrow> fst (last cs) + powerCycleMinGap \<le> ap_now a \<and> snd (last cs) \<le> ap_now a"
  proof -
    assume "cs \<noteq> []"
    then have "last cs \<in> set cs" by simp
    with cs(4) have "0 < fst (last cs)" "snd (last cs) \<le> ap_now a" by auto
    with \<open>cs \<noteq> []\<close> cs(5) assms(2) show ?thesis by simp
  qed
  show ?thesis
    unfolding plug_inv_def
    using cs assms gap
    by (intro conjI exI [of _ "cs @ [(ap_now a, t)]"]) (auto simp: successively_append_iff)
qed

lemma doPowerCycle_invs:
  "plug_inv a \<Longrightarrow> plug_inv (snd (doPowerCycle K M ctx a))"
  "marks_inv a \<Longrightarrow> marks_inv (snd (doPowerCycle K M ctx a))"
  by (cases rule: doPowerCycle_cases [of K M ctx a]; auto simp: marks_inv_def intro: plug_cycle_inv)+

section \<open>A small gateway for examples\<close>

text \<open>
  The state is the number of connection attempts that still fail; a reboot makes it \<open>n\<close>.
\<close>

definition example_client :: "nat \<Rightarrow> (nat, unit) klfClient" where
  "example_client n =
     \<lparr> kc_Connect = (\<lambda>e s. (if e \<or> 0 < s then Some () else None, s - 1)),
       kc_Disconnect = (\<lambda>s. s),
       kc_PasswordEnter = (\<lambda>p e s. (if e then Some () else None, s)),
       kc_SetUTC = (\<lambda>t e s. (if e then Some () else None, s)),
       kc_HouseStatusMonitorEnable = (\<lambda>e s. (if e then Some () else None, s)),
       kc_LoadNodes = (\<lambda>e s. (if e then Some () else None, s)),
       kc_Reboot = (\<lambda>e s. (if e then Some () else None, n)),
       kc_contacts = (\<lambda>_. 0) \<rparr>"

definition example_manager :: "(nat, unit) coverManager" where
  "example_manager =
     \<lparr> cm_Register = (\<lambda>s. (None, s)), cm_MarkAllUnavailable = (\<lambda>s. s),
       cm_MarkAllAvailable = (\<lambda>s. s), cm_CloseAll = (\<lambda>s. s) \<rparr>"

definition example_config :: "string \<Rightarrow> Config" where
  "example_config topic = ApplyDefaults (Config_seed\<lparr> cf_Restart :=
     (cf_Restart Config_seed)\<lparr> rc_PowerCycleTopic := topic \<rparr> \<rparr>)"

text \<open>Evaluation: the arguments first, never under a binder.\<close>

lemma if_ok_cong: "r = r' \<Longrightarrow> if_ok r k = if_ok r' k"
  by simp

lemmas app_cong = let_weak_cong if_ok_cong prod.case_cong_weak option.case_cong_weak

lemma example_fields:
  "kc_Disconnect (example_client n) s = s" "kc_Reboot (example_client n) e s = (if e then Some () else None, n)"
  "kc_contacts (example_client n) s = 0" "cm_Register example_manager s = (None, s)"
  "cm_MarkAllUnavailable example_manager s = s" "cm_MarkAllAvailable example_manager s = s"
  "kc_Connect (example_client n) e s = (if e \<or> 0 < s then Some () else None, s - 1)"
  "kc_PasswordEnter (example_client n) p e s = (if e then Some () else None, s)"
  "kc_SetUTC (example_client n) t e s = (if e then Some () else None, s)"
  "kc_HouseStatusMonitorEnable (example_client n) e s = (if e then Some () else None, s)"
  "kc_LoadNodes (example_client n) e s = (if e then Some () else None, s)"
  by (simp_all add: example_client_def example_manager_def)

lemma example_call:
  "ap_delays a = [] \<Longrightarrow> (case ctx of None \<Rightarrow> True | Some t \<Rightarrow> ap_now a \<le> t) \<Longrightarrow>
   call (example_client n) ctx op a = (fst (op False (ap_host a)), a\<lparr> ap_host := snd (op False (ap_host a)) \<rparr>)"
  by (cases a) (auto simp: call_def Let_def example_fields split: prod.split option.split)

lemma example_connectAndLoad:
  assumes "ap_delays a = []" "0 < vc_ConnectTimeoutSeconds (cf_Velux (ap_cfg a))"
  shows "connectAndLoad (example_client n) None a =
     (if ap_host a = 0 then (None, a\<lparr> ap_lastContact := ap_now a \<rparr>)
      else (Some (), a\<lparr> ap_host := ap_host a - 1 \<rparr>))"
proof -
  have "ap_now a \<le> ap_now a + vc_ConnectTimeoutSeconds (cf_Velux (ap_cfg a)) * second"
    using assms(2) by (simp add: second_def)
  with assms show ?thesis
    by (cases a) (simp add: connectAndLoad_def Let_def if_ok_def example_call example_fields recordContact_def
        cong: option.case_cong_weak prod.case_cong_weak)
qed

lemma example_calls:
  "ap_delays a = [] \<Longrightarrow> on_host (example_client n) (kc_Disconnect (example_client n)) a = a"
  "ap_delays a = [] \<Longrightarrow> mark (example_client n) example_manager x a = a\<lparr> ap_marks := ap_marks a @ [x] \<rparr>"
  "ap_delays a = [] \<Longrightarrow> call (example_client n) None (\<lambda>_. cm_Register example_manager) a = (None, a)"
  "ap_delays a = [] \<Longrightarrow> call (example_client n) None (kc_Reboot (example_client n)) a = (None, a\<lparr> ap_host := n \<rparr>)"
  by (simp_all add: mark_def on_host_def Let_def example_call example_fields)

lemmas app_eval = example_connectAndLoad example_calls newApp_def recordContact_def publishFn_def await_timer_def
  startHeartbeat_def stopHeartbeat_def if_ok_def doReconnect_def doReboot_def
  doPowerCycle_def restore_def escalateToPowerCycle_def health_threshold_def mark_wedged_def
  checkHealth_def App_Start_def second_def powerCycleMinGap_def healthCheckFailureThreshold_def
  rebootBackoffSchedule_def PowerCycleEnabled_def
  example_config_def ApplyDefaults_def ApplyDefaults_mqtt_def ApplyDefaults_velux_def
  ApplyDefaults_restart_def Config_seed_def Let_def

end
