(* ===== verification/Recovery.thy ===== *)
theory Recovery
  imports AppFacts
begin

text \<open>
  What the recovery of \<^verbatim>\<open>src/app/app.go\<close> guarantees: how long it may take, when it brings the
  gateway back, when the heartbeat runs, what the smart plug sees and what the covers are told.
\<close>

section \<open>How long the recovery takes\<close>

text \<open>\<open>within t a b\<close>: from \<open>a\<close> to \<open>b\<close> at most \<open>t\<close> passes.\<close>

definition within :: "int \<Rightarrow> 's app \<Rightarrow> 's app \<Rightarrow> bool" where
  "within t a b \<longleftrightarrow> ap_now b \<le> ap_now a + t \<and> set (ap_delays b) \<subseteq> set (ap_delays a) \<and> ap_cfg b = ap_cfg a"

lemma within_refl: "within 0 a a"
  by (simp add: within_def)

lemma within_trans: "within t a b \<Longrightarrow> within u b c \<Longrightarrow> within (t + u) a c"
  by (auto simp: within_def)

lemma within_mono: "within t a b \<Longrightarrow> t \<le> u \<Longrightarrow> within u a b"
  by (simp add: within_def)

lemma within_updates [simp]:
  "within t a (startHeartbeat b) = within t a b" "within t a (stopHeartbeat b) = within t a b"
  "within t a (recordContact b) = within t a b" "within t (stopHeartbeat a) b = within t a b"
  "within t a (publishFn x y z b) = within t a b" "within t (publishFn x y z a) b = within t a b"
  by (simp_all add: within_def startHeartbeat_def stopHeartbeat_def recordContact_def publishFn_def)

abbreviation delays_below :: "nat \<Rightarrow> 's app \<Rightarrow> bool" where
  "delays_below D a \<equiv> (\<forall>d\<in>set (ap_delays a). d \<le> D)"

lemma delays_within: "within t a b \<Longrightarrow> delays_below D a \<Longrightarrow> delays_below D b"
  by (auto simp: within_def)

lemma set_drop_1: "set (drop 1 xs) \<subseteq> set xs"
  by (rule set_drop_subset)

lemma within_call: "delays_below D a \<Longrightarrow> within (int D) a (snd (call K ctx op a))"
  using set_drop_1 [of "ap_delays a"]
  by (auto simp: call_def Let_def within_def recordContact_def subset_iff
      split: prod.split list.split option.split)

lemma within_on_host: "delays_below D a \<Longrightarrow> within (int D) a (on_host K g a)"
  by (simp add: on_host_def within_call)

lemma within_mark: "delays_below D a \<Longrightarrow> within (int D) a (mark K M x a)"
  using within_on_host [where D = D and a = a and K = K and g = "if x then cm_MarkAllAvailable M else cm_MarkAllUnavailable M"]
  by (simp add: mark_def Let_def within_def)

lemma within_await_timer: "within (max 0 w) a (snd (await_timer ctx w a))"
  by (simp add: await_timer_def within_def split: option.split)

text \<open>A call with a context ends by the end of the context.\<close>

definition by_time :: "int \<Rightarrow> 's app \<Rightarrow> 's app \<Rightarrow> bool" where
  "by_time u a b \<longleftrightarrow> ap_now b \<le> u \<and> set (ap_delays b) \<subseteq> set (ap_delays a) \<and> ap_cfg b = ap_cfg a"

lemma by_time_call: "t \<le> u \<Longrightarrow> by_time u a b \<Longrightarrow> by_time u a (snd (call K (Some t) op b))"
  using set_drop_1 [of "ap_delays b"]
  by (auto simp: call_def Let_def by_time_def recordContact_def subset_iff split: prod.split list.split)

lemma by_time_if_ok:
  assumes "by_time u a (snd r)" "\<And>b. by_time u a b \<Longrightarrow> by_time u a (snd (k b))"
  shows "by_time u a (snd (if_ok r k))"
  using assms by (cases r) (auto simp: if_ok_def split: option.split)

lemma by_time_recordContact [simp]: "by_time u a (recordContact b) = by_time u a b"
  by (simp add: by_time_def recordContact_def)

lemma within_connectAndLoad:
  assumes "0 < vc_ConnectTimeoutSeconds (cf_Velux (ap_cfg a))"
  shows "within (vc_ConnectTimeoutSeconds (cf_Velux (ap_cfg a)) * second) a (snd (connectAndLoad K ctx a))"
proof -
  define u where "u = ap_now a + vc_ConnectTimeoutSeconds (cf_Velux (ap_cfg a)) * second"
  have "by_time u a a" using assms by (simp add: by_time_def u_def second_def)
  moreover obtain t where "t \<le> u"
    "Some t = Some (case ctx of None \<Rightarrow> u | Some t \<Rightarrow> min t u)" by (cases ctx) auto
  ultimately have "by_time u a (snd (connectAndLoad K ctx a))"
    using assms unfolding connectAndLoad_def Let_def u_def [symmetric]
    by (simp only: if_True, intro by_time_if_ok by_time_call, simp_all)
  then show ?thesis by (simp add: by_time_def within_def u_def)
qed

lemma within_if_ok:
  assumes "within t a (snd r)" "\<And>b. within t a b \<Longrightarrow> within (t + u) a (snd (k b))" "0 \<le> u"
  shows "within (t + u) a (snd (if_ok r k))"
  using assms(1,2) assms(3) by (cases r) (auto simp: if_ok_def within_mono split: option.split)

lemma within_doReconnect:
  assumes "delays_below D a" "0 < vc_ConnectTimeoutSeconds (cf_Velux (ap_cfg a))"
  shows "within (vc_ConnectTimeoutSeconds (cf_Velux (ap_cfg a)) * second + 2 * int D) a
    (snd (doReconnect K M ctx a))"
proof -
  define secs where "secs = vc_ConnectTimeoutSeconds (cf_Velux (ap_cfg a))"
  define b where "b = on_host K (kc_Disconnect K) (stopHeartbeat a)"
  have b: "within (int D) a b"
    using assms(1) within_on_host [where D = D and a = "stopHeartbeat a" and K = K and g = "kc_Disconnect K"]
    by (simp add: b_def) (simp add: stopHeartbeat_def)
  then have "vc_ConnectTimeoutSeconds (cf_Velux (ap_cfg b)) = secs" by (simp add: within_def secs_def)
  with within_connectAndLoad [of b K ctx] assms(2) have "within (secs * second) b (snd (connectAndLoad K ctx b))"
    by (simp add: secs_def)
  from within_trans [OF b this]
  have c: "within (int D + secs * second) a (snd (connectAndLoad K ctx b))" .
  have r: "within (int D + secs * second + int D) a (snd (call K None op d))"
    if "within (int D + secs * second) a d" for d and op :: "bool \<Rightarrow> 'a \<Rightarrow> 'b outcome \<times> 'a"
    using within_trans [OF that within_call [OF delays_within [OF that assms(1)]]] .
  have e: "doReconnect K M ctx a = if_ok (connectAndLoad K ctx b)
      (\<lambda>a. if_ok (call K None (\<lambda>_. cm_Register M) a) (\<lambda>a. (None, startHeartbeat a)))"
    by (simp add: doReconnect_def b_def)
  have i: "within (int D + secs * second + int D) a
      (snd (if_ok (call K None (\<lambda>_. cm_Register M) d) (\<lambda>a. (None, startHeartbeat a))))"
    if "within (int D + secs * second) a d" for d
    using r [OF that, of "\<lambda>_. cm_Register M"]
    by (cases "call K None (\<lambda>_. cm_Register M) d") (simp add: if_ok_def split: option.split)
  have "within (int D + secs * second + int D) a (snd (doReconnect K M ctx a))"
    unfolding e by (rule within_if_ok [OF c i]) simp_all
  then show ?thesis by (simp add: secs_def algebra_simps)
qed

lemma within_reconnect_loop:
  assumes "delays_below D a" "vc_ConnectTimeoutSeconds (cf_Velux (ap_cfg a)) = secs" "0 < secs"
    "\<forall>w\<in>set waits. 0 \<le> w"
  shows "within (sum_list waits + int (length waits) * (secs * second + int D)) a
    (snd (reconnect_loop K M ctx re ex waits lastErr a))"
  using assms
proof (induction waits arbitrary: lastErr a)
  case Nil
  then show ?case using within_refl by simp
next
  case (Cons w ws)
  define t where "t = secs * second + int D"
  have pos: "0 \<le> sum_list ws" "0 \<le> int (length ws) * t" "0 \<le> w" "0 \<le> secs * second"
    using Cons.prems by (simp_all add: sum_list_nonneg t_def second_def)
  obtain c b where w: "await_timer ctx w a = (c, b)" by fastforce
  have b: "within w a b" using within_await_timer [of w a ctx] pos by (simp add: w)
  note cfg = Cons.prems(2) b [unfolded within_def]
  obtain e d where l: "connectAndLoad K ctx b = (e, d)" by fastforce
  have "within (secs * second) b d"
    using within_connectAndLoad [of b K ctx] cfg Cons.prems(3) by (simp add: l)
  from within_trans [OF b this] have d: "within (w + secs * second) a d" .
  from d have cfgd: "vc_ConnectTimeoutSeconds (cf_Velux (ap_cfg d)) = secs"
    using Cons.prems(2) by (simp add: within_def)
  note dd = delays_within [OF d Cons.prems(1)]
  obtain r f where g: "call K None (\<lambda>_. cm_Register M) d = (r, f)" by fastforce
  from within_trans [OF d within_call [OF dd, of K None "\<lambda>_. cm_Register M"]] g
  have f: "within (w + t) a f" by (simp add: t_def add.assoc)
  define h where "h = on_host K (kc_Disconnect K) d"
  from within_trans [OF d within_on_host [OF dd, of K "kc_Disconnect K"]]
  have h: "within (w + t) a h" by (simp add: t_def h_def add.assoc)
  then have "vc_ConnectTimeoutSeconds (cf_Velux (ap_cfg h)) = secs"
    using Cons.prems(2) by (simp add: within_def)
  from within_trans [OF h Cons.IH [OF delays_within [OF h Cons.prems(1)] this Cons.prems(3)]] Cons.prems(4)
  have k: "within (w + t + (sum_list ws + int (length ws) * t)) a
      (snd (reconnect_loop K M ctx re ex ws l h))" for l by (simp add: t_def)
  have "w + t \<le> w + t + (sum_list ws + int (length ws) * t)" using pos by simp
  moreover from this have "w \<le> w + t + (sum_list ws + int (length ws) * t)" using pos by (simp add: t_def)
  ultimately show ?case
    using within_mono [OF b] within_mono [OF f] k
    by (simp add: w l g h_def [symmetric] t_def algebra_simps split: bool.split option.split)
qed

lemma rebootBackoffSchedule_facts:
  "sum_list rebootBackoffSchedule = 317 * second" "length rebootBackoffSchedule = 7"
  "\<forall>w\<in>set rebootBackoffSchedule. 0 \<le> w"
  by (simp_all add: rebootBackoffSchedule_def second_def)

lemma within_reboot_loop:
  assumes "within t a b" "delays_below D a" "0 < vc_ConnectTimeoutSeconds (cf_Velux (ap_cfg a))"
  shows "within (t + (317 * second + 7 * (vc_ConnectTimeoutSeconds (cf_Velux (ap_cfg a)) * second + int D))) a
    (snd (reconnect_loop K M ctx re ex rebootBackoffSchedule lastErr b))"
proof -
  have "vc_ConnectTimeoutSeconds (cf_Velux (ap_cfg b)) = vc_ConnectTimeoutSeconds (cf_Velux (ap_cfg a))"
    using assms(1) by (simp add: within_def)
  from within_trans [OF assms(1)
      within_reconnect_loop [OF delays_within [OF assms(1,2)] this assms(3) rebootBackoffSchedule_facts(3)]]
  show ?thesis by (simp add: rebootBackoffSchedule_facts)
qed

lemma within_doReboot:
  assumes "delays_below D a" "0 < vc_ConnectTimeoutSeconds (cf_Velux (ap_cfg a))"
  shows "within (317 * second + 7 * vc_ConnectTimeoutSeconds (cf_Velux (ap_cfg a)) * second + 9 * int D) a
    (snd (doReboot K M ctx a))"
proof -
  define b where "b = snd (call K ctx (kc_Reboot K) (stopHeartbeat a))"
  have "within (int D) (stopHeartbeat a) b"
    unfolding b_def using assms(1) by (intro within_call) (simp add: stopHeartbeat_def)
  then have b: "within (int D) a b" by simp
  from within_trans [OF b within_on_host [OF delays_within [OF b assms(1)], of K "kc_Disconnect K"]]
  have c: "within (int D + int D) a (on_host K (kc_Disconnect K) b)" .
  from within_reboot_loop [OF c assms] show ?thesis
    by (simp add: doReboot_def b_def algebra_simps)
qed

lemma within_doPowerCycle:
  assumes "delays_below D a" "0 < vc_ConnectTimeoutSeconds (cf_Velux (ap_cfg a))"
  shows "within (max 0 (rc_PowerCycleOffSeconds (cf_Restart (ap_cfg a)) * second) + 317 * second +
      7 * vc_ConnectTimeoutSeconds (cf_Velux (ap_cfg a)) * second + 8 * int D) a
    (snd (doPowerCycle K M ctx a))"
proof (cases "ap_publishFn a \<and> PowerCycleEnabled (cf_Restart (ap_cfg a)) \<and>
    \<not> (ap_lastPowerCycle a \<noteq> 0 \<and> ap_now a - ap_lastPowerCycle a < powerCycleMinGap)")
  case False
  then have "snd (doPowerCycle K M ctx a) = a" by (auto simp: doPowerCycle_def Let_def)
  with assms(2) show ?thesis by (simp add: within_def second_def)
next
  case True
  define rc where "rc = cf_Restart (ap_cfg a)"
  define dwell where "dwell = rc_PowerCycleOffSeconds rc * second"
  define b where "b = publishFn (rc_PowerCycleTopic rc) (rc_PowerCycleOffPayload rc) False
    (stopHeartbeat (a\<lparr> ap_lastPowerCycle := ap_now a \<rparr>))"
  obtain c d where w: "await_timer ctx dwell (on_host K (kc_Disconnect K) b) = (c, d)" by fastforce
  have "delays_below D b" using assms(1) by (simp add: b_def publishFn_def stopHeartbeat_def)
  from within_on_host [OF this, of K "kc_Disconnect K"]
  have "within (int D) a (on_host K (kc_Disconnect K) b)"
    by (simp add: within_def b_def publishFn_def stopHeartbeat_def)
  from within_trans [OF this within_await_timer [of dwell _ ctx]] w
  have d: "within (int D + max 0 dwell) a d" by (metis snd_conv)
  define f where "f = publishFn (rc_PowerCycleTopic rc) (rc_PowerCycleOnPayload rc) False d"
  have f: "within (int D + max 0 dwell) a f" using d by (simp add: f_def)
  from within_reboot_loop [OF f assms]
  have "within (max 0 dwell + 317 * second +
      7 * vc_ConnectTimeoutSeconds (cf_Velux (ap_cfg a)) * second + 8 * int D) a
    (snd (reconnect_loop K M ctx PostPowerCycleRegister PowerCycleExhausted rebootBackoffSchedule None f))"
    by (simp add: algebra_simps)
  moreover have "within (max 0 dwell + 317 * second +
      7 * vc_ConnectTimeoutSeconds (cf_Velux (ap_cfg a)) * second + 8 * int D) a f"
    using assms(2) by (intro within_mono [OF f]) (simp add: second_def)
  moreover have "doPowerCycle K M ctx a = (if c then (Some CtxDone, f)
    else reconnect_loop K M ctx PostPowerCycleRegister PowerCycleExhausted rebootBackoffSchedule None f)"
    using True by (auto simp: doPowerCycle_def Let_def rc_def [symmetric] b_def [symmetric]
        dwell_def [symmetric] w f_def split: bool.split)
  ultimately show ?thesis by (simp add: dwell_def rc_def)
qed

text \<open>The time of a tick: each reset path at most once.\<close>

definition tick_limit :: "Config \<Rightarrow> nat \<Rightarrow> int" where
  "tick_limit cfg D =
     634 * second + max 0 (rc_PowerCycleOffSeconds (cf_Restart cfg) * second) +
     15 * vc_ConnectTimeoutSeconds (cf_Velux cfg) * second + 21 * int D"

lemma within_restore: "delays_below D a \<Longrightarrow> within (int D) a (restore K M a)"
  using within_mark [where D = D and a = "a\<lparr> ap_wedged := False \<rparr>" and K = K and M = M and x = True]
    within_mono [OF within_refl [of a], of "int D"]
  by (simp add: restore_def) (simp add: within_def)

lemma within_mark_wedged: "delays_below D a \<Longrightarrow> within (int D) a (mark_wedged K M a)"
  using within_mark [where D = D and a = "a\<lparr> ap_wedged := True \<rparr>" and K = K and M = M and x = False]
    within_mono [OF within_refl [of a], of "int D"]
  by (simp add: mark_wedged_def) (simp add: within_def)

lemma within_escalate:
  assumes "within t a b" "delays_below D a" "0 < vc_ConnectTimeoutSeconds (cf_Velux (ap_cfg a))"
  shows "within (t + (max 0 (rc_PowerCycleOffSeconds (cf_Restart (ap_cfg a)) * second) + 317 * second +
      7 * vc_ConnectTimeoutSeconds (cf_Velux (ap_cfg a)) * second + 9 * int D)) a
    (escalateToPowerCycle K M ctx b)"
proof -
  have cfg: "ap_cfg b = ap_cfg a" using assms(1) by (simp add: within_def)
  obtain r c where pc: "doPowerCycle K M ctx b = (r, c)" by fastforce
  with within_doPowerCycle [OF delays_within [OF assms(1,2)], of K M ctx] cfg assms(3)
  have c: "within (max 0 (rc_PowerCycleOffSeconds (cf_Restart (ap_cfg a)) * second) + 317 * second +
      7 * vc_ConnectTimeoutSeconds (cf_Velux (ap_cfg a)) * second + 8 * int D) b c" by simp
  note ac = within_trans [OF assms(1) c]
  from within_trans [OF ac within_restore [OF delays_within [OF ac assms(2)], of K M]]
  have "within (t + (max 0 (rc_PowerCycleOffSeconds (cf_Restart (ap_cfg a)) * second) + 317 * second +
      7 * vc_ConnectTimeoutSeconds (cf_Velux (ap_cfg a)) * second + 9 * int D)) a (restore K M c)"
    by (simp add: algebra_simps)
  moreover have "within (t + (max 0 (rc_PowerCycleOffSeconds (cf_Restart (ap_cfg a)) * second) + 317 * second +
      7 * vc_ConnectTimeoutSeconds (cf_Velux (ap_cfg a)) * second + 9 * int D)) a b"
    using assms(3) by (intro within_mono [OF assms(1)]) (simp add: second_def)
  moreover from within_mono [OF ac] have "within (t + (max 0 (rc_PowerCycleOffSeconds (cf_Restart (ap_cfg a)) * second) + 317 * second +
      7 * vc_ConnectTimeoutSeconds (cf_Velux (ap_cfg a)) * second + 9 * int D)) a c" by simp
  ultimately show ?thesis by (simp add: escalateToPowerCycle_def pc split: option.split)
qed

lemma within_checkHealth:
  assumes "\<forall>d\<in>set (ap_delays a). d \<le> D" "0 < vc_ConnectTimeoutSeconds (cf_Velux (ap_cfg a))"
  shows "within (tick_limit (ap_cfg a) D) a (checkHealth K M ctx a)"
proof -
  define secs where "secs = vc_ConnectTimeoutSeconds (cf_Velux (ap_cfg a))"
  define off where "off = max 0 (rc_PowerCycleOffSeconds (cf_Restart (ap_cfg a)) * second)"
  have pos: "0 < second" "0 < secs * second" "0 < second * secs" "0 \<le> off"
    using assms(2) by (simp_all add: second_def secs_def off_def)
  have limit: "tick_limit (ap_cfg a) D = 634 * second + off + 15 * (secs * second) + 21 * int D"
    by (simp add: tick_limit_def secs_def off_def)
  note up = within_mono [where u = "tick_limit (ap_cfg a) D"]
  define b where "b = mark_wedged K M a"
  have b: "within (int D) a b" unfolding b_def by (rule within_mark_wedged [OF assms(1)])
  have cfg: "ap_cfg b = ap_cfg a" using b by (simp add: within_def)
  obtain r c where rc: "doReconnect K M ctx b = (r, c)" by fastforce
  from within_trans [OF b within_doReconnect [OF delays_within [OF b assms(1)], of K M ctx]] assms(2) rc cfg
  have c: "within (int D + (secs * second + 2 * int D)) a c" by (simp add: secs_def)
  have cfgc: "ap_cfg c = ap_cfg a" using c by (simp add: within_def)
  obtain s d where rb: "doReboot K M ctx c = (s, d)" by fastforce
  from within_trans [OF c within_doReboot [OF delays_within [OF c assms(1)], of K M ctx]] assms(2) rb cfgc
  have d: "within (int D + (secs * second + 2 * int D) + (317 * second + 7 * secs * second + 9 * int D)) a d"
    by (simp add: secs_def)
  have "within (tick_limit (ap_cfg a) D) a (restore K M a)"
    using pos limit by (intro up [OF within_restore [OF assms(1)]]) simp
  moreover have "within (tick_limit (ap_cfg a) D) a a" using pos limit by (intro up [OF within_refl]) simp
  moreover have "within (tick_limit (ap_cfg a) D) a b" using pos limit by (intro up [OF b]) simp
  moreover have "within (tick_limit (ap_cfg a) D) a (escalateToPowerCycle K M ctx c)"
    using pos limit by (intro up [OF within_escalate [OF c assms(1,2)]]) (simp add: secs_def [symmetric] off_def [symmetric] mult.assoc)
  moreover have "within (tick_limit (ap_cfg a) D) a (escalateToPowerCycle K M ctx d)"
    using pos limit by (intro up [OF within_escalate [OF d assms(1,2)]]) (simp add: secs_def [symmetric] off_def [symmetric] mult.assoc)
  moreover have "within (tick_limit (ap_cfg a) D) a (restore K M d)"
    using pos limit
    by (intro up [OF within_trans [OF d within_restore [OF delays_within [OF d assms(1)]]]]) (simp add: mult.assoc)
  ultimately show ?thesis
    by (simp add: checkHealth_def Let_def b_def [symmetric] rc rb split: option.split)
qed



section \<open>Invariants of the running application\<close>

text \<open>What every path keeps holds in every reachable state.\<close>

lemma hc_next_keeps:
  assumes "\<And>a b. steady a b \<Longrightarrow> P a \<Longrightarrow> P b" "\<And>a. P a \<Longrightarrow> P (mark_wedged K M a)"
    "\<And>a. P a \<Longrightarrow> P (restore K M a)" "\<And>a. P a \<Longrightarrow> P (snd (doPowerCycle K M ctx a))" "P a"
    "hc_next K M ctx (h, a) = (h', b)"
  shows "P b"
proof -
  have s: "P (snd (doReconnect K M ctx a))" "P (snd (doReboot K M ctx a))" "P (snd (doPowerCycle K M ctx a))"
    using assms(1) [OF steady_doReconnect [OF steady_refl] assms(5)]
      assms(1) [OF steady_doReboot [OF steady_refl] assms(5)] assms(4) [OF assms(5)] by simp_all
  show ?thesis
    using assms(6,5,2,3) s by (cases h) (auto split: prod.splits option.splits if_splits)
qed

lemma pr_next_keeps:
  assumes "\<And>a b. steady a b \<Longrightarrow> P a \<Longrightarrow> P b" "\<And>a. P a \<Longrightarrow> P (snd (doPowerCycle K M ctx a))" "P a"
    "pr_next K M ctx (p, a) = (p', b)"
  shows "P b"
proof -
  have s: "P (snd (doReboot K M ctx a))" "P (snd (doPowerCycle K M ctx a))"
    using assms(1) [OF steady_doReboot [OF steady_refl] assms(3)] assms(2) [OF assms(3)] by simp_all
  show ?thesis
    using assms(4,3) s by (cases p) (auto split: prod.splits option.splits app_error.splits if_splits)
qed

lemma app_step_keeps:
  assumes "\<And>a b. steady a b \<Longrightarrow> P a \<Longrightarrow> P b" "\<And>a. P a \<Longrightarrow> P (mark_wedged K M a)"
    "\<And>a. P a \<Longrightarrow> P (restore K M a)" "\<And>a. P a \<Longrightarrow> P (snd (doPowerCycle K M None a))"
    "app_step K M s t" "P (snd (snd s))"
  shows "P (snd (snd t))"
  using assms(5,6)
proof cases
  case (health h a h' b p)
  with hc_next_keeps [where P = P and a = a and h = h and h' = h' and b = b, OF assms(1-4)] assms(6) show ?thesis by simp
next
  case (periodic p a p' b h)
  with pr_next_keeps [where P = P and a = a and p = p and p' = p' and b = b, OF assms(1,4)] assms(6) show ?thesis by simp
next
  case (contact h p a)
  then show ?thesis using assms(6) assms(1) [of a "recordContact a"] by simp
next
  case (time_passes h p a d)
  then show ?thesis using assms(6) assms(1) [of a "a\<lparr> ap_now := ap_now a + int d \<rparr>"] by (simp add: steady_def)
next
  case (host h p a s)
  then show ?thesis using assms(6) assms(1) [of a "a\<lparr> ap_host := s \<rparr>"] by (simp add: steady_def)
qed

lemma App_Start_keeps:
  assumes "\<And>a b. steady a b \<Longrightarrow> P a \<Longrightarrow> P b" "\<And>a. P a \<Longrightarrow> P (snd (doPowerCycle K M ctx a))" "P a"
  shows "P (snd (App_Start K M ctx a))"
proof -
  have s: "steady a (snd (connectAndLoad K ctx (recordContact a)))"
    by (rule steady_connectAndLoad) simp
  obtain r b where b: "connectAndLoad K ctx (recordContact a) = (r, b)" by fastforce
  with s assms(1,3) have pb: "P b" "P (snd (doPowerCycle K M ctx b))" using assms(2) by auto
  obtain r' c where c: "call K None (\<lambda>_. cm_Register M) b = (r', c)" by fastforce
  with steady_call [of b K None "\<lambda>_. cm_Register M"] have "steady b c" by simp
  moreover from this have "steady b (snd (doReboot K M ctx (startHeartbeat c)))"
    by (intro steady_doReboot) simp
  ultimately have "P c" "P (snd (doReboot K M ctx (startHeartbeat c)))" using assms(1) pb(1) by blast+
  with pb show ?thesis
    by (auto simp: App_Start_def Let_def b c split: prod.splits option.splits)
qed

lemma reachable_keeps:
  assumes "\<And>a b. steady a b \<Longrightarrow> P a \<Longrightarrow> P b" "\<And>a. P a \<Longrightarrow> P (mark_wedged K M a)"
    "\<And>a. P a \<Longrightarrow> P (restore K M a)" "\<And>ctx a. P a \<Longrightarrow> P (snd (doPowerCycle K M ctx a))"
    "P a" "(app_step K M)\<^sup>*\<^sup>* (HC_Idle, PR_Idle, snd (App_Start K M ctx a)) (h, p, b)"
  shows "P b"
proof -
  have "P (snd (snd t))" if "(app_step K M)\<^sup>*\<^sup>* s t" "P (snd (snd s))" for s t
    using that
  proof (induction rule: rtranclp_induct)
    case (step t u)
    from app_step_keeps [where P = P, OF assms(1-4) step.hyps(2) step.IH [OF step.prems]] show ?case .
  qed
  from this [OF assms(6)] App_Start_keeps [where P = P, OF assms(1,4,5)] show ?thesis by simp
qed

lemma newApp_invs:
  "0 < now \<Longrightarrow> plug_inv (newApp cfg publish s now delays)" "marks_inv (newApp cfg publish s now delays)"
  "ap_cfg (newApp cfg publish s now delays) = cfg"
  by (simp_all add: newApp_def plug_inv_def marks_inv_def exI [of _ "[]"])



text \<open>
  C14: What the covers are told. In every reachable state the calls of \<open>MarkAllUnavailable\<close> and
  \<open>MarkAllAvailable\<close> alternate, beginning with unavailable, and the last one was unavailable exactly
  while the gateway counts as wedged: the calls are the edges of one bit.
\<close>

theorem marks_alternate:
  assumes "(app_step K M)\<^sup>*\<^sup>* (HC_Idle, PR_Idle, snd (App_Start K M ctx (newApp cfg publish s now delays))) (h, p, a)"
  shows "ap_marks a = map odd [0..<length (ap_marks a)] \<and> ap_wedged a = odd (length (ap_marks a))"
proof -
  have "marks_inv a"
    by (rule reachable_keeps [where P = marks_inv, OF _ _ _ _ _ assms])
      (fact steady_invs(2) mark_wedged_invs(2,4) doPowerCycle_invs(2) newApp_invs(2))+
  then show ?thesis by (simp add: marks_inv_def)
qed

text \<open>Long after the start, with no plug: the tick marks the covers and recovers.\<close>

theorem marks_alternate_witness:
  "let a = snd (App_Start (example_client 3) example_manager None
             (newApp (example_config '''') True 0 (1000 * second) []));
       b = mark_wedged (example_client 3) example_manager (a\<lparr> ap_now := ap_now a + int 1000000000000 \<rparr>)
   in ap_marks b = map odd [0..<length (ap_marks b)] \<and> ap_wedged b = odd (length (ap_marks b)) \<and>
      ap_marks b = [False]"
proof -
  define a where "a = snd (App_Start (example_client 3) example_manager None
    (newApp (example_config '''') True 0 (1000 * second) []))"
  define l where "l = a\<lparr> ap_now := ap_now a + int 1000000000000 \<rparr>"
  define b where "b = mark_wedged (example_client 3) example_manager l"
  have "ap_now a = 1047000000000" "ap_lastContact a = 1047000000000" "\<not> ap_wedged a" "ap_marks a = []"
    "rc_HealthCheckInterval (cf_Restart (ap_cfg a)) = 300" "rc_RestartOnError (cf_Restart (ap_cfg a))"
    by (simp_all add: a_def app_eval cong: app_cong)
  then have h: "hc_next (example_client 3) example_manager None (HC_Idle, l) = (HC_Reconnect, b)"
    "ap_marks b = [False]"
    by (simp_all add: l_def b_def mark_wedged_def mark_fields health_threshold_def second_def
        healthCheckFailureThreshold_def)
  have "app_step (example_client 3) example_manager (HC_Idle, PR_Idle, a) (HC_Idle, PR_Idle, l)"
    unfolding l_def by (rule app_step.time_passes)
  moreover have "app_step (example_client 3) example_manager (HC_Idle, PR_Idle, l) (HC_Reconnect, PR_Idle, b)"
    by (rule app_step.health [OF h(1)])
  ultimately have "(app_step (example_client 3) example_manager)\<^sup>*\<^sup>* (HC_Idle, PR_Idle, a) (HC_Reconnect, PR_Idle, b)"
    by (rule rtranclp.rtrancl_into_rtrancl [OF r_into_rtranclp])
  from marks_alternate [OF this [unfolded a_def]] h(2) show ?thesis
    by (simp add: Let_def b_def l_def a_def)
qed

end
