(* ===== verification/Liveness.thy ===== *)
theory Liveness
  imports Recovery
begin

text \<open>
  When the recovery of \<^verbatim>\<open>src/app/app.go\<close> brings the gateway back. An outage is a number of
  connection attempts that still fail; the gateway answers everything else once it can be reached.
\<close>

section \<open>The contract of an outage\<close>

text \<open>
  \<open>failures\<close> counts the connection attempts that still fail, \<open>down\<close> is a client without a session,
  \<open>ready\<close> one with a session whose calls are answered. A call keeps the session.
\<close>

locale klf_outage =
  fixes K :: "('s, 'e) klfClient"
    and M :: "('s, 'e) coverManager"
    and inv :: "'s \<Rightarrow> bool"
    and down :: "'s \<Rightarrow> bool"
    and ready :: "'s \<Rightarrow> bool"
    and failures :: "'s \<Rightarrow> nat"
    and password :: string
  assumes Connect_succeeds: "inv s \<Longrightarrow> down s \<Longrightarrow> failures s = 0 \<Longrightarrow>
      fst (kc_Connect K False s) = None \<and> ready (snd (kc_Connect K False s))"
    and Connect_fails: "inv s \<Longrightarrow> down s \<Longrightarrow> failures s = Suc n \<Longrightarrow>
      fst (kc_Connect K False s) \<noteq> None \<and> inv (snd (kc_Connect K False s)) \<and>
      failures (snd (kc_Connect K False s)) = n"
    and Disconnect_down: "inv s \<Longrightarrow> inv (kc_Disconnect K s) \<and> down (kc_Disconnect K s) \<and>
      failures (kc_Disconnect K s) = failures s"
    and ready_reachable: "ready s \<Longrightarrow> inv s \<and> failures s = 0"
    and PasswordEnter_answered: "ready s \<Longrightarrow> fst (kc_PasswordEnter K password False s) = None \<and>
      ready (snd (kc_PasswordEnter K password False s))"
    and SetUTC_keeps: "ready s \<Longrightarrow> ready (snd (kc_SetUTC K t False s))"
    and Monitor_keeps: "ready s \<Longrightarrow> ready (snd (kc_HouseStatusMonitorEnable K False s))"
    and LoadNodes_answered: "ready s \<Longrightarrow> fst (kc_LoadNodes K False s) = None \<and>
      ready (snd (kc_LoadNodes K False s))"
    and Register_answered: "ready s \<Longrightarrow> fst (cm_Register M s) = None \<and> ready (snd (cm_Register M s))"
    and Reboot_keeps: "inv s \<Longrightarrow> inv (snd (kc_Reboot K False s))"
    and marks_keep: "inv s \<Longrightarrow> inv (cm_MarkAllUnavailable M s) \<and>
      failures (cm_MarkAllUnavailable M s) = failures s"
      "ready s \<Longrightarrow> ready (cm_MarkAllAvailable M s)"

text \<open>
  The bring-up can be done in time: every call takes at most \<open>D\<close>, five of them fit into the
  connect timeout, and the password is the configured one.
\<close>

definition prompt :: "string \<Rightarrow> nat \<Rightarrow> 's app \<Rightarrow> bool" where
  "prompt password D a \<longleftrightarrow> delays_below D a \<and> vc_Password (cf_Velux (ap_cfg a)) = password \<and>
     (0 < vc_ConnectTimeoutSeconds (cf_Velux (ap_cfg a)) \<longrightarrow>
        5 * int D \<le> vc_ConnectTimeoutSeconds (cf_Velux (ap_cfg a)) * second)"

definition time_left :: "nat \<Rightarrow> nat \<Rightarrow> ctx \<Rightarrow> 's app \<Rightarrow> bool" where
  "time_left n D ctx a \<longleftrightarrow> delays_below D a \<and>
     (case ctx of None \<Rightarrow> True | Some t \<Rightarrow> ap_now a + int n * int D \<le> t)"

lemma call_in_time:
  assumes "time_left (Suc n) D ctx a"
  shows "fst (call K ctx op a) = fst (op False (ap_host a))"
    "ap_host (snd (call K ctx op a)) = snd (op False (ap_host a))"
    "time_left n D ctx (snd (call K ctx op a))"
proof -
  define d where "d = (case ap_delays a of [] \<Rightarrow> 0 | d # ds \<Rightarrow> int d)"
  have d: "0 \<le> d" "d \<le> int D" using assms by (auto simp: d_def time_left_def split: list.split)
  have t: "ap_now a + d \<le> t" if "ctx = Some t" for t
  proof -
    from assms that have "ap_now a + int (Suc n) * int D \<le> t" by (simp add: time_left_def)
    moreover have "int D \<le> int (Suc n) * int D" by (simp add: algebra_simps)
    ultimately show ?thesis using d by linarith
  qed
  have e: "(case ctx of None \<Rightarrow> False | Some t \<Rightarrow> t < ap_now a + d) = False"
    "(case ctx of None \<Rightarrow> d | Some t \<Rightarrow> if False then max 0 (t - ap_now a) else d) = d"
    using t by (force split: option.split)+
  have c: "call K ctx op a = (let (r, s) = op False (ap_host a);
      b = a\<lparr> ap_host := s, ap_now := ap_now a + d, ap_delays := drop 1 (ap_delays a) \<rparr>
    in (r, if kc_contacts K s \<noteq> kc_contacts K (ap_host a) then recordContact b else b))"
    unfolding call_def Let_def d_def [symmetric] e ..
  show "fst (call K ctx op a) = fst (op False (ap_host a))"
    "ap_host (snd (call K ctx op a)) = snd (op False (ap_host a))"
    by (simp_all add: c Let_def recordContact_def split: prod.split)
  show "time_left n D ctx (snd (call K ctx op a))"
    using assms d set_drop_1 [of "ap_delays a"]
    by (auto simp: c Let_def recordContact_def time_left_def algebra_simps split: prod.split option.split)
qed

lemma on_host_host: "ap_host (on_host K g a) = g (ap_host a)"
  by (simp add: on_host_def call_def Let_def recordContact_def split: list.split)

lemma call_None_host:
  "fst (call K None op a) = fst (op False (ap_host a))"
  "ap_host (snd (call K None op a)) = snd (op False (ap_host a))"
  by (simp_all add: call_def Let_def recordContact_def split: prod.split)

lemma call_host:
  "\<exists>e. fst (call K ctx op a) = fst (op e (ap_host a)) \<and> ap_host (snd (call K ctx op a)) = snd (op e (ap_host a))"
  by (rule exI [of _ "case ctx of None \<Rightarrow> False
      | Some t \<Rightarrow> t < ap_now a + (case ap_delays a of [] \<Rightarrow> 0 | d # ds \<Rightarrow> int d)"])
    (simp add: call_def Let_def recordContact_def split: prod.split)

section \<open>What the reset paths leave alone\<close>

text \<open>\<open>b\<close> comes after \<open>a\<close>: the same configuration, and no delay that was not there.\<close>

definition after :: "'s app \<Rightarrow> 's app \<Rightarrow> bool" where
  "after a b \<longleftrightarrow> set (ap_delays b) \<subseteq> set (ap_delays a) \<and> ap_cfg b = ap_cfg a"

lemma after_refl [simp]: "after a a"
  by (simp add: after_def)

lemma after_trans: "after a b \<Longrightarrow> after b c \<Longrightarrow> after a c"
  by (auto simp: after_def)

lemma after_prompt: "after a b \<Longrightarrow> prompt password D a \<Longrightarrow> prompt password D b"
  by (auto simp: after_def prompt_def)

lemma after_updates [simp]:
  "after a (startHeartbeat b) = after a b" "after a (stopHeartbeat b) = after a b"
  "after a (recordContact b) = after a b" "after a (publishFn x y z b) = after a b"
  by (simp_all add: after_def startHeartbeat_def stopHeartbeat_def recordContact_def publishFn_def)

lemma after_call: "after a b \<Longrightarrow> after a (snd (call K ctx op b))"
  using set_drop_1 [of "ap_delays b"]
  by (auto simp: call_def Let_def after_def recordContact_def subset_iff split: prod.split list.split)

lemma after_on_host: "after a b \<Longrightarrow> after a (on_host K g b)"
  by (simp add: on_host_def after_call)

lemma after_await_timer: "after a b \<Longrightarrow> after a (snd (await_timer ctx w b))"
  by (simp add: await_timer_def after_def split: option.split)

lemma after_if_ok:
  assumes "after a (snd r)" "\<And>b. after a b \<Longrightarrow> after a (snd (k b))"
  shows "after a (snd (if_ok r k))"
  using assms by (cases r) (auto simp: if_ok_def split: option.split)

lemma after_connectAndLoad: "after a b \<Longrightarrow> after a (snd (connectAndLoad K ctx b))"
  unfolding connectAndLoad_def Let_def by (intro after_if_ok after_call) simp_all

lemma heartbeat_fields [simp]:
  "ap_heartbeat (startHeartbeat a)" "ap_host (startHeartbeat a) = ap_host a"
  "ap_lastContact (startHeartbeat a) = ap_lastContact a" "ap_now (startHeartbeat a) = ap_now a"
  "ap_host (stopHeartbeat a) = ap_host a"
  by (simp_all add: startHeartbeat_def stopHeartbeat_def)

lemma after_reconnect_loop: "after a b \<Longrightarrow> after a (snd (reconnect_loop K M ctx re ex waits l b))"
proof (induction waits arbitrary: l b)
  case (Cons wait waits)
  obtain c d where w: "await_timer ctx wait b = (c, d)" by fastforce
  then have ad: "after a d" using after_await_timer [OF Cons.prems, of ctx wait] by simp
  obtain e f where l: "connectAndLoad K ctx d = (e, f)" by fastforce
  then have af: "after a f" using after_connectAndLoad [OF ad, of K ctx] by simp
  obtain e' g where r: "call K None (\<lambda>_. cm_Register M) f = (e', g)" by fastforce
  then have "after a g" using after_call [OF af, of K None "\<lambda>_. cm_Register M"] by simp
  with ad Cons.IH [OF after_on_host [OF af, of K "kc_Disconnect K"]] show ?case
    by (simp add: w l r split: bool.split option.split)
qed simp

lemma after_doReboot: "after a b \<Longrightarrow> after a (snd (doReboot K M ctx b))"
  unfolding doReboot_def Let_def by (intro after_reconnect_loop after_on_host after_call) simp

lemma after_doPowerCycle: "after a (snd (doPowerCycle K M ctx a))"
proof -
  define rc where "rc = cf_Restart (ap_cfg a)"
  define b where "b = publishFn (rc_PowerCycleTopic rc) (rc_PowerCycleOffPayload rc) False
    (stopHeartbeat (a\<lparr> ap_lastPowerCycle := ap_now a \<rparr>))"
  obtain c d where w: "await_timer ctx (rc_PowerCycleOffSeconds rc * second) (on_host K (kc_Disconnect K) b) = (c, d)"
    by fastforce
  have "after a b" by (simp add: b_def) (simp add: after_def)
  from after_await_timer [OF after_on_host [OF this, of K "kc_Disconnect K"], of ctx "rc_PowerCycleOffSeconds rc * second"]
  have "after a d" by (simp add: w)
  then show ?thesis
    by (auto simp: doPowerCycle_def Let_def rc_def [symmetric] b_def [symmetric] w after_reconnect_loop
        split: bool.split)
qed

text \<open>The last contact is at most \<open>t\<close> old.\<close>

definition contact_within :: "int \<Rightarrow> 's app \<Rightarrow> bool" where
  "contact_within t a \<longleftrightarrow> ap_now a - ap_lastContact a \<le> t"

lemma contact_call: "delays_below D a \<Longrightarrow> contact_within t a \<Longrightarrow> 0 \<le> t \<Longrightarrow>
    contact_within (t + int D) (snd (call K None op a))"
  by (auto simp: call_def Let_def contact_within_def recordContact_def split: prod.split list.split)

lemma delays_after:
  assumes "prompt password D a"
  shows "delays_below D (snd (doReboot K M ctx a))" "delays_below D (snd (doPowerCycle K M ctx a))"
  using after_prompt [OF after_doReboot [where K = K and M = M and ctx = ctx, OF after_refl] assms]
    after_prompt [OF after_doPowerCycle [where K = K and M = M and ctx = ctx] assms]
  by (simp_all add: prompt_def)

lemma mark_on_host:
  "mark K M x a =
     (let b = on_host K (if x then cm_MarkAllAvailable M else cm_MarkAllUnavailable M) a
      in b\<lparr> ap_marks := ap_marks b @ [x] \<rparr>)"
  by (simp add: mark_def)

lemma mark_contact:
  "delays_below D a \<Longrightarrow> contact_within t a \<Longrightarrow> 0 \<le> t \<Longrightarrow> contact_within (t + int D) (mark K M x a)"
  "ap_heartbeat (mark K M x a) = ap_heartbeat a" "after a (mark K M x a)"
proof -
  define g where "g = (if x then cm_MarkAllAvailable M else cm_MarkAllUnavailable M)"
  show "contact_within (t + int D) (mark K M x a)" if "delays_below D a" "contact_within t a" "0 \<le> t"
    using contact_call [where op = "\<lambda>_ s. ((), g s)" and K = K, OF that]
    by (simp add: mark_on_host Let_def g_def [symmetric] on_host_def contact_within_def)
  show "ap_heartbeat (mark K M x a) = ap_heartbeat a"
    by (simp add: mark_on_host on_host_def call_def Let_def recordContact_def)
  show "after a (mark K M x a)"
    using after_on_host [of a a K g] by (simp add: mark_on_host Let_def g_def [symmetric] after_def)
qed

lemma mark_wedged_fields:
  "ap_wedged (mark_wedged K M a)" "after a (mark_wedged K M a)" "ap_now a \<le> ap_now (mark_wedged K M a)"
  "ap_publishFn (mark_wedged K M a) = ap_publishFn a"
  "ap_lastPowerCycle (mark_wedged K M a) = ap_lastPowerCycle a"
  "ap_marks (mark_wedged K M a) = ap_marks a @ (if ap_wedged a then [] else [False])"
  "ap_cfg (mark_wedged K M a) = ap_cfg a"
  using mark_contact(3) [where K = K and M = M and x = False and a = "a\<lparr> ap_wedged := True \<rparr>"]
    mark_fields [where K = K and M = M and x = False and a = "a\<lparr> ap_wedged := True \<rparr>"]
  by (simp_all add: mark_wedged_def after_def)

section \<open>The reset paths during an outage\<close>

context klf_outage begin

lemma call_ready:
  assumes "time_left (Suc n) D ctx a" "ready (ap_host a)" "\<And>s. ready s \<Longrightarrow> ready (snd (op False s))"
  shows "ready (ap_host (snd (call K ctx op a)))" "time_left n D ctx (snd (call K ctx op a))"
  using call_in_time [OF assms(1), of K op] assms(2,3) by simp_all

lemma call_answered:
  assumes "time_left (Suc n) D ctx a" "ready (ap_host a)"
    "\<And>s. ready s \<Longrightarrow> fst (op False s) = None \<and> ready (snd (op False s))"
  obtains b where "call K ctx op a = (None, b)" "ready (ap_host b)" "time_left n D ctx b"
proof (rule that)
  have "fst (call K ctx op a) = None" using call_in_time(1) [OF assms(1), of K op] assms(2,3) by simp
  then show "call K ctx op a = (None, snd (call K ctx op a))" by (simp add: prod_eq_iff)
qed (use call_ready [OF assms(1,2)] assms(3) in blast)+

text \<open>Once connected, the rest of the bring-up is answered in time.\<close>

lemma bring_up_answered:
  assumes "ready (ap_host b)" "time_left (Suc 3) D ctx b"
  obtains d where "ready (ap_host d)"
    "if_ok (call K ctx (kc_PasswordEnter K password) b)
       (\<lambda>a. let a = snd (call K ctx (kc_SetUTC K (ap_now a)) a);
                a = snd (call K ctx (kc_HouseStatusMonitorEnable K) a)
            in if_ok (call K ctx (kc_LoadNodes K) a) (\<lambda>a. (None, recordContact a))) = (None, recordContact d)"
proof -
  obtain b1 where b1: "call K ctx (kc_PasswordEnter K password) b = (None, b1)"
    and s1: "ready (ap_host b1)" "time_left (Suc (Suc (Suc 0))) D ctx b1"
    using call_answered [where op = "kc_PasswordEnter K password" and D = D and n = 3 and ctx = ctx and a = b]
      assms PasswordEnter_answered by (auto simp: numeral_3_eq_3)
  define b2 where "b2 = snd (call K ctx (kc_SetUTC K (ap_now b1)) b1)"
  have s2: "ready (ap_host b2)" "time_left (Suc (Suc 0)) D ctx b2"
    using call_ready [where op = "kc_SetUTC K (ap_now b1)", OF s1(2,1)] SetUTC_keeps by (simp_all add: b2_def)
  define b3 where "b3 = snd (call K ctx (kc_HouseStatusMonitorEnable K) b2)"
  have s3: "ready (ap_host b3)" "time_left (Suc 0) D ctx b3"
    using call_ready [where op = "kc_HouseStatusMonitorEnable K", OF s2(2,1)] Monitor_keeps
    by (simp_all add: b3_def)
  obtain b4 where "call K ctx (kc_LoadNodes K) b3 = (None, b4)" "ready (ap_host b4)"
    using call_answered [where op = "kc_LoadNodes K" and D = D and n = 0 and ctx = ctx and a = b3]
      s3 LoadNodes_answered by auto
  then show thesis by (intro that [of b4]) (simp_all add: if_ok_def b1 b2_def [symmetric] b3_def [symmetric])
qed

text \<open>A connection attempt succeeds exactly when the outage is over.\<close>

lemma connectAndLoad_outage:
  assumes "inv (ap_host a)" "down (ap_host a)" "prompt password D a"
  obtains (ok) b where "failures (ap_host a) = 0" "connectAndLoad K None a = (None, b)" "ready (ap_host b)"
      "ap_lastContact b = ap_now b" "after a b"
  | (fail) n e b where "failures (ap_host a) = Suc n" "connectAndLoad K None a = (Some e, b)" "inv (ap_host b)"
      "failures (ap_host b) = n" "after a b"
proof -
  define secs where "secs = vc_ConnectTimeoutSeconds (cf_Velux (ap_cfg a))"
  define ctx where "ctx = (if secs > 0 then Some (ap_now a + secs * second) else None)"
  have 5: "time_left (Suc 4) D ctx a"
    using assms(3) by (simp add: time_left_def prompt_def ctx_def secs_def)
  obtain r b where b: "call K ctx (kc_Connect K) a = (r, b)" by fastforce
  have host: "r = fst (kc_Connect K False (ap_host a))" "ap_host b = snd (kc_Connect K False (ap_host a))"
    "time_left (Suc 3) D ctx b"
    using call_in_time [OF 5, of K "kc_Connect K"] by (simp_all add: b)
  have pw: "vc_Password (cf_Velux (ap_cfg b)) = password"
    using after_call [of a a K ctx "kc_Connect K"] assms(3) by (simp add: b after_def prompt_def)
  have after: "after a (snd (connectAndLoad K None a))" by (rule after_connectAndLoad) simp
  have c: "(if vc_ConnectTimeoutSeconds (cf_Velux (ap_cfg a)) > 0
      then Some (case None of
          None \<Rightarrow> ap_now a + vc_ConnectTimeoutSeconds (cf_Velux (ap_cfg a)) * second
        | Some t \<Rightarrow> min t (ap_now a + vc_ConnectTimeoutSeconds (cf_Velux (ap_cfg a)) * second))
      else None) = ctx"
    by (simp add: ctx_def secs_def)
  have e: "connectAndLoad K None a =
      if_ok (r, b) (\<lambda>a. if_ok (call K ctx (kc_PasswordEnter K (vc_Password (cf_Velux (ap_cfg a)))) a)
             (\<lambda>a. let a = snd (call K ctx (kc_SetUTC K (ap_now a)) a);
                      a = snd (call K ctx (kc_HouseStatusMonitorEnable K) a)
                  in if_ok (call K ctx (kc_LoadNodes K) a) (\<lambda>a. (None, recordContact a))))"
    unfolding connectAndLoad_def Let_def c b ..
  show thesis
  proof (cases "failures (ap_host a)")
    case 0
    with Connect_succeeds [OF assms(1,2)] have s0: "r = None" "ready (ap_host b)" by (simp_all add: host)
    from bring_up_answered [OF s0(2) host(3)] obtain d where d: "ready (ap_host d)"
      "connectAndLoad K None a = (None, recordContact d)"
      by (auto simp: e s0(1) pw if_ok_def [of "(None, b)"])
    from ok [OF 0 d(2)] d(1) after show thesis by (simp add: recordContact_def d(2))
  next
    case (Suc n)
    with Connect_fails [OF assms(1,2)] obtain x where "r = Some x" "inv (ap_host b)" "failures (ap_host b) = n"
      by (auto simp: host)
    with fail [OF Suc] e after show thesis by (simp add: if_ok_def)
  qed
qed

definition recovered :: "nat \<Rightarrow> 's app \<Rightarrow> bool" where
  "recovered D a \<longleftrightarrow> ap_heartbeat a \<and> ready (ap_host a) \<and> contact_within (int D) a"

text \<open>Registering the covers after a connection attempt that succeeded.\<close>

lemma register_outage:
  assumes "prompt password D a" "ready (ap_host a)" "ap_lastContact a = ap_now a"
  obtains b where "call K None (\<lambda>_. cm_Register M) a = (None, b)" "recovered D (startHeartbeat b)" "after a b"
proof -
  obtain r b where b: "call K None (\<lambda>_. cm_Register M) a = (r, b)" by fastforce
  have "after a b" using after_call [of a a K None "\<lambda>_. cm_Register M"] by (simp add: b)
  moreover have "contact_within (0 + int D) b"
    using contact_call [where D = D and a = a and t = 0 and K = K and op = "\<lambda>_. cm_Register M"] assms(1,3)
    by (simp add: b prompt_def contact_within_def)
  moreover have "r = None" "ready (ap_host b)"
    using call_None_host [of K "\<lambda>_. cm_Register M" a] Register_answered [OF assms(2)] by (simp_all add: b)
  ultimately show ?thesis using b that by (simp add: recovered_def contact_within_def)
qed

lemma disconnected:
  assumes "inv (ap_host a)"
  shows "inv (ap_host (on_host K (kc_Disconnect K) a))" "down (ap_host (on_host K (kc_Disconnect K) a))"
    "failures (ap_host (on_host K (kc_Disconnect K) a)) = failures (ap_host a)"
  using Disconnect_down [OF assms] by (simp_all add: on_host_host)

lemma reconnect_loop_outage:
  assumes "inv (ap_host a)" "down (ap_host a)" "prompt password D a"
  shows "if failures (ap_host a) < length waits
    then fst (reconnect_loop K M None re ex waits l a) = None \<and>
      recovered D (snd (reconnect_loop K M None re ex waits l a))
    else fst (reconnect_loop K M None re ex waits l a) \<noteq> None"
  using assms
proof (induction waits arbitrary: l a)
  case (Cons w ws)
  define b where "b = a\<lparr> ap_now := ap_now a + max 0 w \<rparr>"
  have b: "await_timer None w a = (False, b)" "inv (ap_host b)" "down (ap_host b)" "prompt password D b"
    "ap_host b = ap_host a"
    using Cons.prems by (simp_all add: await_timer_def b_def prompt_def)
  from b(2-4) show ?case
  proof (cases rule: connectAndLoad_outage)
    case (ok c)
    from register_outage [OF after_prompt [OF ok(5) b(4)] ok(3,4)] obtain d where
      "call K None (\<lambda>_. cm_Register M) c = (None, d)" "recovered D (startHeartbeat d)" .
    with ok b(1,5) show ?thesis by simp
  next
    case (fail n e c)
    have "after b (on_host K (kc_Disconnect K) c)" by (rule after_on_host [OF fail(5)])
    with Cons.IH [OF disconnected(1,2) [OF fail(3)] after_prompt [OF _ b(4)], of "Some e"] fail(1,2,4) b(1,5)
      disconnected(3) [OF fail(3)] show ?thesis
      by simp
  qed
qed simp

lemma doReboot_outage:
  assumes "inv (ap_host a)" "prompt password D a" "failures (snd (kc_Reboot K False (ap_host a))) < 7"
  obtains b where "doReboot K M None a = (None, b)" "recovered D b" "after a b"
proof -
  define b where "b = snd (call K None (kc_Reboot K) (stopHeartbeat a))"
  have "after a b" unfolding b_def by (rule after_call) simp
  then have pb: "prompt password D (on_host K (kc_Disconnect K) b)"
    using after_prompt [OF after_on_host assms(2)] by blast
  have "ap_host b = snd (kc_Reboot K False (ap_host a))" by (simp add: b_def call_None_host)
  with Reboot_keeps [OF assms(1)] assms(3) have "inv (ap_host b)" "failures (ap_host b) < 7" by simp_all
  with reconnect_loop_outage [OF disconnected(1,2) pb, where waits = rebootBackoffSchedule] disconnected(3)
  have "fst (doReboot K M None a) = None" "recovered D (snd (doReboot K M None a))"
    by (simp_all add: doReboot_def b_def [symmetric] rebootBackoffSchedule_facts)
  with after_doReboot [where K = K and M = M and ctx = None, OF after_refl [of a]] show thesis
    by (intro that) (auto simp: prod_eq_iff)
qed

lemma doReconnect_outage:
  assumes "inv (ap_host a)" "prompt password D a"
  obtains (ok) b where "failures (ap_host a) = 0" "doReconnect K M None a = (None, b)" "recovered D b" "after a b"
  | (fail) n e b where "failures (ap_host a) = Suc n" "doReconnect K M None a = (Some e, b)" "inv (ap_host b)"
      "failures (ap_host b) = n" "after a b"
proof -
  define b where "b = on_host K (kc_Disconnect K) (stopHeartbeat a)"
  have i: "inv (ap_host (stopHeartbeat a))" using assms(1) by simp
  have b: "inv (ap_host b)" "down (ap_host b)" "failures (ap_host b) = failures (ap_host a)"
    using disconnected [OF i] by (simp_all add: b_def)
  have ab: "after a b" unfolding b_def by (rule after_on_host) simp
  have pb: "prompt password D b" by (rule after_prompt [OF ab assms(2)])
  have e: "doReconnect K M None a = if_ok (connectAndLoad K None b)
      (\<lambda>a. if_ok (call K None (\<lambda>_. cm_Register M) a) (\<lambda>a. (None, startHeartbeat a)))"
    by (simp add: doReconnect_def b_def)
  from b(1,2) pb show thesis
  proof (cases rule: connectAndLoad_outage)
    case (ok c)
    from register_outage [OF after_prompt [OF ok(5) pb] ok(3,4)] obtain d where
      "call K None (\<lambda>_. cm_Register M) c = (None, d)" "recovered D (startHeartbeat d)" "after c d" .
    with that(1) [of "startHeartbeat d"] ok b(3) after_trans [OF ab after_trans [OF ok(5)]] show thesis
      by (simp add: e if_ok_def)
  next
    case (fail n x c)
    with that(2) [of n x c] b(3) after_trans [OF ab] show thesis by (simp add: e if_ok_def)
  qed
qed

lemma doPowerCycle_outage:
  assumes "inv (ap_host a)" "prompt password D a" "ap_publishFn a" "PowerCycleEnabled (cf_Restart (ap_cfg a))"
    "ap_lastPowerCycle a = 0 \<or> powerCycleMinGap \<le> ap_now a - ap_lastPowerCycle a" "failures (ap_host a) < 7"
  obtains b where "doPowerCycle K M None a = (None, b)" "recovered D b"
proof -
  define rc where "rc = cf_Restart (ap_cfg a)"
  define b where "b = publishFn (rc_PowerCycleTopic rc) (rc_PowerCycleOffPayload rc) False
    (stopHeartbeat (a\<lparr> ap_lastPowerCycle := ap_now a \<rparr>))"
  define c where "c = on_host K (kc_Disconnect K) b"
  define d where "d = publishFn (rc_PowerCycleTopic rc) (rc_PowerCycleOnPayload rc) False
    (snd (await_timer None (rc_PowerCycleOffSeconds rc * second) c))"
  have "after a b" by (simp add: b_def) (simp add: after_def)
  then have "after a c" unfolding c_def by (rule after_on_host)
  then have "after a d" unfolding d_def by (simp add: after_await_timer)
  note pd = after_prompt [OF this assms(2)]
  have bh: "ap_host b = ap_host a" by (simp add: b_def publishFn_def)
  with assms(1) have "inv (ap_host b)" by simp
  note dis = disconnected [OF this]
  have hd: "ap_host d = ap_host (on_host K (kc_Disconnect K) b)"
    by (simp add: d_def c_def await_timer_def publishFn_def)
  have "doPowerCycle K M None a =
    reconnect_loop K M None PostPowerCycleRegister PowerCycleExhausted rebootBackoffSchedule None d"
    using assms(3-5) by (auto simp: doPowerCycle_def Let_def rc_def [symmetric] b_def [symmetric]
        c_def [symmetric] d_def await_timer_def)
  with reconnect_loop_outage [OF _ _ pd, where waits = rebootBackoffSchedule] dis hd bh assms(6)
  have "fst (doPowerCycle K M None a) = None" "recovered D (snd (doPowerCycle K M None a))"
    by (simp_all add: rebootBackoffSchedule_facts)
  then show thesis by (intro that) (auto simp: prod_eq_iff)
qed

lemma mark_wedged_outage:
  assumes "inv (ap_host a)"
  shows "inv (ap_host (mark_wedged K M a))" "failures (ap_host (mark_wedged K M a)) = failures (ap_host a)"
  using assms marks_keep(1) by (simp_all add: mark_wedged_def mark_on_host Let_def on_host_host)

lemma restore_outage:
  assumes "delays_below D a" "recovered D a" "ap_wedged a"
  shows "\<not> ap_wedged (restore K M a) \<and> ap_heartbeat (restore K M a) \<and> ready (ap_host (restore K M a)) \<and>
    contact_within (2 * int D) (restore K M a) \<and> ap_marks (restore K M a) = ap_marks a @ [True]"
proof -
  define b where "b = a\<lparr> ap_wedged := False \<rparr>"
  have "contact_within (int D) b" "delays_below D b"
    using assms(1,2) by (simp_all add: b_def recovered_def contact_within_def)
  from mark_contact(1) [where x = True and K = K and M = M, OF this(2,1)]
  have "contact_within (2 * int D) (mark K M True b)" by simp
  moreover have "ready (ap_host (mark K M True b))"
    using assms(2) marks_keep(2) by (simp add: mark_on_host Let_def on_host_host b_def recovered_def)
  ultimately show ?thesis
    using assms(2,3) mark_contact(2) [where K = K and M = M and x = True and a = b]
      mark_fields [where K = K and M = M and x = True and a = b]
    by (simp add: restore_def b_def recovered_def)
qed

text \<open>The two ways a tick can end well: the reboot after a reconnect, and the power cycle.\<close>

lemma reboot_after_reconnect:
  assumes "inv (ap_host b)" "failures (ap_host b) = 0" "prompt password D b" "ap_wedged b"
    and reboot: "\<And>s. ready s \<Longrightarrow> failures (snd (kc_Reboot K False s)) < 7"
  obtains c d where "doReconnect K M None b = (None, c)" "doReboot K M None c = (None, d)" "recovered D d"
    "delays_below D d" "ap_wedged d" "ap_marks d = ap_marks b"
proof -
  from assms(1,3) show thesis
  proof (cases rule: doReconnect_outage)
    case (ok c)
    then have rc: "ready (ap_host c)" by (simp add: recovered_def)
    note pc = after_prompt [OF ok(4) assms(3)]
    obtain d where d: "doReboot K M None c = (None, d)" "recovered D d" "after c d"
      using doReboot_outage [OF conjunct1 [OF ready_reachable [OF rc]] pc reboot [OF rc]] .
    have "steady b c" "steady c d"
      using steady_doReconnect [of b b K M None] steady_doReboot [of c c K M None] by (simp_all add: ok(2) d(1))
    with that [OF ok(2) d(1,2)] after_prompt [OF d(3) pc] assms(4) show thesis
      by (simp add: steady_def prompt_def)
  qed (use assms(2) in simp)
qed

lemma power_cycle_after_failure:
  assumes "inv (ap_host b)" "0 < failures (ap_host b)" "failures (ap_host b) \<le> 7" "prompt password D b" "ap_wedged b"
    and plug: "ap_publishFn b" "PowerCycleEnabled (cf_Restart (ap_cfg b))"
      "ap_lastPowerCycle b = 0 \<or> powerCycleMinGap \<le> ap_now b - ap_lastPowerCycle b"
  obtains e c d where "doReconnect K M None b = (Some e, c)" "PowerCycleEnabled (cf_Restart (ap_cfg c))"
    "doPowerCycle K M None c = (None, d)" "recovered D d" "delays_below D d" "ap_wedged d"
    "ap_marks d = ap_marks b"
proof -
  from assms(1,4) show thesis
  proof (cases rule: doReconnect_outage)
    case (fail n e c)
    have c: "steady b c" using steady_doReconnect [of b b K M None] by (simp add: fail(2))
    note pc = after_prompt [OF fail(5) assms(4)]
    have cc: "ap_publishFn c" "PowerCycleEnabled (cf_Restart (ap_cfg c))"
      "ap_lastPowerCycle c = 0 \<or> powerCycleMinGap \<le> ap_now c - ap_lastPowerCycle c" "failures (ap_host c) < 7"
      using assms(3) plug c fail(1,4) by (auto simp: steady_def)
    obtain d where d: "doPowerCycle K M None c = (None, d)" "recovered D d"
      using doPowerCycle_outage [OF fail(3) pc cc] .
    have "ap_wedged d = ap_wedged c" "ap_marks d = ap_marks c"
      using d(1) by (cases rule: doPowerCycle_cases [of K M None c]; simp)+
    moreover have "delays_below D d" using delays_after(2) [OF pc, of K M None] by (simp add: d(1))
    ultimately show thesis using that [OF fail(2) cc(2) d] c assms(5) by (simp add: steady_def)
  qed (use assms(2) in simp)
qed

lemma checkHealth_reaches:
  assumes gateway: "inv (ap_host a)" "prompt password D a" "\<And>s. ready s \<Longrightarrow> failures (snd (kc_Reboot K False s)) < 7"
    and tick: "0 < rc_HealthCheckInterval (cf_Restart (ap_cfg a))" "rc_RestartOnError (cf_Restart (ap_cfg a))"
      "health_threshold a < ap_now a - ap_lastContact a"
    and reachable: "failures (ap_host a) = 0 \<or> failures (ap_host a) \<le> 7 \<and> ap_publishFn a \<and>
      PowerCycleEnabled (cf_Restart (ap_cfg a)) \<and>
      (ap_lastPowerCycle a = 0 \<or> powerCycleMinGap \<le> ap_now a - ap_lastPowerCycle a)"
  obtains d where "checkHealth K M None a = restore K M d" "recovered D d" "delays_below D d"
    "ap_wedged d" "ap_marks d = ap_marks (mark_wedged K M a)"
proof -
  define b where "b = mark_wedged K M a"
  note b = mark_wedged_fields [where K = K and M = M and a = a, folded b_def] mark_wedged_outage [OF gateway(1), folded b_def]
  note pb = after_prompt [OF b(2) gateway(2)]
  have i: "\<not> rc_HealthCheckInterval (cf_Restart (ap_cfg a)) * second \<le> 0"
    "\<not> ap_now a - ap_lastContact a \<le> health_threshold a"
    using tick by (simp_all add: second_def)
  have e: "checkHealth K M None a = (case doReconnect K M None b of
        (Some e, c) \<Rightarrow> escalateToPowerCycle K M None c
      | (None, c) \<Rightarrow> (case doReboot K M None c of (Some e, a) \<Rightarrow> escalateToPowerCycle K M None a
        | (None, a) \<Rightarrow> restore K M a))"
    using i tick(2) by (simp add: checkHealth_def Let_def b_def [symmetric] b(7))
  show thesis
  proof (cases "failures (ap_host a) = 0")
    case True
    with b(9) have "failures (ap_host b) = 0" by simp
    obtain c d where d: "doReconnect K M None b = (None, c)" "doReboot K M None c = (None, d)" "recovered D d"
      "delays_below D d" "ap_wedged d" "ap_marks d = ap_marks b"
      using reboot_after_reconnect [OF b(8) \<open>failures (ap_host b) = 0\<close> pb b(1) gateway(3)] .
    have "checkHealth K M None a = restore K M d" by (simp add: e d(1,2))
    from that [OF this d(3-5)] d(6) show thesis by (simp add: b_def)
  next
    case False
    with reachable b have "0 < failures (ap_host b)" "failures (ap_host b) \<le> 7" "ap_publishFn b"
      "PowerCycleEnabled (cf_Restart (ap_cfg b))"
      "ap_lastPowerCycle b = 0 \<or> powerCycleMinGap \<le> ap_now b - ap_lastPowerCycle b"
      by auto
    from power_cycle_after_failure [OF b(8) this(1,2) pb b(1) this(3-5)] obtain x c d where
      d: "doReconnect K M None b = (Some x, c)" "PowerCycleEnabled (cf_Restart (ap_cfg c))"
        "doPowerCycle K M None c = (None, d)" "recovered D d" "delays_below D d" "ap_wedged d" "ap_marks d = ap_marks b" .
    have "checkHealth K M None a = restore K M d" by (simp add: e d(1-3) escalateToPowerCycle_def)
    from that [OF this d(4-6)] d(7) show thesis by (simp add: b_def)
  qed
qed

text \<open>
  An overdue tick brings the bridge back when the gateway can be reached again, or a power cycle is
  allowed and an attempt within its schedule reaches it.
\<close>

lemma tick_recovers:
  assumes gateway: "inv (ap_host a)" "prompt password D a" "\<And>s. ready s \<Longrightarrow> failures (snd (kc_Reboot K False s)) < 7"
    and tick: "0 < rc_HealthCheckInterval (cf_Restart (ap_cfg a))" "rc_RestartOnError (cf_Restart (ap_cfg a))"
      "health_threshold a < ap_now a - ap_lastContact a"
    and reachable: "failures (ap_host a) = 0 \<or> failures (ap_host a) \<le> 7 \<and> ap_publishFn a \<and>
      PowerCycleEnabled (cf_Restart (ap_cfg a)) \<and>
      (ap_lastPowerCycle a = 0 \<or> powerCycleMinGap \<le> ap_now a - ap_lastPowerCycle a)"
  shows "let b = checkHealth K M None a in
    \<not> ap_wedged b \<and> ap_heartbeat b \<and> ready (ap_host b) \<and> contact_within (2 * int D) b \<and>
    ap_marks b = ap_marks a @ (if ap_wedged a then [True] else [False, True])"
proof -
  obtain d where d: "checkHealth K M None a = restore K M d" "recovered D d" "delays_below D d" "ap_wedged d"
    "ap_marks d = ap_marks (mark_wedged K M a)"
    using checkHealth_reaches [OF assms] .
  from restore_outage [OF d(3,2,4)] d(1,5) mark_wedged_fields(6) [of K M a] show ?thesis
    by (simp add: Let_def)
qed

end

text \<open>With a plug configured, a gateway that refuses some attempts comes back through the power cycle.\<close>

definition example_app :: "string \<Rightarrow> nat \<Rightarrow> nat app" where
  "example_app topic failures = newApp (example_config topic) True failures (3600 * second) []"

section \<open>The heartbeat\<close>

lemma heartbeat_kept:
  "ap_heartbeat (snd (call K ctx op a)) = ap_heartbeat a" "ap_heartbeat (on_host K g a) = ap_heartbeat a"
  "ap_heartbeat (snd (await_timer ctx w a)) = ap_heartbeat a"
  by (simp_all add: call_def on_host_def await_timer_def Let_def recordContact_def
      split: prod.split option.split)

lemma heartbeat_if_ok:
  assumes "ap_heartbeat (snd r) = h" "\<And>b. ap_heartbeat b = h \<Longrightarrow> ap_heartbeat (snd (k b)) = h"
  shows "ap_heartbeat (snd (if_ok r k)) = h"
  using assms by (cases r) (auto simp: if_ok_def split: option.split)

lemma heartbeat_connectAndLoad: "ap_heartbeat (snd (connectAndLoad K ctx a)) = ap_heartbeat a"
  unfolding connectAndLoad_def Let_def
  by (intro heartbeat_if_ok) (simp_all add: heartbeat_kept recordContact_def)

lemma heartbeat_reconnect_loop:
  "\<not> ap_heartbeat a \<Longrightarrow> ap_heartbeat (snd (reconnect_loop K M ctx re ex waits l a)) =
     (fst (reconnect_loop K M ctx re ex waits l a) = None)"
proof (induction waits arbitrary: l a)
  case (Cons w ws)
  obtain c d where w: "await_timer ctx w a = (c, d)" by fastforce
  with heartbeat_kept(3) [of ctx w a] Cons.prems have d: "\<not> ap_heartbeat d" by simp
  obtain e f where l: "connectAndLoad K ctx d = (e, f)" by fastforce
  with heartbeat_connectAndLoad [of K ctx d] d have f: "\<not> ap_heartbeat f" by simp
  obtain r g where r: "call K None (\<lambda>_. cm_Register M) f = (r, g)" by fastforce
  with heartbeat_kept(1) [of K None "\<lambda>_. cm_Register M" f] f have "\<not> ap_heartbeat g" by simp
  with d Cons.IH [of "on_host K (kc_Disconnect K) f"] f show ?case
    by (simp add: w l r heartbeat_kept split: bool.split option.split)
qed simp

lemma heartbeat_doReconnect:
  "ap_heartbeat (snd (doReconnect K M ctx a)) = (fst (doReconnect K M ctx a) = None)"
proof -
  define b where "b = on_host K (kc_Disconnect K) (stopHeartbeat a)"
  have "\<not> ap_heartbeat b" by (simp add: b_def heartbeat_kept) (simp add: stopHeartbeat_def)
  moreover obtain r c where c: "connectAndLoad K ctx b = (r, c)" by fastforce
  ultimately have nc: "\<not> ap_heartbeat c" using heartbeat_connectAndLoad [of K ctx b] by simp
  obtain s d where d: "call K None (\<lambda>_. cm_Register M) c = (s, d)" by fastforce
  with nc heartbeat_kept(1) [of K None "\<lambda>_. cm_Register M" c] have "\<not> ap_heartbeat d" by simp
  with nc show ?thesis
    by (simp add: doReconnect_def b_def [symmetric] c if_ok_def d split: option.split)
qed

lemma heartbeat_doReboot: "ap_heartbeat (snd (doReboot K M ctx a)) = (fst (doReboot K M ctx a) = None)"
  unfolding doReboot_def Let_def
  by (rule heartbeat_reconnect_loop) (simp add: heartbeat_kept, simp add: stopHeartbeat_def)

lemma heartbeat_doPowerCycle:
  "\<not> ap_heartbeat a \<Longrightarrow> ap_heartbeat (snd (doPowerCycle K M ctx a)) = (fst (doPowerCycle K M ctx a) = None)"
proof -
  define rc where "rc = cf_Restart (ap_cfg a)"
  define b where "b = publishFn (rc_PowerCycleTopic rc) (rc_PowerCycleOffPayload rc) False
    (stopHeartbeat (a\<lparr> ap_lastPowerCycle := ap_now a \<rparr>))"
  obtain c d where w: "await_timer ctx (rc_PowerCycleOffSeconds rc * second) (on_host K (kc_Disconnect K) b) = (c, d)"
    by fastforce
  assume a: "\<not> ap_heartbeat a"
  have "\<not> ap_heartbeat b" by (simp add: b_def publishFn_def stopHeartbeat_def)
  with w heartbeat_kept(3) [of ctx "rc_PowerCycleOffSeconds rc * second" "on_host K (kc_Disconnect K) b"]
  have d: "\<not> ap_heartbeat (publishFn x y z d)" for x y z by (simp add: heartbeat_kept publishFn_def)
  show ?thesis
    using a d heartbeat_reconnect_loop [OF d, where K = K and M = M and ex = PowerCycleExhausted]
    by (auto simp: doPowerCycle_def Let_def rc_def [symmetric] b_def [symmetric] w split: bool.split)
qed

text \<open>
  C17: The heartbeat stands for a session. After a reconnect or a reboot it runs exactly if that
  succeeded, and after the start of the application exactly if the start succeeded; a path that
  failed leaves no heartbeat behind.
\<close>

theorem heartbeat_iff_recovered:
  "ap_heartbeat (snd (doReconnect K M ctx a)) = (fst (doReconnect K M ctx a) = None) \<and>
   ap_heartbeat (snd (doReboot K M ctx a)) = (fst (doReboot K M ctx a) = None) \<and>
   ap_heartbeat (snd (App_Start K M ctx (newApp cfg publish s now delays))) =
     (fst (App_Start K M ctx (newApp cfg publish s now delays)) = None)"
proof -
  define a where "a = recordContact (newApp cfg publish s now delays)"
  have na: "\<not> ap_heartbeat a" by (simp add: a_def recordContact_def newApp_def)
  obtain r b where b: "connectAndLoad K ctx a = (r, b)" by fastforce
  with na heartbeat_connectAndLoad [of K ctx a] have nb: "\<not> ap_heartbeat b" by simp
  obtain t c where c: "call K None (\<lambda>_. cm_Register M) b = (t, c)" by fastforce
  with nb heartbeat_kept(1) [of K None "\<lambda>_. cm_Register M" b] have nc: "\<not> ap_heartbeat c" by simp
  have "ap_heartbeat (snd (App_Start K M ctx (newApp cfg publish s now delays))) =
     (fst (App_Start K M ctx (newApp cfg publish s now delays)) = None)"
    using nb nc heartbeat_doPowerCycle [OF nb, of K M ctx] heartbeat_doReboot [of K M ctx "startHeartbeat c"]
    by (auto simp: App_Start_def Let_def a_def [symmetric] b c split: prod.split option.split)
  then show ?thesis using heartbeat_doReconnect heartbeat_doReboot by blast
qed

text \<open>
  A reboot that fails leaves the bridge without a session, but the contact stamped by the reconnect
  before it is still fresh: with the default interval of 300 seconds the next tick reports the
  covers as available although the gateway cannot be reached and no heartbeat runs.
\<close>

lemma failed_reboot_reported_available:
  "let b = checkHealth (example_client 9) example_manager None (example_app '''' 0);
       c = checkHealth (example_client 9) example_manager None b
   in ap_wedged b \<and> ap_marks b = [False] \<and>
      ap_host c = 2 \<and> \<not> ap_heartbeat c \<and> \<not> ap_wedged c \<and> ap_marks c = [False, True]"
  by (simp add: example_app_def app_eval cong: app_cong)
end
