(* ===== verification/Gateway.thy ===== *)
theory Gateway
  imports Liveness Covers NodeLoading
begin

text \<open>
  The application on the client and the covers of this model. What the recovery relies on is two
  contracts on the client and the cover manager, stated as locales: when a session is up, and an
  invariant that every operation keeps. Both are interpreted on the client of \<open>Client\<close>, \<open>Api\<close> and
  \<open>NodeLoading\<close> with the manager of \<open>Bridge\<close>.
\<close>

section \<open>The contract of a session\<close>

lemma if_ok_None:
  assumes "fst (if_ok r k) = None" "\<And>b. fst (k b) = None \<Longrightarrow> P (snd (k b))"
  shows "P (snd (if_ok r k))"
  using assms by (cases r) (auto simp: if_ok_def split: option.splits)

lemma reconnect_loop_register:
  assumes "\<And>b. fst (call K None (\<lambda>_. cm_Register M) b) = None"
    "\<And>l. ex l \<notin> range re" "CtxDone \<notin> range re"
  shows "fst (reconnect_loop K M ctx re ex waits l a) \<notin> Some ` range re"
proof (induction waits arbitrary: l a)
  case (Cons w ws)
  obtain c b where w: "await_timer ctx w a = (c, b)" by fastforce
  obtain r d where d: "connectAndLoad K ctx b = (r, d)" by fastforce
  obtain f where "call K None (\<lambda>_. cm_Register M) d = (None, f)"
    using assms(1) [of d] by (metis prod.collapse)
  with Cons.IH assms(3) show ?case
    by (simp add: w d image_iff split: bool.split option.split)
next
  case Nil
  then show ?case using assms(2) by auto
qed

lemma doReboot_register:
  assumes "\<And>b. fst (call K None (\<lambda>_. cm_Register M) b) = None"
  shows "fst (doReboot K M ctx a) \<notin> Some ` range PostRebootRegister"
  unfolding doReboot_def Let_def by (rule reconnect_loop_register [OF assms]) auto

locale klf_session =
  fixes K :: "('s, 'e) klfClient"
    and M :: "('s, 'e) coverManager"
    and up :: "'s \<Rightarrow> bool"
  assumes Disconnect_down: "\<not> up (kc_Disconnect K s)"
    and LoadNodes_up: "fst (kc_LoadNodes K e s) = None \<Longrightarrow> up (snd (kc_LoadNodes K e s))"
    and Register_up: "up (snd (cm_Register M s)) = up s"
begin

lemma load_up:
  assumes "fst (if_ok (call K c (kc_LoadNodes K) b) (\<lambda>a. (None, recordContact a))) = None"
  shows "up (ap_host (snd (if_ok (call K c (kc_LoadNodes K) b) (\<lambda>a. (None, recordContact a)))))"
proof -
  obtain e where e: "fst (call K c (kc_LoadNodes K) b) = fst (kc_LoadNodes K e (ap_host b))"
    "ap_host (snd (call K c (kc_LoadNodes K) b)) = snd (kc_LoadNodes K e (ap_host b))"
    using call_host [of K c "kc_LoadNodes K" b] by blast
  show ?thesis
    using assms e LoadNodes_up [of e "ap_host b"]
    by (cases "call K c (kc_LoadNodes K) b") (auto simp: if_ok_def recordContact_def split: option.splits)
qed

lemma connectAndLoad_up:
  "fst (connectAndLoad K ctx a) = None \<Longrightarrow> up (ap_host (snd (connectAndLoad K ctx a)))"
  unfolding connectAndLoad_def Let_def
  by (erule if_ok_None [where P = "\<lambda>b. up (ap_host b)"], erule if_ok_None [where P = "\<lambda>b. up (ap_host b)"],
      rule load_up)

lemma register_up: "up (ap_host (snd (call K None (\<lambda>_. cm_Register M) a))) = up (ap_host a)"
  by (simp add: call_None_host Register_up)

lemma doReconnect_up:
  assumes "fst (doReconnect K M ctx a) = None"
  shows "up (ap_host (snd (doReconnect K M ctx a)))"
proof -
  define b where "b = on_host K (kc_Disconnect K) (stopHeartbeat a)"
  obtain r c where c: "connectAndLoad K ctx b = (r, c)" by fastforce
  obtain s d where d: "call K None (\<lambda>_. cm_Register M) c = (s, d)" by fastforce
  show ?thesis
    using assms connectAndLoad_up [of ctx b] register_up [of c]
    by (auto simp: doReconnect_def b_def [symmetric] c d if_ok_def split: option.splits)
qed

text \<open>The loop starts without a session; it ends with one exactly if an attempt succeeded.\<close>

lemma reconnect_loop_up:
  assumes "\<not> up (ap_host a)"
  shows "case reconnect_loop K M ctx re ex waits l a of
      (None, b) \<Rightarrow> up (ap_host b)
    | (Some e, b) \<Rightarrow> up (ap_host b) \<longrightarrow> e \<in> range re"
  using assms
proof (induction waits arbitrary: l a)
  case (Cons w ws)
  obtain c b where w: "await_timer ctx w a = (c, b)" by fastforce
  then have "ap_host b = ap_host a" by (auto simp: await_timer_def split: option.splits if_splits)
  with Cons.prems have nb: "\<not> up (ap_host b)" by simp
  obtain r d where d: "connectAndLoad K ctx b = (r, d)" by fastforce
  have "\<not> up (ap_host (on_host K (kc_Disconnect K) d))" by (simp add: on_host_host Disconnect_down)
  note IH = Cons.IH [OF this]
  obtain s f where f: "call K None (\<lambda>_. cm_Register M) d = (s, f)" by fastforce
  have u: "r = None \<Longrightarrow> up (ap_host f)"
    using connectAndLoad_up [of ctx b] register_up [of d] by (simp add: d f)
  show ?case
  proof (cases c)
    case True
    with nb show ?thesis by (simp add: w)
  next
    case False
    show ?thesis
    proof (cases r)
      case None
      with False u show ?thesis by (simp add: w d f split: option.split)
    next
      case (Some e)
      with False IH [of "Some e"] show ?thesis by (simp add: w d)
    qed
  qed
qed simp

lemma doReboot_up:
  "case doReboot K M ctx a of
      (None, b) \<Rightarrow> up (ap_host b)
    | (Some e, b) \<Rightarrow> up (ap_host b) \<longrightarrow> e \<in> range PostRebootRegister"
  unfolding doReboot_def Let_def by (rule reconnect_loop_up) (simp add: on_host_host Disconnect_down)

lemma doPowerCycle_up:
  assumes "fst (doPowerCycle K M ctx a) = None"
  shows "up (ap_host (snd (doPowerCycle K M ctx a)))"
proof -
  define rc where "rc = cf_Restart (ap_cfg a)"
  define b where "b = publishFn (rc_PowerCycleTopic rc) (rc_PowerCycleOffPayload rc) False
    (stopHeartbeat (a\<lparr> ap_lastPowerCycle := ap_now a \<rparr>))"
  obtain c d where w: "await_timer ctx (rc_PowerCycleOffSeconds rc * second) (on_host K (kc_Disconnect K) b) = (c, d)"
    by fastforce
  then have "ap_host d = ap_host (on_host K (kc_Disconnect K) b)"
    by (auto simp: await_timer_def split: option.splits if_splits)
  then have nd: "\<not> up (ap_host (publishFn x y z d))" for x y z
    by (simp add: publishFn_def on_host_host Disconnect_down)
  from reconnect_loop_up [OF nd, where ctx = ctx and re = PostPowerCycleRegister and ex = PowerCycleExhausted
      and waits = rebootBackoffSchedule and l = None, of "rc_PowerCycleTopic rc" "rc_PowerCycleOnPayload rc" False]
    assms show ?thesis
    by (auto simp: doPowerCycle_def Let_def rc_def [symmetric] b_def [symmetric] w split: bool.splits if_splits prod.splits)
qed

lemma App_Start_up:
  assumes "fst (App_Start K M ctx a) = None"
  shows "up (ap_host (snd (App_Start K M ctx a)))"
proof -
  obtain r b where b: "connectAndLoad K ctx (recordContact a) = (r, b)" by fastforce
  obtain s c where c: "call K None (\<lambda>_. cm_Register M) b = (s, c)" by fastforce
  show ?thesis
    using assms doPowerCycle_up [of ctx b] doReboot_up [of ctx "startHeartbeat c"]
    by (auto simp: App_Start_def Let_def b c split: option.splits prod.splits if_splits)
qed

lemma App_Stop_down: "\<not> up (ap_host (App_Stop K M a))"
  by (simp add: App_Stop_def Let_def on_host_host Disconnect_down)

end

section \<open>The contract of an invariant\<close>

locale klf_invariant =
  fixes K :: "('s, 'e) klfClient"
    and M :: "('s, 'e) coverManager"
    and inv :: "'s \<Rightarrow> bool"
  assumes inv_client: "inv s \<Longrightarrow> inv (snd (kc_Connect K e s))" "inv s \<Longrightarrow> inv (kc_Disconnect K s)"
      "inv s \<Longrightarrow> inv (snd (kc_PasswordEnter K p e s))" "inv s \<Longrightarrow> inv (snd (kc_SetUTC K t e s))"
      "inv s \<Longrightarrow> inv (snd (kc_HouseStatusMonitorEnable K e s))"
      "inv s \<Longrightarrow> inv (snd (kc_LoadNodes K e s))" "inv s \<Longrightarrow> inv (snd (kc_Reboot K e s))"
    and inv_manager: "inv s \<Longrightarrow> inv (snd (cm_Register M s))" "inv s \<Longrightarrow> inv (cm_MarkAllUnavailable M s)"
      "inv s \<Longrightarrow> inv (cm_MarkAllAvailable M s)" "inv s \<Longrightarrow> inv (cm_CloseAll M s)"
begin

lemma inv_call: "(\<And>e s. inv s \<Longrightarrow> inv (snd (op e s))) \<Longrightarrow> inv (ap_host a) \<Longrightarrow> inv (ap_host (snd (call K ctx op a)))"
  using call_host [of K ctx op a] by metis

lemma inv_on_host: "(\<And>s. inv s \<Longrightarrow> inv (g s)) \<Longrightarrow> inv (ap_host a) \<Longrightarrow> inv (ap_host (on_host K g a))"
  by (simp add: on_host_host)

lemma inv_if_ok:
  assumes "inv (ap_host (snd r))" "\<And>b. inv (ap_host b) \<Longrightarrow> inv (ap_host (snd (k b)))"
  shows "inv (ap_host (snd (if_ok r k)))"
  using assms by (cases r) (auto simp: if_ok_def split: option.split)

lemma inv_updates [simp]:
  "ap_host (recordContact a) = ap_host a" "ap_host (publishFn x y z a) = ap_host a"
  "ap_host (snd (await_timer ctx w a)) = ap_host a"
  by (simp_all add: recordContact_def publishFn_def await_timer_def split: option.split)

lemma inv_connectAndLoad: "inv (ap_host a) \<Longrightarrow> inv (ap_host (snd (connectAndLoad K ctx a)))"
  unfolding connectAndLoad_def Let_def
  by (intro inv_if_ok inv_call inv_client) (simp_all add: inv_client inv_call)

lemma inv_doReconnect: "inv (ap_host a) \<Longrightarrow> inv (ap_host (snd (doReconnect K M ctx a)))"
  unfolding doReconnect_def Let_def
  by (intro inv_if_ok inv_call inv_connectAndLoad inv_on_host) (simp_all add: inv_client inv_manager)

lemma inv_reconnect_loop:
  "inv (ap_host a) \<Longrightarrow> inv (ap_host (snd (reconnect_loop K M ctx re ex waits l a)))"
proof (induction waits arbitrary: l a)
  case (Cons w ws)
  obtain c b where w: "await_timer ctx w a = (c, b)" by fastforce
  with Cons.prems inv_updates(3) [of ctx w a] have b: "inv (ap_host b)" by simp
  obtain r d where d: "connectAndLoad K ctx b = (r, d)" by fastforce
  with inv_connectAndLoad [OF b, of ctx] have id: "inv (ap_host d)" by simp
  obtain s f where f: "call K None (\<lambda>_. cm_Register M) d = (s, f)" by fastforce
  with inv_call [where op = "\<lambda>_. cm_Register M" and ctx = None, OF inv_manager(1) id]
  have "inv (ap_host f)" by simp
  with b Cons.IH [of "on_host K (kc_Disconnect K) d"] inv_on_host [OF inv_client(2) id]
  show ?case by (simp add: w d f split: bool.split option.split)
qed simp

lemma inv_doReboot: "inv (ap_host a) \<Longrightarrow> inv (ap_host (snd (doReboot K M ctx a)))"
  unfolding doReboot_def Let_def
  by (intro inv_reconnect_loop inv_on_host inv_call) (simp_all add: inv_client)

lemma inv_doPowerCycle:
  assumes "inv (ap_host a)"
  shows "inv (ap_host (snd (doPowerCycle K M ctx a)))"
proof -
  define rc where "rc = cf_Restart (ap_cfg a)"
  define b where "b = publishFn (rc_PowerCycleTopic rc) (rc_PowerCycleOffPayload rc) False
    (stopHeartbeat (a\<lparr> ap_lastPowerCycle := ap_now a \<rparr>))"
  obtain c d where w: "await_timer ctx (rc_PowerCycleOffSeconds rc * second) (on_host K (kc_Disconnect K) b) = (c, d)"
    by fastforce
  have "inv (ap_host b)" using assms by (simp add: b_def)
  from inv_on_host [OF inv_client(2) this] inv_updates(3) [of ctx "rc_PowerCycleOffSeconds rc * second"
      "on_host K (kc_Disconnect K) b"]
  have "inv (ap_host d)" by (simp add: w)
  then have "inv (ap_host (publishFn x y z d))" for x y z by simp
  note this inv_reconnect_loop [OF this]
  with assms show ?thesis
    by (auto simp: doPowerCycle_def Let_def rc_def [symmetric] b_def [symmetric] w split: bool.split)
qed

lemma inv_mark: "inv (ap_host a) \<Longrightarrow> inv (ap_host (mark K M x a))"
  using inv_on_host [of "if x then cm_MarkAllAvailable M else cm_MarkAllUnavailable M" a] inv_manager
  by (simp add: mark_def Let_def)

lemma inv_restore: "inv (ap_host a) \<Longrightarrow> inv (ap_host (restore K M a))"
  by (simp add: restore_def inv_mark)

lemma inv_mark_wedged: "inv (ap_host a) \<Longrightarrow> inv (ap_host (mark_wedged K M a))"
  by (simp add: mark_wedged_def inv_mark)

lemma inv_escalate: "inv (ap_host a) \<Longrightarrow> inv (ap_host (escalateToPowerCycle K M ctx a))"
  using inv_doPowerCycle [of a ctx]
  by (cases "doPowerCycle K M ctx a") (simp add: escalateToPowerCycle_def inv_restore split: option.split)

lemma inv_checkHealth:
  assumes "inv (ap_host a)"
  shows "inv (ap_host (checkHealth K M ctx a))"
proof -
  define b where "b = mark_wedged K M a"
  have b: "inv (ap_host b)" unfolding b_def by (rule inv_mark_wedged [OF assms])
  obtain r c where c: "doReconnect K M ctx b = (r, c)" by fastforce
  with inv_doReconnect [OF b, of ctx] have ic: "inv (ap_host c)" by simp
  obtain s d where d: "doReboot K M ctx c = (s, d)" by fastforce
  with inv_doReboot [OF ic, of ctx] have "inv (ap_host d)" by simp
  with assms b ic show ?thesis
    by (simp add: checkHealth_def Let_def b_def [symmetric] c d inv_restore inv_escalate split: option.split)
qed

lemma inv_runPeriodicRestart:
  assumes "inv (ap_host a)"
  shows "inv (ap_host (runPeriodicRestart K M ctx a))"
proof -
  obtain r c where c: "doPowerCycle K M ctx a = (r, c)" by fastforce
  with inv_doPowerCycle [OF assms, of ctx] have "inv (ap_host c)" by simp
  with inv_doReboot [OF assms, of ctx] inv_doReboot [OF this, of ctx] show ?thesis
    by (simp add: runPeriodicRestart_def c split: option.split app_error.split)
qed

lemma inv_App_Start:
  assumes "inv (ap_host a)"
  shows "inv (ap_host (snd (App_Start K M ctx a)))"
proof -
  have "inv (ap_host (recordContact a))" using assms by simp
  moreover obtain r b where b: "connectAndLoad K ctx (recordContact a) = (r, b)" by fastforce
  ultimately have ib: "inv (ap_host b)" using inv_connectAndLoad [of "recordContact a" ctx] by simp
  obtain s c where c: "call K None (\<lambda>_. cm_Register M) b = (s, c)" by fastforce
  with inv_call [where op = "\<lambda>_. cm_Register M" and ctx = None, OF inv_manager(1) ib]
  have ic: "inv (ap_host c)" by simp
  then have "inv (ap_host (startHeartbeat c))" by simp
  from ib ic inv_doReboot [OF this, of ctx] inv_doPowerCycle [OF ib, of ctx] show ?thesis
    by (auto simp: App_Start_def Let_def b c split: option.split prod.split)
qed

end

section \<open>The model's own client\<close>

text \<open>
  The gateway as the application sees it: the client with its covers, and the outcomes of the
  connection attempts to come. A context that ends first makes a dial fail and a call time out.
\<close>

record klf_host =
  gw_sys :: system
  gw_dials :: "bool list"

datatype gateway_error = ConnectFailed conn_error | CallFailed client_error

definition expire :: "system \<Rightarrow> system" where
  "expire c = c\<lparr> cl_script := (next_exchange c)\<lparr> ex_end := SelCtx \<rparr> # drop 1 (cl_script c) \<rparr>"

definition gateway_connect :: "bool \<Rightarrow> klf_host \<Rightarrow> gateway_error option \<times> klf_host" where
  "gateway_connect expired g =
     (let ok = \<not> expired \<and> (case gw_dials g of [] \<Rightarrow> False | d # ds \<Rightarrow> d);
          (e, c) = Client_Connect ok (gw_sys g)
      in (map_option ConnectFailed e, g\<lparr> gw_sys := c, gw_dials := drop 1 (gw_dials g) \<rparr>))"

definition gateway_call ::
    "(system \<Rightarrow> (client_error + unit) \<times> system) \<Rightarrow> bool \<Rightarrow> klf_host \<Rightarrow> gateway_error option \<times> klf_host" where
  "gateway_call op expired g =
     (let (r, c) = op (if expired then expire (gw_sys g) else gw_sys g)
      in (case r of Inl e \<Rightarrow> Some (CallFailed e) | Inr _ \<Rightarrow> None, g\<lparr> gw_sys := c \<rparr>))"

text \<open>The contact stamper of \<open>newApp\<close> sees every frame that reaches the dispatch.\<close>

definition gateway_contacts :: "klf_host \<Rightarrow> nat" where
  "gateway_contacts g =
     length (filter (\<lambda>(cb, f). cb = UpdaterDispatch) (cs_delivered (cl_conn (gw_sys g))))"

definition gateway_client :: "(klf_host, gateway_error) klfClient" where
  "gateway_client =
     \<lparr> kc_Connect = gateway_connect,
       kc_Disconnect = (\<lambda>g. g\<lparr> gw_sys := Client_Disconnect (gw_sys g) \<rparr>),
       kc_PasswordEnter = (\<lambda>password. gateway_call (Client_PasswordEnter password)),
       kc_SetUTC = (\<lambda>t. gateway_call (Client_SetUTC (t div second) (t div second))),
       kc_HouseStatusMonitorEnable = gateway_call HouseStatusMonitorEnable,
       kc_LoadNodes = gateway_call Client_LoadNodes,
       kc_Reboot = gateway_call Client_Reboot,
       kc_contacts = gateway_contacts \<rparr>"

definition on_covers :: "(bridge \<Rightarrow> bridge) \<Rightarrow> klf_host \<Rightarrow> klf_host" where
  "on_covers f g = g\<lparr> gw_sys := (gw_sys g)\<lparr> cl_nodes := f (cl_nodes (gw_sys g)) \<rparr> \<rparr>"

text \<open>\<open>Register\<close> fails only where the JSON encoder does, which it never does on these payloads.\<close>

definition gateway_manager :: "(nat \<Rightarrow> nat) \<Rightarrow> (klf_host, gateway_error) coverManager" where
  "gateway_manager upper_table =
     \<lparr> cm_Register = (\<lambda>g. (None, on_covers (Manager_Register upper_table) g)),
       cm_MarkAllUnavailable = on_covers MarkAllUnavailable,
       cm_MarkAllAvailable = on_covers MarkAllAvailable,
       cm_CloseAll = on_covers CloseAll \<rparr>"

text \<open>The processors that \<open>newApp\<close> registers: the node updater and the contact stamper.\<close>

definition node_updater :: "frame \<Rightarrow> bridge \<Rightarrow> bridge" where
  "node_updater f b = deliver (processFrame f b)"

definition contact_stamper :: "frame \<Rightarrow> bridge \<Rightarrow> bridge" where
  "contact_stamper f b = b"

definition new_gateway :: "Config \<Rightarrow> exchange list \<Rightarrow> bool list \<Rightarrow> klf_host" where
  "new_gateway cfg script dials =
     (let c = NewClient (vc_Host (cf_Velux cfg)) (vc_Password (cf_Velux cfg)) [] (NewManager cfg (NewMQTT cfg));
          c = RegisterNodeUpdater (Some node_updater) c;
          c = RegisterNodeUpdater (Some contact_stamper) c
      in \<lparr> gw_sys = c\<lparr> cl_script := script \<rparr>, gw_dials = dials \<rparr>)"

definition gateway_up :: "klf_host \<Rightarrow> bool" where
  "gateway_up g \<longleftrightarrow> cs_connected (cl_conn (gw_sys g)) \<and> cs_tlsConn (cl_conn (gw_sys g)) \<noteq> None"

definition gateway_inv :: "klf_host \<Rightarrow> bool" where
  "gateway_inv g \<longleftrightarrow> client_inv (gw_sys g) \<and> cl_nodeUpdaters (gw_sys g) = [node_updater, contact_stamper]"

subsection \<open>The laws\<close>

lemma APICall_up:
  assumes "fst (APICall request h s c) = None"
  shows "cs_connected (cl_conn (snd (snd (APICall request h s c)))) \<and>
    cs_tlsConn (cl_conn (snd (snd (APICall request h s c)))) \<noteq> None"
  using assms
  by (cases rule: APICall_cases [of request c h s])
    (auto simp: select_result_def registered_def sendable_def UnregisterFrameReceivedCB_def fold_receive_conn
      fold_dispatch split: call_end.splits)

lemma finish_client: "snd (finish r k) = snd (snd r)"
  by (simp add: finish_def split: prod.split)

lemma LoadNodes_calls:
  "cl_conn (snd (Client_LoadNodes c)) = cl_conn (snd (LoadAllNodes c))"
  "fst (Client_LoadNodes c) = Inr () \<Longrightarrow>
     fst (APICall (NodesFrame (FrGetAllNodesInformationRequest ())) load_all_handler (-1, []) c) = None"
  by (auto simp: Client_LoadNodes_def LoadAllNodes_def finish_def Let_def
      split: prod.splits option.splits sum.splits)

lemma Client_Disconnect_down: "\<not> gateway_up (g\<lparr> gw_sys := Client_Disconnect c \<rparr>)"
  by (auto simp: gateway_up_def Client_Disconnect_def Let_def Conn_Disconnect_def Disconnect_begin_def
      Disconnect_end_def UnregisterFrameReceivedCB_def split: option.split)

interpretation gs: klf_session gateway_client "gateway_manager u" gateway_up for u
proof unfold_locales
  fix g e
  show "\<not> gateway_up (kc_Disconnect gateway_client g)"
    by (simp add: gateway_client_def Client_Disconnect_down)
  show "gateway_up (snd (kc_LoadNodes gateway_client e g))"
    if "fst (kc_LoadNodes gateway_client e g) = None"
  proof -
    define c where "c = (if e then expire (gw_sys g) else gw_sys g)"
    have "fst (Client_LoadNodes c) = Inr ()"
      using that by (auto simp: gateway_client_def gateway_call_def c_def [symmetric] split: prod.splits sum.splits)
    from APICall_up [OF LoadNodes_calls(2) [OF this]]
    have "cs_connected (cl_conn (snd (Client_LoadNodes c))) \<and> cs_tlsConn (cl_conn (snd (Client_LoadNodes c))) \<noteq> None"
      by (simp add: LoadNodes_calls(1) LoadAllNodes_def finish_client)
    then show ?thesis
      by (cases "Client_LoadNodes c") (simp add: gateway_client_def gateway_call_def c_def [symmetric] gateway_up_def)
  qed
  show "gateway_up (snd (cm_Register (gateway_manager u) g)) = gateway_up g"
    by (simp add: gateway_manager_def on_covers_def gateway_up_def)
qed

text \<open>The operations are one call each, so they keep what a call keeps.\<close>

definition call_like :: "(system \<Rightarrow> (client_error + unit) \<times> system) \<Rightarrow> bool" where
  "call_like op \<longleftrightarrow> (\<forall>c. (client_inv c \<longrightarrow> client_inv (snd (op c))) \<and>
     cl_nodeUpdaters (snd (op c)) = cl_nodeUpdaters c)"

lemma call_like_ops:
  "call_like (Client_PasswordEnter p)" "call_like (Client_SetUTC n t)" "call_like HouseStatusMonitorEnable"
  "call_like Client_Reboot"
  by (simp_all add: call_like_def Client_PasswordEnter_def Client_SetUTC_def Let_def HouseStatusMonitorEnable_def
      Client_Reboot_def finish_client client_inv_APICall)

lemma call_like_LoadNodes: "call_like Client_LoadNodes"
proof -
  have "client_inv (snd (Client_LoadNodes c))" if "client_inv c" for c :: system
  proof -
    from that have "client_inv (snd (LoadAllNodes c))"
      by (simp add: LoadAllNodes_def finish_client client_inv_APICall)
    then show ?thesis
      by (cases "LoadAllNodes c") (simp add: Client_LoadNodes_def client_inv_def split: sum.split)
  qed
  moreover have "cl_nodeUpdaters (snd (Client_LoadNodes c)) = cl_nodeUpdaters c" for c :: system
  proof -
    have "cl_nodeUpdaters (snd (LoadAllNodes c)) = cl_nodeUpdaters c"
      by (simp add: LoadAllNodes_def finish_client)
    then show ?thesis
      by (cases "LoadAllNodes c") (simp add: Client_LoadNodes_def split: sum.split)
  qed
  ultimately show ?thesis by (simp add: call_like_def)
qed

lemma gateway_inv_call:
  assumes "call_like op" "gateway_inv g"
  shows "gateway_inv (snd (gateway_call op e g))"
proof -
  define c where "c = (if e then expire (gw_sys g) else gw_sys g)"
  have c: "client_inv c" "cl_nodeUpdaters c = [node_updater, contact_stamper]"
    using assms(2) by (simp_all add: c_def gateway_inv_def expire_def client_inv_def)
  obtain r d where d: "op c = (r, d)" by fastforce
  have "client_inv (snd (op c))" "cl_nodeUpdaters (snd (op c)) = cl_nodeUpdaters c"
    using assms(1) c(1) unfolding call_like_def by simp_all
  with c(2) have "client_inv d" "cl_nodeUpdaters d = [node_updater, contact_stamper]" by (simp_all add: d)
  then show ?thesis by (simp add: gateway_call_def c_def [symmetric] gateway_inv_def d)
qed

lemma gateway_inv_connect: "gateway_inv g \<Longrightarrow> gateway_inv (snd (gateway_connect e g))"
proof -
  assume g: "gateway_inv g"
  define ok where "ok = (\<not> e \<and> (case gw_dials g of [] \<Rightarrow> False | d # ds \<Rightarrow> d))"
  have "client_inv (snd (Client_Connect ok (gw_sys g)))"
    using g by (simp add: gateway_inv_def client_inv_Connect)
  moreover have "cl_nodeUpdaters (snd (Client_Connect ok (gw_sys g))) = cl_nodeUpdaters (gw_sys g)"
    by (simp add: Client_Connect_def installUpdaterDispatch_def Let_def split: prod.split option.split)
  ultimately show ?thesis
    using g by (cases "Client_Connect ok (gw_sys g)") (simp add: gateway_connect_def ok_def [symmetric] gateway_inv_def Let_def)
qed

lemma gateway_inv_disconnect: "gateway_inv g \<Longrightarrow> gateway_inv (g\<lparr> gw_sys := Client_Disconnect (gw_sys g) \<rparr>)"
  by (simp add: gateway_inv_def client_inv_Disconnect) (simp add: Client_Disconnect_def Let_def)

lemma gateway_inv_covers: "gateway_inv g \<Longrightarrow> gateway_inv (on_covers f g)"
  by (simp add: gateway_inv_def on_covers_def client_inv_def)

interpretation gi: klf_invariant gateway_client "gateway_manager u" gateway_inv for u
  by unfold_locales
    (simp_all add: gateway_client_def gateway_manager_def gateway_inv_connect gateway_inv_disconnect
      gateway_inv_call call_like_ops call_like_LoadNodes gateway_inv_covers)

lemma gateway_inv_new: "gateway_inv (new_gateway cfg script dials)"
  using client_inv_NewClient [of "[]" "vc_Host (cf_Velux cfg)" "vc_Password (cf_Velux cfg)"
      "NewManager cfg (NewMQTT cfg)"]
  by (simp add: new_gateway_def Let_def gateway_inv_def client_inv_def RegisterNodeUpdater_def)
    (simp add: NewClient_def)

section \<open>The application on this client\<close>

text \<open>
  A tick of the health check, a turn of the restart loop, time, and everything the client does in
  between: commands, frames, and the loss of the connection; only \<open>newApp\<close> registers processors.
\<close>

inductive gateway_step :: "(nat \<Rightarrow> nat) \<Rightarrow> klf_host app \<Rightarrow> klf_host app \<Rightarrow> bool" for u where
  health: "gateway_step u a (checkHealth gateway_client (gateway_manager u) None a)"
| periodic: "gateway_step u a (runPeriodicRestart gateway_client (gateway_manager u) None a)"
| time_passes: "gateway_step u a (a\<lparr> ap_now := ap_now a + int d \<rparr>)"
| client: "client_step (gw_sys (ap_host a)) c \<Longrightarrow> cl_nodeUpdaters c = cl_nodeUpdaters (gw_sys (ap_host a)) \<Longrightarrow>
    gateway_step u a (a\<lparr> ap_host := (ap_host a)\<lparr> gw_sys := c \<rparr> \<rparr>)"

lemma gateway_step_inv: "gateway_step u a b \<Longrightarrow> gateway_inv (ap_host a) \<Longrightarrow> gateway_inv (ap_host b)"
proof (induction rule: gateway_step.induct)
  case (client a c)
  then show ?case using client_inv_step [of "gw_sys (ap_host a)" c] by (simp add: gateway_inv_def)
qed (simp_all add: gi.inv_checkHealth gi.inv_runPeriodicRestart)



lemma case_reported:
  "(fst x = None \<Longrightarrow> P (snd x)) \<Longrightarrow> (case x of (None, b) \<Rightarrow> P b | (Some e, b) \<Rightarrow> True)"
  by (cases x; cases "fst x") auto

text \<open>
  C19: A session is what the paths report. A reboot ends with the client connected exactly if it
  reports success; a reconnect, a power cycle or a start that reports success leaves it connected;
  and after a stop it is disconnected, whatever happened before.
\<close>

theorem session_iff_reported:
  "gateway_up (ap_host (snd (doReboot gateway_client (gateway_manager u) ctx a))) =
     (fst (doReboot gateway_client (gateway_manager u) ctx a) = None) \<and>
   (case doReconnect gateway_client (gateway_manager u) ctx a of (None, b) \<Rightarrow> gateway_up (ap_host b) | (Some e, b) \<Rightarrow> True) \<and>
   (case doPowerCycle gateway_client (gateway_manager u) ctx a of (None, b) \<Rightarrow> gateway_up (ap_host b) | (Some e, b) \<Rightarrow> True) \<and>
   (case App_Start gateway_client (gateway_manager u) ctx a of (None, b) \<Rightarrow> gateway_up (ap_host b) | (Some e, b) \<Rightarrow> True) \<and>
   \<not> gateway_up (ap_host (App_Stop gateway_client (gateway_manager u) a))"
proof -
  have "fst (call gateway_client None (\<lambda>_. cm_Register (gateway_manager u)) b) = None" for b
    by (simp add: call_None_host gateway_manager_def)
  from doReboot_register [OF this]
  have n: "fst (doReboot gateway_client (gateway_manager u) ctx a) \<notin> Some ` range PostRebootRegister" .
  obtain r b where rb: "doReboot gateway_client (gateway_manager u) ctx a = (r, b)" by fastforce
  have "gateway_up (ap_host b) = (r = None)"
    using gs.doReboot_up [of u ctx a] n by (auto simp: rb split: option.splits)
  then show ?thesis
    using gs.doReconnect_up [of u ctx a] gs.doPowerCycle_up [of u ctx a] gs.App_Start_up [of u ctx a]
      gs.App_Stop_down [of u a]
    by (intro conjI case_reported [where P = "\<lambda>b. gateway_up (ap_host b)"]) (simp_all add: rb)
qed

end
