(* ===== verification/Outage.thy ===== *)
theory Outage
  imports Gateway
begin

text \<open>
  The recovery of \<^verbatim>\<open>src/app/app.go\<close> on the client of this model, during an outage of the gateway. The
  gateway is given by the frames it sends after each request; a number of dials fail before it can
  be reached, and again after a reboot. The contract \<open>klf_outage\<close> of \<open>Liveness\<close> is interpreted on the
  client of \<open>Gateway\<close> talking to it.
\<close>

section \<open>A gateway that answers\<close>

text \<open>\<open>reply request\<close>: the frames dispatched while the call with \<open>request\<close> waits.\<close>

type_synonym gateway_replies = "frame \<Rightarrow> frame list"

definition supplied :: "frame list \<Rightarrow> klf_host \<Rightarrow> klf_host" where
  "supplied fs g = g\<lparr> gw_sys := (gw_sys g)\<lparr> cl_script :=
     [\<lparr> ex_write = True, ex_frames = fs, ex_end = SelDone \<rparr>] \<rparr> \<rparr>"

text \<open>The dials listed first; then every dial succeeds. A reboot makes the next \<open>n\<close> dials fail.\<close>

definition answered_client :: "gateway_replies \<Rightarrow> nat \<Rightarrow> (klf_host, gateway_error) klfClient" where
  "answered_client reply n =
     gateway_client
       \<lparr> kc_Connect := (\<lambda>e g. kc_Connect gateway_client e
            (if gw_dials g = [] then g\<lparr> gw_dials := [True] \<rparr> else g)),
         kc_PasswordEnter := (\<lambda>p e g. kc_PasswordEnter gateway_client p e
            (supplied (reply (AuthFrame (FrPasswordEnterRequest \<lparr> per_Password = p \<rparr>))) g)),
         kc_SetUTC := (\<lambda>t e g. kc_SetUTC gateway_client t e
            (supplied (reply (AuthFrame (FrSetUTCRequest \<lparr> sur_Timestamp = word_of_int (t div second) \<rparr>))) g)),
         kc_HouseStatusMonitorEnable := (\<lambda>e g. kc_HouseStatusMonitorEnable gateway_client e
            (supplied (reply (LimitationFrame (FrHouseStatusMonitorEnableRequest ()))) g)),
         kc_LoadNodes := (\<lambda>e g. kc_LoadNodes gateway_client e
            (supplied (reply (NodesFrame (FrGetAllNodesInformationRequest ()))) g)),
         kc_Reboot := (\<lambda>e g. let (r, g) = kc_Reboot gateway_client e
              (supplied (reply (AuthFrame (FrGatewayRebootRequest ()))) g)
            in (r, g\<lparr> gw_dials := replicate n False \<rparr>)) \<rparr>"

text \<open>The password is accepted, and the node table is sent to its end. Nothing else is needed.\<close>

definition answers :: "string \<Rightarrow> gateway_replies \<Rightarrow> bool" where
  "answers password reply \<longleftrightarrow>
     (let sts = List.map_filter
           (\<lambda>f. case f of AuthFrame (FrPasswordEnterConfirmation g) \<Rightarrow> Some (pec_Status g) | _ \<Rightarrow> None)
           (reply (AuthFrame (FrPasswordEnterRequest \<lparr> per_Password = password \<rparr>)))
      in sts \<noteq> [] \<and> last sts = 0) \<and>
     list_ex all_nodes_finished (reply (NodesFrame (FrGetAllNodesInformationRequest ())))"

definition reachable_later :: "string \<Rightarrow> gateway_replies \<Rightarrow> klf_host \<Rightarrow> bool" where
  "reachable_later password reply g \<longleftrightarrow>
     answers password reply \<and> password \<noteq> '''' \<and> length password \<le> 32 \<and> gateway_inv g \<and> True \<notin> set (gw_dials g)"

definition no_connection :: "klf_host \<Rightarrow> bool" where
  "no_connection g \<longleftrightarrow> \<not> cs_connected (cl_conn (gw_sys g))"

definition in_session :: "klf_host \<Rightarrow> bool" where
  "in_session g \<longleftrightarrow> gw_dials g = [] \<and> gateway_up g \<and> cl_updaterSet (gw_sys g)"

definition answered :: "string \<Rightarrow> gateway_replies \<Rightarrow> klf_host \<Rightarrow> bool" where
  "answered password reply g \<longleftrightarrow> reachable_later password reply g \<and> in_session g"

definition refused_dials :: "klf_host \<Rightarrow> nat" where
  "refused_dials g = length (gw_dials g)"

section \<open>The laws\<close>

lemma APICall_connected:
  assumes "ex_end (next_exchange c) \<noteq> SelLost"
  shows "cs_connected (cl_conn (snd (snd (APICall request h s c)))) = cs_connected (cl_conn c)"
    "cs_tlsConn (cl_conn (snd (snd (APICall request h s c)))) = cs_tlsConn (cl_conn c)"
  using assms
  by (cases rule: APICall_cases [of request c h s];
      simp add: registered_def UnregisterFrameReceivedCB_def fold_receive_conn fold_dispatch)+

text \<open>An operation that is one call leaves a session that is not lost.\<close>

definition keeps_session :: "(system \<Rightarrow> (client_error + unit) \<times> system) \<Rightarrow> bool" where
  "keeps_session op \<longleftrightarrow> (\<forall>c. ex_end (next_exchange c) = SelDone \<longrightarrow>
     cs_connected (cl_conn (snd (op c))) = cs_connected (cl_conn c) \<and>
     cs_tlsConn (cl_conn (snd (op c))) = cs_tlsConn (cl_conn c) \<and>
     cl_updaterSet (snd (op c)) = cl_updaterSet c)"

lemma keeps_session_ops:
  "keeps_session (Client_PasswordEnter p)" "keeps_session (Client_SetUTC n t)"
  "keeps_session HouseStatusMonitorEnable" "keeps_session Client_Reboot"
  by (simp_all add: keeps_session_def Client_PasswordEnter_def Client_SetUTC_def Let_def HouseStatusMonitorEnable_def
      Client_Reboot_def finish_client APICall_connected)

lemma keeps_session_LoadNodes: "keeps_session Client_LoadNodes"
  unfolding keeps_session_def
proof (intro allI impI)
  fix c :: system
  assume "ex_end (next_exchange c) = SelDone"
  moreover have "cl_updaterSet (snd (Client_LoadNodes c)) = cl_updaterSet (snd (LoadAllNodes c))"
    by (cases "LoadAllNodes c") (simp add: Client_LoadNodes_def split: sum.split)
  ultimately show "cs_connected (cl_conn (snd (Client_LoadNodes c))) = cs_connected (cl_conn c) \<and>
     cs_tlsConn (cl_conn (snd (Client_LoadNodes c))) = cs_tlsConn (cl_conn c) \<and>
     cl_updaterSet (snd (Client_LoadNodes c)) = cl_updaterSet c"
    by (simp add: LoadNodes_calls(1) LoadAllNodes_def finish_client APICall_connected)
qed

lemma supplied_fields [simp]:
  "gw_dials (supplied fs g) = gw_dials g" "gateway_inv (supplied fs g) = gateway_inv g"
  "gateway_up (supplied fs g) = gateway_up g" "cl_updaterSet (gw_sys (supplied fs g)) = cl_updaterSet (gw_sys g)"
  "next_exchange (gw_sys (supplied fs g)) = \<lparr> ex_write = True, ex_frames = fs, ex_end = SelDone \<rparr>"
  "in_session (supplied fs g) = in_session g"
  by (simp_all add: supplied_def gateway_inv_def client_inv_def gateway_up_def next_exchange_def in_session_def)

lemma online_supplied: "gateway_up g \<Longrightarrow> online (gw_sys (supplied fs g))"
  using supplied_fields(5) [of fs g] by (simp add: gateway_up_def online_def) (simp add: supplied_def)

lemma gateway_call_fields:
  "fst (gateway_call op False g) = None \<longleftrightarrow> fst (op (gw_sys g)) = Inr ()"
  "gw_sys (snd (gateway_call op False g)) = snd (op (gw_sys g))"
  "gw_dials (snd (gateway_call op False g)) = gw_dials g"
  by (simp_all add: gateway_call_def split: prod.split sum.split)

lemma call_answered_host:
  assumes "call_like op" "keeps_session op" "answered password reply g"
  shows "answered password reply (snd (gateway_call op False (supplied fs g)))"
proof -
  have g: "reachable_later password reply g" "gateway_inv (supplied fs g)" "gateway_up (supplied fs g)"
    "gw_dials g = []" "cl_updaterSet (gw_sys g)"
    using assms(3) by (simp_all add: answered_def reachable_later_def in_session_def)
  note gateway_inv_call [OF assms(1) g(2), of False]
  moreover have "cs_connected (cl_conn (snd (op (gw_sys (supplied fs g))))) = cs_connected (cl_conn (gw_sys (supplied fs g)))"
    "cs_tlsConn (cl_conn (snd (op (gw_sys (supplied fs g))))) = cs_tlsConn (cl_conn (gw_sys (supplied fs g)))"
    "cl_updaterSet (snd (op (gw_sys (supplied fs g)))) = cl_updaterSet (gw_sys (supplied fs g))"
    using assms(2) supplied_fields(5) [of fs g] unfolding keeps_session_def by simp_all
  ultimately show ?thesis
    using g by (simp add: answered_def reachable_later_def in_session_def gateway_call_fields gateway_up_def)
qed

lemma password_accepted:
  assumes "answered password reply g"
  shows "fst (Client_PasswordEnter password (gw_sys
    (supplied (reply (AuthFrame (FrPasswordEnterRequest \<lparr> per_Password = password \<rparr>))) g))) = Inr ()"
  using assms
  by (simp add: PasswordEnter_succeeds_iff online_supplied answers_def answered_def reachable_later_def in_session_def)

lemma nodes_loaded:
  assumes "answered password reply g"
  shows "fst (Client_LoadNodes (gw_sys (supplied (reply (NodesFrame (FrGetAllNodesInformationRequest ()))) g))) = Inr ()"
  using assms
  by (simp add: LoadNodes_succeeds_iff online_supplied answers_def answered_def reachable_later_def in_session_def list_ex_iff)

lemma dial_opens:
  assumes "no_connection g" "gw_dials g = [True]"
  shows "fst (gateway_connect False g) = None" "in_session (snd (gateway_connect False g))"
  using assms
  by (simp_all add: gateway_connect_def Client_Connect_def Conn_Connect_def Connect_check_def Connect_install_def
      Let_def in_session_def gateway_up_def installUpdaterDispatch_def RegisterFrameReceivedCB_def no_connection_def)

lemma dial_refused:
  assumes "no_connection g" "gw_dials g = False # ds"
  shows "fst (gateway_connect False g) \<noteq> None"
  using assms by (simp add: gateway_connect_def Client_Connect_def Conn_Connect_def Connect_check_def no_connection_def)

lemma connect_dials: "gw_dials (snd (gateway_connect e g)) = drop 1 (gw_dials g)"
  by (simp add: gateway_connect_def Let_def split: prod.split)

lemma disconnected_host: "no_connection (g\<lparr> gw_sys := Client_Disconnect c \<rparr>)"
  by (simp add: no_connection_def Client_Disconnect_def Let_def Conn_Disconnect_def Disconnect_begin_def
      Disconnect_end_def split: option.split)

lemma covers_fields:
  "gw_dials (on_covers f g) = gw_dials g" "gateway_inv (on_covers f g) = gateway_inv g"
  "gateway_up (on_covers f g) = gateway_up g" "cl_updaterSet (gw_sys (on_covers f g)) = cl_updaterSet (gw_sys g)"
  by (simp_all add: on_covers_def gateway_inv_def client_inv_def gateway_up_def)

lemma answered_client_simps:
  "kc_Connect (answered_client reply n) = (\<lambda>e g. gateway_connect e (if gw_dials g = [] then g\<lparr> gw_dials := [True] \<rparr> else g))"
  "kc_Disconnect (answered_client reply n) = (\<lambda>g. g\<lparr> gw_sys := Client_Disconnect (gw_sys g) \<rparr>)"
  "kc_PasswordEnter (answered_client reply n) p e g = gateway_call (Client_PasswordEnter p) e
     (supplied (reply (AuthFrame (FrPasswordEnterRequest \<lparr> per_Password = p \<rparr>))) g)"
  "kc_SetUTC (answered_client reply n) t e g = gateway_call (Client_SetUTC (t div second) (t div second)) e
     (supplied (reply (AuthFrame (FrSetUTCRequest \<lparr> sur_Timestamp = word_of_int (t div second) \<rparr>))) g)"
  "kc_HouseStatusMonitorEnable (answered_client reply n) e g = gateway_call HouseStatusMonitorEnable e
     (supplied (reply (LimitationFrame (FrHouseStatusMonitorEnableRequest ()))) g)"
  "kc_LoadNodes (answered_client reply n) e g = gateway_call Client_LoadNodes e
     (supplied (reply (NodesFrame (FrGetAllNodesInformationRequest ()))) g)"
  "snd (kc_Reboot (answered_client reply n) e g) = (snd (gateway_call Client_Reboot e
     (supplied (reply (AuthFrame (FrGatewayRebootRequest ()))) g)))\<lparr> gw_dials := replicate n False \<rparr>"
  by (simp_all add: answered_client_def gateway_client_def Let_def fun_eq_iff split: prod.split)

lemma gateway_inv_dials [simp]: "gateway_inv (g\<lparr> gw_dials := ds \<rparr>) = gateway_inv g"
  by (simp add: gateway_inv_def)

lemma connect_succeeds:
  assumes "reachable_later password reply g" "no_connection g" "refused_dials g = 0"
  shows "fst (kc_Connect (answered_client reply n) False g) = None \<and>
    answered password reply (snd (kc_Connect (answered_client reply n) False g))"
proof -
  let ?g = "g\<lparr> gw_dials := [True] \<rparr>"
  have "no_connection ?g" "gateway_inv ?g"
    using assms by (simp_all add: no_connection_def reachable_later_def)
  with dial_opens [of ?g] gateway_inv_connect [of ?g False] connect_dials [of False ?g] assms show ?thesis
    by (simp add: answered_client_simps refused_dials_def answered_def reachable_later_def)
qed

lemma connect_fails:
  assumes "reachable_later password reply g" "no_connection g" "refused_dials g = Suc m"
  shows "fst (kc_Connect (answered_client reply n) False g) \<noteq> None \<and>
    reachable_later password reply (snd (kc_Connect (answered_client reply n) False g)) \<and>
    refused_dials (snd (kc_Connect (answered_client reply n) False g)) = m"
proof -
  from assms obtain ds where ds: "gw_dials g = False # ds" "length ds = m"
    by (cases "gw_dials g") (auto simp: reachable_later_def refused_dials_def)
  with dial_refused [OF assms(2) ds(1)] gateway_inv_connect [of g False] connect_dials [of False g] assms(1) show ?thesis
    by (simp add: answered_client_simps refused_dials_def reachable_later_def)
qed

interpretation go: klf_outage "answered_client reply n" "gateway_manager u" "reachable_later password reply"
  no_connection "answered password reply" refused_dials password for reply n u password
proof unfold_locales
  fix g :: klf_host and t :: int and m :: nat
  let ?K = "answered_client reply n"
  show "fst (kc_Connect ?K False g) = None \<and> answered password reply (snd (kc_Connect ?K False g))"
    if "reachable_later password reply g" "no_connection g" "refused_dials g = 0"
    using that by (rule connect_succeeds)
  show "fst (kc_Connect ?K False g) \<noteq> None \<and> reachable_later password reply (snd (kc_Connect ?K False g)) \<and>
      refused_dials (snd (kc_Connect ?K False g)) = m"
    if "reachable_later password reply g" "no_connection g" "refused_dials g = Suc m"
    using that by (rule connect_fails)
  show "reachable_later password reply (kc_Disconnect ?K g) \<and> no_connection (kc_Disconnect ?K g) \<and>
      refused_dials (kc_Disconnect ?K g) = refused_dials g" if "reachable_later password reply g"
    using that gateway_inv_disconnect [of g] disconnected_host [where g = g]
    by (simp add: answered_client_simps reachable_later_def refused_dials_def)
  show "reachable_later password reply g \<and> refused_dials g = 0" if "answered password reply g"
    using that by (simp add: answered_def in_session_def refused_dials_def)
  show "fst (kc_PasswordEnter ?K password False g) = None \<and> answered password reply (snd (kc_PasswordEnter ?K password False g))"
    if "answered password reply g"
    using password_accepted [OF that] call_answered_host [OF _ _ that] call_like_ops keeps_session_ops
    by (simp add: answered_client_simps gateway_call_fields)
  show "answered password reply (snd (kc_SetUTC ?K t False g))" if "answered password reply g"
    using call_answered_host [OF _ _ that] call_like_ops keeps_session_ops by (simp add: answered_client_simps)
  show "answered password reply (snd (kc_HouseStatusMonitorEnable ?K False g))" if "answered password reply g"
    using call_answered_host [OF _ _ that] call_like_ops keeps_session_ops by (simp add: answered_client_simps)
  show "fst (kc_LoadNodes ?K False g) = None \<and> answered password reply (snd (kc_LoadNodes ?K False g))"
    if "answered password reply g"
    using nodes_loaded [OF that] call_answered_host [OF call_like_LoadNodes keeps_session_LoadNodes that]
    by (simp add: answered_client_simps gateway_call_fields)
  show "fst (cm_Register (gateway_manager u) g) = None \<and> answered password reply (snd (cm_Register (gateway_manager u) g))"
    if "answered password reply g"
    using that by (simp add: gateway_manager_def answered_def reachable_later_def in_session_def covers_fields)
  show "reachable_later password reply (snd (kc_Reboot ?K False g))" if "reachable_later password reply g"
    using that gateway_inv_call [OF call_like_ops(4), of "supplied fs g" False for fs]
    by (simp add: answered_client_simps reachable_later_def)
  show "reachable_later password reply (cm_MarkAllUnavailable (gateway_manager u) g) \<and>
      refused_dials (cm_MarkAllUnavailable (gateway_manager u) g) = refused_dials g" if "reachable_later password reply g"
    using that by (simp add: gateway_manager_def reachable_later_def covers_fields refused_dials_def)
  show "answered password reply (cm_MarkAllAvailable (gateway_manager u) g)" if "answered password reply g"
    using that by (simp add: gateway_manager_def answered_def reachable_later_def in_session_def covers_fields)
qed


section \<open>Properties\<close>

text \<open>
  C3: Recovery. The contact is overdue, reconnecting is enabled, and the gateway answers once it can
  be reached: it accepts the configured password and sends its node table to the end. Then one tick
  brings the bridge back, provided the first dial succeeds, or a power cycle is allowed and a dial
  within its schedule succeeds, and the reboot that follows a reconnect refuses fewer dials than its
  schedule has. Afterwards the client is connected with its dispatch installed, the covers were
  marked unavailable once and available again, the heartbeat runs, and contact is fresh.
\<close>

theorem checkHealth_recovers:
  fixes a :: "klf_host app" and reply :: gateway_replies
  defines "password \<equiv> vc_Password (cf_Velux (ap_cfg a))"
  assumes gateway: "answers password reply" "password \<noteq> ''''" "length password \<le> 32" "n < 7"
    and host: "gateway_inv (ap_host a)" "True \<notin> set (gw_dials (ap_host a))"
    and fast: "prompt password D a"
    and tick: "0 < rc_HealthCheckInterval (cf_Restart (ap_cfg a))" "rc_RestartOnError (cf_Restart (ap_cfg a))"
      "health_threshold a < ap_now a - ap_lastContact a"
    and reachable: "gw_dials (ap_host a) = [] \<or>
      length (gw_dials (ap_host a)) \<le> 7 \<and> ap_publishFn a \<and>
      PowerCycleEnabled (cf_Restart (ap_cfg a)) \<and>
      (ap_lastPowerCycle a = 0 \<or> powerCycleMinGap \<le> ap_now a - ap_lastPowerCycle a)"
  shows "let b = checkHealth (answered_client reply n) (gateway_manager u) None a; c = gw_sys (ap_host b) in
    \<not> ap_wedged b \<and> ap_heartbeat b \<and> gateway_up (ap_host b) \<and> cl_updaterSet c \<and>
    cl_nodes (receive f c) = contact_stamper f (node_updater f (cl_nodes c)) \<and>
    contact_within (2 * int D) b \<and>
    ap_marks b = ap_marks a @ (if ap_wedged a then [True] else [False, True])"
proof -
  have "reachable_later password reply (ap_host a)"
    using gateway host by (simp add: reachable_later_def)
  moreover have "refused_dials (snd (kc_Reboot (answered_client reply n) False g)) < 7" for g
    using gateway(4) by (simp add: answered_client_simps refused_dials_def)
  moreover have "refused_dials (ap_host a) = 0 \<or> refused_dials (ap_host a) \<le> 7 \<and> ap_publishFn a \<and>
      PowerCycleEnabled (cf_Restart (ap_cfg a)) \<and>
      (ap_lastPowerCycle a = 0 \<or> powerCycleMinGap \<le> ap_now a - ap_lastPowerCycle a)"
    using reachable by (auto simp: refused_dials_def)
  ultimately show ?thesis
    using go.tick_recovers [where reply = reply and n = n and u = u, OF _ fast _ tick]
    by (auto simp: Let_def answered_def in_session_def reachable_later_def gateway_inv_def client_inv_def
        receive_def run_callback_def)
qed

text \<open>A gateway with one node; it refuses three dials after a power cut and two after a reboot.\<close>

definition example_reply :: gateway_replies where
  "example_reply request =
     (case request of
        AuthFrame (FrPasswordEnterRequest r) \<Rightarrow>
          [AuthFrame (FrPasswordEnterConfirmation \<lparr> pec_Status = if per_Password r = ''velux123'' then 0 else 1 \<rparr>)]
      | NodesFrame (FrGetAllNodesInformationRequest r) \<Rightarrow>
          [NodesFrame (FrGetAllNodesInformationNotification \<lparr> gan_nodeInfo = nodeInfo_zero \<rparr>),
           NodesFrame (FrGetAllNodesInformationFinishedNotification ())]
      | _ \<Rightarrow> [])"

definition example_gateway_app :: "bool list \<Rightarrow> klf_host app" where
  "example_gateway_app dials =
     (let cfg = example_config ''plug''; cfg = cfg\<lparr> cf_Velux := (cf_Velux cfg)\<lparr> vc_Password := ''velux123'' \<rparr> \<rparr>
      in newApp cfg True (new_gateway cfg [] dials) (3600 * second) [])"

theorem checkHealth_recovers_witness:
  "let b = checkHealth (answered_client example_reply 2) (gateway_manager id) None (example_gateway_app [False, False, False])
   in gateway_up (ap_host b) \<and> ap_heartbeat b \<and> \<not> ap_wedged b \<and> ap_marks b = [False, True] \<and>
      ap_now b \<le> ap_lastContact b"
proof -
  let ?a = "example_gateway_app [False, False, False]"
  have f: "vc_Password (cf_Velux (ap_cfg ?a)) = ''velux123''" "gw_dials (ap_host ?a) = [False, False, False]"
    "gateway_inv (ap_host ?a)" "ap_publishFn ?a" "ap_lastPowerCycle ?a = 0" "ap_delays ?a = []"
    "ap_marks ?a = []" "\<not> ap_wedged ?a"
    by (simp_all add: example_gateway_app_def Let_def newApp_def gateway_inv_new) (simp_all add: new_gateway_def Let_def)
  have t: "0 < rc_HealthCheckInterval (cf_Restart (ap_cfg ?a))" "rc_RestartOnError (cf_Restart (ap_cfg ?a))"
    "health_threshold ?a < ap_now ?a - ap_lastContact ?a" "PowerCycleEnabled (cf_Restart (ap_cfg ?a))"
    "0 \<le> vc_ConnectTimeoutSeconds (cf_Velux (ap_cfg ?a)) * second"
    by (simp_all add: example_gateway_app_def app_eval cong: app_cong)
  have "answers ''velux123'' example_reply"
    by (simp add: answers_def example_reply_def List.map_filter_simps all_nodes_finished_def)
  moreover have "prompt ''velux123'' 0 ?a" using f(1,6) t(5) by (simp add: prompt_def)
  ultimately show ?thesis
    using checkHealth_recovers [where a = ?a and reply = example_reply and n = 2 and D = 0 and u = id, unfolded f(1)]
      t(1-4) f
    by (simp add: Let_def contact_within_def)
qed
end
