(* ===== verification/Schedule.thy ===== *)
theory Schedule
  imports Recovery
begin

text \<open>
  The periodic restart of \<^verbatim>\<open>src/app/app.go\<close>: at what time of day it is due, in a location whose
  offset changes, and the loop that waits for it.
\<close>

section \<open>The slot of a day\<close>

lemma wall_midnight: "wall_Hour t * 3600 + wall_Minute t * 60 + wall_Second t = t mod 86400"
proof -
  have "t mod 3600 = t mod 86400 mod 3600" "t mod 60 = t mod 3600 mod 60"
    by (simp_all add: mod_mod_cancel)
  then show ?thesis
    using div_mult_mod_eq [of "t mod 86400" 3600] div_mult_mod_eq [of "t mod 3600" 60]
    unfolding wall_Hour_def wall_Minute_def wall_Second_def by linarith
qed

lemma time_Date_same_month:
  "time_Date (wall_Year t) (wall_Month t) (wall_Day t + k) hour minute 0 =
     (t div 86400 + k) * 86400 + hour * 3600 + minute * 60"
proof -
  define x where "x = days_before_year (wall_Year t + (wall_Month t - 1) div 12) +
    days_before_month (wall_Year t + (wall_Month t - 1) div 12) ((wall_Month t - 1) mod 12 + 1)"
  have "time_Date (wall_Year t) (wall_Month t) d h m s = (x + (d - 1)) * 86400 + h * 3600 + m * 60 + s" for d h m s
    by (simp add: time_Date_def Let_def x_def)
  then show ?thesis
    using time_Date_fields [of t] wall_midnight [of t] div_mult_mod_eq [of t 86400]
    by (simp only: ring_distribs)
qed

lemma clock_fields:
  assumes "0 \<le> hour" "hour < 24" "0 \<le> minute" "minute < 60"
  shows "wall_Hour (n * 86400 + hour * 3600 + minute * 60) = hour"
    "wall_Minute (n * 86400 + hour * 3600 + minute * 60) = minute"
proof -
  have "(n * 86400 + hour * 3600 + minute * 60) mod 86400 = hour * 3600 + minute * 60"
    using assms by (simp add: add.assoc)
  then show "wall_Hour (n * 86400 + hour * 3600 + minute * 60) = hour"
    using assms by (simp add: wall_Hour_def div_add1_eq)
  have "n * 86400 + hour * 3600 + minute * 60 = minute * 60 + (n * 24 + hour) * 3600" by simp
  then have "(n * 86400 + hour * 3600 + minute * 60) mod 3600 = minute * 60 mod 3600"
    by (simp only: mod_mult_self1)
  with assms show "wall_Minute (n * 86400 + hour * 3600 + minute * 60) = minute"
    by (simp add: wall_Minute_def)
qed

text \<open>The instant of the slot of a day: \<open>Date\<close> of its hour and minute.\<close>

definition day_slot :: "Location \<Rightarrow> int \<Rightarrow> int \<Rightarrow> int \<Rightarrow> int" where
  "day_slot loc hour minute day = instant_of loc (day * day_secs + hour * 3600 + minute * 60) * second"

definition today :: "Location \<Rightarrow> int \<Rightarrow> int" where
  "today loc now = wall_of loc (now div second) div day_secs"

lemma nextRestartTime_slot:
  "nextRestartTime loc now hour minute =
     (let d = today loc now
      in if \<not> day_slot loc hour minute d > now then day_slot loc hour minute (d + 1)
         else day_slot loc hour minute d)"
  using time_Date_same_month [of "wall_of loc (now div second)" 0 hour minute]
    time_Date_same_month [of "wall_of loc (now div second)" 1 hour minute]
  by (simp add: nextRestartTime_def Let_def time_Date_in_def day_slot_def today_def)

lemma day_slot_div [simp]:
  "day_slot loc hour minute d div second = instant_of loc (d * day_secs + hour * 3600 + minute * 60)"
  by (simp add: day_slot_def second_def)

lemma clock_day:
  assumes "0 \<le> hour" "hour < 24" "0 \<le> minute" "minute < 60"
  shows "(d * day_secs + hour * 3600 + minute * 60) div day_secs = d"
  using assms by (simp add: add.assoc)

lemma today_slot:
  assumes "zone_ok loc" "0 \<le> hour" "hour < 24" "0 \<le> minute" "minute < 60"
  shows "today loc (day_slot loc hour minute d) = d"
  using assms by (simp add: today_def instant_of_date clock_day)

lemma today_mono: "zone_ok loc \<Longrightarrow> t \<le> t' \<Longrightarrow> today loc t \<le> today loc t'"
  by (simp add: today_def wall_date_mono zdiv_mono1 second_def)

lemma day_slot_strict:
  assumes "zone_ok loc" "0 \<le> hour" "hour < 24" "0 \<le> minute" "minute < 60" "d < d'"
  shows "day_slot loc hour minute d < day_slot loc hour minute d'"
  using assms by (simp add: day_slot_def second_def instant_of_strict clock_day)

text \<open>
  C35: The scheduled restart in a location whose transitions keep the date: it is due strictly
  after now, at the first slot after now (no day is skipped), on the local day of that slot, and at
  the configured hour and minute of the wall clock whenever some instant of the location reads it.
\<close>

theorem nextRestartTime_is_next:
  assumes "zone_ok loc" "0 \<le> hour" "hour < 24" "0 \<le> minute" "minute < 60"
  shows "now < nextRestartTime loc now hour minute \<and>
    (\<forall>d. now < day_slot loc hour minute d \<longrightarrow> nextRestartTime loc now hour minute \<le> day_slot loc hour minute d) \<and>
    (\<exists>d. nextRestartTime loc now hour minute = day_slot loc hour minute d \<and>
      today loc (nextRestartTime loc now hour minute) = d \<and>
      ((\<exists>t. wall_of loc t = d * day_secs + hour * 3600 + minute * 60) \<longrightarrow>
        wall_Hour (wall_of loc (nextRestartTime loc now hour minute div second)) = hour \<and>
        wall_Minute (wall_of loc (nextRestartTime loc now hour minute div second)) = minute))"
proof -
  let ?slot = "day_slot loc hour minute"
  define d where "d = today loc now"
  define n where "n = nextRestartTime loc now hour minute"
  define k where "k = (if \<not> ?slot d > now then d + 1 else d)"
  have n: "n = ?slot k" by (simp add: n_def k_def d_def nextRestartTime_slot Let_def)
  have t: "today loc (?slot j) = j" for j by (rule today_slot [OF assms])
  have after: "now < ?slot (d + 1)"
    using today_mono [OF assms(1), of "?slot (d + 1)" now] t [of "d + 1"] by (auto simp: d_def not_less [symmetric])
  then have gt: "now < n" by (auto simp: n k_def)
  have first: "n \<le> ?slot j" if "now < ?slot j" for j
  proof -
    have "d \<le> j" using today_mono [OF assms(1), of now "?slot j"] that t by (simp add: d_def)
    moreover have "j \<noteq> d" if "k = d + 1" using that \<open>now < ?slot j\<close> by (auto simp: k_def split: if_splits)
    ultimately have "k \<le> j" by (auto simp: k_def split: if_splits)
    with day_slot_strict [OF assms, of k j] show ?thesis by (cases "k = j") (simp_all add: n)
  qed
  have clock: "wall_Hour (wall_of loc (n div second)) = hour \<and> wall_Minute (wall_of loc (n div second)) = minute"
    if "wall_of loc s = k * day_secs + hour * 3600 + minute * 60" for s
    using instant_of_exact [OF assms(1) that] clock_fields [OF assms(2-5), of k] by (simp add: n)
  show ?thesis
    using gt first clock t [of k] unfolding n_def [symmetric] n [symmetric] by (metis n)
qed

text \<open>Europe/Berlin, America/New_York and America/Santiago in 2024; the instants are in UTC.\<close>

definition berlin_2024 :: Location where
  "berlin_2024 = \<lparr> loc_offset = 3600,
     loc_tx = [(time_Date 2024 3 31 1 0 0, 7200), (time_Date 2024 10 27 1 0 0, 3600)] \<rparr>"

definition new_york_2024 :: Location where
  "new_york_2024 = \<lparr> loc_offset = - 18000,
     loc_tx = [(time_Date 2024 3 10 7 0 0, - 14400), (time_Date 2024 11 3 6 0 0, - 18000)] \<rparr>"

definition santiago_2024 :: Location where
  "santiago_2024 = \<lparr> loc_offset = - 10800,
     loc_tx = [(time_Date 2024 4 7 3 0 0, - 14400), (time_Date 2024 9 8 4 0 0, - 10800)] \<rparr>"

lemma zone_ok_examples: "zone_ok berlin_2024" "zone_ok new_york_2024" "\<not> zone_ok santiago_2024"
  by code_simp+

text \<open>At noon before the night on which 02:30 does not exist in Berlin, the restart is due at 03:30.\<close>

theorem nextRestartTime_is_next_witness:
  "let now = (time_Date 2024 3 30 12 0 0) * second; next = nextRestartTime berlin_2024 now 2 30
   in now < next \<and> wall_of berlin_2024 (next div second) = time_Date 2024 3 31 3 30 0"
proof -
  have "time_Date 2024 3 30 12 0 0 * second < nextRestartTime berlin_2024 (time_Date 2024 3 30 12 0 0 * second) 2 30"
    using nextRestartTime_is_next [OF zone_ok_examples(1), of 2 30 "time_Date 2024 3 30 12 0 0 * second"] by simp
  moreover have "wall_of berlin_2024 (nextRestartTime berlin_2024 (time_Date 2024 3 30 12 0 0 * second) 2 30 div second) =
      time_Date 2024 3 31 3 30 0"
    by code_simp
  ultimately show ?thesis by (simp add: Let_def)
qed

text \<open>Without transitions: at most 24 hours later, always at the configured hour and minute.\<close>

lemma nextRestartTime_fixed_offset:
  assumes "\<bar>offset\<bar> < day_secs" "0 \<le> hour" "hour < 24" "0 \<le> minute" "minute < 60"
  shows "nextRestartTime (fixed_zone offset) now hour minute \<le> now + 24 * 3600 * second"
proof -
  let ?loc = "fixed_zone offset"
  have s: "day_slot ?loc hour minute (d + 1) = day_slot ?loc hour minute d + 24 * 3600 * second" for d
    by (simp add: day_slot_def algebra_simps)
  have le: "day_slot ?loc hour minute (today ?loc now) \<le> now + 24 * 3600 * second"
  proof -
    define q where "q = now div second"
    have "second * q \<le> now" using div_bounds(1) [of second now] by (simp add: q_def second_def)
    moreover have "day_secs * ((q + offset) div day_secs) \<le> q + offset" by (rule div_bounds(1)) simp
    ultimately show ?thesis
      using assms(2-5) by (simp add: day_slot_def today_def q_def [symmetric] second_def algebra_simps)
  qed
  then show ?thesis by (simp add: nextRestartTime_slot Let_def s)
qed

text \<open>
  What the two nights of a change bring: in Berlin the later of the two 02:30 in autumn, in New York
  01:30 instead of 02:30 in spring. A location that skips the hour after midnight does not keep the
  date: half past midnight of the next day is taken for 23:30 today, so at 23:40 the restart is
  due, and due again as soon as it has run.
\<close>

theorem restart_time_at_transitions:
  "nextRestartTime berlin_2024 (time_Date 2024 10 26 12 0 0 * second) 2 30 = time_Date 2024 10 27 1 30 0 * second \<and>
   wall_of new_york_2024 (nextRestartTime new_york_2024 (time_Date 2024 3 9 12 0 0 * second) 2 30 div second) =
     time_Date 2024 3 10 1 30 0 \<and>
   wall_of santiago_2024 (time_Date 2024 9 8 3 40 0) = time_Date 2024 9 7 23 40 0 \<and>
   nextRestartTime santiago_2024 (time_Date 2024 9 8 3 40 0 * second) 0 30 < time_Date 2024 9 8 3 40 0 * second"
  by code_simp

section \<open>The loop of the scheduled restart\<close>

text \<open>
  One turn of the goroutine of \<open>startScheduledRestartLoop\<close>: it waits for the slot or for the end of
  the application at \<open>stop\<close>, and restarts; \<open>busy\<close> is how long the other loop keeps the lock. \<open>False\<close>
  when the goroutine ends.
\<close>

definition scheduled_turn ::
    "('s, 'e) klfClient \<Rightarrow> ('s, 'e) coverManager \<Rightarrow> Location \<Rightarrow> int \<Rightarrow> int \<Rightarrow> ctx \<Rightarrow> nat \<Rightarrow>
     's app \<Rightarrow> bool \<times> 's app" where
  "scheduled_turn K M loc hour minute stop busy a =
     (let next = nextRestartTime loc (ap_now a) hour minute;
          wait = next - ap_now a
      in case await_timer stop wait a of
           (True, a) \<Rightarrow> (False, a)
         | (False, a) \<Rightarrow> (True, runPeriodicRestart K M None (a\<lparr> ap_now := ap_now a + int busy \<rparr>)))"

text \<open>The goroutine for as many turns as \<open>busys\<close> is long: when each restart began and ended.\<close>

fun startScheduledRestartLoop ::
    "('s, 'e) klfClient \<Rightarrow> ('s, 'e) coverManager \<Rightarrow> Location \<Rightarrow> int \<Rightarrow> int \<Rightarrow> ctx \<Rightarrow> nat list \<Rightarrow>
     's app \<Rightarrow> (int \<times> int) list \<times> 's app" where
  "startScheduledRestartLoop K M loc hour minute stop [] a = ([], a)"
| "startScheduledRestartLoop K M loc hour minute stop (busy # busys) a =
     (case scheduled_turn K M loc hour minute stop busy a of
        (False, b) \<Rightarrow> ([], b)
      | (True, b) \<Rightarrow>
          (case startScheduledRestartLoop K M loc hour minute stop busys b of
             (runs, c) \<Rightarrow>
               ((max (ap_now a) (nextRestartTime loc (ap_now a) hour minute), ap_now b) # runs, c)))"

lemma now_doPowerCycle: "ap_now a \<le> ap_now (snd (doPowerCycle K M ctx a))"
  by (cases rule: doPowerCycle_cases [of K M ctx a]) simp_all

lemma now_doReboot: "ap_now a \<le> ap_now (snd (doReboot K M ctx a))"
  using steady_doReboot [OF steady_refl, of a K M ctx] by (simp add: steady_def)

lemma now_runPeriodicRestart: "ap_now a \<le> ap_now (runPeriodicRestart K M ctx a)"
proof -
  obtain r b where b: "doPowerCycle K M ctx a = (r, b)" by fastforce
  then have "ap_now a \<le> ap_now b" using now_doPowerCycle [of a K M ctx] by simp
  with b now_doReboot [of a K M ctx] now_doReboot [of b K M ctx] show ?thesis
    by (auto simp: runPeriodicRestart_def split: option.split app_error.split)
qed

text \<open>Each run begins at the first slot after the end of the one before.\<close>

fun runs_ok :: "Location \<Rightarrow> int \<Rightarrow> int \<Rightarrow> int \<Rightarrow> (int \<times> int) list \<Rightarrow> bool" where
  "runs_ok loc hour minute now [] = True"
| "runs_ok loc hour minute now ((s, e) # runs) =
     (now < s \<and> s \<le> e \<and> s = day_slot loc hour minute (today loc s) \<and>
      (\<forall>d. now < day_slot loc hour minute d \<longrightarrow> s \<le> day_slot loc hour minute d) \<and>
      runs_ok loc hour minute e runs)"

lemma scheduled_runs_ok:
  assumes "zone_ok loc" "0 \<le> hour" "hour < 24" "0 \<le> minute" "minute < 60"
  shows "runs_ok loc hour minute (ap_now a) (fst (startScheduledRestartLoop K M loc hour minute stop busys a))"
proof (induction busys arbitrary: a)
  case (Cons busy busys)
  let ?next = "nextRestartTime loc (ap_now a) hour minute"
  note nx = nextRestartTime_is_next [OF assms, of "ap_now a"]
  obtain c b where w: "await_timer stop (?next - ap_now a) a = (c, b)" by fastforce
  show ?case
  proof (cases c)
    case True
    with w show ?thesis by (simp add: scheduled_turn_def Let_def)
  next
    case False
    with w nx have now: "ap_now b = ?next" by (auto simp: await_timer_def split: option.splits if_splits)
    define r where "r = runPeriodicRestart K M None (b\<lparr> ap_now := ap_now b + int busy \<rparr>)"
    have e: "?next \<le> ap_now r"
      using now_runPeriodicRestart [of "b\<lparr> ap_now := ap_now b + int busy \<rparr>" K M None] now by (simp add: r_def)
    have t: "scheduled_turn K M loc hour minute stop busy a = (True, r)"
      using w False by (simp add: scheduled_turn_def Let_def r_def)
    have "max (ap_now a) ?next = ?next" "?next = day_slot loc hour minute (today loc ?next)" using nx by auto
    with e nx Cons.IH [of r] show ?thesis by (auto simp: t split: prod.split)
  qed
qed simp

lemma runs_ok_later: "runs_ok loc hour minute now runs \<Longrightarrow> r \<in> set runs \<Longrightarrow> now < fst r"
proof (induction runs arbitrary: now)
  case (Cons p runs)
  then show ?case by (cases p) (fastforce dest: order.strict_trans1)
qed simp

lemma runs_ok_sorted:
  assumes "zone_ok loc"
  shows "runs_ok loc hour minute now runs \<Longrightarrow>
    sorted_wrt (\<lambda>r r'. snd r < fst r' \<and> today loc (fst r) < today loc (fst r')) runs"
proof (induction runs arbitrary: now)
  case (Cons p runs)
  obtain s e where p: "p = (s, e)" by (cases p)
  have "today loc s < today loc (fst r)" if r: "r \<in> set runs" for r
  proof -
    have "fst r = day_slot loc hour minute (today loc (fst r))"
      using Cons.prems r by (induction runs arbitrary: now p) (auto simp: p)
    moreover have "s < fst r" using Cons.prems runs_ok_later [of loc hour minute e runs r] r p by simp
    ultimately have "today loc s \<noteq> today loc (fst r)" using Cons.prems p by (metis order_less_irrefl runs_ok.simps(2))
    with today_mono [OF assms, of s "fst r"] \<open>s < fst r\<close> show ?thesis by simp
  qed
  with Cons runs_ok_later [of loc hour minute e runs] p show ?case by auto
qed simp

lemma runs_ok_served:
  "runs_ok loc hour minute now runs \<Longrightarrow> r \<in> set runs \<Longrightarrow> now < day_slot loc hour minute d \<Longrightarrow>
   day_slot loc hour minute d \<le> fst r \<Longrightarrow>
   \<exists>r'\<in>set runs. fst r' \<le> day_slot loc hour minute d \<and> (fst r' = day_slot loc hour minute d \<or> day_slot loc hour minute d \<le> snd r')"
proof (induction runs arbitrary: now)
  case (Cons p runs)
  obtain s e where p: "p = (s, e)" by (cases p)
  let ?t = "day_slot loc hour minute d"
  from Cons.prems p have s: "s \<le> ?t" by simp
  show ?case
  proof (cases "?t \<le> e")
    case True
    with s p show ?thesis by auto
  next
    case False
    with Cons.prems p have "r \<in> set runs" by auto
    with Cons.IH [of e] Cons.prems p False show ?thesis by auto
  qed
qed simp


text \<open>Two turns around the night on which the clock goes forward in Berlin: at 03:30 and at 02:30.\<close>

lemma berlin_spring:
  "nextRestartTime berlin_2024 63847396800000000000 2 30 = 63847445400000000000"
  "nextRestartTime berlin_2024 63847445402000000000 2 30 = 63847528200000000000"
  by code_simp+


end
