(* ===== verification/LocalTimes.thy ===== *)
theory LocalTimes
  imports Schedule Frames
begin

text \<open>
  The local time of \<^verbatim>\<open>src/app/klf200/protocol/frame_auth_system.go\<close> in a location. \<open>FramesAuth\<close> has the
  frame with the clock that it carries; here the two fields of \<^verbatim>\<open>LocalTime\<close> are instants, as in the
  code, and the clock is read and set in the location \<^verbatim>\<open>time.Local\<close>, an argument (\<open>Zones\<close>).
\<close>

section \<open>The code\<close>

text \<open>Instants count from the year 1; the Unix time starts in 1970.\<close>

definition unixToInternal :: int where "unixToInternal = 62135596800"

record LocalTime_in =
  lti_UTCTime :: int
  lti_LocalTime :: int

text \<open>The accessors read the clock of the location; the rest is the wire form of the clock.\<close>

definition LocalTime_MarshalPayload_in :: "Location \<Rightarrow> LocalTime_in \<Rightarrow> perror + byte list" where
  "LocalTime_MarshalPayload_in loc t =
     FrameGetLocalTimeConfirmation_MarshalPayload
       \<lparr> glc_Time = \<lparr> lt_UTCTime = lti_UTCTime t - unixToInternal,
           lt_LocalTime = wall_of loc (lti_LocalTime t) \<rparr> \<rparr>"

definition LocalTime_UnmarshalPayload_in :: "Location \<Rightarrow> byte list \<Rightarrow> perror + LocalTime_in" where
  "LocalTime_UnmarshalPayload_in loc payload =
     (if length payload \<noteq> 15 then Inl (InvalidLen (length payload) 15)
      else
        let utcSec = uint (be_get32 (slice 0 4 payload));
            second = uint (payload ! 4);
            minute = uint (payload ! 5);
            hour = uint (payload ! 6);
            day = uint (payload ! 7);
            month = uint (payload ! 8) + 1;
            year = uint (be_get16 (slice 9 11 payload)) + 1900
        in Inr \<lparr> lti_UTCTime = utcSec + unixToInternal,
                 lti_LocalTime = time_Date_in loc year month day hour minute second \<rparr>)"

section \<open>Lemmas\<close>

text \<open>The frame of \<open>FramesAuth\<close> carries the clock that is set.\<close>

lemma LocalTime_in_clock:
  "LocalTime_UnmarshalPayload_in loc p =
     (case FrameGetLocalTimeConfirmation_UnmarshalPayload g p of
        Inl e \<Rightarrow> Inl e
      | Inr f \<Rightarrow> Inr \<lparr> lti_UTCTime = lt_UTCTime (glc_Time f) + unixToInternal,
          lti_LocalTime = instant_of loc (lt_LocalTime (glc_Time f)) \<rparr>)"
  by (simp add: LocalTime_UnmarshalPayload_in_def FrameGetLocalTimeConfirmation_UnmarshalPayload_def
      Let_def time_Date_in_def)

text \<open>The byte for daylight saving is not looked at.\<close>

lemma LocalTime_in_dst: "LocalTime_UnmarshalPayload_in loc (p[14 := b]) = LocalTime_UnmarshalPayload_in loc p"
  by (simp add: LocalTime_UnmarshalPayload_in_def slice_def)

section \<open>Properties\<close>



text \<open>
  When the clock goes back, the gateway tells the two hours apart by the byte for daylight saving,
  which the code drops: half an hour before the change, the local time is read as an hour after
  the UTC time of the same frame, and with either value of that byte.
\<close>

theorem repeated_hour_misread:
  "let t = time_Date 2024 10 27 0 30 0; utc = \<lparr> lti_UTCTime = t, lti_LocalTime = t \<rparr> in
   \<exists>p. LocalTime_MarshalPayload_in berlin_2024 utc = Inr p \<and>
     (\<forall>dst. LocalTime_UnmarshalPayload_in berlin_2024 (p[14 := dst]) =
        Inr \<lparr> lti_UTCTime = t, lti_LocalTime = t + 3600 \<rparr>)"
proof -
  define t where "t = time_Date 2024 10 27 0 30 0"
  have t: "t = 63865585800" unfolding t_def by code_simp
  have w: "wall_of berlin_2024 t = t + 7200" unfolding t by code_simp
  have i: "instant_of berlin_2024 (t + 7200) = t + 3600" unfolding t by code_simp
  define r where "r = \<lparr> glc_Time = \<lparr> lt_UTCTime = t - unixToInternal, lt_LocalTime = t + 7200 \<rparr> \<rparr>"
  have "wall_Year (t + 7200) = 2024" unfolding t by code_simp
  then have "auth_frame_wf (FrGetLocalTimeConfirmation r)" by (simp add: r_def t unixToInternal_def)
  from LocalTime_roundtrip [OF this] obtain p where p: "FrameGetLocalTimeConfirmation_MarshalPayload r = Inr p"
    "FrameGetLocalTimeConfirmation_UnmarshalPayload r p = Inr r" by blast
  have "LocalTime_UnmarshalPayload_in berlin_2024 p = Inr \<lparr> lti_UTCTime = t, lti_LocalTime = t + 3600 \<rparr>"
    unfolding LocalTime_in_clock [where g = r] p(2) by (simp add: r_def i)
  with p(1) show ?thesis
    unfolding Let_def t_def [symmetric]
    by (intro exI [of _ p]) (simp add: LocalTime_in_dst LocalTime_MarshalPayload_in_def w r_def)
qed

end
