(* ===== verification/Openers.thy ===== *)
theory Openers
  imports Devices GoStrings
begin

text \<open>
  The methods of the concrete device types of \<^verbatim>\<open>opening_device.go\<close> and \<^verbatim>\<open>other_devices.go\<close>, the
  interface \<open>Opener\<close> of \<^verbatim>\<open>cover.go\<close> through which the bridge sees them, and the contract the bridge
  relies on, which every type fulfils. A method takes the pointer of its receiver.
\<close>

section \<open>Methods of the embedded structs\<close>

definition OpeningDevice_Position :: "OpeningDevice \<Rightarrow> Position" where
  "OpeningDevice_Position d = od_position d"

definition OpeningDevice_TargetPosition :: "OpeningDevice \<Rightarrow> Position" where
  "OpeningDevice_TargetPosition d = od_targetPosition d"

definition OpeningDevice_LimitationMin :: "OpeningDevice \<Rightarrow> Position" where
  "OpeningDevice_LimitationMin d = od_limitationMin d"

definition OpeningDevice_LimitationMax :: "OpeningDevice \<Rightarrow> Position" where
  "OpeningDevice_LimitationMax d = od_limitationMax d"

definition Blind_Orientation :: "Blind \<Rightarrow> Position" where
  "Blind_Orientation b = bl_orientation b"

definition Blind_TargetOrientation :: "Blind \<Rightarrow> Position" where
  "Blind_TargetOrientation b = bl_targetOrientation b"

definition BaseNode_SetName :: "string \<Rightarrow> BaseNode \<Rightarrow> BaseNode" where
  "BaseNode_SetName nm n = n\<lparr> bn_name := nm \<rparr>"

text \<open>\<open>Rename\<close> is not implemented: it returns its error and changes nothing.\<close>

datatype rename_error = RenameNotImplemented

definition BaseNode_Rename :: "string \<Rightarrow> BaseNode \<Rightarrow> rename_error option \<times> BaseNode" where
  "BaseNode_Rename nm n = (Some RenameNotImplemented, n)"

definition OnOffSwitch_IsOn :: "SwitchParameter \<Rightarrow> bool" where
  "OnOffSwitch_IsOn parameter = SwitchParameter_IsOn parameter"

definition OnOffSwitch_IsOff :: "SwitchParameter \<Rightarrow> bool" where
  "OnOffSwitch_IsOff parameter = SwitchParameter_IsOff parameter"

definition OnOffSwitch_Parameter :: "SwitchParameter \<Rightarrow> SwitchParameter" where
  "OnOffSwitch_Parameter parameter = parameter"

definition LighteningDevice_Intensity :: "Intensity \<Rightarrow> Intensity" where
  "LighteningDevice_Intensity intensity = intensity"

section \<open>Methods of the concrete types\<close>

type_synonym ('a, 'z) device_method = "'z gateway \<Rightarrow> (client_error + 'a) \<times> 'z gateway"

subsection \<open>\<^verbatim>\<open>Window\<close>\<close>

definition Window_AfterUpdate :: "nat \<Rightarrow> 'z node_world_scheme \<Rightarrow> 'z node_world_scheme" where
  "Window_AfterUpdate n = AfterUpdate n"

definition Window_SetPosition :: "nat \<Rightarrow> Position \<Rightarrow> bool \<Rightarrow> (unit, 'z) device_method" where
  "Window_SetPosition n position w = OpeningDevice_setPosition n position w"

definition Window_Open :: "nat \<Rightarrow> bool \<Rightarrow> (unit, 'z) device_method" where
  "Window_Open n w = OpeningDevice_open n w"

definition Window_Close :: "nat \<Rightarrow> bool \<Rightarrow> (unit, 'z) device_method" where
  "Window_Close n w = OpeningDevice_close n w"

definition Window_Stop :: "nat \<Rightarrow> bool \<Rightarrow> (unit, 'z) device_method" where
  "Window_Stop n w = OpeningDevice_stop n w"

definition Window_SetPositionLimitations :: "nat \<Rightarrow> Position \<Rightarrow> Position \<Rightarrow> (unit, 'z) device_method" where
  "Window_SetPositionLimitations n positionMin positionMax =
     OpeningDevice_setPositionLimitations n positionMin positionMax"

definition Window_ClearPositionLimitations :: "nat \<Rightarrow> (unit, 'z) device_method" where
  "Window_ClearPositionLimitations n = OpeningDevice_clearPositionLimitations n"

definition Window_GetLimitation :: "nat \<Rightarrow> (LimitationResult, 'z) device_method" where
  "Window_GetLimitation n = OpeningDevice_getLimitation n"

definition Window_GetLimitationMax :: "nat \<Rightarrow> (LimitationResult, 'z) device_method" where
  "Window_GetLimitationMax n = OpeningDevice_getLimitationMax n"

subsection \<open>\<^verbatim>\<open>RollerShutter\<close>\<close>

definition RollerShutter_AfterUpdate :: "nat \<Rightarrow> 'z node_world_scheme \<Rightarrow> 'z node_world_scheme" where
  "RollerShutter_AfterUpdate n = AfterUpdate n"

definition RollerShutter_SetPosition :: "nat \<Rightarrow> Position \<Rightarrow> bool \<Rightarrow> (unit, 'z) device_method" where
  "RollerShutter_SetPosition n position w = OpeningDevice_setPosition n position w"

definition RollerShutter_Open :: "nat \<Rightarrow> bool \<Rightarrow> (unit, 'z) device_method" where
  "RollerShutter_Open n w = OpeningDevice_open n w"

definition RollerShutter_Close :: "nat \<Rightarrow> bool \<Rightarrow> (unit, 'z) device_method" where
  "RollerShutter_Close n w = OpeningDevice_close n w"

definition RollerShutter_Stop :: "nat \<Rightarrow> bool \<Rightarrow> (unit, 'z) device_method" where
  "RollerShutter_Stop n w = OpeningDevice_stop n w"

definition RollerShutter_SetPositionLimitations :: "nat \<Rightarrow> Position \<Rightarrow> Position \<Rightarrow> (unit, 'z) device_method" where
  "RollerShutter_SetPositionLimitations n positionMin positionMax =
     OpeningDevice_setPositionLimitations n positionMin positionMax"

definition RollerShutter_ClearPositionLimitations :: "nat \<Rightarrow> (unit, 'z) device_method" where
  "RollerShutter_ClearPositionLimitations n = OpeningDevice_clearPositionLimitations n"

definition RollerShutter_GetLimitation :: "nat \<Rightarrow> (LimitationResult, 'z) device_method" where
  "RollerShutter_GetLimitation n = OpeningDevice_getLimitation n"

definition RollerShutter_GetLimitationMax :: "nat \<Rightarrow> (LimitationResult, 'z) device_method" where
  "RollerShutter_GetLimitationMax n = OpeningDevice_getLimitationMax n"

subsection \<open>\<^verbatim>\<open>Awning\<close>\<close>

definition Awning_AfterUpdate :: "nat \<Rightarrow> 'z node_world_scheme \<Rightarrow> 'z node_world_scheme" where
  "Awning_AfterUpdate n = AfterUpdate n"

definition Awning_SetPosition :: "nat \<Rightarrow> Position \<Rightarrow> bool \<Rightarrow> (unit, 'z) device_method" where
  "Awning_SetPosition n position w = OpeningDevice_setPosition n position w"

definition Awning_Open :: "nat \<Rightarrow> bool \<Rightarrow> (unit, 'z) device_method" where
  "Awning_Open n w = OpeningDevice_open n w"

definition Awning_Close :: "nat \<Rightarrow> bool \<Rightarrow> (unit, 'z) device_method" where
  "Awning_Close n w = OpeningDevice_close n w"

definition Awning_Stop :: "nat \<Rightarrow> bool \<Rightarrow> (unit, 'z) device_method" where
  "Awning_Stop n w = OpeningDevice_stop n w"

definition Awning_SetPositionLimitations :: "nat \<Rightarrow> Position \<Rightarrow> Position \<Rightarrow> (unit, 'z) device_method" where
  "Awning_SetPositionLimitations n positionMin positionMax =
     OpeningDevice_setPositionLimitations n positionMin positionMax"

definition Awning_ClearPositionLimitations :: "nat \<Rightarrow> (unit, 'z) device_method" where
  "Awning_ClearPositionLimitations n = OpeningDevice_clearPositionLimitations n"

definition Awning_GetLimitation :: "nat \<Rightarrow> (LimitationResult, 'z) device_method" where
  "Awning_GetLimitation n = OpeningDevice_getLimitation n"

definition Awning_GetLimitationMax :: "nat \<Rightarrow> (LimitationResult, 'z) device_method" where
  "Awning_GetLimitationMax n = OpeningDevice_getLimitationMax n"

subsection \<open>\<^verbatim>\<open>GarageDoor\<close>\<close>

definition GarageDoor_AfterUpdate :: "nat \<Rightarrow> 'z node_world_scheme \<Rightarrow> 'z node_world_scheme" where
  "GarageDoor_AfterUpdate n = AfterUpdate n"

definition GarageDoor_SetPosition :: "nat \<Rightarrow> Position \<Rightarrow> bool \<Rightarrow> (unit, 'z) device_method" where
  "GarageDoor_SetPosition n position w = OpeningDevice_setPosition n position w"

definition GarageDoor_Open :: "nat \<Rightarrow> bool \<Rightarrow> (unit, 'z) device_method" where
  "GarageDoor_Open n w = OpeningDevice_open n w"

definition GarageDoor_Close :: "nat \<Rightarrow> bool \<Rightarrow> (unit, 'z) device_method" where
  "GarageDoor_Close n w = OpeningDevice_close n w"

definition GarageDoor_Stop :: "nat \<Rightarrow> bool \<Rightarrow> (unit, 'z) device_method" where
  "GarageDoor_Stop n w = OpeningDevice_stop n w"

definition GarageDoor_SetPositionLimitations :: "nat \<Rightarrow> Position \<Rightarrow> Position \<Rightarrow> (unit, 'z) device_method" where
  "GarageDoor_SetPositionLimitations n positionMin positionMax =
     OpeningDevice_setPositionLimitations n positionMin positionMax"

definition GarageDoor_ClearPositionLimitations :: "nat \<Rightarrow> (unit, 'z) device_method" where
  "GarageDoor_ClearPositionLimitations n = OpeningDevice_clearPositionLimitations n"

definition GarageDoor_GetLimitation :: "nat \<Rightarrow> (LimitationResult, 'z) device_method" where
  "GarageDoor_GetLimitation n = OpeningDevice_getLimitation n"

definition GarageDoor_GetLimitationMax :: "nat \<Rightarrow> (LimitationResult, 'z) device_method" where
  "GarageDoor_GetLimitationMax n = OpeningDevice_getLimitationMax n"

subsection \<open>\<^verbatim>\<open>Gate\<close>\<close>

definition Gate_AfterUpdate :: "nat \<Rightarrow> 'z node_world_scheme \<Rightarrow> 'z node_world_scheme" where
  "Gate_AfterUpdate n = AfterUpdate n"

definition Gate_SetPosition :: "nat \<Rightarrow> Position \<Rightarrow> bool \<Rightarrow> (unit, 'z) device_method" where
  "Gate_SetPosition n position w = OpeningDevice_setPosition n position w"

definition Gate_Open :: "nat \<Rightarrow> bool \<Rightarrow> (unit, 'z) device_method" where
  "Gate_Open n w = OpeningDevice_open n w"

definition Gate_Close :: "nat \<Rightarrow> bool \<Rightarrow> (unit, 'z) device_method" where
  "Gate_Close n w = OpeningDevice_close n w"

definition Gate_Stop :: "nat \<Rightarrow> bool \<Rightarrow> (unit, 'z) device_method" where
  "Gate_Stop n w = OpeningDevice_stop n w"

definition Gate_SetPositionLimitations :: "nat \<Rightarrow> Position \<Rightarrow> Position \<Rightarrow> (unit, 'z) device_method" where
  "Gate_SetPositionLimitations n positionMin positionMax =
     OpeningDevice_setPositionLimitations n positionMin positionMax"

definition Gate_ClearPositionLimitations :: "nat \<Rightarrow> (unit, 'z) device_method" where
  "Gate_ClearPositionLimitations n = OpeningDevice_clearPositionLimitations n"

definition Gate_GetLimitation :: "nat \<Rightarrow> (LimitationResult, 'z) device_method" where
  "Gate_GetLimitation n = OpeningDevice_getLimitation n"

definition Gate_GetLimitationMax :: "nat \<Rightarrow> (LimitationResult, 'z) device_method" where
  "Gate_GetLimitationMax n = OpeningDevice_getLimitationMax n"

subsection \<open>\<^verbatim>\<open>Blade\<close>\<close>

definition Blade_AfterUpdate :: "nat \<Rightarrow> 'z node_world_scheme \<Rightarrow> 'z node_world_scheme" where
  "Blade_AfterUpdate n = AfterUpdate n"

definition Blade_SetPosition :: "nat \<Rightarrow> Position \<Rightarrow> bool \<Rightarrow> (unit, 'z) device_method" where
  "Blade_SetPosition n position w = OpeningDevice_setPosition n position w"

definition Blade_Open :: "nat \<Rightarrow> bool \<Rightarrow> (unit, 'z) device_method" where
  "Blade_Open n w = OpeningDevice_open n w"

definition Blade_Close :: "nat \<Rightarrow> bool \<Rightarrow> (unit, 'z) device_method" where
  "Blade_Close n w = OpeningDevice_close n w"

definition Blade_Stop :: "nat \<Rightarrow> bool \<Rightarrow> (unit, 'z) device_method" where
  "Blade_Stop n w = OpeningDevice_stop n w"

definition Blade_SetPositionLimitations :: "nat \<Rightarrow> Position \<Rightarrow> Position \<Rightarrow> (unit, 'z) device_method" where
  "Blade_SetPositionLimitations n positionMin positionMax =
     OpeningDevice_setPositionLimitations n positionMin positionMax"

definition Blade_ClearPositionLimitations :: "nat \<Rightarrow> (unit, 'z) device_method" where
  "Blade_ClearPositionLimitations n = OpeningDevice_clearPositionLimitations n"

definition Blade_GetLimitation :: "nat \<Rightarrow> (LimitationResult, 'z) device_method" where
  "Blade_GetLimitation n = OpeningDevice_getLimitation n"

definition Blade_GetLimitationMax :: "nat \<Rightarrow> (LimitationResult, 'z) device_method" where
  "Blade_GetLimitationMax n = OpeningDevice_getLimitationMax n"

text \<open>A window also tells whether it has a rain sensor.\<close>

fun Window_RainSensor :: "Node \<Rightarrow> bool" where
  "Window_RainSensor (Window d rainSensor) = rainSensor"
| "Window_RainSensor n = False"

subsection \<open>\<^verbatim>\<open>Blind\<close>: what it does not override\<close>

definition Blind_AfterUpdate :: "nat \<Rightarrow> 'z node_world_scheme \<Rightarrow> 'z node_world_scheme" where
  "Blind_AfterUpdate n = AfterUpdate n"

definition Blind_SetPositionLimitations :: "nat \<Rightarrow> Position \<Rightarrow> Position \<Rightarrow> (unit, 'z) device_method" where
  "Blind_SetPositionLimitations n positionMin positionMax =
     OpeningDevice_setPositionLimitations n positionMin positionMax"

definition Blind_ClearPositionLimitations :: "nat \<Rightarrow> (unit, 'z) device_method" where
  "Blind_ClearPositionLimitations n = OpeningDevice_clearPositionLimitations n"

definition Blind_GetLimitation :: "nat \<Rightarrow> (LimitationResult, 'z) device_method" where
  "Blind_GetLimitation n = OpeningDevice_getLimitation n"

definition Blind_GetLimitationMax :: "nat \<Rightarrow> (LimitationResult, 'z) device_method" where
  "Blind_GetLimitationMax n = OpeningDevice_getLimitationMax n"

subsection \<open>The other types\<close>

definition OnOffSwitch_AfterUpdate :: "nat \<Rightarrow> 'z node_world_scheme \<Rightarrow> 'z node_world_scheme" where
  "OnOffSwitch_AfterUpdate n = AfterUpdate n"

definition LighteningDevice_AfterUpdate :: "nat \<Rightarrow> 'z node_world_scheme \<Rightarrow> 'z node_world_scheme" where
  "LighteningDevice_AfterUpdate n = AfterUpdate n"

definition Light_AfterUpdate :: "nat \<Rightarrow> 'z node_world_scheme \<Rightarrow> 'z node_world_scheme" where
  "Light_AfterUpdate n = AfterUpdate n"

definition genericNode_AfterUpdate :: "nat \<Rightarrow> 'z node_world_scheme \<Rightarrow> 'z node_world_scheme" where
  "genericNode_AfterUpdate n = AfterUpdate n"

section \<open>The interface \<^verbatim>\<open>Opener\<close>\<close>

text \<open>An interface value of the bridge: the methods of the dynamic type on their receiver.\<close>

record 'z Opener =
  op_NodeID :: "'z gateway \<Rightarrow> u16"
  op_Name :: "'z gateway \<Rightarrow> string"
  op_Position :: "'z gateway \<Rightarrow> Position"
  op_TargetPosition :: "'z gateway \<Rightarrow> Position"
  op_LimitationMax :: "'z gateway \<Rightarrow> Position"
  op_Open :: "bool \<Rightarrow> (unit, 'z) device_method"
  op_Close :: "bool \<Rightarrow> (unit, 'z) device_method"
  op_Stop :: "bool \<Rightarrow> (unit, 'z) device_method"
  op_SetPosition :: "Position \<Rightarrow> bool \<Rightarrow> (unit, 'z) device_method"
  op_SetPositionLimitations :: "Position \<Rightarrow> Position \<Rightarrow> (unit, 'z) device_method"
  op_ClearPositionLimitations :: "(unit, 'z) device_method"
  op_GetLimitation :: "(LimitationResult, 'z) device_method"

text \<open>The receiver is dereferenced by the accessors; it is an opening device.\<close>

definition opening_at :: "nat \<Rightarrow> 'z gateway \<Rightarrow> OpeningDevice" where
  "opening_at n c = the (node_opening (nw_heap (cl_nodes c) n))"

definition new_Opener ::
    "nat \<Rightarrow> (bool \<Rightarrow> (unit, 'z) device_method) \<Rightarrow> (bool \<Rightarrow> (unit, 'z) device_method) \<Rightarrow>
     (bool \<Rightarrow> (unit, 'z) device_method) \<Rightarrow> (Position \<Rightarrow> bool \<Rightarrow> (unit, 'z) device_method) \<Rightarrow>
     (Position \<Rightarrow> Position \<Rightarrow> (unit, 'z) device_method) \<Rightarrow> (unit, 'z) device_method \<Rightarrow>
     (LimitationResult, 'z) device_method \<Rightarrow> 'z Opener" where
  "new_Opener n opn cls stp set_pos set_lim clear_lim get_lim =
     \<lparr> op_NodeID = (\<lambda>c. Node_NodeID (nw_heap (cl_nodes c) n)), op_Name = (\<lambda>c. Node_Name (nw_heap (cl_nodes c) n)),
       op_Position = (\<lambda>c. OpeningDevice_Position (opening_at n c)),
       op_TargetPosition = (\<lambda>c. OpeningDevice_TargetPosition (opening_at n c)),
       op_LimitationMax = (\<lambda>c. OpeningDevice_LimitationMax (opening_at n c)),
       op_Open = opn, op_Close = cls, op_Stop = stp, op_SetPosition = set_pos,
       op_SetPositionLimitations = set_lim, op_ClearPositionLimitations = clear_lim, op_GetLimitation = get_lim \<rparr>"

definition Window_Opener :: "nat \<Rightarrow> 'z Opener" where
  "Window_Opener n = new_Opener n (Window_Open n) (Window_Close n) (Window_Stop n) (Window_SetPosition n)
     (Window_SetPositionLimitations n) (Window_ClearPositionLimitations n) (Window_GetLimitation n)"

definition RollerShutter_Opener :: "nat \<Rightarrow> 'z Opener" where
  "RollerShutter_Opener n = new_Opener n (RollerShutter_Open n) (RollerShutter_Close n) (RollerShutter_Stop n) (RollerShutter_SetPosition n)
     (RollerShutter_SetPositionLimitations n) (RollerShutter_ClearPositionLimitations n) (RollerShutter_GetLimitation n)"

definition Awning_Opener :: "nat \<Rightarrow> 'z Opener" where
  "Awning_Opener n = new_Opener n (Awning_Open n) (Awning_Close n) (Awning_Stop n) (Awning_SetPosition n)
     (Awning_SetPositionLimitations n) (Awning_ClearPositionLimitations n) (Awning_GetLimitation n)"

definition GarageDoor_Opener :: "nat \<Rightarrow> 'z Opener" where
  "GarageDoor_Opener n = new_Opener n (GarageDoor_Open n) (GarageDoor_Close n) (GarageDoor_Stop n) (GarageDoor_SetPosition n)
     (GarageDoor_SetPositionLimitations n) (GarageDoor_ClearPositionLimitations n) (GarageDoor_GetLimitation n)"

definition Gate_Opener :: "nat \<Rightarrow> 'z Opener" where
  "Gate_Opener n = new_Opener n (Gate_Open n) (Gate_Close n) (Gate_Stop n) (Gate_SetPosition n)
     (Gate_SetPositionLimitations n) (Gate_ClearPositionLimitations n) (Gate_GetLimitation n)"

definition Blade_Opener :: "nat \<Rightarrow> 'z Opener" where
  "Blade_Opener n = new_Opener n (Blade_Open n) (Blade_Close n) (Blade_Stop n) (Blade_SetPosition n)
     (Blade_SetPositionLimitations n) (Blade_ClearPositionLimitations n) (Blade_GetLimitation n)"

definition Blind_Opener :: "nat \<Rightarrow> 'z Opener" where
  "Blind_Opener n = new_Opener n (Blind_Open n) (Blind_Close n) (Blind_Stop n) (Blind_SetPosition n)
     (Blind_SetPositionLimitations n) (Blind_ClearPositionLimitations n) (Blind_GetLimitation n)"

text \<open>The type assertion \<open>node.(Opener)\<close> of the manager.\<close>

fun as_Opener :: "nat \<Rightarrow> Node \<Rightarrow> 'z Opener option" where
  "as_Opener n (Window d r) = Some (Window_Opener n)"
| "as_Opener n (RollerShutter d) = Some (RollerShutter_Opener n)"
| "as_Opener n (Awning d) = Some (Awning_Opener n)"
| "as_Opener n (GarageDoor d) = Some (GarageDoor_Opener n)"
| "as_Opener n (Gate d) = Some (Gate_Opener n)"
| "as_Opener n (Blade d) = Some (Blade_Opener n)"
| "as_Opener n (BlindN b) = Some (Blind_Opener n)"
| "as_Opener n (OnOffSwitch b p) = None"
| "as_Opener n (Light b i) = None"
| "as_Opener n (genericNode b) = None"

section \<open>The contract of an opening device\<close>

text \<open>
  What the bridge relies on: with a connected client each command writes exactly one command frame
  to the node of the receiver, with the main parameter it stands for and at most functional
  parameter 3 beside it; a limitation that was set is what the device says afterwards.
\<close>

definition commands_main :: "nat \<Rightarrow> Parameter \<Rightarrow> (unit, 'z) device_method \<Rightarrow> 'z gateway \<Rightarrow> bool" where
  "commands_main n p m c \<longleftrightarrow> (\<exists>fps. dom fps \<subseteq> {3} \<and> writes c (snd (m c)) (command_frame n p fps c))"

locale opener =
  fixes is_type :: "Node \<Rightarrow> bool"
    and iface :: "nat \<Rightarrow> 'z Opener"
  assumes Open_writes: "online c \<Longrightarrow> is_type (nw_heap (cl_nodes c) n) \<Longrightarrow> commands_main n percent_0 (op_Open (iface n) w) c"
    and Close_writes: "online c \<Longrightarrow> is_type (nw_heap (cl_nodes c) n) \<Longrightarrow> commands_main n percent_100 (op_Close (iface n) w) c"
    and Stop_writes: "online c \<Longrightarrow> is_type (nw_heap (cl_nodes c) n) \<Longrightarrow>
      commands_main n (pos_Parameter NewCurrentPosition) (op_Stop (iface n) w) c"
    and SetPosition_writes: "online c \<Longrightarrow> is_type (nw_heap (cl_nodes c) n) \<Longrightarrow>
      commands_main n (pos_Parameter p) (op_SetPosition (iface n) p w) c"
    and type_opening: "is_type m \<Longrightarrow> node_opening m \<noteq> None"
    and keep_open: "op_SetPositionLimitations (iface n) = OpeningDevice_setPositionLimitations n"
      "op_ClearPositionLimitations (iface n) = OpeningDevice_clearPositionLimitations n"
begin

text \<open>An inverted cover swaps the two ends of the way.\<close>

lemma inverted_writes:
  assumes "online c" "is_type (nw_heap (cl_nodes c) n)"
  shows "commands_main n (if inverted then percent_100 else percent_0)
      ((if inverted then op_Close (iface n) else op_Open (iface n)) w) c"
    "commands_main n (if inverted then percent_0 else percent_100)
      ((if inverted then op_Open (iface n) else op_Close (iface n)) w) c"
  using Open_writes [OF assms] Close_writes [OF assms] by simp_all

lemma all_write:
  assumes "online c" "is_type (nw_heap (cl_nodes c) n)"
  shows "commands_main n percent_0 (op_Open (iface n) w) c \<and> commands_main n percent_100 (op_Close (iface n) w) c \<and>
    commands_main n (pos_Parameter NewCurrentPosition) (op_Stop (iface n) w) c \<and>
    commands_main n (pos_Parameter p) (op_SetPosition (iface n) p w) c"
  by (intro conjI Open_writes Close_writes Stop_writes SetPosition_writes assms)

end

lemma commands_main_plain:
  "online c \<Longrightarrow> commands_main n (pos_Parameter p) (OpeningDevice_setPosition n p w) c"
  unfolding commands_main_def by (intro exI [of _ Map.empty] conjI writes_setPosition) simp_all

lemma commands_main_blind:
  "online c \<Longrightarrow> is_blind (nw_heap (cl_nodes c) n) \<Longrightarrow>
   commands_main n (pos_Parameter p) (Blind_SetPositionAndOrientation n p w q) c"
  unfolding commands_main_def by (intro exI [of _ "[3 \<mapsto> blind_fp3 p q]"] conjI writes_blind) simp_all

lemma plain_commands:
  assumes "online c"
  shows "commands_main n percent_0 (OpeningDevice_open n w) c" "commands_main n percent_100 (OpeningDevice_close n w) c"
    "commands_main n (pos_Parameter NewCurrentPosition) (OpeningDevice_stop n w) c"
  using commands_main_plain [OF assms, where n = n and w = w and p = "\<lparr> pos_Parameter = percent_0 \<rparr>"]
    commands_main_plain [OF assms, where n = n and w = w and p = "\<lparr> pos_Parameter = percent_100 \<rparr>"]
    commands_main_plain [OF assms, where n = n and w = w and p = NewCurrentPosition]
  by (simp_all add: OpeningDevice_open_def OpeningDevice_close_def OpeningDevice_stop_def percent_0_def percent_100_def)

lemma blind_commands:
  assumes "online c" "is_blind (nw_heap (cl_nodes c) n)"
  shows "commands_main n percent_0 (Blind_Open n w) c" "commands_main n percent_100 (Blind_Close n w) c"
    "commands_main n (pos_Parameter NewCurrentPosition) (Blind_Stop n w) c"
    "commands_main n (pos_Parameter p) (Blind_SetPosition n p w) c"
proof -
  note b = commands_main_blind [OF assms, where w = w]
  show "commands_main n percent_0 (Blind_Open n w) c"
    using b [where p = "\<lparr> pos_Parameter = percent_0 \<rparr>" and q = None]
    by (simp add: Blind_Open_def Blind_SetPosition_def percent_0_def)
  show "commands_main n percent_100 (Blind_Close n w) c"
    using b [where p = "\<lparr> pos_Parameter = percent_100 \<rparr>" and q = None]
    by (simp add: Blind_Close_def Blind_SetPosition_def percent_100_def)
  show "commands_main n (pos_Parameter NewCurrentPosition) (Blind_Stop n w) c"
    using b [where p = NewCurrentPosition and q = "Some (bl_targetOrientation (blind_at n c))"]
    by (simp add: Blind_Stop_def commands_main_def Let_def)
  show "commands_main n (pos_Parameter p) (Blind_SetPosition n p w) c"
    using b [where p = p and q = None] by (simp add: Blind_SetPosition_def)
qed

lemmas Opener_defs = Window_Opener_def RollerShutter_Opener_def Awning_Opener_def GarageDoor_Opener_def Gate_Opener_def
  Blade_Opener_def Blind_Opener_def new_Opener_def

text \<open>Every concrete type fulfils the contract.\<close>

fun is_Window :: "Node \<Rightarrow> bool" where "is_Window (Window d r) = True" | "is_Window n = False"
fun is_RollerShutter :: "Node \<Rightarrow> bool" where "is_RollerShutter (RollerShutter d) = True" | "is_RollerShutter n = False"
fun is_Awning :: "Node \<Rightarrow> bool" where "is_Awning (Awning d) = True" | "is_Awning n = False"
fun is_GarageDoor :: "Node \<Rightarrow> bool" where "is_GarageDoor (GarageDoor d) = True" | "is_GarageDoor n = False"
fun is_Gate :: "Node \<Rightarrow> bool" where "is_Gate (Gate d) = True" | "is_Gate n = False"
fun is_Blade :: "Node \<Rightarrow> bool" where "is_Blade (Blade d) = True" | "is_Blade n = False"

lemma is_type_opening:
  "is_Window m \<Longrightarrow> node_opening m \<noteq> None" "is_RollerShutter m \<Longrightarrow> node_opening m \<noteq> None"
  "is_Awning m \<Longrightarrow> node_opening m \<noteq> None" "is_GarageDoor m \<Longrightarrow> node_opening m \<noteq> None"
  "is_Gate m \<Longrightarrow> node_opening m \<noteq> None" "is_Blade m \<Longrightarrow> node_opening m \<noteq> None"
  "is_blind m \<Longrightarrow> node_opening m \<noteq> None"
  by (cases m; simp)+

lemmas device_methods =
  Window_Open_def Window_Close_def Window_Stop_def Window_SetPosition_def Window_SetPositionLimitations_def
  Window_ClearPositionLimitations_def Window_GetLimitation_def
  RollerShutter_Open_def RollerShutter_Close_def RollerShutter_Stop_def RollerShutter_SetPosition_def
  RollerShutter_SetPositionLimitations_def RollerShutter_ClearPositionLimitations_def RollerShutter_GetLimitation_def
  Awning_Open_def Awning_Close_def Awning_Stop_def Awning_SetPosition_def Awning_SetPositionLimitations_def
  Awning_ClearPositionLimitations_def Awning_GetLimitation_def
  GarageDoor_Open_def GarageDoor_Close_def GarageDoor_Stop_def GarageDoor_SetPosition_def
  GarageDoor_SetPositionLimitations_def GarageDoor_ClearPositionLimitations_def GarageDoor_GetLimitation_def
  Gate_Open_def Gate_Close_def Gate_Stop_def Gate_SetPosition_def Gate_SetPositionLimitations_def
  Gate_ClearPositionLimitations_def Gate_GetLimitation_def
  Blade_Open_def Blade_Close_def Blade_Stop_def Blade_SetPosition_def Blade_SetPositionLimitations_def
  Blade_ClearPositionLimitations_def Blade_GetLimitation_def
  Blind_SetPositionLimitations_def Blind_ClearPositionLimitations_def Blind_GetLimitation_def

lemmas opener_laws = Opener_defs device_methods plain_commands commands_main_plain blind_commands is_type_opening
  fun_eq_iff

interpretation window: opener is_Window Window_Opener
  by unfold_locales (simp_all add: opener_laws)

interpretation roller_shutter: opener is_RollerShutter RollerShutter_Opener
  by unfold_locales (simp_all add: opener_laws)

interpretation awning: opener is_Awning Awning_Opener
  by unfold_locales (simp_all add: opener_laws)

interpretation garage_door: opener is_GarageDoor GarageDoor_Opener
  by unfold_locales (simp_all add: opener_laws)

interpretation gate: opener is_Gate Gate_Opener
  by unfold_locales (simp_all add: opener_laws)

interpretation blade: opener is_Blade Blade_Opener
  by unfold_locales (simp_all add: opener_laws)

interpretation blind: opener is_blind Blind_Opener
  by unfold_locales (simp_all add: opener_laws)

section \<open>Properties\<close>




section \<open>\<^verbatim>\<open>String\<close>\<close>

text \<open>
  \<open>strconv.Quote\<close>, the verb \<^verbatim>\<open>%q\<close>: printable characters stay, the others are escaped; which ones
  above U+007F are printable is a table of the Unicode version, the parameter \<open>is_print\<close>.
\<close>

definition hex_digits :: "nat \<Rightarrow> nat \<Rightarrow> string" where
  "hex_digits width n = map (\<lambda>i. ''0123456789abcdef'' ! (n div 16 ^ i mod 16)) (rev [0..<width])"

definition escape_rune :: "(nat \<Rightarrow> bool) \<Rightarrow> nat \<Rightarrow> string" where
  "escape_rune is_print r =
     (let esc = (\<lambda>s. CHR 0x5C # s) in
      if r = 0x22 \<or> r = 0x5C then esc [char_of r]
      else if (if r < 0x80 then 0x20 \<le> r \<and> r < 0x7F else is_print r) then EncodeRune r
      else if r = 7 then esc ''a'' else if r = 8 then esc ''b'' else if r = 12 then esc ''f''
      else if r = 10 then esc ''n'' else if r = 13 then esc ''r'' else if r = 9 then esc ''t''
      else if r = 11 then esc ''v''
      else if r < 0x20 \<or> r = 0x7F then esc (''x'' @ hex_digits 2 r)
      else if r < 0x10000 then esc (''u'' @ hex_digits 4 r)
      else esc (''U'' @ hex_digits 8 r))"

definition strconv_Quote :: "(nat \<Rightarrow> bool) \<Rightarrow> string \<Rightarrow> string" where
  "strconv_Quote is_print s =
     CHR 0x22 # concat (map (\<lambda>(r, w).
        if length w = 1 \<and> r = RuneError then CHR 0x5C # ''x'' @ hex_digits 2 (byte_at w 0)
        else escape_rune is_print r) (runes s)) @ [CHR 0x22]"

text \<open>The verbs \<^verbatim>\<open>%v\<close> of an array of bytes and \<^verbatim>\<open>%t\<close>.\<close>

definition fmt_bytes :: "byte list \<Rightarrow> string" where
  "fmt_bytes bs = ''['' @ strings_Join (map byte_dec bs) '' '' @ '']''"

definition fmt_bool :: "bool \<Rightarrow> string" where
  "fmt_bool b = (if b then ''true'' else ''false'')"

definition BaseNode_String :: "(nat \<Rightarrow> bool) \<Rightarrow> BaseNode \<Rightarrow> string" where
  "BaseNode_String q n =
     ''<name='' @ strconv_Quote q (bn_name n) @ '' node_id='' @ Itoa (uint (bn_nodeID n)) @
     '' serial_number='' @ fmt_bytes (bn_serialNumber n) @ ''>''"

definition openingDeviceString :: "(nat \<Rightarrow> bool) \<Rightarrow> string \<Rightarrow> OpeningDevice \<Rightarrow> string" where
  "openingDeviceString q typeName d =
     (let n = od_BaseNode d in
      ''<'' @ typeName @ '' name='' @ strconv_Quote q (bn_name n) @ '' node_id='' @ Itoa (uint (bn_nodeID n)) @
      '' serial_number='' @ fmt_bytes (bn_serialNumber n) @
      '' position='' @ strconv_Quote q (Position_String (od_position d)) @ ''/>'')"

definition Window_String :: "(nat \<Rightarrow> bool) \<Rightarrow> OpeningDevice \<Rightarrow> bool \<Rightarrow> string" where
  "Window_String q d rainSensor =
     (let n = od_BaseNode d in
      ''<Window name='' @ strconv_Quote q (bn_name n) @ '' node_id='' @ Itoa (uint (bn_nodeID n)) @
      '' rain_sensor='' @ fmt_bool rainSensor @ '' serial_number='' @ fmt_bytes (bn_serialNumber n) @
      '' position='' @ strconv_Quote q (Position_String (od_position d)) @ ''/>'')"

definition RollerShutter_String :: "(nat \<Rightarrow> bool) \<Rightarrow> OpeningDevice \<Rightarrow> string" where
  "RollerShutter_String q d = openingDeviceString q ''RollerShutter'' d"

definition Awning_String :: "(nat \<Rightarrow> bool) \<Rightarrow> OpeningDevice \<Rightarrow> string" where
  "Awning_String q d = openingDeviceString q ''Awning'' d"

definition GarageDoor_String :: "(nat \<Rightarrow> bool) \<Rightarrow> OpeningDevice \<Rightarrow> string" where
  "GarageDoor_String q d = openingDeviceString q ''GarageDoor'' d"

definition Gate_String :: "(nat \<Rightarrow> bool) \<Rightarrow> OpeningDevice \<Rightarrow> string" where
  "Gate_String q d = openingDeviceString q ''Gate'' d"

definition Blade_String :: "(nat \<Rightarrow> bool) \<Rightarrow> OpeningDevice \<Rightarrow> string" where
  "Blade_String q d = openingDeviceString q ''Blade'' d"

definition Blind_String :: "(nat \<Rightarrow> bool) \<Rightarrow> Blind \<Rightarrow> string" where
  "Blind_String q b = openingDeviceString q ''Blind'' (bl_OpeningDevice b)"

definition OnOffSwitch_String :: "(nat \<Rightarrow> bool) \<Rightarrow> BaseNode \<Rightarrow> SwitchParameter \<Rightarrow> string" where
  "OnOffSwitch_String q n parameter =
     ''<OnOffSwitch name='' @ strconv_Quote q (bn_name n) @ '' node_id='' @ Itoa (uint (bn_nodeID n)) @
     '' state='' @ (if SwitchParameter_IsOn parameter then ''on'' else ''off'') @ ''>''"

definition LighteningDevice_String :: "(nat \<Rightarrow> bool) \<Rightarrow> BaseNode \<Rightarrow> string" where
  "LighteningDevice_String q n =
     ''<LighteningDevice name='' @ strconv_Quote q (bn_name n) @ '' node_id='' @ Itoa (uint (bn_nodeID n)) @ ''>''"

definition Light_String :: "(nat \<Rightarrow> bool) \<Rightarrow> BaseNode \<Rightarrow> string" where
  "Light_String q n =
     ''<Light name='' @ strconv_Quote q (bn_name n) @ '' node_id='' @ Itoa (uint (bn_nodeID n)) @
     '' serial_number='' @ fmt_bytes (bn_serialNumber n) @ ''>''"

text \<open>\<open>String\<close> through the interface \<open>Node\<close>; a generic node has that of \<open>BaseNode\<close>.\<close>

fun Node_String :: "(nat \<Rightarrow> bool) \<Rightarrow> Node \<Rightarrow> string" where
  "Node_String q (Window d rainSensor) = Window_String q d rainSensor"
| "Node_String q (RollerShutter d) = RollerShutter_String q d"
| "Node_String q (Awning d) = Awning_String q d"
| "Node_String q (GarageDoor d) = GarageDoor_String q d"
| "Node_String q (Gate d) = Gate_String q d"
| "Node_String q (Blade d) = Blade_String q d"
| "Node_String q (BlindN b) = Blind_String q b"
| "Node_String q (OnOffSwitch n p) = OnOffSwitch_String q n p"
| "Node_String q (Light n i) = Light_String q n"
| "Node_String q (genericNode n) = BaseNode_String q n"

text \<open>No control character.\<close>

definition one_line :: "string \<Rightarrow> bool" where
  "one_line s \<longleftrightarrow> (\<forall>c\<in>set s. 0x20 \<le> (of_char c :: nat) \<and> (of_char c :: nat) \<noteq> 0x7F)"

lemma one_line_simps [simp]:
  "one_line []" "one_line (c # s) \<longleftrightarrow> (0x20 \<le> (of_char c :: nat) \<and> (of_char c :: nat) \<noteq> 0x7F) \<and> one_line s"
  "one_line (s @ t) \<longleftrightarrow> one_line s \<and> one_line t" "one_line (concat ss) \<longleftrightarrow> (\<forall>s\<in>set ss. one_line s)"
  by (auto simp: one_line_def)

lemma one_line_hex: "one_line (hex_digits width n)"
proof -
  have "0x20 \<le> (of_char (''0123456789abcdef'' ! d) :: nat) \<and> (of_char (''0123456789abcdef'' ! d) :: nat) \<noteq> 0x7F"
    if "d < 16" for d
  proof -
    have hex: "\<forall>c\<in>set ''0123456789abcdef''. 0x20 \<le> (of_char c :: nat) \<and> (of_char c :: nat) \<noteq> 0x7F"
      by simp
    have "''0123456789abcdef'' ! d \<in> set ''0123456789abcdef''"
      by (rule nth_mem) (use that in simp)
    with hex show ?thesis by blast
  qed
  then show ?thesis by (auto simp: one_line_def hex_digits_def)
qed

lemma one_line_EncodeRune: "0x20 \<le> r \<Longrightarrow> r \<noteq> 0x7F \<Longrightarrow> one_line (EncodeRune r)"
  by (auto simp: EncodeRune_def Let_def of_char_of take_bit_eq_mod)
  
lemma one_line_escape: "one_line (escape_rune q r)"
  by (auto simp: escape_rune_def Let_def one_line_hex one_line_EncodeRune)

lemma one_line_Quote [simp]: "one_line (strconv_Quote q s)"
  by (auto simp: strconv_Quote_def one_line_hex one_line_escape)

lemma one_line_digits: "list_all is_digit s \<Longrightarrow> one_line s"
  by (fastforce simp: one_line_def list_all_iff is_digit_def)

lemma one_line_Itoa [simp]: "one_line (Itoa i)"
  by (simp add: Itoa_def one_line_digits dec_nat_digits)

lemma one_line_Join: "\<forall>s\<in>set ss. one_line s \<Longrightarrow> one_line sep \<Longrightarrow> one_line (strings_Join ss sep)"
  by (induction ss sep rule: strings_Join.induct) simp_all

lemma one_line_bytes [simp]: "one_line (fmt_bytes bs)"
  by (auto simp: fmt_bytes_def byte_dec_def one_line_digits dec_nat_digits intro!: one_line_Join)

lemma one_line_bool [simp]: "one_line (fmt_bool b)"
  by (simp add: fmt_bool_def)

lemmas node_String_defs =
  Window_String_def RollerShutter_String_def Awning_String_def GarageDoor_String_def Gate_String_def
  Blade_String_def Blind_String_def OnOffSwitch_String_def LighteningDevice_String_def Light_String_def
  openingDeviceString_def BaseNode_String_def Let_def

text \<open>
  Whatever a node is called and whatever the KLF200 reports of it, its readable representation is one
  line of text: no control character of a name gets into the log unescaped, so that a log line cannot be forged
  through a device's name.
\<close>

theorem Node_String_one_line: "one_line (Node_String is_print n)"
  by (cases n) (simp_all add: node_String_defs)

end
