(* ===== verification/Loops.thy ===== *)
theory Loops
  imports Schedule
begin

text \<open>
  The loops of \<^verbatim>\<open>src/app/app.go\<close> that a ticker drives: the health check with its stall watchdog
  and the periodic restart by interval; when their passes begin, and how soon a silent gateway is
  noticed.
\<close>

section \<open>Tickers\<close>

text \<open>
  The channel of a ticker holds one tick. A receiver that comes late gets the one that waits; the
  ticks after it are lost, up to the time of the receipt.
\<close>

definition next_tick :: "int \<Rightarrow> int \<Rightarrow> int \<Rightarrow> int" where
  "next_tick interval tick now = tick + interval * (1 + (now - tick) div interval)"

lemma next_tick_bounds:
  assumes "0 < interval"
  shows "now < next_tick interval tick now" "next_tick interval tick now \<le> now + interval"
  using div_bounds [OF assms, of "now - tick"] by (simp_all add: next_tick_def algebra_simps)

lemma next_tick_grid: "(next_tick interval tick now - tick) mod interval = 0"
  by (simp add: next_tick_def)

section \<open>One pass\<close>

text \<open>
  \<open>runHealthCheckTick\<close>: the pass, and what the watchdog reports meanwhile, once per \<open>warnAfter\<close>:
  for how long the pass has been running.
\<close>

definition reportHealthCheckStall :: "int \<Rightarrow> int \<Rightarrow> int list" where
  "reportHealthCheckStall warnAfter took =
     (if warnAfter \<le> 0 then [] else map (\<lambda>k. warnAfter * (int k + 1)) [0..<nat ((took - 1) div warnAfter)])"

definition runHealthCheckTick ::
    "('s, 'e) klfClient \<Rightarrow> ('s, 'e) coverManager \<Rightarrow> ctx \<Rightarrow> int \<Rightarrow> 's app \<Rightarrow> int list \<times> 's app" where
  "runHealthCheckTick K M ctx warnAfter a =
     (let b = checkHealth K M ctx a in (reportHealthCheckStall warnAfter (ap_now b - ap_now a), b))"

text \<open>
  One turn of the loop at a tick that is due at \<open>tick\<close>: \<open>seen\<close> tells when the last frame of the wait
  came, if one did. \<open>None\<close> when the goroutine ends because the application stopped at \<open>stop\<close>.
\<close>

definition frame_seen :: "nat option \<Rightarrow> int \<Rightarrow> 's app \<Rightarrow> 's app" where
  "frame_seen seen tick a =
     (case seen of
        None \<Rightarrow> a
      | Some d \<Rightarrow> if ap_now a + int d \<le> tick then a\<lparr> ap_lastContact := ap_now a + int d \<rparr> else a)"

record health_pass =
  hp_start :: int
  hp_end :: int
  hp_stalls :: "int list"

definition health_turn ::
    "('s, 'e) klfClient \<Rightarrow> ('s, 'e) coverManager \<Rightarrow> int \<Rightarrow> ctx \<Rightarrow> nat option \<Rightarrow> int \<Rightarrow> 's app \<Rightarrow>
     health_pass option \<times> int \<times> 's app" where
  "health_turn K M interval stop seen tick a =
     (case await_timer stop (tick - ap_now a) (frame_seen seen tick a) of
        (True, a) \<Rightarrow> (None, tick, a)
      | (False, a) \<Rightarrow>
          (case runHealthCheckTick K M None interval a of
             (stalls, b) \<Rightarrow>
               (Some \<lparr> hp_start = ap_now a, hp_end = ap_now b, hp_stalls = stalls \<rparr>,
                next_tick interval tick (ap_now a), b)))"

fun health_loop ::
    "('s, 'e) klfClient \<Rightarrow> ('s, 'e) coverManager \<Rightarrow> int \<Rightarrow> ctx \<Rightarrow> nat option list \<Rightarrow> int \<Rightarrow> 's app \<Rightarrow>
     health_pass list \<times> int \<times> 's app" where
  "health_loop K M interval stop [] tick a = ([], tick, a)"
| "health_loop K M interval stop (seen # seens) tick a =
     (case health_turn K M interval stop seen tick a of
        (None, tick, a) \<Rightarrow> ([], tick, a)
      | (Some p, tick, a) \<Rightarrow>
          (case health_loop K M interval stop seens tick a of (ps, r) \<Rightarrow> (p # ps, r)))"

text \<open>The goroutine of \<open>startHealthCheck\<close>, whose ticker starts now.\<close>

definition run_health_check ::
    "('s, 'e) klfClient \<Rightarrow> ('s, 'e) coverManager \<Rightarrow> ctx \<Rightarrow> nat option list \<Rightarrow> 's app \<Rightarrow> health_pass list \<times> 's app" where
  "run_health_check K M stop seens a =
     (case startHealthCheck (cf_Restart (ap_cfg a)) of
        None \<Rightarrow> ([], a)
      | Some interval \<Rightarrow>
          (case health_loop K M interval stop seens (ap_now a + interval) a of (ps, tick, b) \<Rightarrow> (ps, b)))"

section \<open>The periodic restart by interval\<close>

definition interval_turn ::
    "('s, 'e) klfClient \<Rightarrow> ('s, 'e) coverManager \<Rightarrow> int \<Rightarrow> ctx \<Rightarrow> nat \<Rightarrow> int \<Rightarrow> 's app \<Rightarrow>
     (int \<times> int) option \<times> int \<times> 's app" where
  "interval_turn K M interval stop busy tick a =
     (case await_timer stop (tick - ap_now a) a of
        (True, a) \<Rightarrow> (None, tick, a)
      | (False, a) \<Rightarrow>
          (let b = runPeriodicRestart K M None (a\<lparr> ap_now := ap_now a + int busy \<rparr>)
           in (Some (ap_now a, ap_now b), next_tick interval tick (ap_now a), b)))"

fun interval_loop ::
    "('s, 'e) klfClient \<Rightarrow> ('s, 'e) coverManager \<Rightarrow> int \<Rightarrow> ctx \<Rightarrow> nat list \<Rightarrow> int \<Rightarrow> 's app \<Rightarrow>
     (int \<times> int) list \<times> 's app" where
  "interval_loop K M interval stop [] tick a = ([], a)"
| "interval_loop K M interval stop (busy # busys) tick a =
     (case interval_turn K M interval stop busy tick a of
        (None, tick, a) \<Rightarrow> ([], a)
      | (Some p, tick, a) \<Rightarrow> (case interval_loop K M interval stop busys tick a of (ps, b) \<Rightarrow> (p # ps, b)))"

text \<open>The goroutine that \<open>startRebootLoop\<close> launches: when each restart began and ended.\<close>

definition run_reboot_loop ::
    "('s, 'e) klfClient \<Rightarrow> ('s, 'e) coverManager \<Rightarrow> Location \<Rightarrow> ctx \<Rightarrow> nat list \<Rightarrow> 's app \<Rightarrow> (int \<times> int) list \<times> 's app" where
  "run_reboot_loop K M loc stop busys a =
     (case startRebootLoop (cf_Restart (ap_cfg a)) of
        ScheduledLoop hour minute \<Rightarrow> startScheduledRestartLoop K M loc hour minute stop busys a
      | IntervalLoop interval \<Rightarrow> interval_loop K M interval stop busys (ap_now a + interval) a
      | NoLoop \<Rightarrow> ([], a))"

section \<open>When the passes come\<close>

lemma frame_seen_fields [simp]:
  "ap_now (frame_seen seen tick a) = ap_now a" "ap_cfg (frame_seen seen tick a) = ap_cfg a"
  "ap_delays (frame_seen seen tick a) = ap_delays a" "ap_wedged (frame_seen seen tick a) = ap_wedged a"
  "ap_marks (frame_seen seen tick a) = ap_marks a" "ap_host (frame_seen seen tick a) = ap_host a"
  "frame_seen None tick a = a"
  by (simp_all add: frame_seen_def split: option.split)

lemma now_escalate: "ap_now a \<le> ap_now (escalateToPowerCycle K M ctx a)"
proof -
  obtain r b where b: "doPowerCycle K M ctx a = (r, b)" by fastforce
  then have "ap_now a \<le> ap_now b" using now_doPowerCycle [of a K M ctx] by simp
  then have "ap_now a \<le> ap_now (restore K M b)"
    using mark_fields(7) [of "b\<lparr> ap_wedged := False \<rparr>" K M True] by (simp add: restore_def)
  with b \<open>ap_now a \<le> ap_now b\<close> show ?thesis by (simp add: escalateToPowerCycle_def split: option.split)
qed

lemma now_restore: "ap_now a \<le> ap_now (restore K M a)"
  using mark_fields(7) [of "a\<lparr> ap_wedged := False \<rparr>" K M True] by (simp add: restore_def)

lemma now_mark_wedged: "ap_now a \<le> ap_now (mark_wedged K M a)"
  using mark_fields(7) [of "a\<lparr> ap_wedged := True \<rparr>" K M False] by (simp add: mark_wedged_def)

lemma now_checkHealth: "ap_now a \<le> ap_now (checkHealth K M ctx a)"
proof -
  define b where "b = mark_wedged K M a"
  obtain r c where c: "doReconnect K M ctx b = (r, c)" by fastforce
  obtain s d where d: "doReboot K M ctx c = (s, d)" by fastforce
  have "ap_now a \<le> ap_now b" by (simp add: b_def now_mark_wedged)
  moreover have "ap_now b \<le> ap_now c" using steady_doReconnect [OF steady_refl, of b K M ctx] c by (simp add: steady_def)
  moreover have "ap_now c \<le> ap_now d" using now_doReboot [of c K M ctx] d by simp
  moreover note now_restore [of a K M] now_escalate [of c K M ctx] now_escalate [of d K M ctx] now_restore [of d K M]
  ultimately show ?thesis
    by (auto simp: checkHealth_def Let_def b_def [symmetric] c d split: option.split)
qed

lemma health_turn_pass:
  assumes "health_turn K M interval stop seen tick a = (Some p, tick', b)" "0 < interval"
  obtains c where "c = (frame_seen seen tick a)\<lparr> ap_now := max (ap_now a) tick \<rparr>"
    "b = checkHealth K M None c" "hp_start p = max (ap_now a) tick" "hp_end p = ap_now b"
    "hp_stalls p = reportHealthCheckStall interval (hp_end p - hp_start p)"
    "tick' = next_tick interval tick (max (ap_now a) tick)"
proof -
  obtain e c where w: "await_timer stop (tick - ap_now a) (frame_seen seen tick a) = (e, c)" by fastforce
  with assms(1) have e: "\<not> e" by (auto simp: health_turn_def)
  with w have c: "c = (frame_seen seen tick a)\<lparr> ap_now := max (ap_now a) tick \<rparr>"
    by (auto simp: await_timer_def max_def split: option.splits if_splits)
  then have "ap_now c = max (ap_now a) tick" by simp
  with w e assms(1) show ?thesis
    by (intro that [OF c]) (auto simp: health_turn_def runHealthCheckTick_def Let_def)
qed

text \<open>What the passes of a loop look like that starts at \<open>now\<close> with the next tick at \<open>tick\<close>.\<close>

fun passes_ok :: "int \<Rightarrow> int \<Rightarrow> int \<Rightarrow> int \<Rightarrow> health_pass list \<Rightarrow> bool" where
  "passes_ok interval limit now tick [] = True"
| "passes_ok interval limit now tick (p # ps) =
     (hp_start p = max now tick \<and> hp_start p \<le> hp_end p \<and> hp_end p \<le> hp_start p + limit \<and>
      hp_stalls p = reportHealthCheckStall interval (hp_end p - hp_start p) \<and>
      passes_ok interval limit (hp_end p) (next_tick interval tick (hp_start p)) ps)"

lemma health_loop_passes:
  assumes "0 < interval"
  shows "delays_below D a \<Longrightarrow> 0 < vc_ConnectTimeoutSeconds (cf_Velux (ap_cfg a)) \<Longrightarrow>
    passes_ok interval (tick_limit (ap_cfg a) D) (ap_now a) tick (fst (health_loop K M interval stop seens tick a))"
proof (induction seens arbitrary: tick a)
  case (Cons seen seens)
  obtain q tick' b where t: "health_turn K M interval stop seen tick a = (q, tick', b)" by (metis prod_cases3)
  show ?case
  proof (cases q)
    case None
    with t show ?thesis by simp
  next
    case (Some p)
    with t have t: "health_turn K M interval stop seen tick a = (Some p, tick', b)" by simp
    from health_turn_pass [OF t assms] obtain c where c:
      "c = (frame_seen seen tick a)\<lparr> ap_now := max (ap_now a) tick \<rparr>"
      "b = checkHealth K M None c" "hp_start p = max (ap_now a) tick" "hp_end p = ap_now b"
      "hp_stalls p = reportHealthCheckStall interval (hp_end p - hp_start p)"
      "tick' = next_tick interval tick (max (ap_now a) tick)" .
    have cfg: "delays_below D c" "ap_cfg c = ap_cfg a" "ap_now c = hp_start p" using Cons.prems c(1,3) by simp_all
    have w: "within (tick_limit (ap_cfg a) D) c b"
      using within_checkHealth [OF cfg(1), of K M None] Cons.prems(2) cfg(2) c(2) by simp
    have "ap_cfg b = ap_cfg a" using w cfg by (simp add: within_def)
    with Cons.IH [OF delays_within [OF w cfg(1)], of tick'] Cons.prems(2)
    have "passes_ok interval (tick_limit (ap_cfg a) D) (ap_now b) tick' (fst (health_loop K M interval stop seens tick' b))"
      by simp
    with w cfg c now_checkHealth [of c K M None] t show ?thesis
      by (auto simp: within_def split: prod.split)
  qed
qed simp

lemma passes_ok_later:
  "0 < interval \<Longrightarrow> passes_ok interval limit now tick ps \<Longrightarrow> p \<in> set ps \<Longrightarrow> now \<le> hp_start p \<and> tick \<le> hp_start p"
proof (induction ps arbitrary: now tick)
  case (Cons q ps)
  show ?case
  proof (cases "p = q")
    case False
    with Cons.prems have "p \<in> set ps" by simp
    with Cons have "hp_end q \<le> hp_start p" "next_tick interval tick (hp_start q) \<le> hp_start p" by auto
    with Cons.prems next_tick_bounds [of interval "hp_start q" tick] show ?thesis by auto
  qed (use Cons.prems in simp)
qed simp

lemma passes_ok_facts:
  assumes "0 < interval"
  shows "passes_ok interval limit now tick ps \<Longrightarrow>
    sorted_wrt (\<lambda>p q. hp_end p \<le> hp_start q \<and> hp_start p < hp_start q) ps \<and>
    successively (\<lambda>p q. hp_start q \<le> max (hp_end p) (hp_start p + interval)) ps \<and>
    (\<forall>p\<in>set ps. hp_start p \<le> hp_end p \<and> hp_end p \<le> hp_start p + limit \<and>
      hp_stalls p = reportHealthCheckStall interval (hp_end p - hp_start p))"
proof (induction ps arbitrary: now tick)
  case (Cons p ps)
  note nt = next_tick_bounds [OF assms, where tick = tick and now = "hp_start p"]
  have "hp_end p \<le> hp_start q \<and> hp_start p < hp_start q" if "q \<in> set ps" for q
    using passes_ok_later [OF assms _ that] Cons.prems nt by fastforce
  moreover have "hp_start q \<le> max (hp_end p) (hp_start p + interval)" if "ps = q # qs" for q qs
    using Cons.prems that nt by auto
  moreover have "passes_ok interval limit (hp_end p) (next_tick interval tick (hp_start p)) ps"
    and p: "hp_start p \<le> hp_end p \<and> hp_end p \<le> hp_start p + limit \<and>
      hp_stalls p = reportHealthCheckStall interval (hp_end p - hp_start p)"
    using Cons.prems unfolding passes_ok.simps by blast+
  from Cons.IH [OF this(1)]
  have "sorted_wrt (\<lambda>p q. hp_end p \<le> hp_start q \<and> hp_start p < hp_start q) ps"
    "successively (\<lambda>p q. hp_start q \<le> max (hp_end p) (hp_start p + interval)) ps"
    "\<forall>p\<in>set ps. hp_start p \<le> hp_end p \<and> hp_end p \<le> hp_start p + limit \<and>
      hp_stalls p = reportHealthCheckStall interval (hp_end p - hp_start p)" by blast+
  ultimately show ?case using p by (cases ps) simp_all
qed simp

lemma length_stalls:
  assumes "0 < warnAfter" "took \<le> limit" "0 < limit"
  shows "length (reportHealthCheckStall warnAfter took) \<le> nat (limit div warnAfter)"
  using assms by (auto simp: reportHealthCheckStall_def intro!: nat_mono zdiv_mono1)



section \<open>A gateway that falls silent\<close>

lemma healthy_pass:
  assumes "0 < rc_HealthCheckInterval (cf_Restart (ap_cfg c))" "ap_now c - ap_lastContact c \<le> health_threshold c"
    and quiet: "\<And>s. kc_contacts K (cm_MarkAllAvailable M s) = kc_contacts K s"
  shows "checkHealth K M ctx c = restore K M c" "ap_lastContact (restore K M c) = ap_lastContact c"
  using assms by (simp_all add: checkHealth_def Let_def second_def restore_def mark_def on_host_def call_def
      split: list.split)

lemma marks_escalate: "\<exists>rest. ap_marks (escalateToPowerCycle K M ctx a) = ap_marks a @ rest"
proof -
  obtain r b where b: "doPowerCycle K M ctx a = (r, b)" by fastforce
  then have "ap_marks b = ap_marks a" by (cases rule: doPowerCycle_cases [of K M ctx a]) simp_all
  with b show ?thesis
    by (auto simp: escalateToPowerCycle_def restore_def mark_fields split: option.split)
qed

text \<open>An overdue pass begins with telling the covers.\<close>

lemma marks_overdue:
  assumes "0 < rc_HealthCheckInterval (cf_Restart (ap_cfg c))" "health_threshold c < ap_now c - ap_lastContact c"
  shows "\<exists>rest. ap_marks (checkHealth K M ctx c) = ap_marks (mark_wedged K M c) @ rest"
proof -
  define b where "b = mark_wedged K M c"
  obtain r d where d: "doReconnect K M ctx b = (r, d)" by fastforce
  obtain s e where e: "doReboot K M ctx d = (s, e)" by fastforce
  have "ap_marks d = ap_marks b" using steady_doReconnect [OF steady_refl, of b K M ctx] d by (simp add: steady_def)
  moreover have "ap_marks e = ap_marks d" using steady_doReboot [OF steady_refl, of d K M ctx] e by (simp add: steady_def)
  moreover have "\<exists>rest. ap_marks (restore K M e) = ap_marks e @ rest" by (simp add: restore_def mark_fields)
  moreover note marks_escalate [of K M ctx d] marks_escalate [of K M ctx e]
  ultimately have "\<exists>rest. ap_marks (if \<not> rc_RestartOnError (cf_Restart (ap_cfg b)) then b
      else case r of Some x \<Rightarrow> escalateToPowerCycle K M ctx d
      | None \<Rightarrow> (case s of Some x \<Rightarrow> escalateToPowerCycle K M ctx e | None \<Rightarrow> restore K M e)) = ap_marks b @ rest"
    by (auto split: option.split)
  moreover have "ap_cfg b = ap_cfg c" by (simp add: b_def mark_wedged_def mark_fields)
  ultimately show ?thesis
    using assms by (auto simp: checkHealth_def Let_def second_def b_def [symmetric] d e split: option.splits if_splits)
qed

lemma healthy_turn:
  assumes "0 < rc_HealthCheckInterval (cf_Restart (ap_cfg a))"
    "max (ap_now a) tick - ap_lastContact a \<le> health_threshold a" "delays_below D a"
    and quiet: "\<And>s. kc_contacts K (cm_MarkAllAvailable M s) = kc_contacts K s"
  obtains p b where "health_turn K M interval None None tick a = (Some p, next_tick interval tick (max (ap_now a) tick), b)"
    "ap_lastContact b = ap_lastContact a" "ap_cfg b = ap_cfg a" "delays_below D b"
    "ap_now b \<le> max (ap_now a) tick + int D"
proof -
  define c where "c = a\<lparr> ap_now := max (ap_now a) tick \<rparr>"
  have c: "0 < rc_HealthCheckInterval (cf_Restart (ap_cfg c))" "ap_now c - ap_lastContact c \<le> health_threshold c"
    "delays_below D c" using assms by (simp_all add: c_def health_threshold_def)
  note h = healthy_pass(1) [where K = K and M = M and ctx = None, OF c(1,2) quiet]
    healthy_pass(2) [where K = K and M = M, OF c(1,2) quiet]
  from within_restore [OF c(3), of K M] have w: "within (int D) c (restore K M c)" .
  have "await_timer None (tick - ap_now a) a = (False, c)" by (simp add: await_timer_def c_def max_def)
  moreover have "ap_now c = max (ap_now a) tick" "ap_lastContact c = ap_lastContact a" "ap_cfg c = ap_cfg a"
    by (simp_all add: c_def)
  ultimately show ?thesis
    using h w delays_within [OF w c(3)]
    by (intro that [of "\<lparr> hp_start = ap_now c, hp_end = ap_now (restore K M c),
        hp_stalls = reportHealthCheckStall interval (ap_now (restore K M c) - ap_now c) \<rparr>" "restore K M c"])
      (simp_all add: health_turn_def runHealthCheckTick_def Let_def within_def)
qed

text \<open>Without a frame the loop runs into a tick at which the contact is overdue.\<close>

lemma reaches_overdue:
  assumes quiet: "\<And>s. kc_contacts K (cm_MarkAllAvailable M s) = kc_contacts K s"
    and interval: "0 < interval" "0 < rc_HealthCheckInterval (cf_Restart (ap_cfg b))"
    and b: "max (ap_now b) tick \<le> ap_lastContact b + health_threshold b + max interval (int D)" "delays_below D b"
  shows "\<exists>n ps tick' d. health_loop K M interval None (replicate n None) tick b = (ps, tick', d) \<and>
    ap_cfg d = ap_cfg b \<and> ap_lastContact d = ap_lastContact b \<and>
    ap_lastContact b + health_threshold b < max (ap_now d) tick' \<and>
    max (ap_now d) tick' \<le> ap_lastContact b + health_threshold b + max interval (int D)"
  using b interval(2)
proof (induction "nat (ap_lastContact b + health_threshold b + 1 - max (ap_now b) tick)" arbitrary: b tick rule: less_induct)
  case less
  define t where "t = max (ap_now b) tick"
  show ?case
  proof (cases "ap_lastContact b + health_threshold b < t")
    case True
    with less.prems show ?thesis by (intro exI [of _ 0]) (auto simp: t_def)
  next
    case False
    then have late: "max (ap_now b) tick - ap_lastContact b \<le> health_threshold b" by (simp add: t_def)
    from healthy_turn [where K = K and M = M and interval = interval, OF less.prems(3) late less.prems(2) quiet] obtain p e where
      e: "health_turn K M interval None None tick b = (Some p, next_tick interval tick t, e)"
        "ap_lastContact e = ap_lastContact b" "ap_cfg e = ap_cfg b" "delays_below D e" "ap_now e \<le> t + int D"
      unfolding t_def by blast
    have same: "health_threshold e = health_threshold b" by (simp add: health_threshold_def e(3))
    have "\<exists>n ps tick' d. health_loop K M interval None (replicate n None) (next_tick interval tick t) e = (ps, tick', d) \<and>
      ap_cfg d = ap_cfg e \<and> ap_lastContact d = ap_lastContact e \<and>
      ap_lastContact e + health_threshold e < max (ap_now d) tick' \<and>
      max (ap_now d) tick' \<le> ap_lastContact e + health_threshold e + max interval (int D)"
      using False next_tick_bounds [OF interval(1), where tick = tick and now = t] e less.prems
      by (intro less.hyps) (auto simp: same t_def [symmetric])
    then obtain n ps tick' d where "health_loop K M interval None (replicate n None) (next_tick interval tick t) e = (ps, tick', d)"
      and d: "ap_cfg d = ap_cfg b" "ap_lastContact d = ap_lastContact b"
        "ap_lastContact b + health_threshold b < max (ap_now d) tick'"
        "max (ap_now d) tick' \<le> ap_lastContact b + health_threshold b + max interval (int D)"
      by (auto simp: e(2,3) same)
    then have "health_loop K M interval None (replicate (Suc n) None) tick b = (p # ps, tick', d)"
      by (simp add: e(1))
    with d show ?thesis by blast
  qed
qed

text \<open>
  C20: A gateway that falls silent is noticed. When no frame comes any more, then after some passes
  that find nothing the loop reaches one that does: it begins when the silence is longer than the
  threshold, but by less than another interval (or the time of a call that told the covers), and the
  first thing it does is to tell the covers that they are unavailable.
\<close>

theorem silence_is_noticed:
  assumes quiet: "\<And>s. kc_contacts K (cm_MarkAllAvailable M s) = kc_contacts K s"
    and a: "\<forall>d\<in>set (ap_delays a). d \<le> D" "interval = rc_HealthCheckInterval (cf_Restart (ap_cfg a)) * second"
      "0 < interval" "ap_now a \<le> ap_lastContact a + health_threshold a" "tick \<le> ap_now a + interval"
  shows "\<exists>n. case health_loop K M interval None (replicate n None) tick a of (ps, tick', b) \<Rightarrow>
    let c = b\<lparr> ap_now := max (ap_now b) tick' \<rparr>
    in ap_lastContact c = ap_lastContact a \<and>
      health_threshold a < ap_now c - ap_lastContact a \<and>
      ap_now c - ap_lastContact a \<le> health_threshold a + max interval (int D) \<and>
      (\<exists>rest. ap_marks (checkHealth K M None c) = ap_marks c @ (if ap_wedged c then [] else [False]) @ rest)"
proof -
  have rc: "0 < rc_HealthCheckInterval (cf_Restart (ap_cfg a))"
    using a(2,3) by (simp add: second_def zero_less_mult_iff)
  have "max (ap_now a) tick \<le> ap_lastContact a + health_threshold a + max interval (int D)" using a(3-5) by linarith
  from reaches_overdue [where K = K and M = M, OF quiet a(3) rc this] a(1) obtain n ps tick' d where
    n: "health_loop K M interval None (replicate n None) tick a = (ps, tick', d)" and
    d: "ap_cfg d = ap_cfg a" "ap_lastContact d = ap_lastContact a"
      "ap_lastContact a + health_threshold a < max (ap_now d) tick'"
      "max (ap_now d) tick' \<le> ap_lastContact a + health_threshold a + max interval (int D)"
    by blast
  define c where "c = d\<lparr> ap_now := max (ap_now d) tick' \<rparr>"
  have c: "ap_cfg c = ap_cfg a" "ap_lastContact c = ap_lastContact a" "ap_now c = max (ap_now d) tick'"
    by (simp_all add: c_def d)
  then have over: "0 < rc_HealthCheckInterval (cf_Restart (ap_cfg c))" "health_threshold c < ap_now c - ap_lastContact c"
    using rc d(3) by (simp_all only: c health_threshold_def)
  have "\<exists>rest. ap_marks (checkHealth K M None c) = ap_marks c @ (if ap_wedged c then [] else [False]) @ rest"
    using marks_overdue [OF over, of K M None] by (auto simp: mark_wedged_def mark_fields)
  moreover have "health_threshold a < ap_now c - ap_lastContact a"
    "ap_now c - ap_lastContact a \<le> health_threshold a + max interval (int D)"
    using d(3,4) c(3) by linarith+
  ultimately show ?thesis
    using c(2) by (intro exI [of _ n]) (simp only: n prod.case Let_def c_def [symmetric] simp_thms)
qed

theorem silence_is_noticed_witness:
  "let a = recordContact (newApp (example_config '''') True 0 (1000 * second) [])
   in \<exists>n. case health_loop (example_client 0) example_manager (300 * second) None (replicate n None) (1300 * second) a of
     (ps, tick', b) \<Rightarrow>
       let c = b\<lparr> ap_now := max (ap_now b) tick' \<rparr>
       in 1600 * second < ap_now c \<and> ap_now c \<le> 1900 * second \<and>
         (\<exists>rest. ap_marks (checkHealth (example_client 0) example_manager None c) =
            ap_marks c @ (if ap_wedged c then [] else [False]) @ rest)"
proof -
  define a where "a = recordContact (newApp (example_config '''') True (0::nat) (1000 * second) [])"
  have a: "\<forall>d\<in>set (ap_delays a). d \<le> 0" "rc_HealthCheckInterval (cf_Restart (ap_cfg a)) = 300"
    "ap_now a = 1000 * second" "ap_lastContact a = 1000 * second" "health_threshold a = 600 * second"
    by (simp_all add: a_def app_eval cong: app_cong)
  have i: "300 * second = rc_HealthCheckInterval (cf_Restart (ap_cfg a)) * second" "0 < 300 * second"
    "ap_now a \<le> ap_lastContact a + health_threshold a" "1300 * second \<le> ap_now a + 300 * second"
    using a by (simp_all add: second_def)
  have quiet: "kc_contacts (example_client 0) (cm_MarkAllAvailable example_manager s) = kc_contacts (example_client 0) s" for s
    by (simp add: example_fields)
  from silence_is_noticed [where K = "example_client 0" and M = example_manager and a = a and D = 0
      and interval = "300 * second" and tick = "1300 * second", OF quiet a(1) i]
  obtain n where "case health_loop (example_client 0) example_manager (300 * second) None (replicate n None) (1300 * second) a of
     (ps, tick', b) \<Rightarrow>
       let c = b\<lparr> ap_now := max (ap_now b) tick' \<rparr>
       in ap_lastContact c = ap_lastContact a \<and> health_threshold a < ap_now c - ap_lastContact a \<and>
         ap_now c - ap_lastContact a \<le> health_threshold a + max (300 * second) (int 0) \<and>
         (\<exists>rest. ap_marks (checkHealth (example_client 0) example_manager None c) =
            ap_marks c @ (if ap_wedged c then [] else [False]) @ rest)"
    by (elim exE) (rule that)
  then have "case health_loop (example_client 0) example_manager (300 * second) None (replicate n None) (1300 * second) a of
     (ps, tick', b) \<Rightarrow>
       let c = b\<lparr> ap_now := max (ap_now b) tick' \<rparr>
       in 1600 * second < ap_now c \<and> ap_now c \<le> 1900 * second \<and>
         (\<exists>rest. ap_marks (checkHealth (example_client 0) example_manager None c) =
            ap_marks c @ (if ap_wedged c then [] else [False]) @ rest)"
    unfolding a(4,5) by (auto simp: Let_def second_def split: prod.splits)
  then show ?thesis unfolding Let_def a_def [symmetric] by (rule exI)
qed

end
