(* ===== verification/Program.thy ===== *)
theory Program
  imports Gateway Loops Heartbeat
begin

text \<open>
  \<^verbatim>\<open>src/app/main.go\<close> and the shutdown of \<^verbatim>\<open>src/app/app.go\<close>: the arguments, the order in which the
  parts are started, and \<open>Stop\<close> step by step, interleaved with the loops that are still running.
\<close>

section \<open>Start of the program\<close>

definition pprofAddr :: string where "pprofAddr = '':6060''"

definition mqttClientIDPrefix :: string where "mqttClientIDPrefix = ''vlxmqttha''"

definition main_clientID :: "Config \<Rightarrow> string" where
  "main_clientID cfg =
     (if mc_ClientID (cf_MQTT cfg) \<noteq> '''' then mc_ClientID (cf_MQTT cfg) else mqttClientIDPrefix)"

text \<open>
  \<open>main\<close> up to the wait for a signal: the exit code, when it exits before, and the application, once
  there is one. \<open>load\<close> is \<open>LoadConfig\<close> with its environment; \<open>new\<close> builds the client and the manager.
  A failed start is followed by \<open>Stop\<close>, when no loop is running yet.
\<close>

definition main_start ::
    "('s, 'e) klfClient \<Rightarrow> ('s, 'e) coverManager \<Rightarrow> (string \<Rightarrow> config_error + Config) \<Rightarrow>
     (Config \<Rightarrow> 's) \<Rightarrow> int \<Rightarrow> nat list \<Rightarrow> string list \<Rightarrow> int option \<times> 's app option" where
  "main_start K M load new now delays args =
     (if length args \<noteq> 2 then (Some 1, None)
      else case load (args ! 1) of
             Inl err \<Rightarrow> (Some 1, None)
           | Inr cfg \<Rightarrow>
               (case App_Start K M None (newApp cfg True (new cfg) now delays) of
                  (Some err, a) \<Rightarrow> (Some 1, Some (App_Stop K M a))
                | (None, a) \<Rightarrow> (None, Some a)))"

section \<open>The running program and its shutdown\<close>

text \<open>
  Where \<open>Stop\<close> is: not called, the channel closed, the heartbeat stopped, the loops waited for, the
  covers closed, the client disconnected.
\<close>

datatype stop_pc = ST_Running | ST_Closed | ST_HeartbeatStopped | ST_Waited | ST_CoversClosed | ST_Done

text \<open>A loop is at a phase of its pass, or its goroutine has ended (or was never started).\<close>

type_synonym 's program = "stop_pc \<times> health_pc option \<times> periodic_pc option \<times> 's app"

definition serving :: "'s app \<Rightarrow> 's program" where
  "serving a =
     (ST_Running,
      if startHealthCheck (cf_Restart (ap_cfg a)) = None then None else Some HC_Idle,
      if startRebootLoop (cf_Restart (ap_cfg a)) = NoLoop then None else Some PR_Idle, a)"

text \<open>
  The loops call with a context that never ends; a loop that is idle may take a tick even after the
  channel was closed, since \<open>select\<close> picks any case that is ready. \<open>env\<close> is what frames, messages
  and the heartbeat do meanwhile. \<open>Stop\<close> takes the lock of the reset paths for the heartbeat only.
\<close>

inductive program_step ::
    "('s, 'e) klfClient \<Rightarrow> ('s, 'e) coverManager \<Rightarrow> ('s \<Rightarrow> 's \<Rightarrow> bool) \<Rightarrow> 's program \<Rightarrow> 's program \<Rightarrow> bool"
  for K M env where
  health: "hc_next K M None (h, a) = (h', b) \<Longrightarrow> program_step K M env (s, Some h, p, a) (s, Some h', p, b)"
| periodic: "pr_next K M None (p, a) = (p', b) \<Longrightarrow> program_step K M env (s, h, Some p, a) (s, h, Some p', b)"
| health_ends: "s \<noteq> ST_Running \<Longrightarrow> program_step K M env (s, Some HC_Idle, p, a) (s, None, p, a)"
| periodic_ends: "s \<noteq> ST_Running \<Longrightarrow> program_step K M env (s, h, Some PR_Idle, a) (s, h, None, a)"
| contact: "program_step K M env (s, h, p, a) (s, h, p, recordContact a)"
| time_passes: "program_step K M env (s, h, p, a) (s, h, p, a\<lparr> ap_now := ap_now a + int d \<rparr>)"
| host: "env (ap_host a) g \<Longrightarrow> program_step K M env (s, h, p, a) (s, h, p, a\<lparr> ap_host := g \<rparr>)"
| signal: "program_step K M env (ST_Running, h, p, a) (ST_Closed, h, p, a)"
| stop_heartbeat: "program_step K M env (ST_Closed, h, p, a) (ST_HeartbeatStopped, h, p, stopHeartbeat a)"
| wait: "program_step K M env (ST_HeartbeatStopped, None, None, a) (ST_Waited, None, None, a)"
| close_covers: "program_step K M env (ST_Waited, h, p, a) (ST_CoversClosed, h, p, on_host K (cm_CloseAll M) a)"
| disconnect: "program_step K M env (ST_CoversClosed, h, p, a) (ST_Done, h, p, on_host K (kc_Disconnect K) a)"

section \<open>What a shutdown guarantees\<close>

text \<open>
  The contract of the client and the manager: besides that of a session, what closes the covers and
  what neither the environment nor the disconnect undoes. \<open>inv\<close> is an invariant of the host.
\<close>

locale shutdown_contract = klf_session K M up + klf_invariant K M inv
  for K :: "('s, 'e) klfClient" and M :: "('s, 'e) coverManager"
    and up :: "'s \<Rightarrow> bool" and inv :: "'s \<Rightarrow> bool" +
  fixes closed :: "'s \<Rightarrow> bool"
    and env :: "'s \<Rightarrow> 's \<Rightarrow> bool"
  assumes CloseAll_closed: "inv s \<Longrightarrow> closed (cm_CloseAll M s)"
    and Disconnect_closed: "closed s \<Longrightarrow> closed (kc_Disconnect K s)"
    and env_inv: "env s t \<Longrightarrow> inv s \<Longrightarrow> inv t"
    and env_down: "env s t \<Longrightarrow> inv s \<Longrightarrow> \<not> up s \<Longrightarrow> \<not> up t"
    and env_closed: "env s t \<Longrightarrow> inv s \<Longrightarrow> closed s \<Longrightarrow> closed t"
begin

text \<open>What holds at each point of \<open>Stop\<close>.\<close>

definition stop_inv :: "'s program \<Rightarrow> bool" where
  "stop_inv x = (case x of (s, h, p, a) \<Rightarrow>
     inv (ap_host a) \<and>
     (s \<in> {ST_Waited, ST_CoversClosed, ST_Done} \<longrightarrow> h = None \<and> p = None) \<and>
     (s \<in> {ST_CoversClosed, ST_Done} \<longrightarrow> closed (ap_host a)) \<and>
     (s = ST_Done \<longrightarrow> \<not> up (ap_host a)))"

lemma inv_hc_next:
  assumes "hc_next K M ctx (h, a) = (h', b)" "inv (ap_host a)"
  shows "inv (ap_host b)"
  using assms inv_mark_wedged [OF assms(2)] inv_restore [OF assms(2)] inv_doReconnect [OF assms(2), of ctx]
    inv_doReboot [OF assms(2), of ctx] inv_doPowerCycle [OF assms(2), of ctx]
  by (cases h) (auto split: prod.splits option.splits if_splits)

lemma inv_pr_next:
  assumes "pr_next K M ctx (p, a) = (p', b)" "inv (ap_host a)"
  shows "inv (ap_host b)"
  using assms inv_doReboot [OF assms(2), of ctx] inv_doPowerCycle [OF assms(2), of ctx]
  by (cases p) (auto split: prod.splits option.splits app_error.splits if_splits)

lemma stop_inv_step: "program_step K M env x y \<Longrightarrow> stop_inv x \<Longrightarrow> stop_inv y"
proof (induction rule: program_step.induct)
  case (health h a h' b s p)
  then show ?case using inv_hc_next [OF health(1)] by (auto simp: stop_inv_def)
next
  case (periodic p a p' b s h)
  then show ?case using inv_pr_next [OF periodic(1)] by (auto simp: stop_inv_def)
next
  case (host a g s h p)
  then show ?case using env_inv [OF host(1)] env_down [OF host(1)] env_closed [OF host(1)]
    by (auto simp: stop_inv_def)
qed (auto simp: stop_inv_def recordContact_def stopHeartbeat_def on_host_host Disconnect_down
    CloseAll_closed Disconnect_closed inv_client inv_manager)

lemma stop_inv_serving: "inv (ap_host a) \<Longrightarrow> stop_inv (serving a)"
  by (simp add: stop_inv_def serving_def)

lemma stop_inv_reachable: "(program_step K M env)\<^sup>*\<^sup>* x y \<Longrightarrow> stop_inv x \<Longrightarrow> stop_inv y"
  by (induction rule: rtranclp_induct) (auto intro: stop_inv_step)

end

section \<open>The shutdown of the model's own client\<close>

text \<open>
  What goes on beside the loops: an inbound frame, the loss of the connection, a message on a
  subscribed topic, and a pulse of the heartbeat.
\<close>

inductive gateway_env :: "klf_host \<Rightarrow> klf_host \<Rightarrow> bool" where
  inbound: "gateway_env g (g\<lparr> gw_sys := receive f (gw_sys g) \<rparr>)"
| lost: "gateway_env g (g\<lparr> gw_sys := (gw_sys g)\<lparr> cl_conn := lose_connection (cl_conn (gw_sys g)) \<rparr> \<rparr>)"
| message: "gateway_env g (g\<lparr> gw_sys := handle_message h payload (gw_sys g) \<rparr>)"
| pulse: "gateway_env g (g\<lparr> gw_sys := snd (Heartbeat_pulse (gw_sys g)) \<rparr>)"

definition covers_closed :: "klf_host \<Rightarrow> bool" where
  "covers_closed g \<longleftrightarrow> br_discoveredTopics (cl_nodes (gw_sys g)) = []"

text \<open>What an operation of the client keeps that neither connects nor registers anything.\<close>

definition keeps :: "system \<Rightarrow> system \<Rightarrow> bool" where
  "keeps c d \<longleftrightarrow>
     (client_inv c \<longrightarrow> client_inv d) \<and> cl_nodeUpdaters d = cl_nodeUpdaters c \<and>
     (cs_tlsConn (cl_conn c) = None \<or> \<not> cs_connected (cl_conn c) \<longrightarrow>
        cs_tlsConn (cl_conn d) = None \<or> \<not> cs_connected (cl_conn d)) \<and>
     (cl_nodeUpdaters c = [node_updater, contact_stamper] \<longrightarrow>
        br_discoveredTopics (cl_nodes d) = br_discoveredTopics (cl_nodes c))"

lemma keeps_refl: "keeps c c"
  by (simp add: keeps_def)

lemma keeps_trans: "keeps c d \<Longrightarrow> keeps d e \<Longrightarrow> keeps c e"
  by (auto simp: keeps_def)

lemma keeps_gateway:
  assumes "keeps (gw_sys g) d"
  shows "gateway_inv g \<Longrightarrow> gateway_inv (g\<lparr> gw_sys := d \<rparr>)"
    "\<not> gateway_up g \<Longrightarrow> \<not> gateway_up (g\<lparr> gw_sys := d \<rparr>)"
    "gateway_inv g \<Longrightarrow> covers_closed g \<Longrightarrow> covers_closed (g\<lparr> gw_sys := d \<rparr>)"
  using assms by (auto simp: keeps_def gateway_inv_def gateway_up_def covers_closed_def)

lemma discovered_steps [simp]:
  "br_discoveredTopics (AfterUpdate r b) = br_discoveredTopics b"
  "br_discoveredTopics (assign r g b) = br_discoveredTopics b"
  by (simp_all add: AfterUpdate_def Let_def assign_def)

lemma discovered_processFrame: "br_discoveredTopics (processFrame f b) = br_discoveredTopics b"
proof -
  have p: "br_discoveredTopics (processPositionFrame n c t b) = br_discoveredTopics b" for n c t
    by (simp add: processPositionFrame_def Let_def split: option.split Node.split)
  have s: "br_discoveredTopics (processStatusRequestNotification x b) = br_discoveredTopics b" for x
    by (simp add: processStatusRequestNotification_def Let_def split: option.split Node.split)
  have l: "br_discoveredTopics (processLimitationStatusNotification x b) = br_discoveredTopics b" for x
    by (simp add: processLimitationStatusNotification_def Let_def split: option.split)
  show ?thesis
    by (simp add: processFrame_def processNodeStateFrame_def p s l split: frame.split nodes_frame.split
        commands_frame.split limitation_frame.split)
qed

lemma discovered_fold_UpdateNode:
  "br_discoveredTopics (fold (\<lambda>(a, n). UpdateNode a n) es b) = br_discoveredTopics b"
  by (induction es arbitrary: b) (auto simp: bridge_simps)

lemma discovered_deliver [simp]: "br_discoveredTopics (deliver b) = br_discoveredTopics b"
  by (simp add: deliver_def discovered_fold_UpdateNode)

lemma keeps_receive: "keeps c (receive f c)"
proof -
  have "br_discoveredTopics (fold (run_callback c f) cbs b) = br_discoveredTopics b"
    if "cl_nodeUpdaters c = [node_updater, contact_stamper]" for cbs b
    by (induction cbs arbitrary: b)
      (auto simp: run_callback_def that node_updater_def contact_stamper_def discovered_processFrame split: client_cb.split)
  then show ?thesis
    by (simp add: keeps_def receive_def dispatch_def client_inv_def)
qed

lemma keeps_fold_receive: "keeps c (fold receive fs c)"
  by (induction fs arbitrary: c) (auto intro: keeps_refl keeps_trans [OF keeps_receive])

lemma lose_connection_down:
  "cs_tlsConn k = None \<or> \<not> cs_connected k \<Longrightarrow>
   cs_tlsConn (lose_connection k) = None \<or> \<not> cs_connected (lose_connection k)"
  by (auto simp: lose_connection_def readLoop_exit_def Let_def split: option.split prod.split)

lemma discovered_APICall:
  assumes "cl_nodeUpdaters c = [node_updater, contact_stamper]"
  shows "br_discoveredTopics (cl_nodes (snd (snd (APICall request h s c)))) = br_discoveredTopics (cl_nodes c)"
proof (cases rule: APICall_cases [of request c h s])
  case (sent k d c')
  with keeps_fold_receive [of "c\<lparr> cl_script := drop 1 (cl_script c), cl_conn := k \<rparr>" "ex_frames (next_exchange c)"]
    assms show ?thesis by (simp add: keeps_def)
qed simp

lemma keeps_APICall: "keeps c (snd (snd (APICall request h s c)))"
proof -
  have "cs_tlsConn (cl_conn (snd (snd (APICall request h s c)))) = None \<or>
      \<not> cs_connected (cl_conn (snd (snd (APICall request h s c))))"
    if "cs_tlsConn (cl_conn c) = None \<or> \<not> cs_connected (cl_conn c)"
    using that
    by (cases rule: APICall_cases [of request c h s])
      (auto simp: registered_def UnregisterFrameReceivedCB_def fold_receive_conn fold_dispatch
        lose_connection_down)
  then show ?thesis
    by (simp add: keeps_def client_inv_APICall discovered_APICall)
qed

lemma keeps_session: "keeps c (c\<lparr> cl_sessions := g \<rparr>)"
  by (simp add: keeps_def client_inv_def)

lemma keeps_nodes: "br_discoveredTopics (g (cl_nodes c)) = br_discoveredTopics (cl_nodes c) \<Longrightarrow> keeps c (change_nodes g c)"
  by (simp add: keeps_def client_inv_def change_nodes_def)

text \<open>The operations of the client and of the devices, by their structure.\<close>

lemma keeps_finish: "keeps c (snd (snd r)) \<Longrightarrow> keeps c (snd (finish r k))"
  by (simp add: finish_client)

lemma keeps_and_then:
  assumes "keeps c (snd r)" "\<And>d. keeps c d \<Longrightarrow> keeps c (k d)"
  shows "keeps c (snd (and_then r k))"
  using assms by (cases r; cases "fst r") (auto simp: and_then_def)

lemma keeps_then_nodes:
  assumes "keeps c d" "br_discoveredTopics (g (cl_nodes d)) = br_discoveredTopics (cl_nodes d)"
  shows "keeps c (change_nodes g d)"
  using keeps_trans [OF assms(1) keeps_nodes [of g d]] assms(2) by simp

lemma keeps_session_call:
  "keeps c (snd (snd (APICall request h s (c\<lparr> cl_sessions := g \<rparr>))))"
  by (rule keeps_trans [OF keeps_session keeps_APICall])

lemma keeps_commands:
  "keeps c (snd (Client_CommandSend n p fps w c))" "keeps c (snd (Client_SetLimitation n mn mx t c))"
  "keeps c (snd (Client_GetState c))" "keeps c (snd (Heartbeat_statusRequest u c))"
  unfolding Client_CommandSend_def Client_SetLimitation_def Client_GetState_def Heartbeat_statusRequest_def
  by (simp_all add: Let_def keeps_finish keeps_session_call keeps_APICall)

lemma keeps_setPosition: "keeps c (snd (OpeningDevice_setPosition node p w c))"
  unfolding OpeningDevice_setPosition_def
  by (intro keeps_and_then keeps_commands keeps_then_nodes) simp_all

lemma keeps_blind: "keeps c (snd (Blind_SetPositionAndOrientation node p w q c))"
proof -
  have n: "keeps c (change_nodes (assign node g) c)" for g by (rule keeps_nodes) simp
  show ?thesis
    unfolding Blind_SetPositionAndOrientation_def Let_def with_percent_simps
    by (intro keeps_and_then keeps_then_nodes keeps_trans [OF n keeps_commands(1)]) simp_all
qed

lemma keeps_Device:
  "keeps c (snd (Device_Open node w c))" "keeps c (snd (Device_Close node w c))"
  "keeps c (snd (Device_Stop node w c))" "keeps c (snd (Device_SetPosition node p w c))"
  by (simp_all add: Device_Open_def Device_Close_def Device_Stop_def Device_SetPosition_def Let_def
      Blind_Open_def Blind_Close_def Blind_Stop_def Blind_SetPosition_def OpeningDevice_open_def
      OpeningDevice_close_def OpeningDevice_stop_def keeps_setPosition keeps_blind)

lemma keeps_limitations:
  "keeps c (snd (OpeningDevice_setPositionLimitations node mn mx c))"
  "keeps c (snd (OpeningDevice_clearPositionLimitations node c))"
  unfolding OpeningDevice_setPositionLimitations_def OpeningDevice_clearPositionLimitations_def
  by (intro keeps_and_then keeps_commands keeps_then_nodes; simp)+

lemma keeps_runCommand: "keeps c (snd r) \<Longrightarrow> keeps c (runCommand r)"
  unfolding runCommand_def by (rule keeps_then_nodes) simp_all

lemma keeps_message: "keeps c (handle_message h payload c)"
proof -
  have "keeps c (snd (openFunc cv c))" "keeps c (snd (closeFunc cv c))" for cv
    by (simp_all add: openFunc_def closeFunc_def keeps_Device)
  then have "keeps c (handleCoverCommand a payload c)" for a
    by (simp add: handleCoverCommand_def Let_def keeps_runCommand keeps_Device keeps_refl
        split: option.split sum.split)
  moreover have "keeps c (handleKeepOpenCommand a payload c)" for a
    by (simp add: handleKeepOpenCommand_def Let_def keeps_runCommand keeps_limitations keeps_refl split: sum.split)
  ultimately show ?thesis by (simp add: handle_message_def split: mqtt_handler.split)
qed

lemma keeps_pulse: "keeps c (snd (Heartbeat_pulse c))"
proof -
  have "keeps d (pulse_node n d)" for n d by (simp add: pulse_node_def keeps_refl keeps_commands)
  then have f: "keeps d (fold pulse_node ns d)" for ns d
    by (induction ns arbitrary: d) (auto intro: keeps_refl keeps_trans)
  obtain r d where d: "Client_GetState c = (r, d)" by fastforce
  with keeps_commands(3) [of c] have "keeps c d" by simp
  with d keeps_trans [OF this f] show ?thesis by (auto simp: Heartbeat_pulse_def split: sum.split)
qed

lemma gateway_env_keeps: "gateway_env g t \<Longrightarrow> \<exists>d. t = g\<lparr> gw_sys := d \<rparr> \<and> keeps (gw_sys g) d"
proof (induction rule: gateway_env.induct)
  case (lost g)
  have "keeps (gw_sys g) ((gw_sys g)\<lparr> cl_conn := lose_connection (cl_conn (gw_sys g)) \<rparr>)"
    by (auto simp: keeps_def client_inv_def lose_connection_down)
  then show ?case by blast
qed (blast intro: keeps_receive keeps_message keeps_pulse)+

interpretation gp: shutdown_contract gateway_client "gateway_manager u" gateway_up gateway_inv covers_closed gateway_env for u
proof unfold_locales
  fix g t
  show "covers_closed (cm_CloseAll (gateway_manager u) g)"
    by (simp add: covers_closed_def gateway_manager_def on_covers_def CloseAll_published)
  show "covers_closed g \<Longrightarrow> covers_closed (kc_Disconnect gateway_client g)"
    by (simp add: covers_closed_def gateway_client_def Client_Disconnect_def Let_def)
  assume "gateway_env g t"
  then obtain d where "t = g\<lparr> gw_sys := d \<rparr>" "keeps (gw_sys g) d" using gateway_env_keeps by blast
  with keeps_gateway [OF this(2)] show "gateway_inv g \<Longrightarrow> gateway_inv t"
    "gateway_inv g \<Longrightarrow> \<not> gateway_up g \<Longrightarrow> \<not> gateway_up t"
    "gateway_inv g \<Longrightarrow> covers_closed g \<Longrightarrow> covers_closed t" by simp_all
qed

section \<open>A shutdown comes to its end\<close>

lemma hc_to_idle: "\<exists>n b. (hc_next K M ctx ^^ n) (h, a) = (HC_Idle, b)"
proof (cases h)
  case HC_Idle
  then show ?thesis by (intro exI [of _ 0]) simp
next
  case HC_Reconnect
  then show ?thesis using hc_reconnect [of K M ctx a] by blast
next
  case HC_Reboot
  then show ?thesis using hc_reboot [of K M ctx a] by blast
next
  case HC_Escalate
  then show ?thesis using hc_escalate [of K M ctx a] by blast
next
  case HC_Restore
  then show ?thesis by (intro exI [of _ 1]) simp
qed

lemma health_steps:
  "(hc_next K M None ^^ n) (h, a) = (h', b) \<Longrightarrow>
   (program_step K M env)\<^sup>*\<^sup>* (s, Some h, p, a) (s, Some h', p, b)"
proof (induction n arbitrary: h a)
  case (Suc n)
  obtain h1 a1 where h1: "hc_next K M None (h, a) = (h1, a1)" by fastforce
  with Suc.prems have "(hc_next K M None ^^ n) (h1, a1) = (h', b)"
    by (simp add: funpow_Suc_right del: funpow.simps)
  from converse_rtranclp_into_rtranclp [where r = "program_step K M env", OF program_step.health [OF h1] Suc.IH [OF this]]
  show ?case .
qed simp

lemma loops_end:
  assumes "s \<noteq> ST_Running"
  shows "\<exists>b. (program_step K M env)\<^sup>*\<^sup>* (s, h, p, a) (s, None, None, b)"
proof -
  have "\<exists>b. (program_step K M env)\<^sup>*\<^sup>* (s, h, p, a) (s, None, p, b)"
  proof (cases h)
    case (Some k)
    obtain n b where "(hc_next K M None ^^ n) (k, a) = (HC_Idle, b)" using hc_to_idle [of K M None k a] by blast
    from rtranclp.rtrancl_into_rtrancl [OF health_steps [OF this] program_step.health_ends [OF assms]] Some
    show ?thesis by blast
  qed blast
  then obtain b where b: "(program_step K M env)\<^sup>*\<^sup>* (s, h, p, a) (s, None, p, b)" by blast
  have "\<exists>c. (program_step K M env)\<^sup>*\<^sup>* (s, None, p, b) (s, None, None, c)"
  proof (cases p)
    case (Some k)
    have idle: "(program_step K M env)\<^sup>*\<^sup>* (s, None, Some PR_Idle, c) (s, None, None, c)" for c
      using program_step.periodic_ends [OF assms] by (rule r_into_rtranclp)
    show ?thesis
    proof (cases k)
      case PR_Soft
      obtain c where "pr_next K M None (PR_Soft, b) = (PR_Idle, c)" by simp
      from converse_rtranclp_into_rtranclp [where r = "program_step K M env",
          OF program_step.periodic [OF this, of env s None] idle] Some PR_Soft
      show ?thesis by blast
    qed (use Some idle in blast)
  qed blast
  with b show ?thesis by (meson rtranclp_trans)
qed

text \<open>The remaining steps of \<open>Stop\<close>, from each point.\<close>

fun stop_rest :: "('s, 'e) klfClient \<Rightarrow> ('s, 'e) coverManager \<Rightarrow> stop_pc \<Rightarrow> 's app \<Rightarrow> 's app" where
  "stop_rest K M ST_Running a = App_Stop K M a"
| "stop_rest K M ST_Closed a = App_Stop K M a"
| "stop_rest K M ST_HeartbeatStopped a = on_host K (kc_Disconnect K) (on_host K (cm_CloseAll M) a)"
| "stop_rest K M ST_Waited a = on_host K (kc_Disconnect K) (on_host K (cm_CloseAll M) a)"
| "stop_rest K M ST_CoversClosed a = on_host K (kc_Disconnect K) a"
| "stop_rest K M ST_Done a = a"

lemma stop_rest_steps:
  "(program_step K M env)\<^sup>*\<^sup>* (s, None, None, a) (ST_Done, None, None, stop_rest K M s a)"
proof -
  note step = converse_rtranclp_into_rtranclp [where r = "program_step K M env"]
  have c: "(program_step K M env)\<^sup>*\<^sup>* (ST_CoversClosed, None, None, b) (ST_Done, None, None, on_host K (kc_Disconnect K) b)" for b
    by (rule r_into_rtranclp) (rule program_step.disconnect)
  have w: "(program_step K M env)\<^sup>*\<^sup>* (ST_Waited, None, None, b)
      (ST_Done, None, None, on_host K (kc_Disconnect K) (on_host K (cm_CloseAll M) b))" for b
    by (rule step [OF program_step.close_covers c])
  have h: "(program_step K M env)\<^sup>*\<^sup>* (ST_HeartbeatStopped, None, None, b)
      (ST_Done, None, None, on_host K (kc_Disconnect K) (on_host K (cm_CloseAll M) b))" for b
    by (rule step [OF program_step.wait w])
  have l: "(program_step K M env)\<^sup>*\<^sup>* (ST_Closed, None, None, b) (ST_Done, None, None, App_Stop K M b)" for b
    unfolding App_Stop_def Let_def by (rule step [OF program_step.stop_heartbeat h])
  have r: "(program_step K M env)\<^sup>*\<^sup>* (ST_Running, None, None, b) (ST_Done, None, None, App_Stop K M b)" for b
    by (rule step [OF program_step.signal l])
  show ?thesis by (cases s) (simp_all add: c w h l r)
qed

lemma stop_can_complete: "\<exists>b. (program_step K M env)\<^sup>*\<^sup>* (s, h, p, a) (ST_Done, None, None, b)"
proof (cases "s = ST_Running")
  case True
  obtain b where "(program_step K M env)\<^sup>*\<^sup>* (ST_Closed, h, p, a) (ST_Closed, None, None, b)"
    using loops_end [of ST_Closed K M env h p a] by blast
  then have "(program_step K M env)\<^sup>*\<^sup>* (ST_Closed, h, p, a) (ST_Done, None, None, stop_rest K M ST_Closed b)"
    by (rule rtranclp_trans [OF _ stop_rest_steps])
  from converse_rtranclp_into_rtranclp [where r = "program_step K M env", OF program_step.signal this] True
  show ?thesis by blast
next
  case False
  from loops_end [OF this, of K M env h p a] show ?thesis
    by (blast intro: rtranclp_trans [OF _ stop_rest_steps])
qed

section \<open>Properties\<close>




text \<open>
  C24: How \<open>main\<close> ends. It exits with code 1 before there is a client when the arguments or the
  configuration are bad, and with code 1 and the client disconnected when the start fails; otherwise
  it serves with a session.
\<close>

theorem main_start_outcome:
  "case main_start gateway_client (gateway_manager u) load new now delays args of
     (Some code, None) \<Rightarrow> code = 1 \<and>
       (if length args = 2 then load (args ! 1) \<in> range Inl else True)
   | (Some code, Some a) \<Rightarrow> code = 1 \<and> \<not> gateway_up (ap_host a)
   | (None, Some a) \<Rightarrow> gateway_up (ap_host a)
   | (None, None) \<Rightarrow> False"
proof (cases "length args = 2")
  case True
  show ?thesis
  proof (cases "load (args ! 1)")
    case (Inr cfg)
    obtain r a where a: "App_Start gateway_client (gateway_manager u) None (newApp cfg True (new cfg) now delays) = (r, a)"
      by fastforce
    with gs.App_Start_up [of u None "newApp cfg True (new cfg) now delays"] True Inr
    show ?thesis by (cases r) (simp_all add: main_start_def gs.App_Stop_down)
  qed (simp add: main_start_def)
qed (simp add: main_start_def)

section \<open>What a shutdown does not do\<close>

text \<open>
  A recovery that is under way when \<open>Stop\<close> stops the heartbeat starts it again, and nothing stops it
  any more: here the health check is between telling the covers and its reconnect.
\<close>

theorem heartbeat_outlives_stop:
  "\<exists>a. (program_step (example_client 0) example_manager env)\<^sup>*\<^sup>*
      (serving (newApp (example_config '''') True 0 (1000 * second) [])) (ST_Done, None, None, a) \<and> ap_heartbeat a"
proof -
  let ?K = "example_client 0" and ?M = "example_manager"
  define a where "a = newApp (example_config '''') True (0::nat) (1000 * second) []"
  define b where "b = mark_wedged ?K ?M a"
  have srv: "serving a = (ST_Running, Some HC_Idle, Some PR_Idle, a)"
    by (simp add: serving_def a_def startHealthCheck_def startRebootLoop_def RestartTimeOfDay_def RestartScheduled_def
        app_eval cong: app_cong)
  have overdue: "hc_next ?K ?M None (HC_Idle, a) = (HC_Reconnect, b)"
    unfolding b_def by (simp add: a_def app_eval cong: app_cong)
  define c where "c = (case doReconnect ?K ?M None (stopHeartbeat b) of
      (Some e, a) \<Rightarrow> escalateToPowerCycle ?K ?M None a
    | (None, a) \<Rightarrow> (case doReboot ?K ?M None a of (Some e, a) \<Rightarrow> escalateToPowerCycle ?K ?M None a
        | (None, a) \<Rightarrow> restore ?K ?M a))"
  have beats: "ap_heartbeat c"
    unfolding c_def b_def a_def by (simp add: app_eval cong: app_cong)
  obtain n where n: "(hc_next ?K ?M None ^^ n) (HC_Reconnect, stopHeartbeat b) = (HC_Idle, c)"
    using hc_reconnect [of ?K ?M None "stopHeartbeat b"] unfolding c_def by blast
  note step = converse_rtranclp_into_rtranclp [where r = "program_step ?K ?M env"]
  let ?final = "stop_rest ?K ?M ST_HeartbeatStopped c"
  have "(program_step ?K ?M env)\<^sup>*\<^sup>* (ST_HeartbeatStopped, Some HC_Idle, Some PR_Idle, c) (ST_Done, None, None, ?final)"
    by (rule step [OF program_step.health_ends step [OF program_step.periodic_ends stop_rest_steps]]) simp_all
  from rtranclp_trans [OF health_steps [OF n] this]
  have "(program_step ?K ?M env)\<^sup>*\<^sup>* (ST_HeartbeatStopped, Some HC_Reconnect, Some PR_Idle, stopHeartbeat b)
      (ST_Done, None, None, ?final)" .
  from step [OF program_step.health [OF overdue] step [OF program_step.signal step [OF program_step.stop_heartbeat this]]]
  have "(program_step ?K ?M env)\<^sup>*\<^sup>* (serving a) (ST_Done, None, None, ?final)" by (simp add: srv)
  moreover have "ap_heartbeat ?final" using beats by (simp add: heartbeat_kept)
  ultimately show ?thesis unfolding a_def by blast
qed

text \<open>
  A signal before \<open>main\<close> listens for it ends the process at once: what the plug has seen by then.
  With a gateway that cannot be reached at the start, a signal during the dwell leaves it off.
\<close>

definition plug_seen :: "int \<Rightarrow> 's app \<Rightarrow> plug_message list" where
  "plug_seen killed a = filter (\<lambda>m. snd (snd (snd m)) \<le> killed) (ap_plug a)"

theorem kill_during_startup_leaves_plug_off:
  "plug_seen (1005 * second) (snd (App_Start (example_client 0) example_manager None
     (newApp (example_config ''plug'') True 3 (1000 * second) []))) =
   [(''plug'', ''OFF'', False, 1000 * second)]"
  by (simp add: plug_seen_def app_eval cong: app_cong)

text \<open>The loops cannot be cancelled: their context never ends, so no power cycle is cut short.\<close>

theorem loops_never_cancelled:
  "fst (doPowerCycle K M None a) \<noteq> Some CtxDone \<and> fst (doReboot K M None a) \<noteq> Some CtxDone"
proof -
  have l: "fst (reconnect_loop K M None re ex waits l b) \<noteq> Some CtxDone"
    if "\<And>e. re e \<noteq> CtxDone" "\<And>l. ex l \<noteq> CtxDone" for re ex waits l b
    using that by (induction waits arbitrary: l b) (simp_all add: await_timer_def split: prod.split option.split)
  then show ?thesis
    by (simp add: doPowerCycle_def doReboot_def Let_def await_timer_def)
qed

text \<open>
  A report that comes between \<open>CloseAll\<close> and the disconnect marks its cover online again, and that is
  the last message on the topic.
\<close>

theorem report_after_CloseAll_marks_online:
  "case node_opening n of
     None \<Rightarrow> True
   | Some d \<Rightarrow> last (mq_published (br_mqtt (UpdateNode a n (CloseAll b)))) =
       (tp_KeepOpenAvailable (cv_topics (br_heap (CloseAll b) a)), ''online'', mq_retain (br_mqtt (CloseAll b)))"
  by (simp add: UpdateNode_def bridge_simps availability_def split: option.split)

end
