(* ===== verification/BrokerSync.thy ===== *)
theory BrokerSync
  imports Gateway
begin

text \<open>
  The client, the node updater and the covers together: from the bytes the gateway sends to the
  messages at the broker, and from there to the invariant that the broker shows every cover as the
  program knows its device, across frames, commands, availability marks and reloads of the nodes.
\<close>

section \<open>From the bytes to the broker\<close>

text \<open>
  One read of \<open>chunk\<close> by the read loop of the socket \<open>conn\<close>, as the client sees it: what
  \<open>readLoop_data\<close> is for the connection, with the callbacks that the dispatch runs.
\<close>

definition Client_read :: "nat \<Rightarrow> byte list \<Rightarrow> 'n client \<Rightarrow> 'n client" where
  "Client_read conn chunk c =
     (case cs_loops (cl_conn c) conn of
        None \<Rightarrow> c
      | Some (life, stream) \<Rightarrow>
          let (fs, stream') = drain FrameFromRaw (stream @ chunk);
              k = cl_conn c
          in fold receive fs (c\<lparr> cl_conn := k\<lparr> cs_loops := (cs_loops k)(conn \<mapsto> (life, stream')) \<rparr> \<rparr>))"

lemma Client_read_conn: "cl_conn (Client_read conn chunk c) = readLoop_data conn chunk (cl_conn c)"
  by (simp add: Client_read_def readLoop_data_def fold_receive_conn Let_def split: option.split prod.split)

lemma fold_read_conn: "cl_conn (fold (Client_read conn) chunks c) = fold (readLoop_data conn) chunks (cl_conn c)"
  by (induction chunks arbitrary: c) (simp_all add: Client_read_conn)

text \<open>What one frame does to the nodes.\<close>

definition effect :: "'n client \<Rightarrow> frame \<Rightarrow> 'n \<Rightarrow> 'n" where
  "effect c f = fold (run_callback c f) (map snd (cs_callbacks (cl_conn c)))"

lemma effect_cong:
  assumes "cl_nodeUpdaters c = cl_nodeUpdaters d" "cs_callbacks (cl_conn c) = cs_callbacks (cl_conn d)"
  shows "effect c = effect d"
proof -
  have "run_callback c = run_callback d" by (simp add: run_callback_def assms(1) fun_eq_iff split: client_cb.split)
  with assms(2) show ?thesis by (intro ext) (simp only: effect_def)
qed

lemma fold_receive_nodes: "cl_nodes (fold receive fs c) = fold (effect c) fs (cl_nodes c)"
proof (induction fs arbitrary: c)
  case (Cons f fs)
  have "effect (receive f c) = effect c" by (rule effect_cong) (simp_all add: receive_def dispatch_def)
  moreover have "cl_nodes (receive f c) = effect c f (cl_nodes c)" by (simp add: effect_def receive_def)
  ultimately show ?case using Cons [of "receive f c"] by simp
qed simp

lemma Client_read_run:
  assumes "cs_loops (cl_conn c) conn = Some (life, stream)" "read_all FrameFromRaw chunks stream = (fs, stream')"
  shows "cl_nodes (fold (Client_read conn) chunks c) = fold (effect c) fs (cl_nodes c)"
  using assms
proof (induction chunks arbitrary: c stream fs)
  case (Cons chunk chunks)
  obtain gs t where d: "drain FrameFromRaw (stream @ chunk) = (gs, t)" by fastforce
  obtain hs where r: "read_all FrameFromRaw chunks t = (hs, stream')" and fs: "fs = gs @ hs"
    using Cons.prems(2) by (auto simp: d split: prod.splits)
  let ?k = "(cl_conn c)\<lparr> cs_loops := (cs_loops (cl_conn c))(conn \<mapsto> (life, t)) \<rparr>"
  have c: "Client_read conn chunk c = fold receive gs (c\<lparr> cl_conn := ?k \<rparr>)"
    using Cons.prems(1) by (simp add: Client_read_def d Let_def)
  have "effect (c\<lparr> cl_conn := ?k \<rparr>) = effect c" by (rule effect_cong) simp_all
  moreover have "effect (Client_read conn chunk c) = effect c"
    by (rule effect_cong) (simp_all add: c fold_receive_conn)
  moreover have "cs_loops (cl_conn (Client_read conn chunk c)) conn = Some (life, t)"
    by (simp add: c fold_receive_conn fold_dispatch)
  ultimately show ?case
    using Cons.IH [of "Client_read conn chunk c", OF _ r] by (simp add: fs c fold_receive_nodes)
qed (auto split: prod.splits)

text \<open>While the dispatch of \<open>newApp\<close> is installed, and nothing else but handlers of calls, a frame runs the updater once.\<close>

lemma effect_installed:
  assumes "filter (\<lambda>cb. cb = UpdaterDispatch) (map snd (cs_callbacks (cl_conn c))) = [UpdaterDispatch]"
    "cl_nodeUpdaters c = [node_updater, contact_stamper]"
  shows "effect c f = node_updater f"
proof -
  have "fold (run_callback c f) cbs = fold (run_callback c f) (filter (\<lambda>cb. cb = UpdaterDispatch) cbs)" for cbs
    by (induction cbs) (auto simp: run_callback_def fun_eq_iff split: client_cb.split)
  from this [of "map snd (cs_callbacks (cl_conn c))"] show ?thesis
    unfolding effect_def assms(1) by (simp add: run_callback_def assms(2) contact_stamper_def fun_eq_iff)
qed


text \<open>A client on a bridge with one window, its dispatch installed, and a report about the window.\<close>

definition window_client :: system where
  "window_client =
     snd (Client_Connect True (RegisterNodeUpdater (Some contact_stamper) (RegisterNodeUpdater (Some node_updater)
       (NewClient ''klf'' ''velux123'' [] (example_bridge (Window example_device False))))))"

definition window_report :: FrameNodeStatePositionChangedNotification where
  "window_report = FrameNodeStatePositionChangedNotification_new\<lparr> psc_NodeID := 5,
     psc_CurrentPosition := \<lparr> Raw = (50, 0) \<rparr>, psc_Target := \<lparr> Raw = (0, 0) \<rparr> \<rparr>"

lemma window_client_simps:
  "cl_nodes window_client = example_bridge (Window example_device False)"
  "cl_nodeUpdaters window_client = [node_updater, contact_stamper]"
  "map snd (cs_callbacks (cl_conn window_client)) = [UpdaterDispatch]"
  "cs_loops (cl_conn window_client) 1 = Some (1, [])"
  by (simp_all add: window_client_def NewClient_def RegisterNodeUpdater_def Client_Connect_def Conn_Connect_def
      Connect_check_def NewConn_def Connect_install_def installUpdaterDispatch_def RegisterFrameReceivedCB_def Let_def)

lemma window_report_raw:
  obtains raw where "FrameFromRaw raw = Inr (Some (CommandsFrame (FrNodeStatePositionChangedNotification window_report)))"
    "raw \<noteq> []" "MarshalFrame (CommandsFrame (FrNodeStatePositionChangedNotification window_report)) = Inr raw"
proof -
  have "frame_wf (CommandsFrame (FrNodeStatePositionChangedNotification window_report))"
    by (simp add: window_report_def FrameNodeStatePositionChangedNotification_new_def zeroParameter_def valid_raw_def
        ParameterIsValidInt_def parameterToInt_def ParameterMin_def ParameterMax_def)
  from gw.raw_roundtrip [OF this] show thesis
    by (auto intro: that simp: FrameFromRaw_def MarshalFrame_def)
qed


section \<open>What the broker shows\<close>

text \<open>The last payload published on a topic.\<close>

definition latest :: "string \<Rightarrow> (string \<times> string \<times> bool) list \<Rightarrow> string option" where
  "latest t ms = map_option (\<lambda>(_, p, _). p) (List.find (\<lambda>(t', _). t' = t) (rev ms))"

lemma latest_append: "latest t (ms @ ns) = (case latest t ns of None \<Rightarrow> latest t ms | Some p \<Rightarrow> Some p)"
  by (simp add: latest_def find_append split: option.split)

lemma latest_absent: "t \<notin> fst ` set ms \<Longrightarrow> latest t ms = None"
  by (force simp: latest_def find_None_iff)

lemma latest_other [simp]: "t \<notin> fst ` set ns \<Longrightarrow> latest t (ms @ ns) = latest t ms"
  by (simp add: latest_append latest_absent)

text \<open>Position, state and keep-open state of the cover \<open>a\<close> are at the broker as the device \<open>d\<close> has them.\<close>

definition displays :: "(string \<times> string \<times> bool) list \<Rightarrow> Cover \<Rightarrow> OpeningDevice \<Rightarrow> bool" where
  "displays ms c d \<longleftrightarrow>
     (let t = cv_topics c;
          (position, state) = CoverState (Position_PositionPercent (od_position d))
             (Position_PositionPercent (od_targetPosition d)) (cv_inverted c)
      in latest (tp_Position t) ms = Some (Itoa position) \<and> latest (tp_State t) ms = Some state \<and>
         latest (tp_KeepOpenState t) ms =
           Some (if Position_Known (od_limitationMax d) \<and> Position_PositionPercent (od_limitationMax d) < 100
                 then ''on'' else ''off''))"

lemma topic_list_suffixes:
  "topic_list (NewTopics pfx i) = map (append (pfx @ i)) [''/state'', ''/position'', ''/available'', ''/set'',
     ''-keepopen/state'', ''-keepopen/available'', ''-keepopen/set'']"
  by (simp add: topic_list_def NewTopics_def)

lemma topic_distinct: "distinct (topic_list (NewTopics pfx i))"
  unfolding topic_list_suffixes by (subst distinct_map) (simp add: inj_on_def)

lemma cover_messages_topics: "fst ` set (cover_messages c d ret) \<subseteq> set (topic_list (cv_topics c))"
  by (auto simp: cover_messages_def topic_list_def Let_def split: prod.splits)

lemma displays_messages:
  assumes "cv_topics c = NewTopics pfx i"
  shows "displays (ms @ cover_messages c d ret) c d"
  using topic_distinct [of pfx i] assms
  by (auto simp: displays_def cover_messages_def latest_def topic_list_def Let_def split: prod.split)

definition state_topics :: "Topics \<Rightarrow> string set" where
  "state_topics t = {tp_Position t, tp_State t, tp_KeepOpenState t}"

lemma state_topics_listed: "state_topics t \<subseteq> set (topic_list t)"
  by (simp add: state_topics_def topic_list_def)

lemma displays_other: "fst ` set ns \<inter> state_topics (cv_topics c) = {} \<Longrightarrow> displays (ms @ ns) c d = displays ms c d"
  by (simp add: displays_def state_topics_def)

lemma displays_cong:
  "cv_topics c = cv_topics c' \<Longrightarrow> cv_inverted c = cv_inverted c' \<Longrightarrow> displays ms c d = displays ms c' d"
  by (simp add: displays_def)

section \<open>The invariant\<close>

definition observers :: "bridge \<Rightarrow> nat \<Rightarrow> nat list" where
  "observers b r = bn_deviceUpdatedCBs (node_base (nw_heap b r))"

text \<open>The cover ids in use do not share topics (\<open>topics_overlap_iff\<close>).\<close>

definition ids_apart :: "string list \<Rightarrow> bool" where
  "ids_apart is \<longleftrightarrow> distinct is \<and> (\<forall>i\<in>set is. i @ ''-keepopen'' \<notin> set is)"

text \<open>
  How covers and nodes are wired: nothing waits for delivery, the pointers are allocated, the node of
  a registered cover has this cover as its only observer, the cover has the topics of its id and
  the id is that of the name of its node, and a node of the collection has an observer only if its cover is
  registered.
\<close>

definition cover_wired :: "(nat \<Rightarrow> nat) \<Rightarrow> bridge \<Rightarrow> string \<Rightarrow> nat \<Rightarrow> bool" where
  "cover_wired u b i a \<longleftrightarrow>
     (let cv = br_heap b a in
      a < br_next b \<and> cv_node cv < nw_next b \<and> observers b (cv_node cv) = [a] \<and>
      cv_topics cv = NewTopics (hc_Prefix (cf_HomeAssistant (br_cfg b))) i \<and>
      GenerateID u (Node_Name (nw_heap b (cv_node cv))) = i \<and> node_opening (nw_heap b (cv_node cv)) \<noteq> None)"

definition watched :: "bridge \<Rightarrow> nat \<Rightarrow> bool" where
  "watched b r \<longleftrightarrow> (\<exists>(i, a)\<in>set (br_covers b). cv_node (br_heap b a) = r)"

definition wired :: "(nat \<Rightarrow> nat) \<Rightarrow> bridge \<Rightarrow> bool" where
  "wired u b \<longleftrightarrow>
     nw_events b = [] \<and> ids_apart (map fst (br_covers b)) \<and> (\<forall>r\<in>set (nw_nodes b). r < nw_next b) \<and>
     (\<forall>(i, a)\<in>set (br_covers b). cover_wired u b i a) \<and>
     (\<forall>r\<in>set (nw_nodes b). observers b r = [] \<or> watched b r)"

text \<open>Every cover of a device other than a blind is shown.\<close>

definition shown :: "bridge \<Rightarrow> nat \<Rightarrow> bool" where
  "shown b a \<longleftrightarrow>
     (let cv = br_heap b a; n = nw_heap b (cv_node cv) in
        case node_opening n of
          None \<Rightarrow> True
        | Some d \<Rightarrow> is_blind n \<or> displays (mq_published (br_mqtt b)) cv d)"

definition synced :: "bridge \<Rightarrow> bool" where
  "synced b \<longleftrightarrow> (\<forall>(i, a)\<in>set (br_covers b). shown b a)"

lemma wiredD:
  assumes "wired u b" "(i, a) \<in> set (br_covers b)"
  shows "a < br_next b" "cv_node (br_heap b a) < nw_next b" "observers b (cv_node (br_heap b a)) = [a]"
    "cv_topics (br_heap b a) = NewTopics (hc_Prefix (cf_HomeAssistant (br_cfg b))) i"
    "GenerateID u (Node_Name (nw_heap b (cv_node (br_heap b a)))) = i"
    "node_opening (nw_heap b (cv_node (br_heap b a))) \<noteq> None"
  using assms by (auto simp: wired_def cover_wired_def Let_def)

lemma covers_apart:
  assumes "wired u b" "(i, a) \<in> set (br_covers b)" "(j, k) \<in> set (br_covers b)" "a \<noteq> k"
  shows "set (topic_list (cv_topics (br_heap b a))) \<inter> set (topic_list (cv_topics (br_heap b k))) = {}"
proof -
  have "i \<in> set (map fst (br_covers b))" "j \<in> set (map fst (br_covers b))"
    using assms(2,3) by (force intro: rev_image_eqI)+
  moreover have "ids_apart (map fst (br_covers b))" using assms(1) by (simp add: wired_def)
  ultimately have apart: "distinct (map fst (br_covers b))" "j \<noteq> i @ ''-keepopen''" "i \<noteq> j @ ''-keepopen''"
    unfolding ids_apart_def by metis+
  have "i \<noteq> j" using apart(1) assms(2-4) by (metis eq_key_imp_eq_value)
  from topics_overlap_iff [OF this] apart(2,3) show ?thesis
    unfolding wiredD(4) [OF assms(1,2)] wiredD(4) [OF assms(1,3)] by metis
qed

text \<open>The state of the bridge matters only up to what is not mentioned here.\<close>

lemma cover_wired_cong:
  assumes "br_next b \<le> br_next b'" "nw_next b \<le> nw_next b'" "br_cfg b' = br_cfg b"
    "cv_node (br_heap b' a) = cv_node (br_heap b a)" "cv_topics (br_heap b' a) = cv_topics (br_heap b a)"
    "node_base (nw_heap b' (cv_node (br_heap b a))) = node_base (nw_heap b (cv_node (br_heap b a)))"
    "(node_opening (nw_heap b' (cv_node (br_heap b a))) = None) = (node_opening (nw_heap b (cv_node (br_heap b a))) = None)"
  shows "cover_wired u b i a \<Longrightarrow> cover_wired u b' i a"
  using assms by (auto simp: cover_wired_def Let_def observers_def Node_Name_def)

text \<open>A setter keeps the base of a node and whether it is an opening device.\<close>

definition setter :: "(Node \<Rightarrow> Node) \<Rightarrow> bool" where
  "setter g \<longleftrightarrow> (\<forall>n. node_base (g n) = node_base n \<and> (node_opening (g n) = None) = (node_opening n = None))"

lemma setters [simp]:
  "setter id" "setter (on_opening (SetPositionState p))" "setter (on_opening (SetTargetState p))"
  "setter (on_opening (SetLimitationState mn mx og t))" "setter (on_blind (SetOrientationState p))"
  "setter (SetIntensityState p)" "setter (on_opening (set_limits mn mx))"
  "setter g \<Longrightarrow> setter h \<Longrightarrow> setter (g \<circ> h)"
  by (simp_all add: setter_def set_limits_def)

lemma setter_position_fields [simp]: "setter (on_blind (set_position_fields p))"
proof -
  have "node_base (on_blind (set_position_fields p) n) = node_base n \<and>
    (node_opening (on_blind (set_position_fields p) n) = None) = (node_opening n = None)" for n
    by (cases n) (simp_all add: set_position_fields_def)
  then show ?thesis by (simp add: setter_def)
qed

text \<open>An operation that keeps the wiring: covers, their nodes and the collection, and the bases of the nodes.\<close>

definition same_wiring :: "bridge \<Rightarrow> bridge \<Rightarrow> bool" where
  "same_wiring b b' \<longleftrightarrow>
     br_covers b' = br_covers b \<and> br_cfg b' = br_cfg b \<and> br_next b' = br_next b \<and> nw_next b' = nw_next b \<and>
     nw_nodes b' = nw_nodes b \<and>
     (\<forall>r. node_base (nw_heap b' r) = node_base (nw_heap b r) \<and>
        (node_opening (nw_heap b' r) = None) = (node_opening (nw_heap b r) = None)) \<and>
     (\<forall>a. cv_node (br_heap b' a) = cv_node (br_heap b a) \<and> cv_topics (br_heap b' a) = cv_topics (br_heap b a) \<and>
        cv_inverted (br_heap b' a) = cv_inverted (br_heap b a))"

lemma same_wiring_refl [simp]: "same_wiring b b"
  by (simp add: same_wiring_def)

lemma same_wiring_trans: "same_wiring a b \<Longrightarrow> same_wiring b c \<Longrightarrow> same_wiring a c"
  by (simp add: same_wiring_def)

lemma wired_same:
  assumes "wired u b" "same_wiring b b'" "nw_events b' = []"
  shows "wired u b'"
proof -
  have "cover_wired u b' i a" if "(i, a) \<in> set (br_covers b)" for i a
    using assms(1,2) that
    by (intro cover_wired_cong [of b b']) (auto simp: same_wiring_def wired_def)
  moreover have "watched b' = watched b" "observers b' = observers b"
    using assms(2) by (auto simp: watched_def observers_def same_wiring_def fun_eq_iff)
  ultimately show ?thesis using assms by (auto simp: wired_def same_wiring_def)
qed

section \<open>Updates of one node\<close>

lemma drop_no_events: "nw_events b = [] \<Longrightarrow> b\<lparr> nw_events := [] \<rparr> = (b :: bridge)"
  by (cases b) simp

lemma deliver_none: "nw_events b = [] \<Longrightarrow> deliver b = b"
  by (simp add: deliver_def drop_no_events)

lemma deliver_observers:
  assumes "nw_events b = []"
  shows "deliver (AfterUpdate r b) = fold (\<lambda>a. UpdateNode a (nw_heap b r)) (observers b r) b"
proof -
  have "(AfterUpdate r b)\<lparr> nw_events := [] \<rparr> = b"
    using drop_no_events [OF assms] by (simp add: AfterUpdate_def Let_def)
  moreover have "nw_events (AfterUpdate r b) = map (\<lambda>a. (a, nw_heap b r)) (observers b r)"
    by (simp add: AfterUpdate_def Let_def assms observers_def)
  ultimately show ?thesis by (simp add: deliver_def fold_map comp_def)
qed

lemma UpdateNode_wiring: "same_wiring b (UpdateNode a n b)"
  by (simp add: same_wiring_def bridge_simps)

lemma assign_wiring: "setter g \<Longrightarrow> same_wiring b (assign r g b)"
  by (simp add: same_wiring_def assign_def setter_def)

lemma shown_cong:
  assumes "nw_heap b' (cv_node (br_heap b a)) = nw_heap b (cv_node (br_heap b a))"
    "cv_node (br_heap b' a) = cv_node (br_heap b a)" "cv_topics (br_heap b' a) = cv_topics (br_heap b a)"
    "cv_inverted (br_heap b' a) = cv_inverted (br_heap b a)"
    "mq_published (br_mqtt b') = mq_published (br_mqtt b) @ ms"
    "fst ` set ms \<inter> state_topics (cv_topics (br_heap b a)) = {}"
  shows "shown b' a = shown b a"
  using assms(1,2) displays_cong [OF assms(3,4)]
  by (simp add: shown_def Let_def assms(5) displays_other [OF assms(6)] split: option.split)

text \<open>After a publication by the cover \<open>a\<close> it is shown, and the others are shown if they were.\<close>

lemma UpdateNode_shown:
  assumes "cv_topics (br_heap b a) = NewTopics pfx i" "n = nw_heap b (cv_node (br_heap b a))"
  shows "shown (UpdateNode a n b) a"
proof -
  have "displays ms (br_heap (UpdateNode a n b) a) d = displays ms (br_heap b a) d" for ms d
    by (rule displays_cong) (simp_all add: bridge_simps)
  with assms show ?thesis
    by (simp add: shown_def Let_def bridge_simps displays_messages [OF assms(1)] split: option.split)
qed

lemma UpdateNode_topics:
  "\<exists>ms. mq_published (br_mqtt (UpdateNode a n b)) = mq_published (br_mqtt b) @ ms \<and>
     fst ` set ms \<subseteq> set (topic_list (cv_topics (br_heap b a)))"
  using cover_messages_topics [of "br_heap b a"] by (cases "node_opening n") (simp_all add: UpdateNode_published)

lemma UpdateNode_shown_other:
  assumes "set (topic_list (cv_topics (br_heap b a))) \<inter> set (topic_list (cv_topics (br_heap b k))) = {}"
  shows "shown (UpdateNode a n b) k = shown b k"
proof -
  obtain ms where "mq_published (br_mqtt (UpdateNode a n b)) = mq_published (br_mqtt b) @ ms"
    "fst ` set ms \<subseteq> set (topic_list (cv_topics (br_heap b a)))" using UpdateNode_topics by blast
  moreover from this(2) assms have "fst ` set ms \<inter> state_topics (cv_topics (br_heap b k)) = {}"
    using state_topics_listed by blast
  ultimately show ?thesis by (intro shown_cong) (simp_all add: bridge_simps)
qed

lemma UpdateNode_synced:
  assumes "wired u b" "(i, a) \<in> set (br_covers b)" "\<forall>(j, k)\<in>set (br_covers b). k \<noteq> a \<longrightarrow> shown b k"
    "n = nw_heap b (cv_node (br_heap b a))"
  shows "synced (UpdateNode a n b)"
  unfolding synced_def
proof (clarify)
  fix j k
  assume "(j, k) \<in> set (br_covers (UpdateNode a n b))"
  then have k: "(j, k) \<in> set (br_covers b)" by (simp add: bridge_simps)
  show "shown (UpdateNode a n b) k"
  proof (cases "k = a")
    case True
    with UpdateNode_shown [OF wiredD(4) [OF assms(1,2)] assms(4)] show ?thesis by simp
  next
    case False
    with assms(3) k UpdateNode_shown_other [OF covers_apart [OF assms(1,2) k]] show ?thesis by auto
  qed
qed

text \<open>The update of a node by a setter and \<open>AfterUpdate\<close>, with the callbacks it runs.\<close>

definition good :: "(nat \<Rightarrow> nat) \<Rightarrow> bridge \<Rightarrow> bool" where
  "good u b \<longleftrightarrow> wired u b \<and> synced b"

definition keeps_good :: "(nat \<Rightarrow> nat) \<Rightarrow> bridge \<Rightarrow> bridge \<Rightarrow> bool" where
  "keeps_good u b b' \<longleftrightarrow> same_wiring b b' \<and> good u b'"

lemma keeps_good_refl: "good u b \<Longrightarrow> keeps_good u b b"
  by (simp add: keeps_good_def)

lemma keeps_good_trans: "keeps_good u a b \<Longrightarrow> keeps_good u b c \<Longrightarrow> keeps_good u a c"
  using same_wiring_trans by (auto simp: keeps_good_def)

lemma update_keeps_good:
  assumes "good u b" "watched b r \<or> r \<in> set (nw_nodes b)" "setter g"
  shows "keeps_good u b (deliver (AfterUpdate r (assign r g b)))"
proof -
  define b1 where "b1 = assign r g b"
  have w: "wired u b" and ev: "nw_events b = []" and sy: "synced b"
    using assms(1) by (auto simp: good_def wired_def)
  have same: "same_wiring b b1" unfolding b1_def by (rule assign_wiring) (rule assms(3))
  have w1: "wired u b1" by (rule wired_same [OF w same]) (simp add: b1_def bridge_simps ev)
  have d: "deliver (AfterUpdate r b1) = fold (\<lambda>a. UpdateNode a (nw_heap b1 r)) (observers b1 r) b1"
    by (rule deliver_observers) (simp add: b1_def bridge_simps ev)
  have obs: "observers b1 = observers b" using same by (auto simp: observers_def same_wiring_def fun_eq_iff)
  have shown: "shown b1 k" if "(j, k) \<in> set (br_covers b)" "cv_node (br_heap b k) \<noteq> r" for j k
  proof -
    have "shown b1 k = shown b k"
      by (rule shown_cong [where ms = "[]"]) (simp_all add: b1_def bridge_simps assign_def that(2))
    with sy that(1) show ?thesis by (auto simp: synced_def)
  qed
  have "observers b r = [] \<or> watched b r" using w assms(2) by (auto simp: wired_def)
  then show ?thesis
  proof (cases "observers b r")
    case Nil
    have "cv_node (br_heap b k) \<noteq> r" if "(j, k) \<in> set (br_covers b)" for j k
      using wiredD(3) [OF w that] Nil by auto
    with shown have "synced b1" using same by (auto simp: synced_def same_wiring_def)
    with Nil d w1 same show ?thesis unfolding b1_def [symmetric] by (simp add: keeps_good_def good_def obs)
  next
    case (Cons x xs)
    with w assms(2) obtain i a where a: "(i, a) \<in> set (br_covers b)" "cv_node (br_heap b a) = r"
      by (auto simp: wired_def watched_def)
    have one: "observers b r = [a]" using wiredD(3) [OF w a(1)] a(2) by simp
    have a1: "(i, a) \<in> set (br_covers b1)" "cv_node (br_heap b1 a) = r"
      using a same by (simp_all add: same_wiring_def)
    have "k = a" if "(j, k) \<in> set (br_covers b)" "cv_node (br_heap b k) = r" for j k
      using wiredD(3) [OF w that(1)] that(2) one by simp
    with shown have "\<forall>(j, k)\<in>set (br_covers b1). k \<noteq> a \<longrightarrow> shown b1 k"
      using same by (auto simp: same_wiring_def)
    from UpdateNode_synced [OF w1 a1(1) this, of "nw_heap b1 r"] a1(2)
    have "synced (UpdateNode a (nw_heap b1 r) b1)" by simp
    moreover have "same_wiring b1 (UpdateNode a (nw_heap b1 r) b1)" by (rule UpdateNode_wiring)
    moreover from w1 this have "wired u (UpdateNode a (nw_heap b1 r) b1)"
      by (rule wired_same) (use w1 in \<open>simp add: wired_def bridge_simps\<close>)
    ultimately show ?thesis
      unfolding b1_def [symmetric] using d same_wiring_trans [OF same]
      by (simp add: keeps_good_def good_def obs one)
  qed
qed

section \<open>Frames, marks and calls\<close>

lemma assign_id: "assign r id w = w"
  by (simp add: assign_def fun_upd_idem)

lemma assign_if: "(if P then assign r g w else w) = assign r (if P then g else id) w"
  by (simp add: assign_id)

lemma assign_assign: "assign r g (assign r h w) = assign r (g \<circ> h) w"
  by (simp add: assign_def)

text \<open>What a frame does to the nodes is nothing, or an update of one node of the collection.\<close>

definition one_update :: "bridge \<Rightarrow> bridge \<Rightarrow> bool" where
  "one_update w w' \<longleftrightarrow> w' = w \<or>
     (\<exists>r g. r \<in> set (nw_nodes w) \<and> setter g \<and> w' = AfterUpdate r (assign r g w))"

lemma one_updateI:
  "r \<in> set (nw_nodes w) \<Longrightarrow> setter g \<Longrightarrow> one_update w (AfterUpdate r (assign r g w))"
  unfolding one_update_def by blast

lemma one_update_refl [simp]: "one_update w w"
  by (simp add: one_update_def)

lemma one_update_position: "one_update w (processPositionFrame nodeID p t w)"
proof (cases "Nodes_ByID (nw_heap w) nodeID (nw_nodes w)")
  case (Some r)
  then have r: "r \<in> set (nw_nodes w)" using Nodes_ByID_Some by blast
  show ?thesis
    unfolding processPositionFrame_def Some option.case Let_def
    by (cases "nw_heap w r")
      (simp_all only: Node.case assign_if assign_assign, auto intro!: one_updateI [OF r])
qed (simp add: processPositionFrame_def)

lemma one_update_status: "one_update w (processStatusRequestNotification f w)"
proof (cases "Nodes_ByID (nw_heap w) (ucast (srn_NodeID f)) (nw_nodes w)")
  case (Some r)
  then have r: "r \<in> set (nw_nodes w)" using Nodes_ByID_Some by blast
  show ?thesis
    unfolding processStatusRequestNotification_def Some option.case Let_def
    by (auto simp: assign_if assign_assign intro!: one_updateI [OF r] split: Node.split option.split)
qed (simp add: processStatusRequestNotification_def)

lemma one_update_limitation: "one_update w (processLimitationStatusNotification f w)"
proof (cases "Nodes_ByID (nw_heap w) (ucast (lsn_NodeID f)) (nw_nodes w)")
  case (Some r)
  then have r: "r \<in> set (nw_nodes w)" using Nodes_ByID_Some by blast
  show ?thesis
    unfolding processLimitationStatusNotification_def Some option.case Let_def
    by (auto intro!: one_updateI [OF r])
qed (simp add: processLimitationStatusNotification_def)

lemma one_update_frame: "one_update w (processFrame f w)"
  unfolding processFrame_def processNodeStateFrame_def
  by (auto intro: one_update_position one_update_status one_update_limitation
      split: frame.split nodes_frame.split commands_frame.split limitation_frame.split)

lemma node_updater_keeps: "good u b \<Longrightarrow> keeps_good u b (node_updater f b)"
  using one_update_frame [of b f] update_keeps_good [of u b] deliver_none [of b] keeps_good_refl [of u b]
  by (auto simp: one_update_def node_updater_def good_def wired_def)

text \<open>The availability marks leave the state topics alone.\<close>

lemma publish_all_fields:
  "same_wiring b (publish_all up b)" "nw_events (publish_all up b) = nw_events b" "nw_heap (publish_all up b) = nw_heap b"
proof -
  have "same_wiring b (fold (\<lambda>(i, a). PublishAvailability a up) es b) \<and>
    nw_events (fold (\<lambda>(i, a). PublishAvailability a up) es b) = nw_events b \<and>
    nw_heap (fold (\<lambda>(i, a). PublishAvailability a up) es b) = nw_heap b"
    for es :: "(string \<times> nat) list"
    by (induction es arbitrary: b) (auto simp: same_wiring_def bridge_simps)
  then show "same_wiring b (publish_all up b)" "nw_events (publish_all up b) = nw_events b"
    "nw_heap (publish_all up b) = nw_heap b"
    by (simp_all add: publish_all_def)
qed

lemma availability_topics:
  assumes "wired u b" "(i, a) \<in> set (br_covers b)" "(j, k) \<in> set (br_covers b)"
  shows "tp_Available (cv_topics (br_heap b k)) \<notin> state_topics (cv_topics (br_heap b a))"
    "tp_KeepOpenAvailable (cv_topics (br_heap b k)) \<notin> state_topics (cv_topics (br_heap b a))"
proof -
  have "tp_Available (cv_topics (br_heap b k)) \<notin> state_topics (cv_topics (br_heap b a)) \<and>
    tp_KeepOpenAvailable (cv_topics (br_heap b k)) \<notin> state_topics (cv_topics (br_heap b a))"
  proof (cases "a = k")
    case True
    then show ?thesis
      using topic_distinct [of "hc_Prefix (cf_HomeAssistant (br_cfg b))" i] wiredD(4) [OF assms(1,2)]
      by (auto simp: topic_list_def state_topics_def)
  next
    case False
    from covers_apart [OF assms this] state_topics_listed [of "cv_topics (br_heap b a)"] show ?thesis
      by (auto simp: topic_list_def)
  qed
  then show "tp_Available (cv_topics (br_heap b k)) \<notin> state_topics (cv_topics (br_heap b a))"
    "tp_KeepOpenAvailable (cv_topics (br_heap b k)) \<notin> state_topics (cv_topics (br_heap b a))" by simp_all
qed

lemma publish_all_keeps:
  assumes "good u b"
  shows "keeps_good u b (publish_all up b)"
proof -
  have w: "wired u b" using assms by (simp add: good_def)
  have "shown (publish_all up b) a = shown b a" if "(i, a) \<in> set (br_covers b)" for i a
  proof -
    have "fst ` set (availability_messages up b) \<inter> state_topics (cv_topics (br_heap b a)) = {}"
      using availability_topics [OF w that] by (auto simp: availability_messages_def)
    then show ?thesis
      using publish_all_fields(1) [of b up]
      by (intro shown_cong) (simp_all add: publish_all_fields publish_all_published same_wiring_def)
  qed
  moreover have "wired u (publish_all up b)"
    by (rule wired_same [OF w publish_all_fields(1)]) (use w in \<open>simp add: publish_all_fields wired_def\<close>)
  ultimately show ?thesis
    using assms publish_all_fields(1) [of b up]
    by (auto simp: keeps_good_def good_def synced_def same_wiring_def)
qed

lemma new_session_updaters: "cl_nodeUpdaters (snd (new_session c)) = cl_nodeUpdaters c"
  by (simp add: new_session_def Let_def split: prod.split)

text \<open>What the node updater keeps is kept by everything that only lets frames come in.\<close>

locale updater_invariant =
  fixes Q :: "bridge \<Rightarrow> bool"
  assumes updater_keeps: "Q b \<Longrightarrow> Q (node_updater f b)"
begin

lemma effect_keeps:
  assumes "cl_nodeUpdaters c = [node_updater, contact_stamper]" "Q b"
  shows "Q (effect c f b)"
proof -
  have "Q (fold (run_callback c f) cbs b)" for cbs
    using assms(2)
  proof (induction cbs arbitrary: b)
    case (Cons cb cbs)
    then show ?case
      using updater_keeps by (simp add: run_callback_def assms(1) contact_stamper_def split: client_cb.split)
  qed simp
  then show ?thesis by (simp add: effect_def)
qed

lemma receive_keeps:
  assumes "cl_nodeUpdaters c = [node_updater, contact_stamper]" "Q (cl_nodes c)"
  shows "Q (cl_nodes (fold receive fs c))"
proof -
  have "Q (fold (effect c) fs b)" if "Q b" for b
    using that by (induction fs arbitrary: b) (simp_all add: effect_keeps [OF assms(1)])
  with assms(2) show ?thesis by (simp add: fold_receive_nodes)
qed

lemma read_keeps:
  assumes "cl_nodeUpdaters c = [node_updater, contact_stamper]" "Q (cl_nodes c)"
  shows "Q (cl_nodes (Client_read conn chunk c))"
  using assms receive_keeps by (simp add: Client_read_def Let_def split: option.split prod.split)

lemma APICall_keeps:
  assumes "cl_nodeUpdaters c = [node_updater, contact_stamper]" "Q (cl_nodes c)"
  shows "Q (cl_nodes (snd (snd (APICall request h s c))))"
proof (cases rule: APICall_cases [of request c h s])
  case (sent k d c')
  have "Q (cl_nodes c')" unfolding sent(4) by (rule receive_keeps) (simp_all add: assms)
  then show ?thesis by (simp add: sent(5))
qed (simp add: assms)

lemma CommandSend_keeps:
  assumes "cl_nodeUpdaters c = [node_updater, contact_stamper]" "Q (cl_nodes c)"
  shows "Q (cl_nodes (snd (Client_CommandSend nodeID p fps w c)))"
  using APICall_keeps [of "snd (new_session c)"] assms
  by (simp add: Client_CommandSend_def Let_def new_session_updaters new_session_quiet)

lemma SetLimitation_keeps:
  assumes "cl_nodeUpdaters c = [node_updater, contact_stamper]" "Q (cl_nodes c)"
  shows "Q (cl_nodes (snd (Client_SetLimitation nodeID mn mx t c)))"
  using APICall_keeps [of "snd (new_session c)"] assms
  by (simp add: Client_SetLimitation_def Let_def new_session_updaters new_session_quiet)

lemma LoadAllNodes_keeps:
  assumes "cl_nodeUpdaters c = [node_updater, contact_stamper]" "Q (cl_nodes c)"
  shows "Q (cl_nodes (snd (LoadAllNodes c)))"
  using APICall_keeps [OF assms] by (simp add: LoadAllNodes_def finish_client)

lemma client_step_keeps:
  assumes "client_step c d" "cl_nodeUpdaters c = [node_updater, contact_stamper]" "Q (cl_nodes c)"
  shows "Q (cl_nodes d)"
  using assms
proof cases
  case (inbound f)
  with receive_keeps [of c "[f]"] assms show ?thesis by simp
qed (use assms APICall_keeps in \<open>simp_all add: Client_Connect_def Client_Disconnect_def installUpdaterDispatch_def
    RegisterNodeUpdater_def Let_def split: prod.split option.split\<close>)

end

interpretation kg: updater_invariant "keeps_good u b\<^sub>0" for u b\<^sub>0
  by unfold_locales (rule keeps_good_trans, assumption, rule node_updater_keeps, simp add: keeps_good_def)

section \<open>Commands\<close>

lemma watched_same: "same_wiring b b' \<Longrightarrow> watched b' = watched b"
  by (simp add: watched_def same_wiring_def fun_eq_iff)

lemma and_then_keeps:
  assumes "keeps_good u b\<^sub>0 (cl_nodes (snd r\<^sub>0))" "watched b\<^sub>0 r" "setter g"
    "\<And>c. cl_nodes (k c) = AfterUpdate r (assign r g (cl_nodes c))"
  shows "keeps_good u b\<^sub>0 (cl_nodes (runCommand (and_then r\<^sub>0 k)))"
proof -
  define b where "b = cl_nodes (snd r\<^sub>0)"
  have b: "same_wiring b\<^sub>0 b" "good u b" using assms(1) by (simp_all add: keeps_good_def b_def)
  show ?thesis
  proof (cases "fst r\<^sub>0")
    case (Inl e)
    with b assms(1) show ?thesis
      by (cases r\<^sub>0) (simp add: nodes_runCommand and_then_def deliver_none good_def wired_def b_def)
  next
    case (Inr x)
    have "keeps_good u b (deliver (AfterUpdate r (assign r g b)))"
      by (rule update_keeps_good [OF b(2) _ assms(3)]) (simp add: watched_same [OF b(1)] assms(2))
    with keeps_good_trans [OF assms(1)] show ?thesis
      by (simp add: nodes_runCommand snd_and_then [OF Inr] assms(4) b_def)
  qed
qed

lemma shown_blind: "is_blind (nw_heap b (cv_node (br_heap b a))) \<Longrightarrow> shown b a"
  by (simp add: shown_def Let_def split: option.split)

lemma assign_blind_keeps:
  assumes "good u b" "setter (on_blind g)"
  shows "keeps_good u b (assign r (on_blind g) b)"
proof -
  let ?b = "assign r (on_blind g) b"
  have same: "same_wiring b ?b" by (rule assign_wiring) (rule assms(2))
  have "shown ?b a" if "shown b a" for a
  proof (cases "is_blind (nw_heap b (cv_node (br_heap b a)))")
    case True
    then have "is_blind (on_blind g (nw_heap b (cv_node (br_heap b a))))"
      by (cases "nw_heap b (cv_node (br_heap b a))") auto
    with True have "is_blind (nw_heap ?b (cv_node (br_heap ?b a)))" by (auto simp: assign_def)
    then show ?thesis by (rule shown_blind)
  next
    case False
    then have "on_blind g (nw_heap b (cv_node (br_heap b a))) = nw_heap b (cv_node (br_heap b a))"
      by (cases "nw_heap b (cv_node (br_heap b a))") auto
    then have "nw_heap ?b (cv_node (br_heap b a)) = nw_heap b (cv_node (br_heap b a))" by (auto simp: assign_def)
    from shown_cong [OF this, of "[]"] that show ?thesis by (simp add: bridge_simps)
  qed
  then have "synced ?b" using assms(1) same by (auto simp: good_def synced_def same_wiring_def)
  moreover have "wired u ?b"
    by (rule wired_same [OF _ same]) (use assms(1) in \<open>simp_all add: good_def wired_def bridge_simps\<close>)
  ultimately show ?thesis using same by (simp add: keeps_good_def good_def)
qed


lemma setPosition_keeps:
  assumes "good u (cl_nodes c)" "cl_nodeUpdaters c = [node_updater, contact_stamper]" "watched (cl_nodes c) r"
  shows "keeps_good u (cl_nodes c) (cl_nodes (runCommand (OpeningDevice_setPosition r p w c)))"
  unfolding OpeningDevice_setPosition_def
  by (rule and_then_keeps [where g = id and r = r])
    (use assms in \<open>simp_all add: kg.CommandSend_keeps keeps_good_refl assign_id\<close>)

lemma blind_command_keeps:
  assumes "good u (cl_nodes c)" "cl_nodeUpdaters c = [node_updater, contact_stamper]" "watched (cl_nodes c) r"
    "is_blind (nw_heap (cl_nodes c) r)"
  shows "keeps_good u (cl_nodes c) (cl_nodes (runCommand (Blind_SetPositionAndOrientation r p w q c)))"
proof -
  let ?c = "change_nodes (assign r (on_blind (set_position_fields p))) c"
  from assign_blind_keeps [OF assms(1) setter_position_fields] have "keeps_good u (cl_nodes c) (cl_nodes ?c)" by simp
  moreover have "cl_nodeUpdaters ?c = [node_updater, contact_stamper]" using assms(2) by (simp add: change_nodes_def)
  ultimately show ?thesis
    unfolding SetPositionAndOrientation_eq [OF assms(4)] Let_def
    by (intro and_then_keeps [where g = id and r = r] kg.CommandSend_keeps) (simp_all add: assms(3) assign_id)
qed

lemma limitation_keeps:
  assumes "good u (cl_nodes c)" "cl_nodeUpdaters c = [node_updater, contact_stamper]" "watched (cl_nodes c) r"
  shows "keeps_good u (cl_nodes c) (cl_nodes (runCommand (OpeningDevice_setPositionLimitations r mn mx c)))"
    "keeps_good u (cl_nodes c) (cl_nodes (runCommand (OpeningDevice_clearPositionLimitations r c)))"
  unfolding OpeningDevice_setPositionLimitations_def OpeningDevice_clearPositionLimitations_def
  by (rule and_then_keeps [where r = r and g = "on_opening (set_limits mn mx)"]
      and_then_keeps [where r = r and g = "on_opening (set_limits NewIgnorePosition NewIgnorePosition)"];
      use assms in \<open>simp add: kg.SetLimitation_keeps keeps_good_refl\<close>)+

lemma device_commands_keep:
  assumes "good u (cl_nodes c)" "cl_nodeUpdaters c = [node_updater, contact_stamper]" "watched (cl_nodes c) r"
  shows "keeps_good u (cl_nodes c) (cl_nodes (runCommand (Device_Open r w c)))"
    "keeps_good u (cl_nodes c) (cl_nodes (runCommand (Device_Close r w c)))"
    "keeps_good u (cl_nodes c) (cl_nodes (runCommand (Device_Stop r w c)))"
    "keeps_good u (cl_nodes c) (cl_nodes (runCommand (Device_SetPosition r p w c)))"
  using setPosition_keeps [OF assms] blind_command_keeps [OF assms]
  by (simp_all add: Device_Open_def Device_Close_def Device_Stop_def Device_SetPosition_def OpeningDevice_open_def
      OpeningDevice_close_def OpeningDevice_stop_def Blind_Open_def Blind_Close_def Blind_Stop_def
      Blind_SetPosition_def Let_def)

lemma message_keeps:
  assumes "good u (cl_nodes c)" "cl_nodeUpdaters c = [node_updater, contact_stamper]"
    "(i, a) \<in> set (br_covers (cl_nodes c))"
  shows "keeps_good u (cl_nodes c) (cl_nodes (handleCoverCommand a payload c))"
    "keeps_good u (cl_nodes c) (cl_nodes (handleKeepOpenCommand a payload c))"
proof -
  have "watched (cl_nodes c) (cv_node (br_heap (cl_nodes c) a))" using assms(3) by (auto simp: watched_def)
  note keeps = device_commands_keep [OF assms(1,2) this] limitation_keeps [OF assms(1,2) this]
    keeps_good_refl [OF assms(1)]
  show "keeps_good u (cl_nodes c) (cl_nodes (handleCoverCommand a payload c))"
    using keeps by (simp add: handleCoverCommand_def Let_def openFunc_def closeFunc_def split: option.split sum.split)
  show "keeps_good u (cl_nodes c) (cl_nodes (handleKeepOpenCommand a payload c))"
    using keeps by (simp add: handleKeepOpenCommand_def Let_def split: sum.split)
qed

section \<open>Loading the nodes\<close>

lemma NodeFromInfo_base: "node_base (NodeFromInfo nodeID nm serial info) = NewBaseNode nodeID nm serial"
proof -
  have "node_base (constructor b info) = b"
    if "(t, constructor) \<in> set (opening_registrations @ other_registrations)" for t constructor b
    using that
    by (auto simp: opening_registrations_def other_registrations_def windowCtor_def rollerCtor_def interiorCtor_def
        awningCtor_def garageCtor_def gateCtor_def bladeCtor_def blindCtor_def switchCtor_def lightCtor_def
        opening_of_def newOpeningDevice_def Let_def)
  then show ?thesis
    by (auto simp: NodeFromInfo_def lookupNodeType_def nodeTypeRegistry_map_of Let_def
        dest: map_of_SomeD split: option.split)
qed

lemma ConvertAllNodesFrame_observers: "bn_deviceUpdatedCBs (node_base (ConvertAllNodesFrame ntf)) = []"
  by (simp add: ConvertAllNodesFrame_def convert_info_def NodeFromInfo_base NewBaseNode_def)

definition fresh :: "bridge \<Rightarrow> bool" where
  "fresh b \<longleftrightarrow> (\<forall>r\<in>set (nw_nodes b). observers b r = [])"

lemma add_node_good:
  assumes "good u b" "fresh b" "bn_deviceUpdatedCBs (node_base n) = []"
  shows "good u (add_node n b) \<and> fresh (add_node n b) \<and> br_covers (add_node n b) = br_covers b"
proof -
  let ?b = "add_node n b"
  have w: "wired u b" using assms(1) by (simp add: good_def)
  then have "\<forall>r\<in>set (nw_nodes b). r < nw_next b" by (simp add: wired_def)
  note add = add_node_eq [OF this, of n]
  have parts: "br_covers ?b = br_covers b" "br_heap ?b = br_heap b" "br_mqtt ?b = br_mqtt b" "br_cfg ?b = br_cfg b"
    "br_next ?b = br_next b" "nw_next ?b = Suc (nw_next b)" "nw_events ?b = nw_events b"
    "nw_heap ?b = (nw_heap b)(nw_next b := n)" "set (nw_nodes ?b) \<subseteq> insert (nw_next b) (set (nw_nodes b))"
    using set_Nodes_Add [of "(nw_heap b)(nw_next b := n)" "nw_next b" "nw_nodes b"] by (auto simp: add)
  have node: "nw_heap ?b (cv_node (br_heap b a)) = nw_heap b (cv_node (br_heap b a))" if "(i, a) \<in> set (br_covers b)" for i a
    using wiredD(2) [OF w that] by (simp add: parts)
  have obs: "observers ?b r = []" if "r \<in> set (nw_nodes ?b)" for r
    using that parts(9) assms(2,3) by (auto simp: fresh_def observers_def parts(8))
  have "cover_wired u ?b i a" if "(i, a) \<in> set (br_covers b)" for i a
    using w node [OF that] that by (intro cover_wired_cong [of b ?b]) (auto simp: parts wired_def)
  then have "wired u ?b"
    using w obs parts(9) by (auto simp: wired_def parts(1-7) less_Suc_eq)
  moreover have "shown ?b a = shown b a" if "(i, a) \<in> set (br_covers b)" for i a
    by (rule shown_cong [where ms = "[]"]) (simp_all add: node [OF that] parts(2,3))
  ultimately show ?thesis
    using assms(1) obs by (auto simp: good_def synced_def parts(1) fresh_def)
qed

lemma fold_add_node_good:
  "good u b \<Longrightarrow> fresh b \<Longrightarrow>
   good u (fold (\<lambda>ntf. add_node (ConvertAllNodesFrame ntf)) ns b) \<and>
   fresh (fold (\<lambda>ntf. add_node (ConvertAllNodesFrame ntf)) ns b) \<and>
   br_covers (fold (\<lambda>ntf. add_node (ConvertAllNodesFrame ntf)) ns b) = br_covers b"
  by (induction ns arbitrary: b) (simp_all add: add_node_good ConvertAllNodesFrame_observers)

lemma clear_fields:
  "br_mqtt (b\<lparr> nw_nodes := x \<rparr>) = br_mqtt b" "br_covers (b\<lparr> nw_nodes := x \<rparr>) = br_covers b"
  "br_heap (b\<lparr> nw_nodes := x \<rparr>) = br_heap b" "br_cfg (b\<lparr> nw_nodes := x \<rparr>) = br_cfg b"
  "br_next (b\<lparr> nw_nodes := x \<rparr>) = br_next b"
  by (cases b; simp)+

lemma clear_good: "good u b \<Longrightarrow> good u (b\<lparr> nw_nodes := [] \<rparr>)"
  by (simp add: good_def wired_def synced_def cover_wired_def shown_def observers_def Let_def clear_fields
      cong: option.case_cong)

lemma LoadNodes_good:
  assumes "good u (cl_nodes c)" "cl_nodeUpdaters c = [node_updater, contact_stamper]"
  shows "good u (cl_nodes (snd (Client_LoadNodes c))) \<and>
    (fst (Client_LoadNodes c) = Inr () \<longrightarrow> fresh (cl_nodes (snd (Client_LoadNodes c))))"
proof -
  obtain r d where l: "LoadAllNodes c = (r, d)" by fastforce
  have d: "good u (cl_nodes d)"
    using kg.LoadAllNodes_keeps [OF assms(2) keeps_good_refl [OF assms(1)]] by (simp add: l keeps_good_def)
  show ?thesis
  proof (cases r)
    case (Inr ns)
    have "fresh ((cl_nodes d)\<lparr> nw_nodes := [] \<rparr>)" by (simp add: fresh_def)
    from fold_add_node_good [OF clear_good [OF d] this] show ?thesis
      by (simp add: Client_LoadNodes_def l Inr Nodes_Clear_def)
  qed (simp add: Client_LoadNodes_def l d)
qed

section \<open>Registration\<close>

text \<open>The part of \<open>Start\<close> before the first update of the cover.\<close>

definition announced :: "nat \<Rightarrow> bridge \<Rightarrow> bridge" where
  "announced a b =
     (let c = br_heap b a; t = cv_topics c;
          b = RegisterDeviceUpdatedCB (cv_node c) a (PublishDiscovery a b);
          b = on_mqtt (MQTT_Subscribe (tp_Set t) (CoverCommand a)) b;
          b = on_mqtt (MQTT_Subscribe (tp_KeepOpenSet t) (KeepOpenCommand a)) b
      in PublishAvailability a True b)"

lemma Cover_Start_announced:
  "Cover_Start a b = UpdateNode a (nw_heap (announced a b) (cv_node (br_heap b a))) (announced a b)"
  by (simp add: Cover_Start_def announced_def Let_def)

lemma discovery_next: "nw_next (recordDiscoveryTopic t b) = nw_next b" "nw_next (PublishDiscovery a b) = nw_next b"
  by (simp_all add: PublishDiscovery_def recordDiscoveryTopic_def Let_def bridge_simps split: prod.split)

lemma Subscribe_published [simp]:
  "mq_published (MQTT_Subscribe t h m) = mq_published m" "mq_retain (MQTT_Subscribe t h m) = mq_retain m"
  by (simp_all add: MQTT_Subscribe_def)

lemma PublishDiscovery_published:
  obtains j j' where "mq_published (br_mqtt (PublishDiscovery a b)) = mq_published (br_mqtt b) @
    [(''homeassistant/cover/'' @ tp_Base (cv_topics (br_heap b a)) @ ''/config'', j, True),
     (''homeassistant/switch/'' @ tp_KeepOpenBase (cv_topics (br_heap b a)) @ ''/config'', j', True)]"
  by (rule that [of "snd (buildCoverDiscovery (br_heap b a) (Node_Name (nw_heap b (cv_node (br_heap b a)))))"
        "snd (buildSwitchDiscovery (br_heap b a) (Node_Name (nw_heap b (cv_node (br_heap b a)))))"])
    (simp add: PublishDiscovery_def buildCoverDiscovery_def buildSwitchDiscovery_def Let_def bridge_simps)

lemma announced_fields:
  "br_heap (announced a b) = br_heap b" "br_covers (announced a b) = br_covers b" "br_cfg (announced a b) = br_cfg b"
  "br_next (announced a b) = br_next b" "nw_nodes (announced a b) = nw_nodes b"
  "nw_events (announced a b) = nw_events b" "nw_next (announced a b) = nw_next b"
  "nw_heap (announced a b) = (let r = cv_node (br_heap b a) in
     (nw_heap b)(r := on_base (\<lambda>n. n\<lparr> bn_deviceUpdatedCBs := bn_deviceUpdatedCBs n @ [a] \<rparr>) (nw_heap b r)))"
  by (simp_all add: announced_def Let_def bridge_simps discovery_next)
    (simp_all add: RegisterDeviceUpdatedCB_def assign_def bridge_simps discovery_next)

text \<open>What is announced goes to other topics than the states.\<close>

lemma announced_published:
  "\<exists>ms. mq_published (br_mqtt (announced a b)) = mq_published (br_mqtt b) @ ms \<and>
     (\<forall>t\<in>fst ` set ms. (\<exists>s. t = s @ ''/config'') \<or> t = tp_Available (cv_topics (br_heap b a)) \<or>
        t = tp_KeepOpenAvailable (cv_topics (br_heap b a)))"
proof -
  obtain j j' where p: "mq_published (br_mqtt (PublishDiscovery a b)) = mq_published (br_mqtt b) @
    [(''homeassistant/cover/'' @ tp_Base (cv_topics (br_heap b a)) @ ''/config'', j, True),
     (''homeassistant/switch/'' @ tp_KeepOpenBase (cv_topics (br_heap b a)) @ ''/config'', j', True)]"
    by (rule PublishDiscovery_published)
  show ?thesis by (simp add: announced_def Let_def bridge_simps p)
qed

lemma config_no_state: "s @ ''/config'' \<notin> state_topics (NewTopics pfx i)"
  by (auto simp: state_topics_def NewTopics_def append_suffix_eq)

text \<open>
  The names the gateway reports: the cover ids of the collection differ, and with the ids in use
  none shares topics with another.
\<close>

definition open_ids :: "(nat \<Rightarrow> nat) \<Rightarrow> bridge \<Rightarrow> string list" where
  "open_ids u b =
     map (\<lambda>r. GenerateID u (Node_Name (nw_heap b r))) (filter (\<lambda>r. node_opening (nw_heap b r) \<noteq> None) (nw_nodes b))"

definition registrable :: "(nat \<Rightarrow> nat) \<Rightarrow> bridge \<Rightarrow> bool" where
  "registrable u b \<longleftrightarrow> distinct (open_ids u b) \<and>
     (let is = set (open_ids u b) \<union> fst ` set (br_covers b) in \<forall>i\<in>is. i @ ''-keepopen'' \<notin> is)"

lemma registrable_apart:
  "registrable u b \<Longrightarrow> distinct is \<Longrightarrow> set is \<subseteq> set (open_ids u b) \<union> fst ` set (br_covers b) \<Longrightarrow> ids_apart is"
  by (auto simp: registrable_def ids_apart_def Let_def)

lemma open_ids_unique:
  assumes "registrable u b" "r \<in> set (nw_nodes b)" "r' \<in> set (nw_nodes b)" "r \<noteq> r'"
    "node_opening (nw_heap b r) \<noteq> None" "node_opening (nw_heap b r') \<noteq> None"
  shows "GenerateID u (Node_Name (nw_heap b r)) \<noteq> GenerateID u (Node_Name (nw_heap b r'))"
  using assms by (auto simp: registrable_def open_ids_def distinct_map inj_on_def)

text \<open>One turn of the loop for an opening device, step by step.\<close>

lemma register_fields:
  fixes u r and b :: bridge
  assumes "node_opening (nw_heap b r) \<noteq> None"
  defines "b' \<equiv> register_node u r b" and "i \<equiv> GenerateID u (Node_Name (nw_heap b r))" and "a \<equiv> br_next b"
  shows "br_covers b' = AList.update i a (br_covers b)" "br_cfg b' = br_cfg b" "br_next b' = Suc a"
    "nw_nodes b' = nw_nodes b" "nw_next b' = nw_next b" "nw_events b' = nw_events b"
    "nw_heap b' = (nw_heap b)(r := on_base (\<lambda>n. n\<lparr> bn_deviceUpdatedCBs := bn_deviceUpdatedCBs n @ [a] \<rparr>) (nw_heap b r))"
    "cv_node (br_heap b' k) = (if k = a then r else cv_node (br_heap b k))"
    "cv_topics (br_heap b' k) = (if k = a then NewTopics (hc_Prefix (cf_HomeAssistant (br_cfg b))) i
       else cv_topics (br_heap b k))"
    "k \<noteq> a \<Longrightarrow> cv_inverted (br_heap b' k) = cv_inverted (br_heap b k)"
proof -
  have node: "cv_node (br_heap (allocated u r b) a) = r" by (simp add: a_def bridge_simps)
  have eq: "b' = (let b1 = UpdateNode a (nw_heap (announced a (allocated u r b)) r) (announced a (allocated u r b))
    in b1\<lparr> br_covers := AList.update i a (br_covers b) \<rparr>)"
    using assms(1) by (auto simp: b'_def i_def a_def register_node_eq Cover_Start_announced Let_def bridge_simps announced_fields)
  have heap: "br_heap (allocated u r b) k = br_heap b k" if "k \<noteq> a" for k
    using that by (simp add: allocated_def Let_def a_def)
  have nn: "nw_next (allocated u r b) = nw_next b" by (simp add: allocated_def Let_def)
  show "br_covers b' = AList.update i a (br_covers b)" "br_cfg b' = br_cfg b" "br_next b' = Suc a"
    "nw_nodes b' = nw_nodes b" "nw_next b' = nw_next b" "nw_events b' = nw_events b"
    "nw_heap b' = (nw_heap b)(r := on_base (\<lambda>n. n\<lparr> bn_deviceUpdatedCBs := bn_deviceUpdatedCBs n @ [a] \<rparr>) (nw_heap b r))"
    by (simp_all add: eq Let_def bridge_simps announced_fields node nn a_def)
  show "cv_node (br_heap b' k) = (if k = a then r else cv_node (br_heap b k))"
    "cv_topics (br_heap b' k) = (if k = a then NewTopics (hc_Prefix (cf_HomeAssistant (br_cfg b))) i
       else cv_topics (br_heap b k))"
    "k \<noteq> a \<Longrightarrow> cv_inverted (br_heap b' k) = cv_inverted (br_heap b k)"
    using heap [of k] by (simp_all add: eq Let_def bridge_simps announced_fields node i_def a_def)
qed

lemma register_shown:
  fixes u r and b :: bridge
  assumes "node_opening (nw_heap b r) \<noteq> None"
  defines "b' \<equiv> register_node u r b" and "i \<equiv> GenerateID u (Node_Name (nw_heap b r))"
  shows "shown b' (br_next b)"
    "k \<noteq> br_next b \<Longrightarrow> cv_node (br_heap b k) \<noteq> r \<Longrightarrow> cv_topics (br_heap b k) = NewTopics pfx j \<Longrightarrow>
     set (topic_list (NewTopics (hc_Prefix (cf_HomeAssistant (br_cfg b))) i)) \<inter> set (topic_list (NewTopics pfx j)) = {} \<Longrightarrow>
     shown b' k = shown b k"
proof -
  let ?a = "br_next b"
  define an where "an = announced ?a (allocated u r b)"
  have node: "cv_node (br_heap (allocated u r b) ?a) = r" by (simp add: bridge_simps)
  have eq: "b' = (UpdateNode ?a (nw_heap an r) an)\<lparr> br_covers := AList.update i ?a (br_covers b) \<rparr>"
    using assms(1) by (auto simp: b'_def i_def an_def register_node_eq Cover_Start_announced Let_def bridge_simps announced_fields)
  have covers: "shown (c\<lparr> br_covers := x \<rparr>) k = shown c k" for c :: bridge and x k
    by (simp add: shown_def Let_def cong: option.case_cong)
  have topics: "cv_topics (br_heap an ?a) = NewTopics (hc_Prefix (cf_HomeAssistant (br_cfg b))) i"
    by (simp add: an_def announced_fields bridge_simps i_def)
  have "cv_node (br_heap an ?a) = r" by (simp add: an_def announced_fields node)
  then show "shown b' ?a" using UpdateNode_shown [OF topics, of "nw_heap an r"] by (simp add: eq covers)
  assume k: "k \<noteq> ?a" "cv_node (br_heap b k) \<noteq> r" "cv_topics (br_heap b k) = NewTopics pfx j"
    and apart: "set (topic_list (NewTopics (hc_Prefix (cf_HomeAssistant (br_cfg b))) i)) \<inter> set (topic_list (NewTopics pfx j)) = {}"
  have heap: "br_heap an k = br_heap b k" using k(1) by (simp add: an_def announced_fields allocated_def Let_def)
  have nodes: "nw_heap an (cv_node (br_heap b k)) = nw_heap b (cv_node (br_heap b k))"
    using k(2) node by (simp add: an_def announced_fields Let_def bridge_simps)
  have mqtt: "br_mqtt (allocated u r b) = br_mqtt b" by (simp add: allocated_def Let_def)
  obtain ms where ms: "mq_published (br_mqtt an) = mq_published (br_mqtt (allocated u r b)) @ ms"
    "\<forall>t\<in>fst ` set ms. (\<exists>s. t = s @ ''/config'') \<or> t = tp_Available (cv_topics (br_heap an ?a)) \<or>
       t = tp_KeepOpenAvailable (cv_topics (br_heap an ?a))"
    unfolding an_def announced_fields(1) using announced_published [of ?a "allocated u r b"] by blast
  have "fst ` set ms \<inter> state_topics (cv_topics (br_heap b k)) = {}"
    using ms(2) apart state_topics_listed [of "NewTopics pfx j"] config_no_state
    unfolding k(3) topics by (fastforce simp: topic_list_def)
  then have "shown an k = shown b k"
    by (intro shown_cong [where ms = ms]) (simp_all add: heap ms(1) nodes k(2) mqtt)
  moreover have "shown (UpdateNode ?a (nw_heap an r) an) k = shown an k"
    by (rule UpdateNode_shown_other) (use apart in \<open>simp add: topics heap k(3)\<close>)
  ultimately show "shown b' k = shown b k" by (simp add: eq covers)
qed

lemma update_entries:
  assumes "distinct (map fst es)"
  shows "(j, k) \<in> set (AList.update i a es) \<longleftrightarrow> (if j = i then k = a else (j, k) \<in> set es)"
    "distinct (map fst (AList.update i a es))" "fst ` set (AList.update i a es) = insert i (fst ` set es)"
proof -
  show d: "distinct (map fst (AList.update i a es))" using assms by (rule distinct_update)
  have "map_of (AList.update i a es) j = (if j = i then Some a else map_of es j)"
    by (simp add: update_conv)
  with map_of_eq_Some_iff [OF d] map_of_eq_Some_iff [OF assms]
  show "(j, k) \<in> set (AList.update i a es) \<longleftrightarrow> (if j = i then k = a else (j, k) \<in> set es)"
    by (metis option.inject)
  show "fst ` set (AList.update i a es) = insert i (fst ` set es)"
    unfolding dom_map_of_conv_image_fst [symmetric] by (auto simp: update_conv')
qed

text \<open>The wiring after one turn, for a node without observers whose name is free.\<close>

lemma on_base_parts:
  "node_base (on_base g n) = g (node_base n)" "node_opening (on_base g n) = None \<longleftrightarrow> node_opening n = None"
  by (cases n; simp)+

lemma register_nodes:
  fixes u r and b :: bridge
  defines "b' \<equiv> register_node u r b"
  assumes "node_opening (nw_heap b r) \<noteq> None" "observers b r = []"
  shows "node_opening (nw_heap b' x) = None \<longleftrightarrow> node_opening (nw_heap b x) = None"
    "Node_Name (nw_heap b' x) = Node_Name (nw_heap b x)"
    "observers b' x = (if x = r then [br_next b] else observers b x)"
    "open_ids u b' = open_ids u b"
proof -
  note f = register_fields [OF assms(2), where u = u, folded b'_def]
  show n: "node_opening (nw_heap b' x) = None \<longleftrightarrow> node_opening (nw_heap b x) = None"
    "Node_Name (nw_heap b' x) = Node_Name (nw_heap b x)" for x
    by (simp_all add: f(7) on_base_parts Node_Name_def)
  show "observers b' x = (if x = r then [br_next b] else observers b x)"
    using assms(3) by (simp add: observers_def f(7) on_base_parts)
  show "open_ids u b' = open_ids u b" by (simp add: open_ids_def n f(4))
qed

lemma register_covers:
  fixes u r and b :: bridge
  defines "b' \<equiv> register_node u r b" and "i \<equiv> GenerateID u (Node_Name (nw_heap b r))"
  assumes "wired u b" "node_opening (nw_heap b r) \<noteq> None"
  shows "(j, k) \<in> set (br_covers b') \<longleftrightarrow> (if j = i then k = br_next b else (j, k) \<in> set (br_covers b))"
    "distinct (map fst (br_covers b'))" "fst ` set (br_covers b') = insert i (fst ` set (br_covers b))"
proof -
  have "distinct (map fst (br_covers b))" using assms(3) by (simp add: wired_def ids_apart_def)
  from update_entries [OF this, where i = i and a = "br_next b"]
  show "(j, k) \<in> set (br_covers b') \<longleftrightarrow> (if j = i then k = br_next b else (j, k) \<in> set (br_covers b))"
    "distinct (map fst (br_covers b'))" "fst ` set (br_covers b') = insert i (fst ` set (br_covers b))"
    unfolding b'_def register_fields(1) [OF assms(4)] i_def by simp_all
qed

lemma register_registrable:
  assumes "wired u b" "registrable u b" "r \<in> set (nw_nodes b)" "node_opening (nw_heap b r) \<noteq> None" "observers b r = []"
  shows "registrable u (register_node u r b)" "ids_apart (map fst (br_covers (register_node u r b)))"
proof -
  have "GenerateID u (Node_Name (nw_heap b r)) \<in> set (open_ids u b)" using assms(3,4) by (auto simp: open_ids_def)
  then show reg: "registrable u (register_node u r b)"
    using assms(2) register_covers(3) [OF assms(1,4)]
    by (simp add: registrable_def register_nodes(4) [OF assms(4,5)] Let_def insert_absorb)
  from registrable_apart [OF reg register_covers(2) [OF assms(1,4)]]
  show "ids_apart (map fst (br_covers (register_node u r b)))" by simp
qed

text \<open>The covers registered before belong to other nodes.\<close>

lemma register_old:
  assumes "wired u b" "(j, k) \<in> set (br_covers b)" "observers b r = []"
  shows "k \<noteq> br_next b" "cv_node (br_heap b k) \<noteq> r"
  using wiredD(1,3) [OF assms(1,2)] assms(3) by auto

lemma register_cover_wired:
  assumes "wired u b" "r \<in> set (nw_nodes b)" "node_opening (nw_heap b r) \<noteq> None" "observers b r = []"
    "(j, k) \<in> set (br_covers (register_node u r b))"
  shows "cover_wired u (register_node u r b) j k"
proof -
  note f = register_fields [OF assms(3), where u = u] and n = register_nodes [OF assms(3,4), where u = u]
  show ?thesis
  proof (cases "j = GenerateID u (Node_Name (nw_heap b r))")
    case True
    with assms(5) have "k = br_next b" by (simp add: register_covers(1) [OF assms(1,3)])
    with True assms(1-3) show ?thesis
      by (auto simp: cover_wired_def Let_def f(2,3,5,8,9) n wired_def)
  next
    case False
    with assms(5) have k: "(j, k) \<in> set (br_covers b)" by (simp add: register_covers(1) [OF assms(1,3)])
    then have "cover_wired u b j k" using assms(1) by (auto simp: wired_def)
    with register_old [OF assms(1) k assms(4)] show ?thesis
      by (auto simp: cover_wired_def Let_def f(2,3,5,8,9) n)
  qed
qed

lemma register_watched:
  assumes "wired u b" "r \<in> set (nw_nodes b)" "node_opening (nw_heap b r) \<noteq> None" "observers b r = []"
    "registrable u b" "x \<in> set (nw_nodes b)"
  shows "observers (register_node u r b) x = [] \<or> watched (register_node u r b) x"
proof -
  note f = register_fields [OF assms(3), where u = u] and entries = register_covers [OF assms(1,3)]
  have or_old: "observers b x = [] \<or> watched b x" using assms(1,6) by (auto simp: wired_def)
  show ?thesis
  proof (cases "x = r")
    case True
    have "(GenerateID u (Node_Name (nw_heap b r)), br_next b) \<in> set (br_covers (register_node u r b))"
      by (simp add: entries(1))
    with True show ?thesis by (force simp: watched_def f(8))
  next
    case xr: False
    show ?thesis
    proof (cases "watched b x")
      case True
      then obtain j k where k: "(j, k) \<in> set (br_covers b)" "cv_node (br_heap b k) = x" by (auto simp: watched_def)
      from wiredD(5,6) [OF assms(1) k(1)] k(2) open_ids_unique [OF assms(5,6,2) xr] assms(3)
      have "j \<noteq> GenerateID u (Node_Name (nw_heap b r))" by auto
      with k(1) have "(j, k) \<in> set (br_covers (register_node u r b))" by (simp add: entries(1))
      with register_old [OF assms(1) k(1) assms(4)] k(2) show ?thesis by (force simp: watched_def f(8))
    next
      case False
      with or_old xr show ?thesis by (simp add: register_nodes(3) [OF assms(3,4)])
    qed
  qed
qed

lemma register_still_shown:
  assumes "good u b" "node_opening (nw_heap b r) \<noteq> None" "observers b r = []"
    "ids_apart (map fst (br_covers (register_node u r b)))" "(j, k) \<in> set (br_covers (register_node u r b))"
  shows "shown (register_node u r b) k"
proof -
  define i where "i = GenerateID u (Node_Name (nw_heap b r))"
  have w: "wired u b" and sy: "synced b" using assms(1) by (simp_all add: good_def)
  note entries = register_covers [OF w assms(2), folded i_def]
  show ?thesis
  proof (cases "j = i")
    case True
    with assms(5) have "k = br_next b" by (simp add: entries(1))
    with register_shown(1) [OF assms(2)] show ?thesis by simp
  next
    case jk: False
    with assms(5) have k: "(j, k) \<in> set (br_covers b)" by (simp add: entries(1))
    have "{i, j} \<subseteq> set (map fst (br_covers (register_node u r b)))"
      using k by (auto simp: entries(3) intro: rev_image_eqI)
    with assms(4) have "j \<noteq> i @ ''-keepopen''" "i \<noteq> j @ ''-keepopen''" unfolding ids_apart_def by blast+
    with topics_overlap_iff [of i j] jk
    have "set (topic_list (NewTopics (hc_Prefix (cf_HomeAssistant (br_cfg b))) i)) \<inter>
      set (topic_list (NewTopics (hc_Prefix (cf_HomeAssistant (br_cfg b))) j)) = {}" by metis
    with register_shown(2) [OF assms(2), where u = u and k = k and j = j] register_old [OF w k assms(3)]
      wiredD(4) [OF w k] sy k
    show ?thesis by (auto simp: i_def synced_def)
  qed
qed

lemma register_good:
  assumes "good u b" "r \<in> set (nw_nodes b)" "node_opening (nw_heap b r) \<noteq> None" "observers b r = []" "registrable u b"
  shows "good u (register_node u r b)"
proof -
  have w: "wired u b" using assms(1) by (simp add: good_def)
  note apart = register_registrable(2) [OF w assms(5,2-4)]
  have "wired u (register_node u r b)"
    using w apart register_cover_wired [OF w assms(2-4)] register_watched [OF w assms(2-5)]
    by (auto simp: wired_def register_fields [OF assms(3)])
  then show ?thesis
    using register_still_shown [OF assms(1,3,4) apart] by (auto simp: good_def synced_def)
qed

lemma Register_good:
  assumes "good u b" "fresh b" "registrable u b"
  shows "good u (Manager_Register u b)"
proof -
  have "good u (fold (register_node u) rs b)"
    if "good u b" "registrable u b" "set rs \<subseteq> set (nw_nodes b)" "distinct (filter (\<lambda>r. node_opening (nw_heap b r) \<noteq> None) rs)"
      "\<forall>r\<in>set rs. node_opening (nw_heap b r) \<noteq> None \<longrightarrow> observers b r = []" for rs b
    using that
  proof (induction rs arbitrary: b)
    case (Cons r rs)
    show ?case
    proof (cases "node_opening (nw_heap b r) = None")
      case True
      with Cons.IH [of b] Cons.prems show ?thesis by (simp add: register_node_eq)
    next
      case False
      with Cons.prems have r: "r \<in> set (nw_nodes b)" "observers b r = []" by auto
      have w: "wired u b" using Cons.prems(1) by (simp add: good_def)
      note n = register_nodes [OF False r(2), where u = u]
      have "good u (fold (register_node u) rs (register_node u r b))"
        using Cons.prems False
        by (intro Cons.IH register_good register_registrable(1) w r)
          (auto simp: n register_fields(4) [OF False])
      then show ?thesis by simp
    qed
  qed simp
  moreover have "distinct (filter (\<lambda>r. node_opening (nw_heap b r) \<noteq> None) (nw_nodes b))"
    using assms(3) by (simp add: registrable_def open_ids_def distinct_map)
  ultimately show ?thesis
    using assms by (simp add: Manager_Register_def Nodes_All_def fresh_def)
qed

text \<open>A call that cannot be sent fails and lets no frame in.\<close>

lemma CommandSend_offline:
  assumes "\<not> online c"
  shows "\<exists>e. fst (Client_CommandSend nodeID p fps w c) = Inl e"
    "cl_nodes (snd (Client_CommandSend nodeID p fps w c)) = cl_nodes c"
proof -
  obtain sid c1 where s: "new_session c = (sid, c1)" by fastforce
  then have c1: "\<not> online c1" "cl_nodes c1 = cl_nodes c"
    using assms by (auto simp: new_session_def online_def next_exchange_def Let_def split: prod.splits)
  let ?req = "CommandsFrame (FrCommandSendRequest (command_request sid nodeID p fps))"
  have "\<not> sendable ?req c1" using c1(1) by (simp add: sendable_command)
  then obtain e d where "APICall ?req (command_handler sid w) False c1 = (Some e, False, d)" "cl_nodes d = cl_nodes c1"
    by (cases rule: APICall_cases [of ?req c1 "command_handler sid w" False]) auto
  then have "Client_CommandSend nodeID p fps w c = (Inl (Api e), d)" "cl_nodes d = cl_nodes c"
    unfolding Client_CommandSend_def s by (simp_all add: finish_def c1(2))
  then show "\<exists>e. fst (Client_CommandSend nodeID p fps w c) = Inl e"
    "cl_nodes (snd (Client_CommandSend nodeID p fps w c)) = cl_nodes c" by simp_all
qed

text \<open>
  A refused command to a blind is kept. Without a connection \<open>OPEN\<close> fails and publishes nothing,
  yet the blind, which may stand anywhere, has position and target 0 percent from then on: the fields are set before
  the call and not put back, so the next publication for whatever reason reports it as open.
\<close>

theorem refused_blind_command_kept:
  assumes "\<not> online c" "is_blind (nw_heap (cl_nodes c) (cv_node (br_heap (cl_nodes c) a)))" "nw_events (cl_nodes c) = []"
    "\<not> cv_inverted (br_heap (cl_nodes c) a)" "strings_TrimSpace payload = ''OPEN''"
  shows "let r = cv_node (br_heap (cl_nodes c) a); c' = handleCoverCommand a payload c in
    (\<exists>e. fst (openFunc (br_heap (cl_nodes c) a) c) = Inl e) \<and>
    mq_published (br_mqtt (cl_nodes c')) = mq_published (br_mqtt (cl_nodes c)) \<and>
    (case node_opening (nw_heap (cl_nodes c') r) of
       None \<Rightarrow> False
     | Some d \<Rightarrow> Position_PositionPercent (od_position d) = 0 \<and> Position_PositionPercent (od_targetPosition d) = 0)"
proof -
  define r where "r = cv_node (br_heap (cl_nodes c) a)"
  define p where "p = \<lparr> pos_Parameter = \<lparr> Raw = (0, 0) \<rparr> \<rparr>"
  define c1 where "c1 = change_nodes (assign r (on_blind (set_position_fields p))) c"
  define send where "send = Client_CommandSend (command_id r c1) (pos_Parameter p) [3 \<mapsto> blind_fp3 p None] False c1"
  have blind: "is_blind (nw_heap (cl_nodes c) r)" using assms(2) by (simp add: r_def)
  have off: "\<not> online c1" using assms(1) by (simp add: c1_def)
  obtain e where e: "fst send = Inl e" "cl_nodes (snd send) = cl_nodes c1"
    using CommandSend_offline [OF off] unfolding send_def by blast
  have "openFunc (br_heap (cl_nodes c) a) c = and_then send (change_nodes (AfterUpdate r))"
    using blind assms(4)
    by (simp add: openFunc_def r_def [symmetric] Device_Open_def Blind_Open_def Blind_SetPosition_def
        SetPositionAndOrientation_eq Let_def send_def c1_def p_def)
  then have cmd: "openFunc (br_heap (cl_nodes c) a) c = (Inl e, snd send)"
    using e(1) by (cases send) (simp add: and_then_def)
  have "Position_PositionPercent p = 0" by (simp add: p_def Position_PositionPercent_def positionToPercent_eq)
  moreover have "nw_events (cl_nodes c1) = []" "mq_published (br_mqtt (cl_nodes c1)) = mq_published (br_mqtt (cl_nodes c))"
    using assms(3) by (simp_all add: c1_def bridge_simps)
  moreover have "nw_heap (cl_nodes c1) r = on_blind (set_position_fields p) (nw_heap (cl_nodes c) r)"
    by (simp add: c1_def bridge_simps)
  ultimately show ?thesis
    using blind
    by (cases "nw_heap (cl_nodes c) r")
      (simp_all add: Let_def cmd handleCoverCommand_def assms(5) nodes_runCommand e(2) deliver_none r_def [symmetric]
        set_position_fields_def)
qed

theorem refused_blind_command_kept_witness:
  "let c = NewClient ''klf'' ''velux123'' [] (example_bridge (BlindN example_blind)) in
     Position_PositionPercent (od_position example_device) = 50 \<and>
     (case node_opening (nw_heap (cl_nodes (handleCoverCommand 0 ''OPEN'' c)) 0) of
        None \<Rightarrow> False | Some d \<Rightarrow> Position_PositionPercent (od_position d) = 0)"
proof -
  let ?n = "BlindN example_blind"
  let ?c = "NewClient ''klf'' ''velux123'' [] (example_bridge ?n)"
  have o': "node_opening ?n = Some example_device" by (simp add: example_blind_def)
  note ex = example_bridge_simps [OF o'] example_inverted [OF o']
  have c: "cl_nodes ?c = example_bridge ?n" "\<not> online ?c"
    by (simp_all add: NewClient_def NewConn_def online_def)
  have "is_blind (nw_heap (example_bridge ?n) 0)" by (simp add: ex)
  moreover have "strings_TrimSpace ''OPEN'' = ''OPEN''"
    by (simp add: TrimSpace_ascii ascii_space_def unicode_IsSpace_def)
  moreover have "Position_PositionPercent (od_position example_device) = 50"
    by (simp add: example_device_def newOpeningDevice_def NewPosition_def ignore_err_def
        Parameter_FromParameter_def Position_PositionPercent_def positionToPercent_eq)
  ultimately show ?thesis
    using refused_blind_command_kept [of ?c 0 "''OPEN''"] c
    by (auto simp: Let_def ex split: option.splits)
qed

section \<open>The running program\<close>

text \<open>
  What happens to the client and the covers between the start and the shutdown: bytes arrive, the
  client connects, disconnects, loses its connection and makes calls, a message arrives for a
  registered cover, the covers are marked, and the nodes are reloaded, with a registration after a
  load that succeeds, as \<open>doReconnect\<close> and \<open>reconnect_loop\<close> do it.
\<close>

inductive live_step :: "(nat \<Rightarrow> nat) \<Rightarrow> system \<Rightarrow> system \<Rightarrow> bool" for u where
  read: "live_step u c (Client_read conn chunk c)"
| client: "client_step c d \<Longrightarrow> cl_nodeUpdaters d = cl_nodeUpdaters c \<Longrightarrow> live_step u c d"
| message: "(i, a) \<in> set (br_covers (cl_nodes c)) \<Longrightarrow> h \<in> {CoverCommand a, KeepOpenCommand a} \<Longrightarrow>
    live_step u c (handle_message h payload c)"
| mark: "live_step u c (change_nodes (if up then MarkAllAvailable else MarkAllUnavailable) c)"
| load_fails: "fst (Client_LoadNodes c) = Inl e \<Longrightarrow> live_step u c (snd (Client_LoadNodes c))"
| reload: "fst (Client_LoadNodes c) = Inr () \<Longrightarrow> registrable u (cl_nodes (snd (Client_LoadNodes c))) \<Longrightarrow>
    live_step u c (change_nodes (Manager_Register u) (snd (Client_LoadNodes c)))"

lemma LoadAllNodes_updaters: "cl_nodeUpdaters (snd (LoadAllNodes c)) = cl_nodeUpdaters c"
  by (simp add: LoadAllNodes_def finish_client)

lemma updaters_call [simp]:
  "cl_nodeUpdaters (snd (Client_CommandSend nodeID p fps w c)) = cl_nodeUpdaters c"
  "cl_nodeUpdaters (snd (Client_SetLimitation nodeID mn mx t c)) = cl_nodeUpdaters c"
  "cl_nodeUpdaters (snd (Client_LoadNodes c)) = cl_nodeUpdaters c"
  "cl_nodeUpdaters (change_nodes g c) = cl_nodeUpdaters c"
  "(\<And>d. cl_nodeUpdaters (k d) = cl_nodeUpdaters d) \<Longrightarrow> cl_nodeUpdaters (snd (and_then r k)) = cl_nodeUpdaters (snd r)"
  using LoadAllNodes_updaters [of c]
  by (cases "LoadAllNodes c"; simp add: Client_CommandSend_def Client_SetLimitation_def Let_def new_session_updaters finish_client
      Client_LoadNodes_def change_nodes_def and_then_def split: prod.split sum.split)+

lemma updaters_device [simp]:
  "cl_nodeUpdaters (snd (OpeningDevice_setPosition r p w c)) = cl_nodeUpdaters c"
  "cl_nodeUpdaters (snd (OpeningDevice_setPositionLimitations r mn mx c)) = cl_nodeUpdaters c"
  "cl_nodeUpdaters (snd (OpeningDevice_clearPositionLimitations r c)) = cl_nodeUpdaters c"
  "cl_nodeUpdaters (snd (Blind_SetPositionAndOrientation r p w q c)) = cl_nodeUpdaters c"
  by (simp_all add: OpeningDevice_setPosition_def OpeningDevice_setPositionLimitations_def
      OpeningDevice_clearPositionLimitations_def Blind_SetPositionAndOrientation_def Let_def)

lemma message_updaters: "cl_nodeUpdaters (handle_message h payload c) = cl_nodeUpdaters c"
  by (simp add: handle_message_def handleCoverCommand_def handleKeepOpenCommand_def Let_def openFunc_def closeFunc_def
      runCommand_def Device_Open_def Device_Close_def Device_Stop_def Device_SetPosition_def OpeningDevice_open_def
      OpeningDevice_close_def OpeningDevice_stop_def Blind_Open_def Blind_Close_def Blind_Stop_def
      Blind_SetPosition_def split: mqtt_handler.split option.split sum.split)

definition system_good :: "(nat \<Rightarrow> nat) \<Rightarrow> system \<Rightarrow> bool" where
  "system_good u c \<longleftrightarrow> good u (cl_nodes c) \<and> cl_nodeUpdaters c = [node_updater, contact_stamper]"

lemma live_step_good: "live_step u c d \<Longrightarrow> system_good u c \<Longrightarrow> system_good u d"
proof (induction rule: live_step.induct)
  case (read c conn chunk)
  have "cl_nodeUpdaters (Client_read conn chunk c) = cl_nodeUpdaters c"
    by (simp add: Client_read_def Let_def split: option.split prod.split)
  moreover have "keeps_good u (cl_nodes c) (cl_nodes (Client_read conn chunk c))"
    using read by (intro kg.read_keeps) (simp_all add: system_good_def keeps_good_refl)
  ultimately show ?case using read by (simp add: system_good_def keeps_good_def)
next
  case (client c d)
  then have "keeps_good u (cl_nodes c) (cl_nodes d)"
    by (intro kg.client_step_keeps [of c d]) (simp_all add: system_good_def keeps_good_refl)
  with client show ?case by (simp add: system_good_def keeps_good_def)
next
  case (message i a c h payload)
  then have "keeps_good u (cl_nodes c) (cl_nodes (handle_message h payload c))"
    using message_keeps [of u c i a payload] by (auto simp: system_good_def handle_message_def)
  with message show ?case by (simp add: system_good_def keeps_good_def message_updaters)
next
  case (mark c up)
  then have "keeps_good u (cl_nodes c) (publish_all up (cl_nodes c))"
    by (simp add: system_good_def publish_all_keeps)
  with mark show ?case
    by (cases up) (simp_all add: system_good_def keeps_good_def MarkAllAvailable_def MarkAllUnavailable_def)
next
  case (load_fails c e)
  with LoadNodes_good [of u c] show ?case by (simp add: system_good_def)
next
  case (reload c)
  with LoadNodes_good [of u c] Register_good [of u "cl_nodes (snd (Client_LoadNodes c))"] show ?case
    by (simp add: system_good_def)
qed

lemma system_good_new: "system_good u (gw_sys (new_gateway cfg script dials))"
proof -
  have "good u (NewManager cfg m)" for m
    by (simp add: good_def wired_def synced_def ids_apart_def NewManager_def NewNodes_def node_world.extend_def)
  moreover have "cl_nodes (gw_sys (new_gateway cfg script dials)) = NewManager cfg (NewMQTT cfg)"
    by (simp add: new_gateway_def Let_def RegisterNodeUpdater_def NewClient_def)
  ultimately show ?thesis using gateway_inv_new [of cfg script dials] by (simp add: system_good_def gateway_inv_def)
qed

lemma system_good_reachable:
  "(live_step u)\<^sup>*\<^sup>* (gw_sys (new_gateway cfg script dials)) c \<Longrightarrow> system_good u c"
  by (induction rule: rtranclp_induct) (auto intro: system_good_new live_step_good)


text \<open>A device whose name comes over the wire, and the state after the first load.\<close>

definition one_window :: exchange where
  "one_window = \<lparr> ex_write = True, ex_frames =
     [NodesFrame (FrGetAllNodesInformationNotification \<lparr> gan_nodeInfo = nodeInfo_zero\<lparr> ni_NodeID := 5, ni_Name := ''Roof'',
        ni_NodeType := NodeTypeWithSubtypeWindowOpener, ni_CurrentPosition := \<lparr> Raw = (50, 0) \<rparr>,
        ni_Target := \<lparr> Raw = (50, 0) \<rparr> \<rparr> \<rparr>),
      NodesFrame (FrGetAllNodesInformationFinishedNotification ())], ex_end = SelDone \<rparr>"

definition roof_window :: Node where
  "roof_window = Window (newOpeningDevice (NewBaseNode 5 ''Roof'' (replicate 8 0)) \<lparr> Raw = (50, 0) \<rparr> \<lparr> Raw = (50, 0) \<rparr>) False"

lemma one_window_converted:
  "map ConvertAllNodesFrame (List.map_filter all_nodes_ntf (ex_frames one_window)) = [roof_window]"
  by (simp add: one_window_def all_nodes_ntf_def List.map_filter_simps roof_window_def ConvertAllNodesFrame_def
      convert_info_def NodeFromInfo_def lookupNodeType_def nodeTypeRegistry_map_of opening_registrations_def
      go_consts nodeInfo_zero_def windowCtor_def opening_of_def Let_def)

interpretation empty: updater_invariant "\<lambda>b. b = NewManager cfg m" for cfg m
proof (unfold_locales, clarify)
  fix f
  let ?b = "NewManager cfg m"
  have "nw_nodes ?b = []" "nw_events ?b = []" by (simp_all add: NewManager_def NewNodes_def node_world.extend_def)
  with one_update_frame [of ?b f] deliver_none [of ?b] show "node_updater f ?b = ?b"
    by (simp add: one_update_def node_updater_def)
qed

lemma LoadNodes_nodes:
  assumes "fst (Client_LoadNodes c) = Inr ()"
  shows "cl_nodes (snd (Client_LoadNodes c)) =
    fold add_node (map ConvertAllNodesFrame (List.map_filter all_nodes_ntf (ex_frames (next_exchange c))))
      ((cl_nodes (snd (LoadAllNodes c)))\<lparr> nw_nodes := [] \<rparr>)"
proof -
  let ?r = "APICall (NodesFrame (FrGetAllNodesInformationRequest ())) load_all_handler (-1, []) c"
  obtain e s d where r: "?r = (e, s, d)" by (cases ?r)
  have "e = None"
    using assms by (auto simp: Client_LoadNodes_def LoadAllNodes_def finish_def r split: option.splits)
  moreover from this have "snd s = List.map_filter all_nodes_ntf (ex_frames (next_exchange c))"
    using APICall_state [of "NodesFrame (FrGetAllNodesInformationRequest ())" load_all_handler "(-1, [])" c]
    by (simp add: r feed_load_all)
  ultimately show ?thesis
    by (simp add: Client_LoadNodes_def LoadAllNodes_def finish_def r Nodes_Clear_def fold_map comp_def)
qed

lemma first_load:
  fixes c0 c1
  defines "c0 \<equiv> gw_sys (new_gateway Config_seed [one_window] [])"
  defines "c1 \<equiv> snd (Client_Connect True c0)"
  shows "fst (Client_LoadNodes c1) = Inr ()" "live_step u c0 c1"
    "cl_nodes (snd (Client_LoadNodes c1)) = add_node roof_window (NewManager Config_seed (NewMQTT Config_seed))"
proof -
  have c1: "online c1" "next_exchange c1 = one_window" "cl_nodes c1 = NewManager Config_seed (NewMQTT Config_seed)"
    "cl_nodeUpdaters c1 = cl_nodeUpdaters c0"
    by (simp_all add: c1_def c0_def new_gateway_def RegisterNodeUpdater_def NewClient_def Client_Connect_def Conn_Connect_def
        Connect_check_def NewConn_def Connect_install_def installUpdaterDispatch_def RegisterFrameReceivedCB_def
        online_def next_exchange_def Let_def one_window_def)
  show "live_step u c0 c1"
    by (rule live_step.client [OF client_step.connect [of c0 True, folded c1_def] c1(4)])
  show ok: "fst (Client_LoadNodes c1) = Inr ()"
    unfolding LoadNodes_succeeds_iff using c1(1,2) by (simp add: one_window_def all_nodes_finished_def)
  have "cl_nodeUpdaters c1 = [node_updater, contact_stamper]"
    using c1(4) gateway_inv_new [of Config_seed "[one_window]" "[]"] by (simp add: c0_def gateway_inv_def)
  from empty.LoadAllNodes_keeps [OF this c1(3)]
  show "cl_nodes (snd (Client_LoadNodes c1)) = add_node roof_window (NewManager Config_seed (NewMQTT Config_seed))"
    unfolding LoadNodes_nodes [OF ok] c1(2) one_window_converted
    by (simp add: NewManager_def NewNodes_def node_world.extend_def)
qed


end
