(* ===== verification/Spec2Isabelle.thy ===== *)
theory Spec2Isabelle
  imports Frames Session Devices NodeLoading Scenes Heartbeat Covers Gateway Outage LocalTimes Openers Program BrokerSync
begin

text \<open>
  A model of \<^verbatim>\<open>velux-to-mqtt-gw\<close>, the gateway between VELUX devices behind a KLF200
  interface and an MQTT broker with Home Assistant. It follows the Go sources under \<^verbatim>\<open>src/app\<close>.

  \<^bold>\<open>The program.\<close> Bytes from the TLS connection are cut into SLIP packets, checked, and parsed into
  typed frames; the frames go to callbacks. An API call writes a request and feeds the frames that
  arrive to its handler until that completes. Position and state frames update the node model,
  whose observers publish cover states over MQTT; messages on the command topics become command
  frames. The application keeps the connection alive: heartbeat, health check, reconnect, reboot,
  power cycle through a smart plug, and a periodic restart, by interval or at a time of day;
  \<open>main\<close> starts it and a signal stops it.

  \<^bold>\<open>Theories, in the order of the layers.\<close>
  \<^item> \<^verbatim>\<open>Prelude\<close> (machine types, errors, slices, byte order), \<^verbatim>\<open>Store\<close> (the locale of keyed stores:
    Go maps and registries), \<^verbatim>\<open>GoTime\<close> (package time), \<^verbatim>\<open>Zones\<close>
    (local times and their transitions), \<^verbatim>\<open>GoStrings\<close> (UTF-8, TrimSpace, Atoi).
  \<^item> \<^verbatim>\<open>klf200/protocol\<close>: \<^verbatim>\<open>Slip\<close> (slip.go), \<^verbatim>\<open>Const\<close> (const.go), \<^verbatim>\<open>Framing\<close> (frame.go, creation.go),
    \<^verbatim>\<open>Parameter\<close> (parameter.go), \<^verbatim>\<open>WireStrings\<close> and one theory \<^verbatim>\<open>Frames<Group>\<close> per frame file,
    \<^verbatim>\<open>Frames\<close> (the \<open>Frame\<close> interface as one datatype, the registry), \<^verbatim>\<open>LocalTimes\<close> (the frame of the
    local time in a location; in \<^verbatim>\<open>Frames\<close> it carries the clock only).
  \<^item> \<^verbatim>\<open>klf200\<close>: \<^verbatim>\<open>Session\<close> (session.go), \<^verbatim>\<open>Conn\<close> (connection.go), \<^verbatim>\<open>Client\<close> (client.go, event.go),
    \<^verbatim>\<open>Api\<close> (auth_system.go, command.go, limitation.go, house_monitor.go), \<^verbatim>\<open>Nodes\<close> (node.go, nodes.go,
    node_helper.go, node_registry.go, node_updater.go, the device types and constructors of
    opening_device.go and other_devices.go), \<^verbatim>\<open>NodeLoading\<close> (node_loading.go), \<^verbatim>\<open>Devices\<close> (the commands
    of the devices), \<^verbatim>\<open>Openers\<close> (the methods of each device type, the interface \<open>Opener\<close> of cover.go,
    the representations as text), \<^verbatim>\<open>Scenes\<close> (scenes.go), \<^verbatim>\<open>Heartbeat\<close> (heartbeat.go).
  \<^item> \<^verbatim>\<open>config\<close> and \<^verbatim>\<open>bridge\<close>: \<^verbatim>\<open>Config\<close> (config.go), \<^verbatim>\<open>CoverState\<close> (cover_state.go, ids.go),
    \<^verbatim>\<open>Discovery\<close> (discovery.go), \<^verbatim>\<open>Mqtt\<close> (mqtt.go), \<^verbatim>\<open>Bridge\<close> (cover.go, manager.go) and \<^verbatim>\<open>Covers\<close> (facts
    about them).
  \<^item> \<^verbatim>\<open>app.go\<close>: \<^verbatim>\<open>App\<close> (the operations), \<^verbatim>\<open>AppFacts\<close> (the phases of the loops and their interleaving,
    what each path leaves alone), \<^verbatim>\<open>Recovery\<close> (time limits, invariants), \<^verbatim>\<open>Liveness\<close> (the contract
    under which the recovery succeeds, the heartbeat), \<^verbatim>\<open>Schedule\<close> (the restart at a time of day), \<^verbatim>\<open>Loops\<close> (tickers, the
    watchdog of the health check, the restart by interval) and \<^verbatim>\<open>Gateway\<close> (the application on the client and the
    covers of this model).
  \<^item> Across: \<^verbatim>\<open>Program\<close> (main.go; the shutdown beside the loops) and \<^verbatim>\<open>BrokerSync\<close> (from the bytes of the gateway
    to the messages at the broker, and the invariant that the broker shows the devices).

  \<^bold>\<open>Interfaces.\<close> The application sees the client and the cover manager through two interfaces of the
  code, \<open>klfClient\<close> and \<open>coverManager\<close>, which are records of functions here. What the recovery
  relies on are the locales \<open>klf_session\<close> and \<open>klf_invariant\<close>, interpreted on the model's client
  and manager in \<^verbatim>\<open>Gateway\<close>; \<open>klf_outage\<close>, interpreted in \<^verbatim>\<open>Outage\<close> for any gateway given by its
  replies; and \<open>shutdown_contract\<close>, which extends the first two, interpreted in \<^verbatim>\<open>Program\<close>. The
  contract of a device, \<open>opener\<close>, is interpreted on each of the seven types; \<open>updater_invariant\<close> is
  what the node updater keeps, and so everything that lets frames in. Collections by key (nodes,
  scenes, covers) are interpretations of \<open>keyed_store\<close>, the two registries of \<open>init_registry\<close>.

  \<^bold>\<open>State and effects.\<close> A struct is a record, a mutable object that is shared (nodes, covers) lives
  on a heap of references, and a mutating method is a function from state to state. Errors are
  values of a sum or an option; a nil dereference is an error of its own, so its absence is a
  theorem. Nothing is left to the reader's scheduler: goroutines that share state (session ids,
  connection, heartbeat, the loops of the application) are \<open>inductive\<close> step relations with one
  step per critical section, and the theorems hold for every interleaving. What comes from outside
  (frames received during a call and how the wait ended, outcomes of dialling, durations of calls,
  latencies of the broker, the file and the JSON of the configuration) is an argument or a list in
  the state, so it is arbitrary. Words have their width; times are integers in nanoseconds without
  the overflow after 292 years.

  \<^bold>\<open>What is shown.\<close> The wire: framing, SLIP and parsing are inverse to each other, corruption of a
  byte is detected, however the bytes are cut into reads; the registries are complete. The
  connection: an invariant over every interleaving, no lost callback, single dispatch, unique ids,
  one heartbeat. The calls: exactly when each succeeds, and no nil confirmation is read. The
  bridge: what each message writes to the gateway and what each report publishes, the openness
  contract of Home Assistant as an abstract specification, discovery and its clearing, bounded
  publishing. The application: the plug is never left off, availability marks alternate, a tick
  of the health check ends within an explicit time and recovers when the gateway allows it, what
  the paths report agrees with the session of the client, and resets never duplicate the dispatch.
  The loops: silence is noticed within an interval, passes never overlap, the scheduled restart comes
  at the first slot after now, once a day, in any zone whose transitions keep the date. The whole: the broker
  shows every registered cover as the program knows its device, after any sequence of bytes,
  commands, outages and reloads; a shutdown leaves neither loop nor session nor discovery message, and is never
  stuck; \<open>main\<close> ends with these exit codes.

  \<^bold>\<open>Bounds and fuel.\<close> Loops run over lists or bounded words and are structural, or carry a
  termination proof; no definition takes fuel. The reset paths make at most seven attempts, which
  is the schedule of the code.

  \<^bold>\<open>Not modelled.\<close> Logging, the pprof listener and the build information, TLS and sockets beneath the
  outcome of a dial and of a read, and what is not under \<^verbatim>\<open>src\<close>: the MQTT client, the JSON decoder and the
  replacement of environment variables (parameters) and the zone database, of which a location is
  the list of its transitions.
\<close>

end
